(* ===== verification/Prelude.thy ===== *)
theory Prelude
  imports Main "HOL-Library.Word" "HOL-Library.Monad_Syntax" "HOL-Library.Char_ord"
    "HOL-Library.List_Lexorder"
begin

text \<open>
  Shared vocabulary of the development: the machine integers of the Rust sources, byte
  buffers, big- and little-endian fields, reads that may panic, the parts of
  \<open>format!\<close> that the sources use, and the generic lemmas on lists and words that the
  component theories share.

  Conventions.
  \<^item> A Rust \<open>uN\<close> is an \<open>N word\<close>; \<open>usize\<close> is \<open>nat\<close> where it is a
    length or an index (bounded by the address space) and a 64-bit word where the code
    subtracts from it.  Arithmetic on words wraps, which is what a release build does
    (overflow checks off); counters that only grow are stated with their wrap-around.
  \<^item> A Rust \<open>String\<close> or \<open>&str\<close> is its UTF-8 byte sequence, a \<open>string\<close>
    (an Isabelle \<open>char\<close> is a byte).
  \<^item> An operation that can panic (an index out of range) returns an \<open>option\<close>, with
    \<open>None\<close> for the panic.
\<close>

unbundle bit_operations_syntax

named_theorems byte_simps \<open>decoding what an encoder wrote\<close>
named_theorems panic_free \<open>an operation returns, for every input\<close>

section \<open>Machine integers\<close>

type_synonym u8 = "8 word"
type_synonym u16 = "16 word"
type_synonym u32 = "32 word"
type_synonym u64 = "64 word"
type_synonym bytes = "8 word list"

definition u8_of_char :: "char \<Rightarrow> u8" where
  "u8_of_char c = of_char c"

definition char_of_u8 :: "u8 \<Rightarrow> char" where
  "char_of_u8 b = char_of (unat b)"

text \<open>\<open>str::as_bytes\<close> and the inverse view of bytes as a string.\<close>

definition as_bytes :: "string \<Rightarrow> bytes" where
  "as_bytes s = map u8_of_char s"

definition of_bytes :: "bytes \<Rightarrow> string" where
  "of_bytes bs = map char_of_u8 bs"

text \<open>UTF-8 text that is not ASCII is written as its bytes.\<close>

definition utf8 :: "nat list \<Rightarrow> string" where
  "utf8 ns = map char_of ns"

text \<open>\<open>saturating_sub\<close> on an unsigned integer.\<close>

definition sat_sub :: "'a::len word \<Rightarrow> 'a word \<Rightarrow> 'a word" where
  "sat_sub a b = (if b \<le> a then a - b else 0)"

text \<open>The total of a sequence of \<open>u64\<close>, as \<open>Iterator::sum\<close> folds it.\<close>

definition sum_u64 :: "u64 list \<Rightarrow> u64" where
  "sum_u64 xs = fold (\<lambda>x acc. acc + x) xs 0"

section \<open>Big- and little-endian fields\<close>

definition be16 :: "u16 \<Rightarrow> bytes" where
  "be16 w = [ucast (drop_bit 8 w), ucast w]"

definition be32 :: "u32 \<Rightarrow> bytes" where
  "be32 w = [ucast (drop_bit 24 w), ucast (drop_bit 16 w), ucast (drop_bit 8 w), ucast w]"

definition from_be16 :: "u8 \<Rightarrow> u8 \<Rightarrow> u16" where
  "from_be16 a b = push_bit 8 (ucast a) OR ucast b"

definition from_be32 :: "u8 \<Rightarrow> u8 \<Rightarrow> u8 \<Rightarrow> u8 \<Rightarrow> u32" where
  "from_be32 a b c d =
     push_bit 24 (ucast a) OR push_bit 16 (ucast b) OR push_bit 8 (ucast c) OR ucast d"

definition le64 :: "u64 \<Rightarrow> bytes" where
  "le64 w = map (\<lambda>i. ucast (drop_bit (8 * i) w)) [0, 1, 2, 3, 4, 5, 6, 7]"

fun from_le :: "bytes \<Rightarrow> u64" where
  "from_le [] = 0"
| "from_le (b # bs) = push_bit 8 (from_le bs) OR ucast b"

section \<open>Buffer reads that may panic\<close>

text \<open>\<open>buf[i]\<close>, \<open>buf[a..b]\<close> and \<open>buf[a..]\<close>: \<open>None\<close> is the panic.\<close>

definition rd :: "'a list \<Rightarrow> nat \<Rightarrow> 'a option" where
  "rd xs i = (if i < length xs then Some (xs ! i) else None)"

definition rd_slice :: "'a list \<Rightarrow> nat \<Rightarrow> nat \<Rightarrow> 'a list option" where
  "rd_slice xs a b = (if a \<le> b \<and> b \<le> length xs then Some (take (b - a) (drop a xs)) else None)"

definition rd16 :: "bytes \<Rightarrow> nat \<Rightarrow> u16 option" where
  "rd16 xs i = do { a \<leftarrow> rd xs i; b \<leftarrow> rd xs (i + 1); Some (from_be16 a b) }"

definition rd32 :: "bytes \<Rightarrow> nat \<Rightarrow> u32 option" where
  "rd32 xs i = do { a \<leftarrow> rd xs i; b \<leftarrow> rd xs (i + 1); c \<leftarrow> rd xs (i + 2); d \<leftarrow> rd xs (i + 3);
     Some (from_be32 a b c d) }"

text \<open>\<open>buf[i] = v\<close> and \<open>buf[a..a+n].copy_from_slice(v)\<close>.\<close>

definition wr :: "'a list \<Rightarrow> nat \<Rightarrow> 'a \<Rightarrow> 'a list option" where
  "wr xs i v = (if i < length xs then Some (xs[i := v]) else None)"

definition wr_slice :: "'a list \<Rightarrow> nat \<Rightarrow> 'a list \<Rightarrow> 'a list option" where
  "wr_slice xs a v =
     (if a + length v \<le> length xs then Some (take a xs @ v @ drop (a + length v) xs) else None)"

section \<open>Text\<close>

text \<open>\<open>String::from_utf8\<close>: the well-formed byte sequences of the Unicode standard,
  table 3-7, which the Rust library accepts.\<close>

definition utf8_cont :: "u8 \<Rightarrow> bool" where
  "utf8_cont b \<longleftrightarrow> 0x80 \<le> b \<and> b \<le> 0xBF"

definition utf8_lead2 :: "u8 \<Rightarrow> bool" where
  "utf8_lead2 a \<longleftrightarrow> 0xC2 \<le> a \<and> a \<le> 0xDF"

definition utf8_lead3 :: "u8 \<Rightarrow> bool" where
  "utf8_lead3 a \<longleftrightarrow> 0xE0 \<le> a \<and> a \<le> 0xEF"

definition utf8_second3 :: "u8 \<Rightarrow> u8 \<Rightarrow> bool" where
  "utf8_second3 a b \<longleftrightarrow> utf8_cont b \<and> (a = 0xE0 \<longrightarrow> 0xA0 \<le> b) \<and> (a = 0xED \<longrightarrow> b \<le> 0x9F)"

definition utf8_second4 :: "u8 \<Rightarrow> u8 \<Rightarrow> bool" where
  "utf8_second4 a b \<longleftrightarrow> 0xF0 \<le> a \<and> a \<le> 0xF4 \<and> utf8_cont b
     \<and> (a = 0xF0 \<longrightarrow> 0x90 \<le> b) \<and> (a = 0xF4 \<longrightarrow> b \<le> 0x8F)"

fun utf8_ok :: "bytes \<Rightarrow> bool" where
  "utf8_ok [] = True"
| "utf8_ok (a # r) =
     (if a < 0x80 then utf8_ok r
      else case r of [] \<Rightarrow> False | b # r2 \<Rightarrow>
        if utf8_lead2 a then utf8_cont b \<and> utf8_ok r2
        else case r2 of [] \<Rightarrow> False | c # r3 \<Rightarrow>
          if utf8_lead3 a then utf8_second3 a b \<and> utf8_cont c \<and> utf8_ok r3
          else case r3 of [] \<Rightarrow> False | d # r4 \<Rightarrow>
            utf8_second4 a b \<and> utf8_cont c \<and> utf8_cont d \<and> utf8_ok r4)"

definition from_utf8 :: "bytes \<Rightarrow> string option" where
  "from_utf8 bs = (if utf8_ok bs then Some (of_bytes bs) else None)"

text \<open>\<open>{}\<close> on an unsigned integer, \<open>{:02}\<close>, \<open>{:08X}\<close> and
  \<open>[String].join(sep)\<close>.\<close>

definition digit_char :: "nat \<Rightarrow> char" where
  "digit_char d = char_of (if d < 10 then 48 + d else 55 + d)"

fun show_nat :: "nat \<Rightarrow> string" where
  "show_nat n = (if n < 10 then [digit_char n] else show_nat (n div 10) @ [digit_char (n mod 10)])"

declare show_nat.simps [simp del]

definition show_int :: "int \<Rightarrow> string" where
  "show_int i = (if i < 0 then CHR ''-'' # show_nat (nat (- i)) else show_nat (nat i))"

definition show_word :: "'a::len word \<Rightarrow> string" where
  "show_word w = show_nat (unat w)"

definition hex08 :: "u32 \<Rightarrow> string" where
  "hex08 w = map (\<lambda>i. digit_char (unat (drop_bit (4 * i) w) mod 16)) [7, 6, 5, 4, 3, 2, 1, 0]"

fun join :: "string \<Rightarrow> string list \<Rightarrow> string" where
  "join sep [] = []"
| "join sep [x] = x"
| "join sep (x # y # xs) = x @ sep @ join sep (y # xs)"

section \<open>Lemmas on bytes\<close>

lemma u8_of_char_nat: "u8_of_char c = of_nat (of_char c)"
  by (simp add: u8_of_char_def of_nat_of_char)

lemma char_of_u8_of_char [simp]: "char_of_u8 (u8_of_char c) = c"
  by (simp add: u8_of_char_nat char_of_u8_def unat_of_nat)

lemma u8_of_char_of_u8 [simp]: "u8_of_char (char_of_u8 b) = b"
proof -
  have "unat b < 256" using unsigned_less [where w = b and 'a = nat] by simp
  then show ?thesis by (simp add: u8_of_char_nat char_of_u8_def)
qed

lemma as_bytes_Nil_iff [simp]: "as_bytes s = [] \<longleftrightarrow> s = []" "[] = as_bytes s \<longleftrightarrow> s = []"
  by (auto simp: as_bytes_def)

lemma of_bytes_as_bytes [simp, byte_simps]: "of_bytes (as_bytes s) = s"
  by (simp add: of_bytes_def as_bytes_def o_def)

lemma length_as_bytes [simp]: "length (as_bytes s) = length s"
  by (simp add: as_bytes_def)

lemma length_be [simp]: "length (be16 w) = 2" "length (be32 v) = 4" "length (le64 x) = 8"
  by (simp_all add: be16_def be32_def le64_def)

lemma from_be16_be16 [simp, byte_simps]:
  "from_be16 (ucast (drop_bit 8 w)) (ucast w) = w"
proof (rule bit_word_eqI)
  fix n assume "n < LENGTH(16)"
  then show "bit (from_be16 (ucast (drop_bit 8 w)) (ucast w)) n = bit w n"
    by (auto simp: from_be16_def bit_simps)
qed

lemma from_be32_be32 [simp, byte_simps]:
  "from_be32 (ucast (drop_bit 24 w)) (ucast (drop_bit 16 w)) (ucast (drop_bit 8 w)) (ucast w) = w"
proof (rule bit_word_eqI)
  fix n assume "n < LENGTH(32)"
  then show "bit (from_be32 (ucast (drop_bit 24 w)) (ucast (drop_bit 16 w))
      (ucast (drop_bit 8 w)) (ucast w)) n = bit w n"
    by (cases "n < 8"; cases "n < 16"; cases "n < 24") (auto simp: from_be32_def bit_simps)
qed

text \<open>A buffer of known head, tail and length is read and written by position.\<close>

lemma rd_Some [simp]: "i < length xs \<Longrightarrow> rd xs i = Some (xs ! i)"
  and rd_None [simp]: "\<not> i < length xs \<Longrightarrow> rd xs i = None"
  by (simp_all add: rd_def)

lemma rd_slice_Some [simp]:
  "a \<le> b \<Longrightarrow> b \<le> length xs \<Longrightarrow> rd_slice xs a b = Some (take (b - a) (drop a xs))"
  by (simp add: rd_slice_def)

lemma rd16_Some [simp]:
  "i + 1 < length xs \<Longrightarrow> rd16 xs i = Some (from_be16 (xs ! i) (xs ! Suc i))"
  by (simp add: rd16_def)

lemma rd32_Some [simp]:
  "i + 3 < length xs \<Longrightarrow>
     rd32 xs i = Some (from_be32 (xs ! i) (xs ! Suc i) (xs ! (i + 2)) (xs ! (i + 3)))"
  by (simp add: rd32_def)

lemma wr_Some [simp]: "i < length xs \<Longrightarrow> wr xs i v = Some (xs[i := v])"
  by (simp add: wr_def)

lemma wr_slice_Some [simp]:
  "a + length v \<le> length xs \<Longrightarrow>
     wr_slice xs a v = Some (take a xs @ v @ drop (a + length v) xs)"
  by (simp add: wr_slice_def)

lemma unat_of_nat_eq: "n < 2 ^ LENGTH('a) \<Longrightarrow> unat (of_nat n :: 'a::len word) = n"
  by (simp add: unat_of_nat)

lemma u8_of_char_eq_0 [simp]: "u8_of_char c = 0 \<longleftrightarrow> c = CHR 0x00"
proof
  assume "u8_of_char c = 0"
  then have "c = char_of_u8 0" by (metis char_of_u8_of_char)
  also have "\<dots> = CHR 0x00" by (simp add: char_of_u8_def char_of_def)
  finally show "c = CHR 0x00" .
qed (simp add: u8_of_char_def)

text \<open>A continuation byte is never NUL, so text cut at its first NUL is still text.\<close>

lemma utf8_cont_not_0 [simp]: "\<not> utf8_cont 0"
  and utf8_second_not_0 [simp]: "\<not> utf8_second3 a 0" "\<not> utf8_second4 a 0"
  by (simp_all add: utf8_cont_def utf8_second3_def utf8_second4_def)

lemma utf8_ok_cases:
  assumes "utf8_ok (a # r)" "\<not> a < 0x80"
  obtains b r2 where "r = b # r2" "utf8_lead2 a" "b \<noteq> 0" "utf8_cont b" "utf8_ok r2"
    | b c r3 where "r = b # c # r3" "\<not> utf8_lead2 a" "utf8_lead3 a" "b \<noteq> 0" "c \<noteq> 0"
        "utf8_second3 a b" "utf8_cont c" "utf8_ok r3"
    | b c d r4 where "r = b # c # d # r4" "\<not> utf8_lead2 a" "\<not> utf8_lead3 a"
        "b \<noteq> 0" "c \<noteq> 0" "d \<noteq> 0" "utf8_second4 a b" "utf8_cont c" "utf8_cont d" "utf8_ok r4"
proof -
  have nz: "b \<noteq> 0" if "utf8_cont b \<or> utf8_second3 a b \<or> utf8_second4 a b" for b
    using that by (metis utf8_cont_not_0 utf8_second_not_0)
  obtain b r2 where r: "r = b # r2" using assms by (cases r) simp_all
  show thesis
  proof (cases "utf8_lead2 a")
    case True
    then show thesis using that(1) assms r nz by simp
  next
    case 2: False
    then obtain c r3 where r2: "r2 = c # r3" using assms r by (cases r2) simp_all
    show thesis
    proof (cases "utf8_lead3 a")
      case True
      then show thesis using that(2) assms r r2 2 nz by simp
    next
      case False
      then obtain d r4 where "r3 = d # r4" using assms r r2 2 by (cases r3) simp_all
      then show thesis using that(3) assms r r2 2 False nz by simp
    qed
  qed
qed

lemma utf8_ok_until_nul: "utf8_ok bs \<Longrightarrow> utf8_ok (takeWhile (\<lambda>b. b \<noteq> 0) bs)"
proof (induction bs rule: utf8_ok.induct)
  case (2 a r)
  show ?case
  proof (cases "a < 0x80")
    case True
    with 2 show ?thesis by simp
  next
    case False
    then have "a \<noteq> 0" by auto
    from \<open>utf8_ok (a # r)\<close> False show ?thesis
      by (rule utf8_ok_cases) (use 2 False \<open>a \<noteq> 0\<close> in simp_all)
  qed
qed simp

text \<open>Writing behind a prefix.\<close>

lemma wr_append: "wr (h @ r) (length h + i) v = map_option ((@) h) (wr r i v)"
  by (simp add: wr_def list_update_append)

lemma wr_at: "length h = i \<Longrightarrow> wr (h @ x # r) i v = Some (h @ v # r)"
  by (auto simp: wr_def)

lemma wr_slice_at:
  "length h = i \<Longrightarrow> length z = length v \<Longrightarrow> wr_slice (h @ z @ r) i v = Some (h @ v @ r)"
  by (auto simp: wr_slice_def)

lemma find_at: "\<forall>x \<in> set xs. \<not> P x \<Longrightarrow> P y \<Longrightarrow> find P (xs @ y # ys) = Some y"
  by (induction xs) auto

lemma takeWhile_True: "takeWhile (\<lambda>x. True) xs = xs"
  by (induction xs) auto

lemma sum_u64_sum_list: "sum_u64 xs = sum_list xs"
proof -
  have "fold (\<lambda>x acc. acc + x) xs a = a + sum_list xs" for a
    by (induction xs arbitrary: a) (simp_all add: add.assoc)
  then show ?thesis by (simp add: sum_u64_def)
qed

section \<open>Stores keyed by an event's key\<close>

text \<open>A store that an event updates at its own key only, creating the entry when it is missing.
  The entry of a key then depends on the events of that key alone.\<close>

locale keyed_store =
  fixes update :: "'e \<Rightarrow> 's \<Rightarrow> 's"
    and entry :: "'s \<Rightarrow> 'k \<Rightarrow> 'v option"
    and key :: "'e \<Rightarrow> 'k"
    and init :: "'e \<Rightarrow> 'v"
    and step :: "'e \<Rightarrow> 'v \<Rightarrow> 'v"
  assumes entry_update: "entry (update e s) =
    (entry s)(key e \<mapsto> step e (case entry s (key e) of None \<Rightarrow> init e | Some v \<Rightarrow> v))"
begin

lemma entry_updates:
  "entry (fold update es s) k = (let ek = filter (\<lambda>e. key e = k) es in
     case entry s k of Some v \<Rightarrow> Some (fold step ek v)
     | None \<Rightarrow> (if ek = [] then None else Some (fold step ek (init (hd ek)))))"
proof (induction es arbitrary: s)
  case (Cons e es)
  then show ?case by (auto simp: entry_update Let_def split: option.splits)
qed (simp split: option.split)

lemma dom_updates: "dom (entry (fold update es s)) = dom (entry s) \<union> key ` set es"
  by (induction es arbitrary: s) (auto simp: entry_update)

end

end
