(* ===== verification/F64.thy ===== *)
theory F64
  imports Prelude "HOL-Library.Log_Nat"
begin

text \<open>
  Rust's \<open>f64\<close>: IEEE 754 binary64 with round-to-nearest, ties-to-even.  A finite
  double is its rational value, so arithmetic is exact arithmetic followed by one
  rounding, and everything computes.  The two zeros are one value: the sources never
  divide by a computed zero and never look at the sign of a zero.  The lemmas are the
  ones the components need: rounding is monotone, the identity on representable values,
  and keeps signs, so bounds proved on the exact values survive it.
\<close>

section \<open>Rounding a rational\<close>

text \<open>Binary exponent: \<open>2 ^ ilog2 x \<le> x < 2 ^ (ilog2 x + 1)\<close> for positive \<open>x\<close>.\<close>

definition ilog2 :: "rat \<Rightarrow> int" where
  "ilog2 x = (let (a, b) = quotient_of x; k = bitlen a - bitlen b
     in if (2::rat) powi k \<le> x then k else k - 1)"

text \<open>Exponent of the last place of a double near \<open>x\<close> (\<open>-1074\<close> for subnormals).\<close>

definition ulp_exp :: "rat \<Rightarrow> int" where
  "ulp_exp x = max (ilog2 x - 52) (- 1074)"

text \<open>Round half to even.\<close>

definition round_even :: "rat \<Rightarrow> int" where
  "round_even x = (let f = \<lfloor>x\<rfloor>; r = x - of_int f
     in if r < 1 / 2 then f else if 1 / 2 < r then f + 1 else if even f then f else f + 1)"

definition round_pos :: "rat \<Rightarrow> rat" where
  "round_pos x = of_int (round_even (x / 2 powi ulp_exp x)) * 2 powi ulp_exp x"

section \<open>The type and its arithmetic\<close>

datatype f64 = NaN | Inf bool | Fin rat

text \<open>\<open>Inf True\<close> is minus infinity.\<close>

definition overflow_limit :: rat where
  "overflow_limit = 2 ^ 1024"

definition rnd :: "rat \<Rightarrow> f64" where
  "rnd x =
     (if x = 0 then Fin 0
      else if 0 < x then (if round_pos x < overflow_limit then Fin (round_pos x) else Inf False)
      else (if round_pos (- x) < overflow_limit then Fin (- round_pos (- x)) else Inf True))"

fun f_neg :: "f64 \<Rightarrow> f64" where
  "f_neg NaN = NaN"
| "f_neg (Inf s) = Inf (\<not> s)"
| "f_neg (Fin a) = Fin (- a)"

fun f_abs :: "f64 \<Rightarrow> f64" where
  "f_abs NaN = NaN"
| "f_abs (Inf s) = Inf False"
| "f_abs (Fin a) = Fin \<bar>a\<bar>"

fun f_add :: "f64 \<Rightarrow> f64 \<Rightarrow> f64" where
  "f_add (Fin a) (Fin b) = rnd (a + b)"
| "f_add (Inf s) (Fin b) = Inf s"
| "f_add (Fin a) (Inf t) = Inf t"
| "f_add (Inf s) (Inf t) = (if s = t then Inf s else NaN)"
| "f_add NaN _ = NaN"
| "f_add _ NaN = NaN"

definition f_sub :: "f64 \<Rightarrow> f64 \<Rightarrow> f64" where
  "f_sub a b = f_add a (f_neg b)"

fun f_mul :: "f64 \<Rightarrow> f64 \<Rightarrow> f64" where
  "f_mul (Fin a) (Fin b) = rnd (a * b)"
| "f_mul (Inf s) (Fin b) = (if b = 0 then NaN else Inf (s \<noteq> (b < 0)))"
| "f_mul (Fin a) (Inf t) = (if a = 0 then NaN else Inf (t \<noteq> (a < 0)))"
| "f_mul (Inf s) (Inf t) = Inf (s \<noteq> t)"
| "f_mul NaN _ = NaN"
| "f_mul _ NaN = NaN"

text \<open>Division by zero takes the sign of a positive zero.\<close>

fun f_div :: "f64 \<Rightarrow> f64 \<Rightarrow> f64" where
  "f_div (Fin a) (Fin b) =
     (if b = 0 then (if a = 0 then NaN else Inf (a < 0)) else rnd (a / b))"
| "f_div (Inf s) (Fin b) = Inf (s \<noteq> (b < 0))"
| "f_div (Fin a) (Inf t) = Fin 0"
| "f_div (Inf s) (Inf t) = NaN"
| "f_div NaN _ = NaN"
| "f_div _ NaN = NaN"

text \<open>Comparisons are false on NaN.\<close>

fun f_lt :: "f64 \<Rightarrow> f64 \<Rightarrow> bool" where
  "f_lt (Fin a) (Fin b) = (a < b)"
| "f_lt (Inf s) (Fin b) = s"
| "f_lt (Fin a) (Inf t) = (\<not> t)"
| "f_lt (Inf s) (Inf t) = (s \<and> \<not> t)"
| "f_lt NaN _ = False"
| "f_lt _ NaN = False"

fun f_le :: "f64 \<Rightarrow> f64 \<Rightarrow> bool" where
  "f_le (Fin a) (Fin b) = (a \<le> b)"
| "f_le (Inf s) (Fin b) = s"
| "f_le (Fin a) (Inf t) = (\<not> t)"
| "f_le (Inf s) (Inf t) = (s \<or> \<not> t)"
| "f_le NaN _ = False"
| "f_le _ NaN = False"

abbreviation f_gt :: "f64 \<Rightarrow> f64 \<Rightarrow> bool" where "f_gt a b \<equiv> f_lt b a"
abbreviation f_ge :: "f64 \<Rightarrow> f64 \<Rightarrow> bool" where "f_ge a b \<equiv> f_le b a"

text \<open>\<open>f64::min\<close> and \<open>f64::max\<close> return the other operand when one is NaN.\<close>

definition f_min :: "f64 \<Rightarrow> f64 \<Rightarrow> f64" where
  "f_min a b = (if a = NaN then b else if b = NaN then a else if f_lt b a then b else a)"

definition f_max :: "f64 \<Rightarrow> f64 \<Rightarrow> f64" where
  "f_max a b = (if a = NaN then b else if b = NaN then a else if f_lt a b then b else a)"

text \<open>A literal, the casts \<open>x as f64\<close> of an integer and \<open>x as u32\<close>, \<open>x as usize\<close>
  of a double (truncating and saturating, NaN to 0).\<close>

abbreviation f_lit :: "rat \<Rightarrow> f64" where "f_lit q \<equiv> rnd q"

definition f_of_nat :: "nat \<Rightarrow> f64" where
  "f_of_nat n = rnd (of_nat n)"

definition f_of_int :: "int \<Rightarrow> f64" where
  "f_of_int n = rnd (of_int n)"

definition f_of_u64 :: "u64 \<Rightarrow> f64" where
  "f_of_u64 w = f_of_nat (unat w)"

definition f_of_u32 :: "u32 \<Rightarrow> f64" where
  "f_of_u32 w = f_of_nat (unat w)"

text \<open>The result is at most \<open>mx\<close>, the largest value of the integer type.\<close>

fun f_to_nat :: "nat \<Rightarrow> f64 \<Rightarrow> nat" where
  "f_to_nat mx NaN = 0"
| "f_to_nat mx (Inf s) = (if s then 0 else mx)"
| "f_to_nat mx (Fin a) = min mx (nat \<lfloor>a\<rfloor>)"

text \<open>A value is a double when rounding leaves it alone.\<close>

fun is_f64 :: "f64 \<Rightarrow> bool" where
  "is_f64 (Fin a) = (rnd a = Fin a)"
| "is_f64 _ = True"

section \<open>Rounding is monotone and exact on doubles\<close>

lemma pow2_less_iff [simp]: "(2::rat) powi m < 2 powi n \<longleftrightarrow> m < n"
proof (cases "m < n")
  case True
  then show ?thesis by (simp add: power_int_strict_increasing)
next
  case False
  then have "(2::rat) powi n \<le> 2 powi m" by (intro power_int_increasing) auto
  with False show ?thesis by simp
qed

lemma pow2_le_iff [simp]: "(2::rat) powi m \<le> 2 powi n \<longleftrightarrow> m \<le> n"
  by (simp add: linorder_not_less [symmetric])

lemma pow2_add: "(2::rat) powi (m + n) = 2 powi m * 2 powi n"
  by (simp add: power_int_add)

lemma ilog2_bounds:
  assumes "0 < x"
  shows "2 powi ilog2 x \<le> x \<and> x < 2 powi (ilog2 x + 1)"
proof -
  obtain a b where q: "quotient_of x = (a, b)" by (cases "quotient_of x")
  have b: "0 < b" using quotient_of_denom_pos [OF q] .
  have x: "x = of_int a / of_int b" using quotient_of_div [OF q] .
  have a: "0 < a" using assms b by (simp add: x zero_less_divide_iff)
  let ?k = "bitlen a - bitlen b"
  have pa: "bitlen a > 0" and pb: "bitlen b > 0" using a b by (simp_all add: bitlen_alt_def)
  have A: "2 powi (bitlen a - 1) \<le> (of_int a :: rat)" "(of_int a :: rat) < 2 powi bitlen a"
  proof -
    have "2 ^ nat (bitlen a - 1) \<le> a" "a < 2 ^ nat (bitlen a)" using bitlen_bounds [OF a] by auto
    then have "(of_int (2 ^ nat (bitlen a - 1)) :: rat) \<le> of_int a"
      "(of_int a :: rat) < of_int (2 ^ nat (bitlen a))" by (simp_all only: of_int_le_iff of_int_less_iff)
    then show "2 powi (bitlen a - 1) \<le> (of_int a :: rat)" "(of_int a :: rat) < 2 powi bitlen a"
      using pa by (simp_all add: power_int_nonneg_exp)
  qed
  have B: "2 powi (bitlen b - 1) \<le> (of_int b :: rat)" "(of_int b :: rat) < 2 powi bitlen b"
  proof -
    have "2 ^ nat (bitlen b - 1) \<le> b" "b < 2 ^ nat (bitlen b)" using bitlen_bounds [OF b] by auto
    then have "(of_int (2 ^ nat (bitlen b - 1)) :: rat) \<le> of_int b"
      "(of_int b :: rat) < of_int (2 ^ nat (bitlen b))" by (simp_all only: of_int_le_iff of_int_less_iff)
    then show "2 powi (bitlen b - 1) \<le> (of_int b :: rat)" "(of_int b :: rat) < 2 powi bitlen b"
      using pb by (simp_all add: power_int_nonneg_exp)
  qed
  have up: "x < 2 powi (?k + 1)"
  proof -
    have "x < 2 powi bitlen a / 2 powi (bitlen b - 1)"
      unfolding x using A B a b by (intro frac_less) auto
    also have "\<dots> = 2 powi (bitlen a - (bitlen b - 1))" by (subst power_int_diff) auto
    finally show ?thesis by (simp add: algebra_simps)
  qed
  have lo: "2 powi (?k - 1) \<le> x"
  proof -
    have "2 powi (bitlen a - 1) / 2 powi bitlen b \<le> x"
      unfolding x using A B a b by (intro frac_le) auto
    moreover have "2 powi (bitlen a - 1) / 2 powi bitlen b = (2::rat) powi (bitlen a - 1 - bitlen b)"
      by (simp add: power_int_diff)
    ultimately show ?thesis by (simp add: algebra_simps)
  qed
  show ?thesis using up lo by (simp add: ilog2_def q Let_def)
qed

lemma ilog2_unique:
  assumes "2 powi e \<le> x" "x < 2 powi (e + 1)"
  shows "ilog2 x = e"
proof -
  have "(0::rat) < 2 powi e" by simp
  then have "0 < x" using assms(1) by linarith
  note b = ilog2_bounds [OF this]
  have "(2::rat) powi e < 2 powi (ilog2 x + 1)" "(2::rat) powi ilog2 x < 2 powi (e + 1)"
    using assms b by linarith+
  then show ?thesis by simp
qed
lemma ilog2_rec:
  assumes "0 < x"
  shows "ilog2 x = (if 2 \<le> x then ilog2 (x / 2) + 1 else if x < 1 then ilog2 (2 * x) - 1 else 0)"
proof -
  note b = ilog2_bounds [OF assms]
  consider "2 \<le> x" | "x < 1" | "1 \<le> x" "x < 2" by linarith
  then show ?thesis
  proof cases
    case 1
    have "ilog2 (x / 2) = ilog2 x - 1"
      using b by (intro ilog2_unique) (auto simp: power_int_diff field_simps pow2_add)
    with 1 show ?thesis by simp
  next
    case 2
    have "ilog2 (2 * x) = ilog2 x + 1"
      using b by (intro ilog2_unique) (auto simp: field_simps pow2_add)
    with 2 show ?thesis by simp
  next
    case 3
    then have "ilog2 x = 0" by (intro ilog2_unique) auto
    with 3 show ?thesis by simp
  qed
qed

lemma ilog2_mono:
  assumes "0 < x" "x \<le> y"
  shows "ilog2 x \<le> ilog2 y"
proof -
  have "2 powi ilog2 x < (2::rat) powi (ilog2 y + 1)"
    using ilog2_bounds [of x] ilog2_bounds [of y] assms by linarith
  then show ?thesis by simp
qed

lemma ulp_exp_mono: "0 < x \<Longrightarrow> x \<le> y \<Longrightarrow> ulp_exp x \<le> ulp_exp y"
  using ilog2_mono [of x y] by (simp add: ulp_exp_def)

lemma round_even_bounds: "\<lfloor>x\<rfloor> \<le> round_even x" "round_even x \<le> \<lfloor>x\<rfloor> + 1"
  by (simp_all add: round_even_def Let_def)

lemma round_even_of_int [simp]: "round_even (of_int n) = n"
  by (simp add: round_even_def Let_def)

lemma round_even_mono:
  assumes "x \<le> y"
  shows "round_even x \<le> round_even y"
proof (cases "\<lfloor>x\<rfloor> = \<lfloor>y\<rfloor>")
  case True
  with assms show ?thesis by (auto simp: round_even_def Let_def)
next
  case False
  with floor_mono [OF assms] have "\<lfloor>x\<rfloor> + 1 \<le> \<lfloor>y\<rfloor>" by simp
  then show ?thesis using round_even_bounds [of x] round_even_bounds [of y] by linarith
qed

lemma round_even_ge: "of_int n \<le> x \<Longrightarrow> n \<le> round_even x"
  using round_even_mono [of "of_int n" x] by simp

lemma round_even_le: "x \<le> of_int n \<Longrightarrow> round_even x \<le> n"
  using round_even_mono [of x "of_int n"] by simp

text \<open>The significand has at most 53 bits, and 53 exactly above the subnormal range.\<close>

lemma scaled_upper:
  assumes "0 < x"
  shows "x / 2 powi ulp_exp x < 2 ^ 53"
proof -
  have "x < 2 powi (ilog2 x + 1)" using ilog2_bounds [OF assms] by simp
  also have "\<dots> \<le> 2 powi (ulp_exp x + 53)" by (simp add: ulp_exp_def)
  finally show ?thesis by (simp add: pow2_add field_simps)
qed

lemma scaled_lower:
  assumes "0 < x" "- 1074 < ulp_exp x"
  shows "2 ^ 52 \<le> x / 2 powi ulp_exp x"
proof -
  have "ulp_exp x = ilog2 x - 52" using assms(2) by (auto simp: ulp_exp_def)
  then have "2 powi (ulp_exp x + 52) \<le> x" using ilog2_bounds [OF assms(1)] by simp
  then show ?thesis by (simp add: pow2_add field_simps)
qed

lemma round_pos_le: "0 < x \<Longrightarrow> round_pos x \<le> 2 powi (ulp_exp x + 53)"
proof -
  assume "0 < x"
  then have "round_even (x / 2 powi ulp_exp x) \<le> 2 ^ 53"
    using scaled_upper [of x] by (intro round_even_le) simp
  then have "(of_int (round_even (x / 2 powi ulp_exp x)) :: rat) \<le> of_int (2 ^ 53)"
    by (simp only: of_int_le_iff)
  then show ?thesis by (simp add: round_pos_def pow2_add mult.commute)
qed

lemma round_pos_ge:
  assumes "0 < x" "- 1074 < ulp_exp x"
  shows "2 powi (ulp_exp x + 52) \<le> round_pos x"
proof -
  have "2 ^ 52 \<le> round_even (x / 2 powi ulp_exp x)"
    using scaled_lower [OF assms] by (intro round_even_ge) simp
  then have "of_int (2 ^ 52) \<le> (of_int (round_even (x / 2 powi ulp_exp x)) :: rat)"
    by (simp only: of_int_le_iff)
  then show ?thesis by (simp add: round_pos_def pow2_add mult.commute)
qed

lemma round_pos_nonneg: "0 < x \<Longrightarrow> 0 \<le> round_pos x"
proof -
  assume "0 < x"
  then have "0 \<le> round_even (x / 2 powi ulp_exp x)" by (intro round_even_ge) simp
  then show ?thesis by (simp add: round_pos_def)
qed

lemma round_pos_mono:
  assumes "0 < x" "x \<le> y"
  shows "round_pos x \<le> round_pos y"
proof (cases "ulp_exp x = ulp_exp y")
  case True
  have "round_even (x / 2 powi ulp_exp x) \<le> round_even (y / 2 powi ulp_exp x)"
    using assms(2) by (intro round_even_mono divide_right_mono) auto
  with True show ?thesis by (simp add: round_pos_def)
next
  case False
  with ulp_exp_mono [OF assms] have lt: "ulp_exp x + 1 \<le> ulp_exp y" by simp
  moreover have "- 1074 \<le> ulp_exp x" by (simp add: ulp_exp_def)
  ultimately have y: "2 powi (ulp_exp y + 52) \<le> round_pos y"
    using assms by (intro round_pos_ge) auto
  have "round_pos x \<le> 2 powi (ulp_exp x + 53)" using assms by (intro round_pos_le)
  also have "\<dots> \<le> 2 powi (ulp_exp y + 52)" using lt by simp
  finally show ?thesis using y by simp
qed

text \<open>A positive number with a 53-bit significand is its own rounding.\<close>

lemma round_pos_exact:
  assumes "0 < n" "n \<le> 2 ^ 53" "- 1074 \<le> e"
  shows "round_pos (of_int n * 2 powi e) = of_int n * 2 powi e"
proof -
  let ?x = "of_int n * 2 powi e :: rat"
  have x0: "0 < ?x" using assms by simp
  have small: "ulp_exp ?x \<le> e \<or> n = 2 ^ 53"
  proof (cases "n = 2 ^ 53")
    case False
    with assms(2) have "n < 2 ^ 53" by simp
    then have "(of_int n :: rat) < of_int (2 ^ 53)" by (simp only: of_int_less_iff)
    then have "?x < 2 powi (e + 53)" by (simp add: pow2_add)
    with ilog2_bounds [OF x0] have "2 powi ilog2 ?x < (2::rat) powi (e + 53)" by linarith
    with assms(3) show ?thesis by (simp add: ulp_exp_def)
  qed simp
  have "\<exists>k. ?x / 2 powi ulp_exp ?x = of_int k"
  proof (cases "ulp_exp ?x \<le> e")
    case True
    have "2 powi e / 2 powi ulp_exp ?x = (2::rat) powi (e - ulp_exp ?x)"
      by (subst power_int_diff) auto
    also have "\<dots> = of_int (2 ^ nat (e - ulp_exp ?x))"
      using True by (simp add: power_int_nonneg_exp)
    finally have "?x / 2 powi ulp_exp ?x = of_int n * of_int (2 ^ nat (e - ulp_exp ?x))"
      by (simp only: times_divide_eq_right [symmetric])
    then have "?x / 2 powi ulp_exp ?x = of_int (n * 2 ^ nat (e - ulp_exp ?x))"
      by (simp only: of_int_mult)
    then show ?thesis ..
  next
    case False
    with small have n: "n = 2 ^ 53" by simp
    then have x: "?x = 2 powi (e + 53)" by (simp add: pow2_add)
    then have "ilog2 ?x = e + 53" by (auto intro!: ilog2_unique)
    with assms(3) have u: "ulp_exp ?x = e + 1" by (simp add: ulp_exp_def)
    have "?x / 2 powi ulp_exp ?x = of_int (2 ^ 52)"
      by (subst u) (simp add: x pow2_add)
    then show ?thesis ..
  qed
  then obtain k where k: "?x / 2 powi ulp_exp ?x = of_int k" ..
  then have "round_pos ?x = of_int k * 2 powi ulp_exp ?x" by (simp add: round_pos_def)
  also have "\<dots> = ?x" by (simp only: k [symmetric]) simp
  finally show ?thesis .
qed


lemma round_pos_form:
  assumes "0 < x"
  obtains n e where "0 \<le> n" "n \<le> 2 ^ 53" "- 1074 \<le> e" "round_pos x = of_int n * 2 powi e"
proof
  show "0 \<le> round_even (x / 2 powi ulp_exp x)" using assms by (intro round_even_ge) simp
  show "round_even (x / 2 powi ulp_exp x) \<le> 2 ^ 53"
    using scaled_upper [OF assms] by (intro round_even_le) simp
  show "- 1074 \<le> ulp_exp x" by (simp add: ulp_exp_def)
  show "round_pos x = of_int (round_even (x / 2 powi ulp_exp x)) * 2 powi ulp_exp x"
    by (simp add: round_pos_def)
qed

lemma round_pos_idem:
  assumes "0 < x" "0 < round_pos x"
  shows "round_pos (round_pos x) = round_pos x"
proof -
  obtain n e where f: "0 \<le> n" "n \<le> 2 ^ 53" "- 1074 \<le> e" "round_pos x = of_int n * 2 powi e"
    using round_pos_form [OF assms(1)] .
  with assms(2) have "0 < n" by (cases "n = 0") auto
  with f show ?thesis using round_pos_exact [of n e] by simp
qed

section \<open>Laws of the rounded operations\<close>

lemma rnd_0 [simp]: "rnd 0 = Fin 0"
  by (simp add: rnd_def)

lemma rnd_neg: "rnd (- x) = f_neg (rnd x)"
  by (auto simp: rnd_def)

lemma f_neg_eq_Fin [simp]: "f_neg a = Fin x \<longleftrightarrow> a = Fin (- x)"
  by (cases a) auto

lemma is_f64_neg [simp]: "is_f64 (f_neg a) = is_f64 a"
  by (cases a) (simp_all add: rnd_neg)

lemma is_f64_rnd [simp]: "is_f64 (rnd x)"
proof -
  have pos: "is_f64 (rnd x)" if "0 < x" for x
    using that round_pos_idem [of x] round_pos_nonneg [of x]
    by (cases "round_pos x = 0") (auto simp: rnd_def)
  consider "0 < x" | "x = 0" | "0 < - x" by linarith
  then show ?thesis
  proof cases
    case 3
    then have "is_f64 (f_neg (rnd x))" using pos [of "- x"] by (simp add: rnd_neg)
    then show ?thesis by (simp add: is_f64_neg)
  qed (auto simp: pos)
qed

lemma is_f64_ops [simp]:
  "is_f64 (f_add a b)" "is_f64 (f_sub a b)" "is_f64 (f_mul a b)" "is_f64 (f_div a b)"
  "is_f64 (f_of_nat n)" "is_f64 (f_of_int i)" "is_f64 (f_of_u64 w)" "is_f64 (f_of_u32 v)"
proof -
  show add: "is_f64 (f_add a b)" for a b by (cases a; cases b) auto
  show "is_f64 (f_sub a b)" by (simp add: f_sub_def add)
  show "is_f64 (f_mul a b)" by (cases a; cases b) auto
  show "is_f64 (f_div a b)" by (cases a; cases b) auto
qed (simp_all add: f_of_nat_def f_of_int_def f_of_u64_def f_of_u32_def)

lemma rnd_mono: "x \<le> y \<Longrightarrow> f_le (rnd x) (rnd y)"
proof -
  have pos: "f_le (rnd x) (rnd y)" if "0 < x" "x \<le> y" for x y
    using that round_pos_mono [OF that] by (auto simp: rnd_def)
  assume le: "x \<le> y"
  consider "0 < x" | "x \<le> 0" "0 \<le> y" | "y < 0" by linarith
  then show ?thesis
  proof cases
    case 1
    then show ?thesis using le by (rule pos)
  next
    case 2
    then show ?thesis
      using round_pos_nonneg [of y] round_pos_nonneg [of "- x"] by (auto simp: rnd_def)
  next
    case 3
    then have "f_le (rnd (- y)) (rnd (- x))" using le by (intro pos) auto
    then show ?thesis by (cases "rnd x"; cases "rnd y") (auto simp: rnd_neg)
  qed
qed

lemma f_le_refl: "a \<noteq> NaN \<Longrightarrow> f_le a a"
  by (cases a) auto

lemma f_le_trans: "f_le a b \<Longrightarrow> f_le b c \<Longrightarrow> f_le a c"
  by (cases a; cases b; cases c) auto

lemma f_lt_irrefl [simp]: "\<not> f_lt a a"
  by (cases a) auto

lemma f_le_not_lt: "f_le a b \<Longrightarrow> \<not> f_lt b a"
  by (cases a; cases b) auto

lemma f_not_lt_le: "a \<noteq> NaN \<Longrightarrow> b \<noteq> NaN \<Longrightarrow> \<not> f_lt a b \<Longrightarrow> f_le b a"
  by (cases a; cases b) auto

lemma f_lt_le: "f_lt a b \<Longrightarrow> f_le a b"
  by (cases a; cases b) auto

lemma rnd_not_NaN [simp]: "rnd x \<noteq> NaN" "NaN \<noteq> rnd x"
  by (auto simp: rnd_def)

lemma rnd_nonneg: "0 \<le> x \<Longrightarrow> f_le (Fin 0) (rnd x)"
  using rnd_mono [of 0 x] by simp

text \<open>Bounds by a representable value carry over the rounding.\<close>

lemma rnd_upper: "x \<le> c \<Longrightarrow> is_f64 (Fin c) \<Longrightarrow> f_le (rnd x) (Fin c)"
  using rnd_mono [of x c] by simp

lemma rnd_lower: "c \<le> x \<Longrightarrow> is_f64 (Fin c) \<Longrightarrow> f_le (Fin c) (rnd x)"
  using rnd_mono [of c x] by simp

lemma rnd_small_int:
  assumes "\<bar>n\<bar> \<le> 2 ^ 53"
  shows "rnd (of_int n) = Fin (of_int n)"
proof -
  have lim: "(of_int n :: rat) < overflow_limit" if "n \<le> 2 ^ 53" for n
  proof -
    have "(of_int n :: rat) \<le> of_int (2 ^ 53)" using that by (simp only: of_int_le_iff)
    also have "\<dots> < overflow_limit" by (simp add: overflow_limit_def)
    finally show ?thesis .
  qed
  have pos: "rnd (of_int n) = Fin (of_int n)" if "0 < n" "n \<le> 2 ^ 53" for n
    using round_pos_exact [of n 0] that lim [of n] by (simp add: rnd_def)
  consider "0 < n" | "n = 0" | "0 < - n" by linarith
  then show ?thesis
  proof cases
    case 3
    then have "rnd (of_int (- n)) = Fin (of_int (- n))" using assms by (intro pos) auto
    then show ?thesis using rnd_neg [of "of_int (- n)"] by simp
  qed (use assms in \<open>auto simp: pos\<close>)
qed

lemma f_sub_self: "is_f64 a \<Longrightarrow> a = Fin x \<Longrightarrow> f_sub a a = Fin 0"
  by (simp add: f_sub_def)

lemma f_of_nat_nonneg [simp]: "f_le (Fin 0) (f_of_nat n)"
  by (simp add: f_of_nat_def rnd_nonneg)

lemma f_of_nat_mono: "m \<le> n \<Longrightarrow> f_le (f_of_nat m) (f_of_nat n)"
  by (simp add: f_of_nat_def rnd_mono)

lemma f_of_nat_not_NaN [simp]: "f_of_nat n \<noteq> NaN"
  by (simp add: f_of_nat_def)

lemma floor_rat_numeral [simp]:
  "\<lfloor>numeral a / numeral b :: rat\<rfloor> = numeral a div numeral b"
  "\<lfloor>1 / numeral b :: rat\<rfloor> = 1 div numeral b"
  using floor_divide_of_int_eq [of "numeral a" "numeral b", where 'a = rat]
    floor_divide_of_int_eq [of 1 "numeral b", where 'a = rat] by simp_all

lemmas f64_eval = rnd_def round_pos_def ulp_exp_def ilog2_rec round_even_def Let_def overflow_limit_def


text \<open>
  Closed double expressions are evaluated by \<open>simp add: f64_eval\<close>: \<open>ilog2_rec\<close>
  halves or doubles down to the binary exponent, the rest is rational arithmetic.
\<close>

section \<open>Ratios and percentages\<close>

lemma is_f64_consts [simp]:
  "is_f64 (Fin 0)" "is_f64 (Fin 1)" "is_f64 (Fin 100)" "is_f64 (Fin (2 ^ 64))"
  by (simp_all add: f64_eval)

lemma rnd_consts [simp]: "rnd 1 = Fin 1" "rnd 100 = Fin 100" "rnd 1000 = Fin 1000"
  by (simp_all add: f64_eval)

lemma f_of_nat_finite:
  assumes "n \<le> 2 ^ 64"
  obtains x where "f_of_nat n = Fin x" "0 \<le> x" "x \<le> 2 ^ 64" "0 < n \<Longrightarrow> 1 \<le> x"
proof -
  have "(of_nat n :: rat) \<le> of_nat (2 ^ 64)" using assms by (simp only: of_nat_le_iff)
  then have up: "f_le (f_of_nat n) (Fin (2 ^ 64))"
    unfolding f_of_nat_def by (intro rnd_upper is_f64_consts) simp_all
  have lo: "f_le (Fin 0) (f_of_nat n)" by simp
  have one: "f_le (Fin 1) (f_of_nat n)" if "0 < n"
    unfolding f_of_nat_def using that by (intro rnd_lower) simp_all
  from up lo obtain x where x: "f_of_nat n = Fin x" by (cases "f_of_nat n") auto
  show thesis by (rule that [OF x]) (use up lo one x in auto)
qed

text \<open>A share \<open>m / n * 100\<close> of counters with \<open>m \<le> n\<close> stays within 0 and 100.\<close>

lemma f_ratio_unit:
  assumes "m \<le> n" "0 < n" "n \<le> 2 ^ 64"
  obtains r where "f_div (f_of_nat m) (f_of_nat n) = Fin r" "0 \<le> r" "r \<le> 1"
proof -
  obtain x where x: "f_of_nat m = Fin x" "0 \<le> x"
    using f_of_nat_finite [of m] assms by auto
  obtain y where y: "f_of_nat n = Fin y" "1 \<le> y"
    using f_of_nat_finite [of n] assms by auto
  have "x \<le> y" using f_of_nat_mono [OF assms(1)] x y by simp
  then have b: "0 \<le> x / y" "x / y \<le> 1" using x y by (auto simp: divide_le_eq)
  have "f_le (Fin 0) (rnd (x / y))" "f_le (rnd (x / y)) (Fin 1)"
    using b by (auto intro: rnd_lower rnd_upper)
  then obtain r where "rnd (x / y) = Fin r" "0 \<le> r" "r \<le> 1" by (cases "rnd (x / y)") auto
  then show thesis using that x y by simp
qed

lemma f_percent_bounds:
  assumes "m \<le> n" "0 < n" "n \<le> 2 ^ 64"
  obtains p where "f_mul (f_div (f_of_nat m) (f_of_nat n)) (f_lit 100) = Fin p"
    "0 \<le> p" "p \<le> 100"
proof -
  obtain r where r: "f_div (f_of_nat m) (f_of_nat n) = Fin r" "0 \<le> r" "r \<le> 1"
    using f_ratio_unit [OF assms] .
  have "f_le (Fin 0) (rnd (r * 100))" "f_le (rnd (r * 100)) (Fin 100)"
    using r by (auto intro: rnd_lower rnd_upper)
  then obtain p where "rnd (r * 100) = Fin p" "0 \<le> p" "p \<le> 100" by (cases "rnd (r * 100)") auto
  then show thesis using that r by simp
qed

section \<open>Exponential smoothing by sixteenths\<close>

text \<open>The smallest positive double.\<close>

definition tiny :: rat where
  "tiny = 2 powi (- 1074)"

lemma tiny_pos [simp]: "0 < tiny"
  unfolding tiny_def by (rule zero_less_power_int) simp

lemma round_pos_double:
  assumes "0 < y"
  shows "round_pos y \<le> max (2 * y) tiny"
proof (cases "tiny \<le> y")
  case True
  let ?u = "2 powi ulp_exp y :: rat"
  have "2 powi ilog2 y \<le> y" using ilog2_bounds [OF assms] by simp
  moreover have "2 powi (ilog2 y - 52) \<le> (2 :: rat) powi ilog2 y" by simp
  ultimately have "2 powi (ilog2 y - 52) \<le> y" by (rule order_trans [rotated])
  moreover have "?u = 2 powi (ilog2 y - 52) \<or> ?u = tiny"
    by (cases "ilog2 y - 52 \<le> - 1074") (simp_all only: ulp_exp_def max_def tiny_def if_True if_False simp_thms)
  ultimately have "?u \<le> y" using True by metis
  then have z: "1 \<le> y / ?u" by simp
  have "of_int (round_even (y / ?u)) \<le> (2 :: rat) * (y / ?u)"
    using round_even_bounds(2) [of "y / ?u"] of_int_floor_le [of "y / ?u"] z by linarith
  then have "of_int (round_even (y / ?u)) * ?u \<le> 2 * (y / ?u) * ?u" by (rule mult_right_mono) simp
  then show ?thesis by (simp add: round_pos_def)
next
  case False
  then have "round_pos y \<le> round_pos tiny" using assms by (intro round_pos_mono) auto
  moreover have "round_pos tiny = tiny"
    using round_pos_exact [of 1 "- 1074"] unfolding tiny_def [symmetric] by simp
  ultimately show ?thesis by simp
qed

text \<open>Doubles are multiples of the smallest one.\<close>

lemma is_f64_grid:
  assumes "is_f64 (Fin a)" "0 \<le> a"
  obtains k :: int where "a = of_int k * tiny"
proof (cases "a = 0")
  case False
  with assms have a: "round_pos a = a" by (simp add: rnd_def split: if_splits)
  obtain n e where e: "- 1074 \<le> e" "round_pos a = of_int n * 2 powi e"
    using round_pos_form [of a] assms False by (metis le_less)
  have "(2 :: rat) powi e = 2 powi ((e + 1074) + (- 1074))" by simp
  also have "\<dots> = 2 powi (e + 1074) * tiny" by (simp only: pow2_add tiny_def)
  also have "(2 :: rat) powi (e + 1074) = of_int (2 ^ nat (e + 1074))"
    using e by (simp add: power_int_nonneg_exp)
  finally have "round_pos a = of_int (n * 2 ^ nat (e + 1074)) * tiny"
    using e by (simp only: of_int_mult mult.assoc)
  then show thesis using that a by metis
qed (use that [of 0] in simp)

lemma f_sixteenth:
  assumes "is_f64 (Fin a)" "is_f64 (Fin b)" "b \<le> a" "0 \<le> b"
  obtains x where "f_div (rnd (a - b)) (Fin 16) = Fin x" "0 \<le> x" "x \<le> a - b"
proof (cases "a = b")
  case False
  define y where "y = a - b"
  have y: "0 < y" using False assms y_def by simp
  note tiny = tiny_pos
  obtain k l :: int where kl: "a = of_int k * tiny" "b = of_int l * tiny"
    using is_f64_grid assms by (metis order_trans)
  then have yk: "y = of_int (k - l) * tiny" by (simp add: y_def algebra_simps)
  with y have "0 < k - l" using tiny by (simp add: zero_less_mult_iff order_less_not_sym)
  then have "1 \<le> k - l" by simp
  then have "of_int 1 * tiny \<le> of_int (k - l) * tiny" 
    using tiny by (intro mult_right_mono) (simp_all only: of_int_le_iff less_imp_le)
  with yk have ge: "tiny \<le> y" by simp
  have fin: "f_le (rnd y) (Fin a)" using assms y_def by (intro rnd_upper) auto
  then obtain r where r: "rnd y = Fin r" using rnd_nonneg [of y] y by (cases "rnd y") auto
  then have "r = round_pos y" using y by (auto simp: rnd_def split: if_splits)
  then have r2: "0 \<le> r" "r \<le> 2 * y"
    using round_pos_double [OF y] round_pos_nonneg [OF y] ge by auto
  have "f_le (rnd (r / 16)) (Fin a)"
    using r r2 fin assms by (intro rnd_upper) auto
  then obtain x where x: "rnd (r / 16) = Fin x" "0 \<le> x" 
    using rnd_nonneg [of "r / 16"] r2 by (cases "rnd (r / 16)") auto
  have "x \<le> y"
  proof (cases "r = 0")
    case False
    then have "0 < r / 16" using r2 by simp
    from round_pos_double [OF this] x this r2 ge show ?thesis 
      by (auto simp: rnd_def split: if_splits)
  qed (use x y in simp)
  then show thesis using that x r by (simp add: y_def)
qed (use assms that [of 0] in simp)

text \<open>Moving a sixteenth of the way from \<open>j\<close> to \<open>d\<close> stays between them.\<close>

lemma f_smooth:
  assumes "is_f64 (Fin j)" "is_f64 (Fin d)" "0 \<le> j" "0 \<le> d"
  obtains j' where "f_add (Fin j) (f_div (f_sub (Fin d) (Fin j)) (Fin 16)) = Fin j'"
    "min j d \<le> j'" "j' \<le> max j d"
proof -
  have between: "\<exists>j'. f_add (Fin j) (f_div (f_sub (Fin d) (Fin j)) (Fin 16)) = Fin j'
      \<and> min j d \<le> j' \<and> j' \<le> max j d" if "rnd (j + x) = f_add (Fin j) (f_div (f_sub (Fin d) (Fin j)) (Fin 16))"
      "min j d \<le> j + x" "j + x \<le> max j d" for x
  proof -
    have "is_f64 (Fin (min j d))" "is_f64 (Fin (max j d))" using assms by (auto simp: min_def max_def)
    with that have "f_le (rnd (j + x)) (Fin (max j d))" "f_le (Fin (min j d)) (rnd (j + x))"
      by (blast intro: rnd_upper rnd_lower)+
    then show ?thesis unfolding that(1) [symmetric] by (cases "rnd (j + x)") auto
  qed
  show thesis
  proof (cases "j \<le> d")
    case True
    then obtain x where "f_div (rnd (d - j)) (Fin 16) = Fin x" "0 \<le> x" "x \<le> d - j"
      using f_sixteenth assms by metis
    then show thesis using between [of x] that True by (auto simp: f_sub_def)
  next
    case False
    then obtain x where x: "f_div (rnd (j - d)) (Fin 16) = Fin x" "0 \<le> x" "x \<le> j - d"
      using f_sixteenth [of j d] assms by (metis linear)
    have "rnd (d - j) = f_neg (rnd (j - d))" using rnd_neg [of "j - d"] by simp
    then have "f_div (rnd (d - j)) (Fin 16) = Fin (- x)"
      using x(1) by (cases "rnd (j - d)") (auto simp: rnd_neg simp flip: minus_divide_left)
    then show thesis using between [of "- x"] that False x by (auto simp: f_sub_def)
  qed
qed

section \<open>Bounds of non-negative operations\<close>

lemma f_mul_le:
  assumes "0 \<le> x" "x \<le> a" "0 \<le> y" "y \<le> b" "is_f64 (Fin (a * b))"
  obtains z where "f_mul (Fin x) (Fin y) = Fin z" "0 \<le> z" "z \<le> a * b"
proof -
  have "x * y \<le> a * b" using assms by (intro mult_mono) auto
  then have "f_le (rnd (x * y)) (Fin (a * b))" using assms by (intro rnd_upper)
  moreover have "f_le (Fin 0) (rnd (x * y))" using assms by (intro rnd_nonneg) simp
  ultimately show thesis using that by (cases "rnd (x * y)") auto
qed

lemma f_div_le:
  assumes "0 \<le> x" "x \<le> a" "1 \<le> y" "is_f64 (Fin a)"
  obtains z where "f_div (Fin x) (Fin y) = Fin z" "0 \<le> z" "z \<le> a"
proof -
  have "x / y \<le> x / 1" using assms by (intro divide_left_mono) auto
  then have "x / y \<le> a" using assms(2) by simp
  then have "f_le (rnd (x / y)) (Fin a)" using assms by (intro rnd_upper)
  moreover have "f_le (Fin 0) (rnd (x / y))" using assms by (intro rnd_nonneg) simp
  ultimately show thesis using that assms by (cases "rnd (x / y)") auto
qed

lemma f_add_le:
  assumes "0 \<le> x" "0 \<le> y" "x + y \<le> a" "is_f64 (Fin a)"
  obtains z where "f_add (Fin x) (Fin y) = Fin z" "0 \<le> z" "z \<le> a"
proof -
  have "f_le (rnd (x + y)) (Fin a)" using assms by (intro rnd_upper)
  moreover have "f_le (Fin 0) (rnd (x + y))" using assms by (intro rnd_nonneg) simp
  ultimately show thesis using that by (cases "rnd (x + y)") auto
qed

lemma is_f64_pow2: "n < 900 \<Longrightarrow> is_f64 (Fin (2 ^ n))"
proof -
  assume n: "n < 900"
  have "round_pos (of_int 1 * 2 powi int n) = of_int 1 * 2 powi int n"
    by (rule round_pos_exact) simp_all
  then have "round_pos (2 ^ n) = 2 ^ n" by simp
  moreover have "(2 :: rat) ^ n < 2 ^ 1024" using n by (intro power_strict_increasing) auto
  ultimately show ?thesis by (simp add: rnd_def overflow_limit_def del: power_strict_increasing_iff)
qed

section \<open>Durations\<close>

text \<open>A \<open>Duration\<close> is its length in nanoseconds; \<open>as_secs_f64\<close> adds the
  seconds and the nanoseconds, both cast to doubles.\<close>

definition as_secs_f64 :: "nat \<Rightarrow> f64" where
  "as_secs_f64 d =
     f_add (f_of_nat (d div 1000000000)) (f_div (f_of_nat (d mod 1000000000)) (f_lit 1000000000))"

lemma as_secs_bounds:
  assumes "d < 2 ^ 64"
  obtains x where "as_secs_f64 d = Fin x" "0 \<le> x" "x \<le> 2 ^ 65"
proof -
  have "d div 1000000000 \<le> d" "d mod 1000000000 \<le> d" by simp_all
  then have le: "d div 1000000000 \<le> 2 ^ 64" "d mod 1000000000 \<le> 2 ^ 64" using assms by linarith+
  obtain a where a: "f_of_nat (d div 1000000000) = Fin a" "0 \<le> a" "a \<le> 2 ^ 64"
    using f_of_nat_finite [OF le(1)] .
  obtain b where b: "f_of_nat (d mod 1000000000) = Fin b" "0 \<le> b" "b \<le> 2 ^ 64"
    using f_of_nat_finite [OF le(2)] .
  have lit: "rnd 1000000000 = Fin 1000000000" by (simp add: f64_eval)
  obtain c where c: "f_div (Fin b) (Fin 1000000000) = Fin c" "0 \<le> c" "c \<le> 2 ^ 64"
    using f_div_le [of b "2 ^ 64" 1000000000] b is_f64_pow2 [of 64] by auto
  have "a + c \<le> 2 ^ 65" using a c by simp
  then show thesis
    using f_add_le [of a c "2 ^ 65"] a b c is_f64_pow2 [of 65] that lit
    by (auto simp: as_secs_f64_def)
qed

lemma f_of_u32_bounds:
  obtains x where "f_of_u32 w = Fin x" "0 \<le> x" "x \<le> 2 ^ 64"
proof -
  have "unat w < 2 ^ 32" using unsigned_less [where w = w and 'a = nat] by simp
  then show thesis using f_of_nat_finite [of "unat w"] that by (auto simp: f_of_u32_def)
qed

section \<open>Fixed-point text\<close>

text \<open>\<open>{:.k}\<close>: the exact value rounded half to even to \<open>k\<close> decimals.\<close>

definition pad_zeros :: "nat \<Rightarrow> string \<Rightarrow> string" where
  "pad_zeros k s = replicate (k - length s) (CHR ''0'') @ s"

fun show_fixed :: "nat \<Rightarrow> f64 \<Rightarrow> string" where
  "show_fixed k NaN = ''NaN''"
| "show_fixed k (Inf s) = (if s then ''-inf'' else ''inf'')"
| "show_fixed k (Fin a) = (
     let n = nat (round_even (\<bar>a\<bar> * 10 ^ k));
         sign = (if a < 0 then ''-'' else []);
         whole = show_nat (n div 10 ^ k)
     in sign @ whole @ (if k = 0 then [] else ''.'' @ pad_zeros k (show_nat (n mod 10 ^ k))))"

end
