(* ===== verification/Frames.thy ===== *)
theory Frames
  imports Prelude
begin

text \<open>
  The framing of an RTCP compound packet, and the contract of the loops that walk one.

  Three functions of the sources (\<open>mbcp::parse_compound\<close>,
  \<open>rtcp_parser::parse_rtcp_compound\<close> and \<open>rtcp_parser::parse_rtcp_for_sr\<close>)
  have a \<open>while\<close> loop of their own over the same framing: a packet starts with four bytes
  whose last two hold its length in words, less one, and the loop ends at a packet that the
  buffer cuts short.  Each loop is modelled where its function is.  Here is the reference they
  are compared with, \<open>rtcp_frames\<close>, which cuts the buffer into its packets, and the
  locale \<open>rtcp_loop\<close>, which states what one turn of such a loop does and proves once that
  the loop returns, on every buffer, the fold of its step over those packets.
\<close>

section \<open>Packets of a compound\<close>

definition frame_len :: "bytes \<Rightarrow> nat" where
  "frame_len buf = (unat (from_be16 (buf ! 2) (buf ! 3)) + 1) * 4"

lemma frame_len_pos: "0 < frame_len buf"
  and frame_len_ge4: "4 \<le> frame_len buf"
  by (simp_all add: frame_len_def)

function rtcp_frames :: "bytes \<Rightarrow> bytes list" where
  "rtcp_frames buf =
     (if 4 \<le> length buf \<and> frame_len buf \<le> length buf
      then take (frame_len buf) buf # rtcp_frames (drop (frame_len buf) buf)
      else [])"
  by auto
termination
proof (relation "measure length")
  fix buf :: bytes assume "4 \<le> length buf \<and> frame_len buf \<le> length buf"
  then show "(drop (frame_len buf) buf, buf) \<in> measure length"
    using frame_len_pos [of buf] by simp linarith
qed simp

declare rtcp_frames.simps [simp del]

text \<open>A byte string that is exactly one packet.\<close>

definition framed :: "bytes \<Rightarrow> bool" where
  "framed p \<longleftrightarrow> 4 \<le> length p \<and> frame_len p = length p"

lemma frame_len_header: "frame_len (a # b # be16 w @ r) = (unat w + 1) * 4"
  by (simp add: frame_len_def be16_def)

lemma frame_len_append: "4 \<le> length p \<Longrightarrow> frame_len (p @ q) = frame_len p"
  by (simp add: frame_len_def nth_append)

lemma frame_len_take: "4 \<le> n \<Longrightarrow> frame_len (take n p) = frame_len p"
  by (simp add: frame_len_def)

lemma rtcp_frames_framed: "p \<in> set (rtcp_frames buf) \<Longrightarrow> framed p"
proof (induction buf rule: rtcp_frames.induct)
  case (1 buf)
  show ?case
  proof (cases "4 \<le> length buf \<and> frame_len buf \<le> length buf")
    case True
    then have "framed (take (frame_len buf) buf)"
      using frame_len_ge4 [of buf] by (simp add: framed_def frame_len_take)
    then show ?thesis using 1 True by (subst (asm) rtcp_frames.simps) auto
  qed (use 1 in \<open>subst (asm) rtcp_frames.simps, auto\<close>)
qed

lemma rtcp_frames_Cons: "framed p \<Longrightarrow> rtcp_frames (p @ q) = p # rtcp_frames q"
  by (subst rtcp_frames.simps) (simp add: framed_def frame_len_append)

lemma rtcp_frames_short: "length q < 4 \<Longrightarrow> rtcp_frames q = []"
  by (subst rtcp_frames.simps) simp

lemma rtcp_frames_concat:
  "\<forall>p \<in> set ps. framed p \<Longrightarrow> rtcp_frames (concat ps @ q) = ps @ rtcp_frames q"
  by (induction ps) (simp_all add: rtcp_frames_Cons)

text \<open>The packets are a prefix of the buffer: nothing is read twice or skipped.\<close>

lemma concat_rtcp_frames: "\<exists>rest. buf = concat (rtcp_frames buf) @ rest"
proof (induction buf rule: rtcp_frames.induct)
  case (1 buf)
  show ?case
  proof (cases "4 \<le> length buf \<and> frame_len buf \<le> length buf")
    case True
    then obtain rest where
      "drop (frame_len buf) buf = concat (rtcp_frames (drop (frame_len buf) buf)) @ rest"
      using 1 by blast
    then have "buf = take (frame_len buf) buf @ concat (rtcp_frames (drop (frame_len buf) buf)) @ rest"
      by (metis append_take_drop_id)
    then show ?thesis using True by (subst rtcp_frames.simps) auto
  qed (subst rtcp_frames.simps, auto)
qed

section \<open>The loop contract\<close>

locale rtcp_loop =
  fixes loop :: "bytes \<Rightarrow> nat \<Rightarrow> 's \<Rightarrow> 's option"
    and step :: "bytes \<Rightarrow> 's \<Rightarrow> 's"
  assumes loop_end: "length buf < off + 4 \<Longrightarrow> loop buf off s = Some s"
    and loop_cut: "off + 4 \<le> length buf \<Longrightarrow> length buf < off + frame_len (drop off buf)
      \<Longrightarrow> loop buf off s = Some s"
    and loop_next: "off + 4 \<le> length buf \<Longrightarrow> off + frame_len (drop off buf) \<le> length buf
      \<Longrightarrow> loop buf off s = loop buf (off + frame_len (drop off buf))
            (step (take (frame_len (drop off buf)) (drop off buf)) s)"
begin

lemma loop_fold: "loop buf off s = Some (fold step (rtcp_frames (drop off buf)) s)"
proof (induction "length buf - off" arbitrary: off s rule: less_induct)
  case less
  let ?n = "frame_len (drop off buf)"
  consider "length buf < off + 4" | "off + 4 \<le> length buf" "length buf < off + ?n"
    | "off + 4 \<le> length buf" "off + ?n \<le> length buf" by linarith
  then show ?case
  proof cases
    case 1
    then show ?thesis by (simp add: loop_end rtcp_frames_short)
  next
    case 2
    then have "\<not> ?n \<le> length (drop off buf)" by simp
    with 2 show ?thesis by (subst rtcp_frames.simps) (simp add: loop_cut)
  next
    case 3
    then have "length buf - (off + ?n) < length buf - off"
      using frame_len_pos [of "drop off buf"] by linarith
    from less [OF this] 3 have
      "loop buf off s = Some (fold step (rtcp_frames (drop (off + ?n) buf)) (step (take ?n (drop off buf)) s))"
      by (simp add: loop_next)
    moreover have "rtcp_frames (drop off buf) = take ?n (drop off buf) # rtcp_frames (drop (off + ?n) buf)"
      using 3 by (subst rtcp_frames.simps) (auto simp: add.commute)
    ultimately show ?thesis by simp
  qed
qed

lemma loop_frames: "loop buf 0 s = Some (fold step (rtcp_frames buf) s)"
  using loop_fold [of buf 0 s] by simp

lemma loop_returns: "loop buf off s \<noteq> None"
  by (simp add: loop_fold)

lemma loop_compound:
  assumes "\<forall>p \<in> set ps. framed p"
  shows "loop (concat ps @ q) 0 s = Some (fold step (rtcp_frames q) (fold step ps s))"
  using assms by (simp add: loop_frames rtcp_frames_concat)

end

section \<open>Fields of a packet\<close>

definition be32_at :: "bytes \<Rightarrow> nat \<Rightarrow> u32" where
  "be32_at p i = from_be32 (p ! i) (p ! Suc i) (p ! (i + 2)) (p ! (i + 3))"

text \<open>Reading the buffer at an offset into one packet reads the packet.\<close>

lemma rd32_in_frame:
  "off + n \<le> length buf \<Longrightarrow> i + 4 \<le> n \<Longrightarrow>
     rd32 buf (off + i) = Some (be32_at (take n (drop off buf)) i)"
  by (simp add: be32_at_def add.assoc)

lemma nth_in_frame: "i < n \<Longrightarrow> off + n \<le> length buf \<Longrightarrow> take n (drop off buf) ! i = buf ! (off + i)"
  by simp

lemma frame_header:
  assumes "off + 4 \<le> length buf"
  obtains w where "rd16 buf (off + 2) = Some w" "(unat w + 1) * 4 = frame_len (drop off buf)"
    "rd buf off = Some (buf ! off)" "rd buf (off + 1) = Some (buf ! (off + 1))"
proof
  show "rd16 buf (off + 2) = Some (from_be16 (buf ! (off + 2)) (buf ! (off + 3)))"
    using assms by (simp add: numeral_3_eq_3)
  show "(unat (from_be16 (buf ! (off + 2)) (buf ! (off + 3))) + 1) * 4 = frame_len (drop off buf)"
    using assms by (simp add: frame_len_def)
qed (use assms in simp_all)

section \<open>Codecs of single packets\<close>

text \<open>A builder and a parser of one packet: the parser gives back the message, up to what the
  format cannot carry (\<open>norm\<close>), and what is built is one packet of a compound.\<close>

locale frame_codec =
  fixes enc :: "'m \<Rightarrow> bytes"
    and dec :: "bytes \<Rightarrow> 'm option"
    and norm :: "'m \<Rightarrow> 'm"
    and ok :: "'m \<Rightarrow> bool"
  assumes dec_enc: "ok m \<Longrightarrow> dec (enc m) = Some (norm m)"
    and enc_framed: "ok m \<Longrightarrow> framed (enc m)"
begin

lemma frames_of_encoded:
  assumes "\<forall>m \<in> set ms. ok m"
  shows "rtcp_frames (concat (map enc ms)) = map enc ms"
  using rtcp_frames_concat [of "map enc ms" "[]"] assms
  by (auto simp: enc_framed rtcp_frames_short)

lemma decode_compound:
  "\<forall>m \<in> set ms. ok m \<Longrightarrow> List.map_filter dec (rtcp_frames (concat (map enc ms))) = map norm ms"
proof (induction ms)
  case (Cons m ms)
  then show ?case using frames_of_encoded [of "m # ms"] frames_of_encoded [of ms]
    by (simp add: map_filter_simps dec_enc)
qed (simp add: rtcp_frames_short map_filter_simps)

lemma enc_inj: "ok m \<Longrightarrow> ok m' \<Longrightarrow> enc m = enc m' \<Longrightarrow> norm m = norm m'"
  by (metis dec_enc option.inject)

end

end
