(* ===== verification/Mbcp.thy ===== *)
theory Mbcp
  imports Frames
begin

text \<open>
  MBCP floor control messages (\<open>common/src/mbcp.rs\<close>): the RTCP APP builder and parser, the
  scan of a compound packet, and the native TLV form.  \<open>mbcp_build\<close> and
  \<open>mbcp_parse\<close> are the source's \<open>build\<close> and \<open>parse\<close>; their outer
  \<open>option\<close> is the panic of an index or a slice out of range, and the lemmas show that it
  never happens.
\<close>

section \<open>Constants and messages\<close>

definition RTCP_PT_APP :: u8 where [simp]: "RTCP_PT_APP = 204"
definition SUBTYPE_FREQ :: u8 where [simp]: "SUBTYPE_FREQ = 0"
definition SUBTYPE_FREL :: u8 where [simp]: "SUBTYPE_FREL = 1"
definition SUBTYPE_FTKN :: u8 where [simp]: "SUBTYPE_FTKN = 2"
definition SUBTYPE_FIDL :: u8 where [simp]: "SUBTYPE_FIDL = 3"
definition SUBTYPE_FRVK :: u8 where [simp]: "SUBTYPE_FRVK = 4"
definition SUBTYPE_FPNG :: u8 where [simp]: "SUBTYPE_FPNG = 5"

text \<open>The bytes of \<open>"MBCP"\<close>.\<close>

definition APP_NAME :: bytes where [simp]: "APP_NAME = [0x4D, 0x42, 0x43, 0x50]"

record mbcp_message =
  mm_subtype :: u8
  mm_ssrc :: u32
  mm_data :: "string option"

definition subtype_name :: "u8 \<Rightarrow> string" where
  "subtype_name subtype =
     (if subtype = SUBTYPE_FREQ then ''FREQ''
      else if subtype = SUBTYPE_FREL then ''FREL''
      else if subtype = SUBTYPE_FTKN then ''FTKN''
      else if subtype = SUBTYPE_FIDL then ''FIDL''
      else if subtype = SUBTYPE_FRVK then ''FRVK''
      else if subtype = SUBTYPE_FPNG then ''FPNG''
      else ''UNKNOWN'')"

definition mbcp_message_subtype_name :: "mbcp_message \<Rightarrow> string" where
  "mbcp_message_subtype_name m = subtype_name (mm_subtype m)"

section \<open>The RTCP APP form\<close>

definition padded_len :: "nat \<Rightarrow> nat" where
  "padded_len n = (n + 3) - (n + 3) mod 4"

definition mbcp_build :: "u8 \<Rightarrow> u32 \<Rightarrow> string option \<Rightarrow> bytes option" where
  "mbcp_build subtype ssrc data = (
     let data_bytes = (case data of Some s \<Rightarrow> as_bytes s | None \<Rightarrow> []);
         total_len = 12 + padded_len (length data_bytes);
         length_field = total_len div 4 - 1;
         buf = replicate total_len 0
     in do {
       buf \<leftarrow> wr buf 0 (0x80 OR (subtype AND 0x1F));
       buf \<leftarrow> wr buf 1 RTCP_PT_APP;
       buf \<leftarrow> wr_slice buf 2 (be16 (of_nat length_field));
       buf \<leftarrow> wr_slice buf 4 (be32 ssrc);
       buf \<leftarrow> wr_slice buf 8 APP_NAME;
       if data_bytes \<noteq> [] then wr_slice buf 12 data_bytes else Some buf
     })"

text \<open>\<open>raw.iter().position(|&b| b == 0).map(|pos| &raw[..pos]).unwrap_or(raw)\<close>.\<close>

definition until_nul :: "bytes \<Rightarrow> bytes" where
  "until_nul raw = takeWhile (\<lambda>b. b \<noteq> 0) raw"

definition mbcp_parse :: "bytes \<Rightarrow> mbcp_message option option" where
  "mbcp_parse buf =
     (if length buf < 12 then Some None else do {
        pt \<leftarrow> rd buf 1;
        if pt \<noteq> RTCP_PT_APP then Some None else do {
        name \<leftarrow> rd_slice buf 8 12;
        if name \<noteq> APP_NAME then Some None else do {
        b0 \<leftarrow> rd buf 0;
        let subtype = b0 AND 0x1F;
        ssrc \<leftarrow> rd32 buf 4;
        data \<leftarrow> (if 12 < length buf then do {
             raw \<leftarrow> rd_slice buf 12 (length buf);
             let trimmed = until_nul raw;
             Some (if trimmed = [] then None else from_utf8 trimmed)
           } else Some None);
        Some (Some \<lparr>mm_subtype = subtype, mm_ssrc = ssrc, mm_data = data\<rparr>)
     }}})"

function mbcp_compound_loop :: "bytes \<Rightarrow> nat \<Rightarrow> mbcp_message list \<Rightarrow> mbcp_message list option" where
  "mbcp_compound_loop buf off results =
     (if off + 4 \<le> length buf then do {
        pt \<leftarrow> rd buf (off + 1);
        length_words \<leftarrow> rd16 buf (off + 2);
        let pkt_len = (unat length_words + 1) * 4;
        if pkt_len = 0 \<or> length buf < off + pkt_len then Some results
        else do {
          results \<leftarrow> (if pt = RTCP_PT_APP then do {
              p \<leftarrow> rd_slice buf off (off + pkt_len);
              m \<leftarrow> mbcp_parse p;
              Some (case m of Some msg \<Rightarrow> results @ [msg] | None \<Rightarrow> results)
            } else Some results);
          mbcp_compound_loop buf (off + pkt_len) results
        }
      } else Some results)"
  by auto
termination by (relation "measure (\<lambda>(buf, off, _). length buf - off)") auto

declare mbcp_compound_loop.simps [simp del]

definition parse_compound :: "bytes \<Rightarrow> mbcp_message list option" where
  "parse_compound buf = mbcp_compound_loop buf 0 []"

definition build_freq :: "u32 \<Rightarrow> bytes option" where
  "build_freq ssrc = mbcp_build SUBTYPE_FREQ ssrc None"

definition build_frel :: "u32 \<Rightarrow> bytes option" where
  "build_frel ssrc = mbcp_build SUBTYPE_FREL ssrc None"

definition build_fpng :: "u32 \<Rightarrow> bytes option" where
  "build_fpng ssrc = mbcp_build SUBTYPE_FPNG ssrc None"

section \<open>The native TLV form\<close>

definition MSG_FLOOR_REQUEST :: u8 where [simp]: "MSG_FLOOR_REQUEST = 0"
definition MSG_FLOOR_RELEASE :: u8 where [simp]: "MSG_FLOOR_RELEASE = 3"
definition NATIVE_FIELD_PRIORITY :: u8 where [simp]: "NATIVE_FIELD_PRIORITY = 0"
definition NATIVE_FIELD_DESTINATIONS :: u8 where [simp]: "NATIVE_FIELD_DESTINATIONS = 0x18"
definition NATIVE_ACK_REQ :: u8 where [simp]: "NATIVE_ACK_REQ = 0x10"

definition build_native_freq :: "u8 \<Rightarrow> string \<Rightarrow> bytes" where
  "build_native_freq priority room_id = (
     let rb = as_bytes room_id;
         dest = [1, of_nat (length rb)] @ rb;
         out = [NATIVE_ACK_REQ OR MSG_FLOOR_REQUEST, 2];
         out = out @ [NATIVE_FIELD_PRIORITY, 1, priority];
         out = out @ [NATIVE_FIELD_DESTINATIONS];
         out = out @ [of_nat (length dest)]
     in out @ dest)"

definition build_native_frel :: bytes where
  "build_native_frel = [MSG_FLOOR_RELEASE, 0]"

section \<open>What the builder writes\<close>

definition mbcp_data_bytes :: "string option \<Rightarrow> bytes" where
  "mbcp_data_bytes data = (case data of Some s \<Rightarrow> as_bytes s | None \<Rightarrow> [])"

definition mbcp_wire :: "u8 \<Rightarrow> u32 \<Rightarrow> string option \<Rightarrow> bytes" where
  "mbcp_wire subtype ssrc data = (
     let d = mbcp_data_bytes data; n = padded_len (length d)
     in [0x80 OR (subtype AND 0x1F), 204] @ be16 (of_nat ((12 + n) div 4 - 1)) @ be32 ssrc
        @ APP_NAME @ d @ replicate (n - length d) 0)"

lemma padded_len_bounds: "n \<le> padded_len n" "padded_len n < n + 4" "4 dvd padded_len n"
proof -
  show "n \<le> padded_len n" "padded_len n < n + 4"
    unfolding padded_len_def using mod_less_divisor [of 4 "n + 3"] by linarith+
  show "4 dvd padded_len n" unfolding padded_len_def by (simp add: dvd_minus_mod)
qed

lemma length_mbcp_wire: "length (mbcp_wire st ssrc data) = 12 + padded_len (length (mbcp_data_bytes data))"
  using padded_len_bounds(1) [of "length (mbcp_data_bytes data)"]
  by (simp add: mbcp_wire_def Let_def)

lemma numeral_replicate:
  "replicate (12 + n) x = x # x # x # x # x # x # x # x # x # x # x # x # replicate n x"
  by (simp add: numeral_eq_Suc)

lemma mbcp_build_wire [panic_free]: "mbcp_build st ssrc data = Some (mbcp_wire st ssrc data)"
proof -
  let ?d = "mbcp_data_bytes data"
  have "length ?d \<le> padded_len (length ?d)" by (rule padded_len_bounds)
  then show ?thesis
    unfolding mbcp_build_def mbcp_wire_def mbcp_data_bytes_def [symmetric] Let_def
    by (auto simp: numeral_replicate be16_def be32_def wr_def wr_slice_def drop_Cons')
qed

lemma framed_mbcp_wire:
  assumes "length (mbcp_data_bytes data) \<le> 4 * 65533"
  shows "framed (mbcp_wire st ssrc data)"
proof -
  let ?n = "padded_len (length (mbcp_data_bytes data))"
  let ?k = "?n div 4"
  have n: "?n = 4 * ?k" using padded_len_bounds(3) by simp
  then have "?k \<le> 65533" using padded_len_bounds(2) [of "length (mbcp_data_bytes data)"] assms
    by linarith
  moreover have "(12 + ?n) div 4 - 1 = ?k + 2" using n by linarith
  ultimately have "(12 + ?n) div 4 - 1 < 2 ^ LENGTH(16)" "(12 + ?n) div 4 - 1 = ?k + 2" by simp_all
  then have "unat (of_nat ((12 + ?n) div 4 - 1) :: u16) = ?k + 2"
    using unat_of_nat_eq by metis
  then have "frame_len (mbcp_wire st ssrc data) = (?k + 3) * 4"
    by (simp add: mbcp_wire_def Let_def frame_len_header del: One_nat_def)
  then show ?thesis using n by (simp add: framed_def length_mbcp_wire)
qed

section \<open>Parsing\<close>

text \<open>The text a message can carry: what comes before the first NUL, absent when that is
  empty.\<close>

definition mbcp_text :: "string option \<Rightarrow> string option" where
  "mbcp_text data = (case data of None \<Rightarrow> None | Some s \<Rightarrow>
     let t = takeWhile (\<lambda>c. c \<noteq> CHR 0x00) s in if t = [] then None else Some t)"

text \<open>What \<open>mbcp_parse\<close> accepts, and the message it reads, by position.\<close>

definition mbcp_read :: "bytes \<Rightarrow> mbcp_message option" where
  "mbcp_read buf =
     (if 12 \<le> length buf \<and> buf ! 1 = 204 \<and> take 4 (drop 8 buf) = APP_NAME
      then Some \<lparr>mm_subtype = buf ! 0 AND 0x1F,
        mm_ssrc = from_be32 (buf ! 4) (buf ! 5) (buf ! 6) (buf ! 7),
        mm_data = (let t = until_nul (drop 12 buf) in if t = [] then None else from_utf8 t)\<rparr>
      else None)"

lemma mbcp_parse_read [panic_free]: "mbcp_parse buf = Some (mbcp_read buf)"
proof (cases "length buf < 12")
  case False
  then have "buf \<noteq> []" by auto
  with False show ?thesis
    by (auto simp: mbcp_parse_def mbcp_read_def until_nul_def Let_def)
qed (simp add: mbcp_parse_def mbcp_read_def)

lemma mask_or_0x80: "((0x80 :: u8) OR (st AND 0x1F)) AND 0x1F = st AND 0x1F"
  by (simp add: bit.conj_disj_distrib2 and.assoc)

lemma until_nul_pad: "until_nul (d @ replicate n 0) = until_nul d"
  unfolding until_nul_def by (induction d) simp_all

lemma until_nul_as_bytes: "until_nul (as_bytes s) = as_bytes (takeWhile (\<lambda>c. c \<noteq> CHR 0x00) s)"
  by (simp add: until_nul_def as_bytes_def takeWhile_map o_def)

lemma mbcp_read_wire:
  "mbcp_read (mbcp_wire st ssrc data) = Some \<lparr>mm_subtype = st AND 0x1F, mm_ssrc = ssrc,
     mm_data = (let t = until_nul (mbcp_data_bytes data) in if t = [] then None else from_utf8 t)\<rparr>"
  using length_mbcp_wire [of st ssrc data]
  by (auto simp: mbcp_read_def mbcp_wire_def Let_def be16_def be32_def until_nul_pad mask_or_0x80
      byte_simps)

section \<open>The scan and the codec as instances of the framing contracts\<close>

definition mbcp_collect :: "bytes \<Rightarrow> mbcp_message list \<Rightarrow> mbcp_message list" where
  "mbcp_collect p ms = (case mbcp_read p of Some m \<Rightarrow> ms @ [m] | None \<Rightarrow> ms)"

lemma mbcp_collect_fold: "fold mbcp_collect ps ms = ms @ List.map_filter mbcp_read ps"
  by (induction ps arbitrary: ms) (simp_all add: mbcp_collect_def map_filter_simps split: option.split)

interpretation mbcp_scan: rtcp_loop mbcp_compound_loop mbcp_collect
proof
  fix buf :: bytes and off s
  show "length buf < off + 4 \<Longrightarrow> mbcp_compound_loop buf off s = Some s"
    by (subst mbcp_compound_loop.simps) simp
  assume 4: "off + 4 \<le> length buf"
  then have len: "(unat (from_be16 (buf ! (off + 2)) (buf ! Suc (off + 2))) + 1) * 4
      = frame_len (drop off buf)" by (simp add: frame_len_def numeral_3_eq_3)
  show "length buf < off + frame_len (drop off buf) \<Longrightarrow> mbcp_compound_loop buf off s = Some s"
    using 4 len by (subst mbcp_compound_loop.simps) (simp add: Let_def)
  let ?p = "take (frame_len (drop off buf)) (drop off buf)"
  have pt: "?p ! 1 = buf ! (off + 1)"
    using 4 frame_len_ge4 [of "drop off buf"] by simp
  then have "mbcp_read ?p = None" if "buf ! (off + 1) \<noteq> 204"
    using that by (simp add: mbcp_read_def)
  then show "off + frame_len (drop off buf) \<le> length buf \<Longrightarrow>
      mbcp_compound_loop buf off s
      = mbcp_compound_loop buf (off + frame_len (drop off buf)) (mbcp_collect ?p s)"
    using 4 len frame_len_pos [of "drop off buf"]
    by (subst mbcp_compound_loop.simps) (auto simp: Let_def mbcp_parse_read mbcp_collect_def)
qed

definition mbcp_enc :: "mbcp_message \<Rightarrow> bytes" where
  "mbcp_enc m = mbcp_wire (mm_subtype m) (mm_ssrc m) (mm_data m)"

definition mbcp_norm :: "mbcp_message \<Rightarrow> mbcp_message" where
  "mbcp_norm m = \<lparr>mm_subtype = mm_subtype m AND 0x1F, mm_ssrc = mm_ssrc m,
     mm_data = mbcp_text (mm_data m)\<rparr>"

text \<open>The data of a message is a \<open>str\<close>.\<close>

definition is_str :: "string option \<Rightarrow> bool" where
  "is_str data \<longleftrightarrow> (case data of None \<Rightarrow> True | Some s \<Rightarrow> utf8_ok (as_bytes s))"

definition mbcp_sendable :: "mbcp_message \<Rightarrow> bool" where
  "mbcp_sendable m \<longleftrightarrow> is_str (mm_data m) \<and> length (mbcp_data_bytes (mm_data m)) \<le> 4 * 65533"

lemma mbcp_text_bytes:
  assumes "is_str data"
  shows "(let t = until_nul (mbcp_data_bytes data) in if t = [] then None else from_utf8 t)
    = mbcp_text data"
proof (cases data)
  case None
  then show ?thesis by (simp add: mbcp_text_def mbcp_data_bytes_def until_nul_def)
next
  case (Some s)
  then have "utf8_ok (until_nul (as_bytes s))"
    using assms utf8_ok_until_nul by (simp add: is_str_def until_nul_def)
  then show ?thesis using Some
    by (simp add: mbcp_text_def mbcp_data_bytes_def until_nul_as_bytes from_utf8_def)
qed

lemma mbcp_read_enc: "is_str (mm_data m) \<Longrightarrow> mbcp_read (mbcp_enc m) = Some (mbcp_norm m)"
  by (simp add: mbcp_enc_def mbcp_read_wire mbcp_text_bytes mbcp_norm_def)

interpretation mbcp_codec: frame_codec mbcp_enc mbcp_read mbcp_norm mbcp_sendable
  by unfold_locales
    (simp_all add: mbcp_sendable_def mbcp_read_enc, simp add: framed_mbcp_wire mbcp_enc_def)

section \<open>Properties\<close>

lemmas mbcp_panic_free = mbcp_build_wire mbcp_parse_read mbcp_scan.loop_frames

text \<open>Parsing what \<open>build\<close> wrote gives the message back: the subtype (its five low
  bits), the SSRC, and the text up to its first NUL, for every text; neither panics.\<close>

theorem mbcp_roundtrip:
  assumes "is_str data"
  shows "(do { pkt \<leftarrow> mbcp_build subtype ssrc data; mbcp_parse pkt })
    = Some (Some \<lparr>mm_subtype = subtype AND 0x1F, mm_ssrc = ssrc, mm_data = mbcp_text data\<rparr>)"
  using assms by (simp add: mbcp_panic_free mbcp_read_wire mbcp_text_bytes)

theorem mbcp_roundtrip_witness:
  "(do { pkt \<leftarrow> mbcp_build 2 0 (Some ''user_42''); mbcp_parse pkt })
    = Some (Some \<lparr>mm_subtype = 2, mm_ssrc = 0, mm_data = Some ''user_42''\<rparr>)"
proof -
  have "is_str (Some ''user_42'')" by code_simp
  from mbcp_roundtrip [OF this, of 2 0] show ?thesis by (simp add: mbcp_text_def)
qed

text \<open>C38: the scan of a compound packet returns for every buffer (no index out of range, no
  endless loop) and gives exactly the MBCP messages of the packets the buffer is made of, in
  order.\<close>

theorem parse_compound_frames:
  "parse_compound buf = Some (List.map_filter mbcp_read (rtcp_frames buf))"
  by (simp add: parse_compound_def mbcp_scan.loop_frames mbcp_collect_fold)

text \<open>C39: messages built one by one and sent back to back in one compound packet are all
  recovered, in order, from the compound.\<close>

theorem mbcp_compound_roundtrip:
  assumes "\<forall>m \<in> set ms. mbcp_sendable m"
  shows "(do {
      pkts \<leftarrow> those (map (\<lambda>m. mbcp_build (mm_subtype m) (mm_ssrc m) (mm_data m)) ms);
      parse_compound (concat pkts) }) = Some (map mbcp_norm ms)"
proof -
  have "those (map (\<lambda>m. mbcp_build (mm_subtype m) (mm_ssrc m) (mm_data m)) ms) = Some (map mbcp_enc ms)"
    by (induction ms) (simp_all add: mbcp_build_wire mbcp_enc_def)
  then show ?thesis
    using mbcp_codec.decode_compound [OF assms]
    by (simp add: parse_compound_def mbcp_scan.loop_frames mbcp_collect_fold)
qed

theorem mbcp_compound_roundtrip_witness:
  "(do {
      a \<leftarrow> build_freq 0x11; b \<leftarrow> build_frel 0x22;
      parse_compound (a @ b) })
   = Some [\<lparr>mm_subtype = 0, mm_ssrc = 0x11, mm_data = None\<rparr>,
           \<lparr>mm_subtype = 1, mm_ssrc = 0x22, mm_data = None\<rparr>]"
  using mbcp_compound_roundtrip
    [of "[\<lparr>mm_subtype = 0, mm_ssrc = 0x11, mm_data = None\<rparr>,
          \<lparr>mm_subtype = 1, mm_ssrc = 0x22, mm_data = None\<rparr>]"]
  by (simp add: mbcp_sendable_def is_str_def mbcp_data_bytes_def mbcp_norm_def mbcp_text_def
      build_freq_def build_frel_def mbcp_build_wire)

end
