(* ===== verification/Rtp.thy ===== *)
theory Rtp
  imports Prelude
begin

text \<open>
  The RTP packets the bots exchange: the generator \<open>rtp_publisher.rs\<close> (Opus silence and
  minimal VP8, each with a MID header extension), the header reader \<open>parse_rtp_mini\<close> of
  \<open>rtp_subscriber.rs\<close>, and the keyframe test and the hash of \<open>rtcp_parser.rs\<close>.
  The locale \<open>rtp_source\<close> is what a subscriber relies on in a generator; it is
  interpreted on both builders.
\<close>

section \<open>Reading a packet\<close>

record rtp_mini =
  rm_pt :: u8
  rm_seq :: u16
  rm_ts :: u32
  rm_ssrc :: u32
  rm_marker :: bool

definition parse_rtp_mini :: "bytes \<Rightarrow> rtp_mini option option" where
  "parse_rtp_mini pkt =
     (if length pkt < 12 then Some None else do {
        b1 \<leftarrow> rd pkt 1;
        let marker = (b1 AND 0x80 \<noteq> 0);
        let pt = b1 AND 0x7F;
        seq \<leftarrow> rd16 pkt 2;
        ts \<leftarrow> rd32 pkt 4;
        ssrc \<leftarrow> rd32 pkt 8;
        Some (Some \<lparr>rm_pt = pt, rm_seq = seq, rm_ts = ts, rm_ssrc = ssrc, rm_marker = marker\<rparr>)
      })"

definition detect_vp8_keyframe :: "bytes \<Rightarrow> bool option" where
  "detect_vp8_keyframe rtp_pkt =
     (if length rtp_pkt < 14 then Some False else do {
        b0 \<leftarrow> rd rtp_pkt 0;
        let cc = unat (b0 AND 0x0F);
        let has_ext = (b0 AND 0x10 \<noteq> 0);
        let off = 12 + cc * 4;
        if has_ext \<and> length rtp_pkt < off + 4 then Some False else do {
        off \<leftarrow> (if has_ext then do {
            ext_len \<leftarrow> rd16 rtp_pkt (off + 2);
            Some (off + (4 + unat ext_len * 4))
          } else Some off);
        if length rtp_pkt \<le> off + 1 then Some False else do {
        pd \<leftarrow> rd rtp_pkt off;
        let s_bit = (pd AND 0x10 \<noteq> 0);
        if \<not> s_bit then Some False else
        if length rtp_pkt \<le> off + 1 then Some False else do {
        ph \<leftarrow> rd rtp_pkt (off + 1);
        Some (ph AND 0x01 = 0)
      }}}})"

definition simple_hash :: "string \<Rightarrow> u32" where
  "simple_hash s = fold (\<lambda>b hash. hash * 33 + ucast b) (as_bytes s) 5381"

text \<open>Neither reader panics.\<close>

lemma parse_rtp_mini_read [panic_free]:
  "parse_rtp_mini pkt = Some (if length pkt < 12 then None else
     Some \<lparr>rm_pt = pkt ! 1 AND 0x7F, rm_seq = from_be16 (pkt ! 2) (pkt ! 3),
       rm_ts = from_be32 (pkt ! 4) (pkt ! 5) (pkt ! 6) (pkt ! 7),
       rm_ssrc = from_be32 (pkt ! 8) (pkt ! 9) (pkt ! 10) (pkt ! 11),
       rm_marker = (pkt ! 1 AND 0x80 \<noteq> 0)\<rparr>)"
  by (simp add: parse_rtp_mini_def Let_def)

lemma detect_vp8_keyframe_returns [panic_free]: "detect_vp8_keyframe pkt \<noteq> None"
proof (cases "length pkt < 14")
  case False
  then have "pkt \<noteq> []" by auto
  with False show ?thesis by (auto simp: detect_vp8_keyframe_def Let_def)
qed (simp add: detect_vp8_keyframe_def)

section \<open>The generator\<close>

definition OPUS_PT :: u8 where [simp]: "OPUS_PT = 111"
definition OPUS_SAMPLES_PER_FRAME :: u32 where [simp]: "OPUS_SAMPLES_PER_FRAME = 960"
definition OPUS_SILENCE :: bytes where [simp]: "OPUS_SILENCE = [0xF8, 0xFF, 0xFE]"
definition VP8_DEFAULT_PT :: u8 where [simp]: "VP8_DEFAULT_PT = 96"
definition VP8_TICKS_PER_FRAME :: u32 where [simp]: "VP8_TICKS_PER_FRAME = 3000"
definition VP8_KEYFRAME_INTERVAL :: u32 where [simp]: "VP8_KEYFRAME_INTERVAL = 60"
definition VP8_KEYFRAME_SIZE :: nat where [simp]: "VP8_KEYFRAME_SIZE = 800"
definition VP8_PFRAME_SIZE :: nat where [simp]: "VP8_PFRAME_SIZE = 200"
definition ONE_BYTE_HEADER_PROFILE :: u16 where [simp]: "ONE_BYTE_HEADER_PROFILE = 0xBEDE"

record rtp_config =
  audio_ssrc :: u32
  video_ssrc :: u32
  video_pt :: u8
  mid_extmap_id :: u8
  audio_mid :: string
  video_mid :: string

definition rtp_config_default :: rtp_config where
  "rtp_config_default = \<lparr>audio_ssrc = 0xA0000001, video_ssrc = 0xB0000001,
     video_pt = VP8_DEFAULT_PT, mid_extmap_id = 1, audio_mid = ''0'', video_mid = ''1''\<rparr>"

text \<open>\<open>force_keyframe\<close> is shared with the RTCP reader, which sets it between two
  packets.\<close>

record rtp_pub =
  config :: rtp_config
  audio_seq :: u16
  video_seq :: u16
  audio_ts :: u32
  video_ts :: u32
  video_frame_count :: u32
  force_keyframe :: bool

definition rtp_pub_new_with_keyframe_flag :: "rtp_config \<Rightarrow> bool \<Rightarrow> rtp_pub" where
  "rtp_pub_new_with_keyframe_flag cfg flag = \<lparr>config = cfg, audio_seq = 0, video_seq = 0,
     audio_ts = 0, video_ts = 0, video_frame_count = 0, force_keyframe = flag\<rparr>"

definition rtp_pub_new :: "rtp_config \<Rightarrow> rtp_pub" where
  "rtp_pub_new cfg = \<lparr>config = cfg, audio_seq = 0, video_seq = 0,
     audio_ts = 0, video_ts = 0, video_frame_count = 0, force_keyframe = False\<rparr>"

definition mid_extension_words :: "string \<Rightarrow> nat" where
  "mid_extension_words mid = (let element_len = 1 + length mid in (element_len + 3) div 4)"

text \<open>\<open>data_len - 1\<close> is a \<open>usize\<close> subtraction cut to a byte: for an empty
  MID it wraps, which the byte subtraction does as well.\<close>

definition write_mid_extension :: "bytes \<Rightarrow> nat \<Rightarrow> u8 \<Rightarrow> string \<Rightarrow> bytes option" where
  "write_mid_extension pkt off extmap_id mid = (
     let ext_words = mid_extension_words mid in do {
       pkt \<leftarrow> wr pkt off (ucast (drop_bit 8 ONE_BYTE_HEADER_PROFILE));
       pkt \<leftarrow> wr pkt (off + 1) (ucast ONE_BYTE_HEADER_PROFILE);
       pkt \<leftarrow> wr pkt (off + 2) (of_nat (drop_bit 8 ext_words));
       pkt \<leftarrow> wr pkt (off + 3) (of_nat ext_words);
       let data_offset = off + 4;
       let data_len = length mid;
       pkt \<leftarrow> wr pkt data_offset (push_bit 4 extmap_id OR ((of_nat data_len - 1) AND 0x0F));
       wr_slice pkt (data_offset + 1) (as_bytes mid)
     })"

definition build_opus_packet :: "rtp_pub \<Rightarrow> (bytes \<times> rtp_pub) option" where
  "build_opus_packet st = (
     let mid = audio_mid (config st);
         ext_size = mid_extension_words mid;
         header_len = 12 + 4 + ext_size * 4;
         total = header_len + length OPUS_SILENCE;
         pkt = replicate total 0
     in do {
       pkt \<leftarrow> wr pkt 0 0x90;
       pkt \<leftarrow> wr pkt 1 OPUS_PT;
       pkt \<leftarrow> wr_slice pkt 2 (be16 (audio_seq st));
       pkt \<leftarrow> wr_slice pkt 4 (be32 (audio_ts st));
       pkt \<leftarrow> wr_slice pkt 8 (be32 (audio_ssrc (config st)));
       pkt \<leftarrow> write_mid_extension pkt 12 (mid_extmap_id (config st)) mid;
       pkt \<leftarrow> wr_slice pkt header_len OPUS_SILENCE;
       let st = st\<lparr>audio_seq := audio_seq st + 1\<rparr>;
       let st = st\<lparr>audio_ts := audio_ts st + OPUS_SAMPLES_PER_FRAME\<rparr>;
       Some (pkt, st)
     })"

definition build_vp8_packet :: "rtp_pub \<Rightarrow> (bytes \<times> rtp_pub) option" where
  "build_vp8_packet st = (
     let forced = force_keyframe st;
         st = st\<lparr>force_keyframe := False\<rparr>;
         is_keyframe = (forced \<or> video_frame_count st mod VP8_KEYFRAME_INTERVAL = 0);
         payload_size = (if is_keyframe then VP8_KEYFRAME_SIZE else VP8_PFRAME_SIZE);
         mid = video_mid (config st);
         ext_size = mid_extension_words mid;
         header_len = 12 + 4 + ext_size * 4;
         total = header_len + 1 + payload_size;
         pkt = replicate total 0
     in do {
       pkt \<leftarrow> wr pkt 0 0x90;
       pkt \<leftarrow> wr pkt 1 (video_pt (config st));
       pkt \<leftarrow> (if is_keyframe then do { b \<leftarrow> rd pkt 1; wr pkt 1 (b OR 0x80) } else Some pkt);
       pkt \<leftarrow> wr_slice pkt 2 (be16 (video_seq st));
       pkt \<leftarrow> wr_slice pkt 4 (be32 (video_ts st));
       pkt \<leftarrow> wr_slice pkt 8 (be32 (video_ssrc (config st)));
       pkt \<leftarrow> write_mid_extension pkt 12 (mid_extmap_id (config st)) mid;
       let pd_offset = header_len;
       pkt \<leftarrow> wr pkt pd_offset 0x10;
       pkt \<leftarrow> (if 0 < payload_size then
           let data_offset = pd_offset + 1
           in if is_keyframe then wr pkt data_offset 0x10 else wr pkt data_offset 0x11
         else Some pkt);
       let st = st\<lparr>video_seq := video_seq st + 1\<rparr>;
       let st = st\<lparr>video_ts := video_ts st + VP8_TICKS_PER_FRAME\<rparr>;
       let st = st\<lparr>video_frame_count := video_frame_count st + 1\<rparr>;
       Some (pkt, st)
     })"

section \<open>What the generator writes\<close>

definition rtp_header :: "u8 \<Rightarrow> u16 \<Rightarrow> u32 \<Rightarrow> u32 \<Rightarrow> bytes" where
  "rtp_header b1 seq ts ssrc = [0x90, b1] @ be16 seq @ be32 ts @ be32 ssrc"

definition mid_element :: "u8 \<Rightarrow> string \<Rightarrow> bytes" where
  "mid_element extmap_id mid =
     [push_bit 4 extmap_id OR ((of_nat (length mid) - 1) AND 0x0F)] @ as_bytes mid"

definition mid_extension :: "u8 \<Rightarrow> string \<Rightarrow> bytes" where
  "mid_extension extmap_id mid = (let w = mid_extension_words mid in
     [0xBE, 0xDE, of_nat (drop_bit 8 w), of_nat w] @ mid_element extmap_id mid
     @ replicate (w * 4 - (1 + length mid)) 0)"

lemma length_rtp_header [simp]: "length (rtp_header b1 seq ts ssrc) = 12"
  by (simp add: rtp_header_def)

lemma mid_words_enough: "1 + length mid \<le> mid_extension_words mid * 4"
  unfolding mid_extension_words_def Let_def by presburger

lemma length_mid_extension [simp]:
  "length (mid_extension i mid) = 4 + mid_extension_words mid * 4"
  using mid_words_enough [of mid] by (simp add: mid_extension_def mid_element_def Let_def)

lemma wr_ext:
  "length h = i \<Longrightarrow> wr (h @ x # r) i v = Some (h @ v # r)"
  "length h = i \<Longrightarrow> wr (h @ a # x # r) (i + 1) v = Some (h @ a # v # r)"
  "length h = i \<Longrightarrow> wr (h @ a # b # x # r) (i + 2) v = Some (h @ a # b # v # r)"
  "length h = i \<Longrightarrow> wr (h @ a # b # c # x # r) (i + 3) v = Some (h @ a # b # c # v # r)"
  "length h = i \<Longrightarrow> wr (h @ a # b # c # d # x # r) (i + 4) v = Some (h @ a # b # c # d # v # r)"
  "length h = i \<Longrightarrow> length z = length w \<Longrightarrow>
     wr_slice (h @ a # b # c # d # e # z @ r) (i + 4 + 1) w = Some (h @ a # b # c # d # e # w @ r)"
  by (auto simp: wr_def wr_slice_def list_update_append numeral_eq_Suc)

lemma write_mid_extension_wire:
  assumes "length h = off"
  shows "write_mid_extension (h @ replicate (4 + mid_extension_words mid * 4 + k) 0) off i mid
    = Some (h @ mid_extension i mid @ replicate k 0)"
proof -
  let ?w = "mid_extension_words mid"
  obtain r where r: "?w * 4 = 1 + length mid + r"
    using mid_words_enough [of mid] le_Suc_ex by blast
  then have "4 + ?w * 4 + k = Suc (Suc (Suc (Suc (Suc (length mid + (r + k))))))" by linarith
  then have z: "replicate (4 + ?w * 4 + k) 0
      = 0 # 0 # 0 # 0 # 0 # replicate (length (as_bytes mid)) 0 @ replicate (r + k) (0 :: u8)"
    by (simp only: replicate.simps replicate_add length_as_bytes)
  have "mid_extension i mid @ replicate k 0
      = 0xBE # 0xDE # of_nat (drop_bit 8 ?w) # of_nat ?w
        # (push_bit 4 i OR ((of_nat (length mid) - 1) AND 0x0F)) # as_bytes mid @ replicate (r + k) 0"
    using r by (simp add: mid_extension_def mid_element_def Let_def replicate_add)
  then show ?thesis
    unfolding write_mid_extension_def Let_def z
    by (simp only: wr_ext [OF assms] length_replicate bind.bind_lunit) simp
qed

definition opus_wire :: "rtp_pub \<Rightarrow> bytes" where
  "opus_wire st = rtp_header OPUS_PT (audio_seq st) (audio_ts st) (audio_ssrc (config st))
     @ mid_extension (mid_extmap_id (config st)) (audio_mid (config st)) @ OPUS_SILENCE"

definition opus_next :: "rtp_pub \<Rightarrow> rtp_pub" where
  "opus_next st = st\<lparr>audio_seq := audio_seq st + 1, audio_ts := audio_ts st + 960\<rparr>"

definition vp8_is_keyframe :: "rtp_pub \<Rightarrow> bool" where
  "vp8_is_keyframe st \<longleftrightarrow> force_keyframe st \<or> video_frame_count st mod 60 = 0"

definition vp8_wire :: "rtp_pub \<Rightarrow> bytes" where
  "vp8_wire st = (let key = vp8_is_keyframe st; c = config st in
     rtp_header (if key then video_pt c OR 0x80 else video_pt c) (video_seq st) (video_ts st) (video_ssrc c)
     @ mid_extension (mid_extmap_id c) (video_mid c)
     @ [0x10, if key then 0x10 else 0x11] @ replicate (if key then 799 else 199) 0)"

definition vp8_next :: "rtp_pub \<Rightarrow> rtp_pub" where
  "vp8_next st = st\<lparr>force_keyframe := False, video_seq := video_seq st + 1,
     video_ts := video_ts st + 3000, video_frame_count := video_frame_count st + 1\<rparr>"

lemma replicate_12: "replicate (12 + n) x = replicate 12 x @ replicate n x"
  by (rule replicate_add)

lemma replicate_12_list: "replicate 12 x = [x, x, x, x, x, x, x, x, x, x, x, x]"
  by (simp add: numeral_eq_Suc)

lemma header_write:
  "(do {
       pkt \<leftarrow> wr (replicate 12 0 @ r) 0 0x90;
       pkt \<leftarrow> wr pkt 1 b1;
       pkt \<leftarrow> wr_slice pkt 2 (be16 seq);
       pkt \<leftarrow> wr_slice pkt 4 (be32 ts);
       pkt \<leftarrow> wr_slice pkt 8 (be32 ssrc);
       f pkt }) = f (rtp_header b1 seq ts ssrc @ r)"
  by (simp add: replicate_12_list rtp_header_def be16_def be32_def wr_def wr_slice_def)

lemma build_opus_wire [panic_free]: "build_opus_packet st = Some (opus_wire st, opus_next st)"
proof -
  let ?mid = "audio_mid (config st)" and ?w = "mid_extension_words (audio_mid (config st))"
  let ?h = "rtp_header OPUS_PT (audio_seq st) (audio_ts st) (audio_ssrc (config st))"
    and ?e = "mid_extension (mid_extmap_id (config st)) ?mid"
  have total: "12 + 4 + ?w * 4 + length OPUS_SILENCE = 12 + (4 + ?w * 4 + 3)" by simp
  have mid: "write_mid_extension (?h @ replicate (4 + ?w * 4 + 3) 0) 12 (mid_extmap_id (config st)) ?mid
      = Some (?h @ ?e @ replicate 3 0)" by (rule write_mid_extension_wire) simp
  have "wr_slice ((?h @ ?e) @ replicate 3 0 @ []) (12 + 4 + ?w * 4) OPUS_SILENCE
      = Some ((?h @ ?e) @ OPUS_SILENCE @ [])"
    by (rule wr_slice_at) simp_all
  then show ?thesis
    unfolding build_opus_packet_def Let_def total replicate_12 header_write mid
    by (simp add: opus_wire_def opus_next_def)
qed

lemma vp8_header_write:
  "(do {
       pkt \<leftarrow> wr (replicate 12 0 @ r) 0 0x90;
       pkt \<leftarrow> wr pkt 1 b1;
       pkt \<leftarrow> (if key then do { b \<leftarrow> rd pkt 1; wr pkt 1 (b OR 0x80) } else Some pkt);
       pkt \<leftarrow> wr_slice pkt 2 (be16 seq);
       pkt \<leftarrow> wr_slice pkt 4 (be32 ts);
       pkt \<leftarrow> wr_slice pkt 8 (be32 ssrc);
       f pkt }) = f (rtp_header (if key then b1 OR 0x80 else b1) seq ts ssrc @ r)"
  by (simp add: replicate_12_list rtp_header_def be16_def be32_def wr_def wr_slice_def rd_def)

lemma build_vp8_wire [panic_free]: "build_vp8_packet st = Some (vp8_wire st, vp8_next st)"
proof -
  define key where "key = vp8_is_keyframe st"
  define n where "n = (if key then 799 else 199 :: nat)"
  let ?c = "config st"
  let ?mid = "video_mid ?c" and ?w = "mid_extension_words (video_mid ?c)"
  let ?h = "rtp_header (if key then video_pt ?c OR 0x80 else video_pt ?c) (video_seq st) (video_ts st)
      (video_ssrc ?c)"
    and ?e = "mid_extension (mid_extmap_id ?c) ?mid"
  have sel: "config (st\<lparr>force_keyframe := False\<rparr>) = ?c"
      "video_frame_count (st\<lparr>force_keyframe := False\<rparr>) = video_frame_count st"
      "video_seq (st\<lparr>force_keyframe := False\<rparr>) = video_seq st"
      "video_ts (st\<lparr>force_keyframe := False\<rparr>) = video_ts st" by simp_all
  have key: "(force_keyframe st \<or> video_frame_count st mod VP8_KEYFRAME_INTERVAL = 0) = key"
    by (simp add: key_def vp8_is_keyframe_def)
  have size: "(if key then VP8_KEYFRAME_SIZE else VP8_PFRAME_SIZE) = Suc n" by (simp add: n_def)
  have total: "12 + 4 + ?w * 4 + 1 + Suc n = 12 + (4 + ?w * 4 + (Suc (Suc n)))" by simp
  have mid: "write_mid_extension (?h @ replicate (4 + ?w * 4 + Suc (Suc n)) 0) 12 (mid_extmap_id ?c) ?mid
      = Some (?h @ ?e @ replicate (Suc (Suc n)) 0)" by (rule write_mid_extension_wire) simp
  have pd: "wr (?h @ ?e @ 0 # 0 # replicate n 0) (16 + ?w * 4) 0x10
      = Some (?h @ ?e @ 0x10 # 0 # replicate n 0)"
    using wr_ext(1) [of "?h @ ?e" "16 + ?w * 4"] by simp
  have ph: "wr (?h @ ?e @ 0x10 # 0 # replicate n 0) (17 + ?w * 4) v
      = Some (?h @ ?e @ 0x10 # v # replicate n 0)" for v
    using wr_ext(2) [of "?h @ ?e" "16 + ?w * 4"] by simp
  have "vp8_wire st = ?h @ ?e @ 0x10 # (if key then 0x10 else 0x11) # replicate n 0"
    by (simp add: vp8_wire_def key_def n_def Let_def)
  then show ?thesis
    unfolding build_vp8_packet_def Let_def sel key size total replicate_12 vp8_header_write mid
    using pd ph by (cases key) (simp_all add: vp8_next_def del: One_nat_def wr_Some)
qed

section \<open>Reading back what was written\<close>

lemma nth_rtp_header [simp]:
  "(rtp_header b1 s t u @ r) ! 0 = 0x90" "(rtp_header b1 s t u @ r) ! 1 = b1"
  "(rtp_header b1 s t u @ r) ! Suc 0 = b1"
  by (simp_all add: rtp_header_def)

lemma parse_rtp_header:
  "parse_rtp_mini (rtp_header b1 seq ts ssrc @ r) = Some (Some \<lparr>rm_pt = b1 AND 0x7F, rm_seq = seq,
     rm_ts = ts, rm_ssrc = ssrc, rm_marker = (b1 AND 0x80 \<noteq> 0)\<rparr>)"
  by (simp add: parse_rtp_mini_read rtp_header_def be16_def be32_def)

lemma detect_in_payload:
  assumes "mid_extension_words mid < 2 ^ 16" and "2 \<le> length p"
  shows "detect_vp8_keyframe (rtp_header b1 s t u @ mid_extension i mid @ p)
    = Some (p ! 0 AND 0x10 \<noteq> 0 \<and> p ! 1 AND 1 = 0)"
proof -
  let ?w = "mid_extension_words mid"
  let ?pkt = "rtp_header b1 s t u @ mid_extension i mid @ p"
  have len: "length ?pkt = 16 + ?w * 4 + length p" by simp
  have "from_be16 (of_nat (drop_bit 8 ?w)) (of_nat ?w) = (of_nat ?w :: u16)"
  proof -
    have "of_nat (drop_bit 8 ?w) = (ucast (drop_bit 8 (of_nat ?w :: u16)) :: u8)"
      by (rule bit_word_eqI) (auto simp: bit_simps)
    moreover have "of_nat ?w = (ucast (of_nat ?w :: u16) :: u8)"
      by (rule bit_word_eqI) (auto simp: bit_simps)
    ultimately show ?thesis by (metis from_be16_be16)
  qed
  then have "from_be16 (?pkt ! 14) (?pkt ! 15) = (of_nat ?w :: u16)"
    by (simp add: nth_append mid_extension_def Let_def)
  moreover have "unat (of_nat ?w :: u16) = ?w" using assms(1) by (intro unat_of_nat_eq) simp
  moreover have "rd ?pkt (16 + ?w * 4) = Some (p ! 0)"
    using assms(2) by (cases p) (simp_all add: rd_def nth_append)
  moreover have "rd ?pkt (16 + ?w * 4 + 1) = Some (p ! 1)"
    using assms(2) by (simp add: rd_def nth_append)
  moreover have "14 \<le> length ?pkt" "16 + ?w * 4 + 1 < length ?pkt" using len assms(2) by linarith+
  ultimately show ?thesis
    by (simp add: detect_vp8_keyframe_def Let_def)
qed

section \<open>The generator contract\<close>

text \<open>Calling a builder \<open>n\<close> times, as the send loops do.\<close>

fun build_many :: "('s \<Rightarrow> (bytes \<times> 's) option) \<Rightarrow> nat \<Rightarrow> 's \<Rightarrow> (bytes list \<times> 's) option" where
  "build_many build 0 s = Some ([], s)"
| "build_many build (Suc n) s = do {
     (pkt, s) \<leftarrow> build s;
     (pkts, s) \<leftarrow> build_many build n s;
     Some (pkt # pkts, s) }"

text \<open>Position \<open>i\<close> of a stream that starts at the header \<open>h\<close>.\<close>

definition in_stream :: "u32 \<Rightarrow> rtp_mini \<Rightarrow> nat \<Rightarrow> bytes \<Rightarrow> bool" where
  "in_stream tick h i pkt \<longleftrightarrow> (\<exists>m. parse_rtp_mini pkt = Some (Some m) \<and> rm_ssrc m = rm_ssrc h
     \<and> rm_pt m = rm_pt h \<and> rm_seq m = rm_seq h + of_nat i \<and> rm_ts m = rm_ts h + of_nat i * tick)"

text \<open>What a receiver relies on: a builder never panics, the packet carries the header
  \<open>hdr\<close> announces, and the next one continues the stream.\<close>

locale rtp_source =
  fixes build :: "'s \<Rightarrow> (bytes \<times> 's) option"
    and hdr :: "'s \<Rightarrow> rtp_mini"
    and tick :: u32
  assumes build_step: "\<exists>pkt s'. build s = Some (pkt, s')
      \<and> parse_rtp_mini pkt = Some (Some (hdr s))
      \<and> rm_ssrc (hdr s') = rm_ssrc (hdr s) \<and> rm_pt (hdr s') = rm_pt (hdr s)
      \<and> rm_seq (hdr s') = rm_seq (hdr s) + 1 \<and> rm_ts (hdr s') = rm_ts (hdr s) + tick"
begin

lemma build_many_stream:
  "\<exists>pkts s'. build_many build n s = Some (pkts, s') \<and> length pkts = n
     \<and> (\<forall>i < n. in_stream tick (hdr s) i (pkts ! i))"
proof (induction n arbitrary: s)
  case (Suc n)
  obtain pkt s1 where b: "build s = Some (pkt, s1)" "parse_rtp_mini pkt = Some (Some (hdr s))"
      "rm_ssrc (hdr s1) = rm_ssrc (hdr s)" "rm_pt (hdr s1) = rm_pt (hdr s)"
      "rm_seq (hdr s1) = rm_seq (hdr s) + 1" "rm_ts (hdr s1) = rm_ts (hdr s) + tick"
    using build_step by blast
  obtain pkts s2 where m: "build_many build n s1 = Some (pkts, s2)" "length pkts = n"
      "\<forall>i < n. in_stream tick (hdr s1) i (pkts ! i)" using Suc by blast
  have "in_stream tick (hdr s) i ((pkt # pkts) ! i)" if "i < Suc n" for i
    using that b m by (cases i) (auto simp: in_stream_def algebra_simps)
  then show ?case using b m by auto
qed simp

end

definition opus_hdr :: "rtp_pub \<Rightarrow> rtp_mini" where
  "opus_hdr st = \<lparr>rm_pt = 111, rm_seq = audio_seq st, rm_ts = audio_ts st,
     rm_ssrc = audio_ssrc (config st), rm_marker = False\<rparr>"

definition vp8_hdr :: "rtp_pub \<Rightarrow> rtp_mini" where
  "vp8_hdr st = \<lparr>rm_pt = video_pt (config st) AND 0x7F, rm_seq = video_seq st, rm_ts = video_ts st,
     rm_ssrc = video_ssrc (config st),
     rm_marker = (vp8_is_keyframe st \<or> video_pt (config st) AND 0x80 \<noteq> 0)\<rparr>"

lemma parse_opus: "parse_rtp_mini (opus_wire st) = Some (Some (opus_hdr st))"
  by (simp add: opus_wire_def parse_rtp_header opus_hdr_def)

lemma parse_vp8: "parse_rtp_mini (vp8_wire st) = Some (Some (vp8_hdr st))"
  by (auto simp: vp8_wire_def Let_def parse_rtp_header vp8_hdr_def bit.conj_disj_distrib2)

interpretation opus_source: rtp_source build_opus_packet opus_hdr 960
  by unfold_locales (auto simp: build_opus_wire parse_opus, auto simp: opus_hdr_def opus_next_def)

interpretation vp8_source: rtp_source build_vp8_packet vp8_hdr 3000
  by unfold_locales (auto simp: build_vp8_wire parse_vp8, auto simp: vp8_hdr_def vp8_next_def)

section \<open>Properties\<close>

text \<open>Any number of Opus packets are built without a panic, and the header reader sees one
  stream: payload type 111, the configured SSRC, sequence numbers that count up by one and
  timestamps that advance by 960, both from the state's and with wrap-around.\<close>

theorem opus_stream:
  "\<exists>pkts st'. build_many build_opus_packet n st = Some (pkts, st') \<and> length pkts = n
     \<and> (\<forall>i < n. in_stream OPUS_SAMPLES_PER_FRAME (opus_hdr st) i (pkts ! i))"
  using opus_source.build_many_stream by simp

theorem opus_stream_witness:
  "\<exists>pkts st'. build_many build_opus_packet 2 (rtp_pub_new rtp_config_default) = Some (pkts, st')
     \<and> in_stream 960 (opus_hdr (rtp_pub_new rtp_config_default)) 1 (pkts ! 1)"
proof -
  obtain pkts st' where "build_many build_opus_packet 2 (rtp_pub_new rtp_config_default) = Some (pkts, st')"
    "\<forall>i < 2. in_stream OPUS_SAMPLES_PER_FRAME (opus_hdr (rtp_pub_new rtp_config_default)) i (pkts ! i)"
    using opus_stream [of 2 "rtp_pub_new rtp_config_default"] by blast
  then show ?thesis by auto
qed

lemma vp8_many_count:
  "build_many build_vp8_packet n st = Some (pkts, st') \<Longrightarrow> i < n \<Longrightarrow> \<not> force_keyframe st \<Longrightarrow>
     \<exists>s. pkts ! i = vp8_wire s \<and> \<not> force_keyframe s \<and> config s = config st
       \<and> video_frame_count s = video_frame_count st + of_nat i"
proof (induction n arbitrary: st pkts i)
  case (Suc n)
  from Suc.prems(1) obtain ps where ps: "pkts = vp8_wire st # ps"
      "build_many build_vp8_packet n (vp8_next st) = Some (ps, st')"
    by (auto simp: build_vp8_wire [of st] split: bind_splits)
  show ?case
  proof (cases i)
    case 0
    then show ?thesis using Suc.prems ps by auto
  next
    case (Suc j)
    then show ?thesis using Suc.IH [OF ps(2), of j] Suc.prems ps
      by (auto simp: vp8_next_def algebra_simps)
  qed
qed simp

lemma detect_vp8_wire:
  "mid_extension_words (video_mid (config st)) < 2 ^ 16 \<Longrightarrow>
     detect_vp8_keyframe (vp8_wire st) = Some (vp8_is_keyframe st)"
  by (auto simp: vp8_wire_def Let_def detect_in_payload)

text \<open>What the receiver's keyframe test says of a VP8 packet is what the generator meant:
  it answers yes exactly when the packet was forced by a PLI or falls on the interval of 60
  frames; building it clears the force flag and never panics.\<close>

theorem vp8_keyframe_detected:
  assumes "mid_extension_words (video_mid (config st)) < 2 ^ 16"
  shows "\<exists>pkt st'. build_vp8_packet st = Some (pkt, st') \<and> \<not> force_keyframe st'
    \<and> detect_vp8_keyframe pkt
      = Some (force_keyframe st \<or> video_frame_count st mod VP8_KEYFRAME_INTERVAL = 0)"
  using assms by (auto simp: build_vp8_wire detect_vp8_wire vp8_next_def vp8_is_keyframe_def)

theorem vp8_keyframe_detected_witness:
  "\<exists>pkt st'. build_vp8_packet (rtp_pub_new rtp_config_default) = Some (pkt, st')
     \<and> detect_vp8_keyframe pkt = Some True"
  using vp8_keyframe_detected [of "rtp_pub_new rtp_config_default"]
  by (auto simp: rtp_pub_new_def rtp_config_default_def mid_extension_words_def)

text \<open>the keyframe cadence of an unforced stream: of the frames sent from a fresh state,
  exactly those whose index is a multiple of 60 are keyframes, for the receiver's test, as long
  as the frame counter has not wrapped.\<close>

theorem vp8_keyframe_cadence:
  assumes "mid_extension_words (video_mid cfg) < 2 ^ 16" and "n \<le> 2 ^ 32"
    and "build_many build_vp8_packet n (rtp_pub_new cfg) = Some (pkts, st')" and "i < n"
  shows "detect_vp8_keyframe (pkts ! i) = Some (i mod 60 = 0)"
proof -
  obtain s where s: "pkts ! i = vp8_wire s" "\<not> force_keyframe s" "config s = cfg"
      "video_frame_count s = of_nat i"
    using vp8_many_count [OF assms(3,4)] by (auto simp: rtp_pub_new_def)
  have "i < 2 ^ LENGTH(32)" using assms by simp
  then have "unat (of_nat i :: u32) = i" by (rule unat_of_nat_eq)
  then have "unat (video_frame_count s mod 60) = i mod 60"
    using s by (simp add: unat_mod_distrib)
  then have "(video_frame_count s mod 60 = 0) = (i mod 60 = 0)" by (metis unat_eq_0)
  then show ?thesis using s assms(1) by (simp add: detect_vp8_wire vp8_is_keyframe_def)
qed

theorem vp8_keyframe_cadence_witness:
  "\<exists>pkts st'. build_many build_vp8_packet 2 (rtp_pub_new rtp_config_default) = Some (pkts, st')
     \<and> detect_vp8_keyframe (pkts ! 1) = Some False"
proof -
  obtain pkts st' where b: "build_many build_vp8_packet 2 (rtp_pub_new rtp_config_default) = Some (pkts, st')"
    using vp8_source.build_many_stream [of 2 "rtp_pub_new rtp_config_default"] by blast
  have "detect_vp8_keyframe (pkts ! 1) = Some (1 mod 60 = (0 :: nat))"
    by (rule vp8_keyframe_cadence [OF _ _ b])
      (simp_all add: rtp_config_default_def mid_extension_words_def)
  with b show ?thesis by auto
qed

end
