(* ===== verification/Observations.thy ===== *)
theory Observations
  imports Frames
begin

text \<open>
  What a bot writes down while it runs: \<open>observations.rs\<close>, and the two RTCP readers of
  \<open>rtcp_parser.rs\<close> that feed it.  \<open>BotObservations\<close> is a mutex around
  \<open>ObservationsInner\<close>; each \<open>record_\<close> operation below is the body under the lock,
  which no operation can poison (none panics while it holds it).  A \<open>HashSet<u32>\<close> is a
  \<open>u32 set\<close>.  The counters are \<open>u64\<close> and wrap.
\<close>

section \<open>The record\<close>

record sr_record =
  sr_ssrc :: u32
  sr_ntp_sec :: u32
  sr_ntp_frac :: u32
  sr_rtp_ts :: u32
  sr_packet_count :: u32
  sr_octet_count :: u32

record floor_grant_record =
  fg_bot_id :: string
  fg_priority :: u8
  fg_granted :: bool
  fg_queued :: bool
  fg_timestamp_ms :: u64

record ts_gap_record =
  tg_ssrc :: u32
  tg_wall_gap_ms :: u64
  tg_rtp_ts_gap :: u32
  tg_sample_rate :: u32

record layer_switch_event =
  requested_layer :: string
  request_timestamp_ms :: u64
  keyframe_after_ms :: "u64 option"
  ts_before :: "u32 option"
  ts_after :: "u32 option"
  packets_after :: bool

record observations =
  rr_sender_ssrcs :: "u32 set"
  rr_received_count :: u64
  sr_received :: "sr_record list"
  ptt_non_speaker_rtp_count :: u64
  ptt_silence_frames_after_release :: u64
  ptt_first_video_was_keyframe :: "bool option"
  ptt_audio_ssrcs :: "u32 set"
  ptt_video_ssrcs :: "u32 set"
  pli_received_count :: u64
  pli_to_keyframe_ms :: "u64 list"
  video_before_ack_count :: u64
  tracks_ack_sent :: bool
  floor_grants :: "floor_grant_record list"
  floor_revoke_received :: bool
  queue_positions :: "u32 list"
  zombie_cleanup_detected :: "string list"
  ptt_ts_gap_records :: "ts_gap_record list"
  simulcast_layer_switches :: "layer_switch_event list"
  screen_share_ssrc_published :: "u32 option"
  screen_share_ssrcs_received :: "u32 set"

definition observations_default :: observations where
  "observations_default = \<lparr>rr_sender_ssrcs = {}, rr_received_count = 0, sr_received = [],
     ptt_non_speaker_rtp_count = 0, ptt_silence_frames_after_release = 0,
     ptt_first_video_was_keyframe = None, ptt_audio_ssrcs = {}, ptt_video_ssrcs = {},
     pli_received_count = 0, pli_to_keyframe_ms = [], video_before_ack_count = 0,
     tracks_ack_sent = False, floor_grants = [], floor_revoke_received = False,
     queue_positions = [], zombie_cleanup_detected = [], ptt_ts_gap_records = [],
     simulcast_layer_switches = [], screen_share_ssrc_published = None,
     screen_share_ssrcs_received = {}\<rparr>"

section \<open>Operations\<close>

definition record_rr :: "u32 \<Rightarrow> observations \<Rightarrow> observations" where
  "record_rr sender_ssrc obs =
     obs\<lparr>rr_sender_ssrcs := insert sender_ssrc (rr_sender_ssrcs obs),
         rr_received_count := rr_received_count obs + 1\<rparr>"

definition record_sr :: "u32 \<Rightarrow> u32 \<Rightarrow> u32 \<Rightarrow> u32 \<Rightarrow> u32 \<Rightarrow> u32 \<Rightarrow> observations \<Rightarrow> observations" where
  "record_sr ssrc ntp_sec ntp_frac rtp_ts pkt_count oct_count obs =
     obs\<lparr>sr_received := sr_received obs @
       [\<lparr>sr_ssrc = ssrc, sr_ntp_sec = ntp_sec, sr_ntp_frac = ntp_frac, sr_rtp_ts = rtp_ts,
         sr_packet_count = pkt_count, sr_octet_count = oct_count\<rparr>]\<rparr>"

definition record_ptt_non_speaker_rtp :: "observations \<Rightarrow> observations" where
  "record_ptt_non_speaker_rtp obs =
     obs\<lparr>ptt_non_speaker_rtp_count := ptt_non_speaker_rtp_count obs + 1\<rparr>"

definition record_ptt_silence_frame :: "observations \<Rightarrow> observations" where
  "record_ptt_silence_frame obs =
     obs\<lparr>ptt_silence_frames_after_release := ptt_silence_frames_after_release obs + 1\<rparr>"

definition record_ptt_first_video_keyframe :: "bool \<Rightarrow> observations \<Rightarrow> observations" where
  "record_ptt_first_video_keyframe is_keyframe obs =
     (if ptt_first_video_was_keyframe obs = None
      then obs\<lparr>ptt_first_video_was_keyframe := Some is_keyframe\<rparr> else obs)"

definition record_ptt_audio_ssrc :: "u32 \<Rightarrow> observations \<Rightarrow> observations" where
  "record_ptt_audio_ssrc ssrc obs = obs\<lparr>ptt_audio_ssrcs := insert ssrc (ptt_audio_ssrcs obs)\<rparr>"

definition record_ptt_video_ssrc :: "u32 \<Rightarrow> observations \<Rightarrow> observations" where
  "record_ptt_video_ssrc ssrc obs = obs\<lparr>ptt_video_ssrcs := insert ssrc (ptt_video_ssrcs obs)\<rparr>"

definition record_pli :: "observations \<Rightarrow> observations" where
  "record_pli obs = obs\<lparr>pli_received_count := pli_received_count obs + 1\<rparr>"

definition record_pli_to_keyframe :: "u64 \<Rightarrow> observations \<Rightarrow> observations" where
  "record_pli_to_keyframe elapsed_ms obs =
     obs\<lparr>pli_to_keyframe_ms := pli_to_keyframe_ms obs @ [elapsed_ms]\<rparr>"

definition record_video_before_ack :: "observations \<Rightarrow> observations" where
  "record_video_before_ack obs = obs\<lparr>video_before_ack_count := video_before_ack_count obs + 1\<rparr>"

definition mark_tracks_ack_sent :: "observations \<Rightarrow> observations" where
  "mark_tracks_ack_sent obs = obs\<lparr>tracks_ack_sent := True\<rparr>"

text \<open>The clock reading (milliseconds since the epoch) is an argument.\<close>

definition record_floor_grant ::
    "u64 \<Rightarrow> string \<Rightarrow> u8 \<Rightarrow> bool \<Rightarrow> bool \<Rightarrow> observations \<Rightarrow> observations" where
  "record_floor_grant ts bot_id priority granted queued obs =
     obs\<lparr>floor_grants := floor_grants obs @
       [\<lparr>fg_bot_id = bot_id, fg_priority = priority, fg_granted = granted, fg_queued = queued,
         fg_timestamp_ms = ts\<rparr>]\<rparr>"

definition record_floor_revoke :: "observations \<Rightarrow> observations" where
  "record_floor_revoke obs = obs\<lparr>floor_revoke_received := True\<rparr>"

definition record_queue_position :: "u32 \<Rightarrow> observations \<Rightarrow> observations" where
  "record_queue_position pos obs = obs\<lparr>queue_positions := queue_positions obs @ [pos]\<rparr>"

definition record_zombie_cleanup :: "string \<Rightarrow> observations \<Rightarrow> observations" where
  "record_zombie_cleanup user_id obs =
     obs\<lparr>zombie_cleanup_detected := zombie_cleanup_detected obs @ [user_id]\<rparr>"

definition record_ts_gap :: "u32 \<Rightarrow> u64 \<Rightarrow> u32 \<Rightarrow> u32 \<Rightarrow> observations \<Rightarrow> observations" where
  "record_ts_gap ssrc wall_gap_ms rtp_ts_gap sample_rate obs =
     obs\<lparr>ptt_ts_gap_records := ptt_ts_gap_records obs @
       [\<lparr>tg_ssrc = ssrc, tg_wall_gap_ms = wall_gap_ms, tg_rtp_ts_gap = rtp_ts_gap,
         tg_sample_rate = sample_rate\<rparr>]\<rparr>"

definition record_layer_switch :: "layer_switch_event \<Rightarrow> observations \<Rightarrow> observations" where
  "record_layer_switch event obs =
     obs\<lparr>simulcast_layer_switches := simulcast_layer_switches obs @ [event]\<rparr>"

definition record_screen_share_published :: "u32 \<Rightarrow> observations \<Rightarrow> observations" where
  "record_screen_share_published ssrc obs = obs\<lparr>screen_share_ssrc_published := Some ssrc\<rparr>"

definition record_screen_share_received :: "u32 \<Rightarrow> observations \<Rightarrow> observations" where
  "record_screen_share_received ssrc obs =
     obs\<lparr>screen_share_ssrcs_received := insert ssrc (screen_share_ssrcs_received obs)\<rparr>"

text \<open>The facts the readers and the receive loop use.\<close>

lemmas record_defs = record_rr_def record_sr_def record_ptt_non_speaker_rtp_def
  record_ptt_silence_frame_def record_ptt_first_video_keyframe_def record_ptt_audio_ssrc_def
  record_ptt_video_ssrc_def record_pli_def record_pli_to_keyframe_def record_video_before_ack_def
  mark_tracks_ack_sent_def record_floor_grant_def record_floor_revoke_def record_queue_position_def
  record_zombie_cleanup_def record_ts_gap_def record_layer_switch_def
  record_screen_share_published_def record_screen_share_received_def

section \<open>The RTCP readers\<close>

text \<open>The publisher's reader: receiver reports are counted, a PLI for the own video SSRC raises
  the force flag.  The state is the flag and the observations.\<close>

function rtcp_compound_loop ::
    "u32 \<Rightarrow> bytes \<Rightarrow> nat \<Rightarrow> bool \<times> observations \<Rightarrow> (bool \<times> observations) option" where
  "rtcp_compound_loop my_video_ssrc buf off s =
     (if off + 4 \<le> length buf then do {
        b0 \<leftarrow> rd buf off;
        pt \<leftarrow> rd buf (off + 1);
        length_words \<leftarrow> rd16 buf (off + 2);
        let pkt_len = (unat length_words + 1) * 4;
        if length buf < off + pkt_len then Some s
        else do {
          s \<leftarrow> (let (force, obs) = s in
            if pt = 201 \<and> 8 \<le> pkt_len then do {
              sender_ssrc \<leftarrow> rd32 buf (off + 4);
              Some (force, record_rr sender_ssrc obs)
            } else if pt = 206 then
              let fmt = b0 AND 0x1F
              in if fmt = 1 \<and> 12 \<le> pkt_len then do {
                media_ssrc \<leftarrow> rd32 buf (off + 8);
                Some (if media_ssrc = my_video_ssrc then (True, record_pli obs) else (force, obs))
              } else Some (force, obs)
            else Some (force, obs));
          rtcp_compound_loop my_video_ssrc buf (off + pkt_len) s
        }
      } else Some s)"
  by auto
termination by (relation "measure (\<lambda>(_, buf, off, _). length buf - off)") auto

declare rtcp_compound_loop.simps [simp del]

definition parse_rtcp_compound ::
    "bytes \<Rightarrow> u32 \<Rightarrow> bool \<Rightarrow> observations \<Rightarrow> (bool \<times> observations) option" where
  "parse_rtcp_compound buf my_video_ssrc force_keyframe obs =
     rtcp_compound_loop my_video_ssrc buf 0 (force_keyframe, obs)"

text \<open>The subscriber's reader: sender reports are kept.\<close>

function rtcp_sr_loop :: "bytes \<Rightarrow> nat \<Rightarrow> observations \<Rightarrow> observations option" where
  "rtcp_sr_loop buf off obs =
     (if off + 4 \<le> length buf then do {
        pt \<leftarrow> rd buf (off + 1);
        length_words \<leftarrow> rd16 buf (off + 2);
        let pkt_len = (unat length_words + 1) * 4;
        if length buf < off + pkt_len then Some obs
        else do {
          obs \<leftarrow> (if pt = 200 \<and> 28 \<le> pkt_len then do {
              ssrc \<leftarrow> rd32 buf (off + 4);
              ntp_sec \<leftarrow> rd32 buf (off + 8);
              ntp_frac \<leftarrow> rd32 buf (off + 12);
              rtp_ts \<leftarrow> rd32 buf (off + 16);
              pkt_count \<leftarrow> rd32 buf (off + 20);
              oct_count \<leftarrow> rd32 buf (off + 24);
              Some (record_sr ssrc ntp_sec ntp_frac rtp_ts pkt_count oct_count obs)
            } else Some obs);
          rtcp_sr_loop buf (off + pkt_len) obs
        }
      } else Some obs)"
  by auto
termination by (relation "measure (\<lambda>(buf, off, _). length buf - off)") auto

declare rtcp_sr_loop.simps [simp del]

definition parse_rtcp_for_sr :: "bytes \<Rightarrow> observations \<Rightarrow> observations option" where
  "parse_rtcp_for_sr buf obs = rtcp_sr_loop buf 0 obs"

section \<open>What one packet does\<close>

definition is_rr :: "bytes \<Rightarrow> bool" where
  "is_rr p \<longleftrightarrow> p ! 1 = 201 \<and> 8 \<le> length p"

definition is_pli_for :: "u32 \<Rightarrow> bytes \<Rightarrow> bool" where
  "is_pli_for ssrc p \<longleftrightarrow> p ! 1 = 206 \<and> p ! 0 AND 0x1F = 1 \<and> 12 \<le> length p \<and> be32_at p 8 = ssrc"

definition is_sr :: "bytes \<Rightarrow> bool" where
  "is_sr p \<longleftrightarrow> p ! 1 = 200 \<and> 28 \<le> length p"

definition sr_of :: "bytes \<Rightarrow> sr_record" where
  "sr_of p = \<lparr>sr_ssrc = be32_at p 4, sr_ntp_sec = be32_at p 8, sr_ntp_frac = be32_at p 12,
     sr_rtp_ts = be32_at p 16, sr_packet_count = be32_at p 20, sr_octet_count = be32_at p 24\<rparr>"

definition publisher_step :: "u32 \<Rightarrow> bytes \<Rightarrow> bool \<times> observations \<Rightarrow> bool \<times> observations" where
  "publisher_step ssrc p = (\<lambda>(force, obs).
     if is_rr p then (force, record_rr (be32_at p 4) obs)
     else if is_pli_for ssrc p then (True, record_pli obs) else (force, obs))"

definition subscriber_step :: "bytes \<Rightarrow> observations \<Rightarrow> observations" where
  "subscriber_step p obs = (if is_sr p then obs\<lparr>sr_received := sr_received obs @ [sr_of p]\<rparr> else obs)"

interpretation pub_rtcp: rtcp_loop "rtcp_compound_loop ssrc" "publisher_step ssrc" for ssrc
proof
  fix buf :: bytes and off and s :: "bool \<times> observations"
  obtain force obs where s: "s = (force, obs)" by (cases s)
  show "length buf < off + 4 \<Longrightarrow> rtcp_compound_loop ssrc buf off s = Some s"
    by (subst rtcp_compound_loop.simps) simp
  assume 4: "off + 4 \<le> length buf"
  define n where "n = frame_len (drop off buf)"
  define p where "p = take n (drop off buf)"
  obtain w where w: "rd16 buf (off + 2) = Some w" "(unat w + 1) * 4 = n"
      "rd buf off = Some (buf ! off)" "rd buf (off + 1) = Some (buf ! (off + 1))"
    using frame_header [OF 4] unfolding n_def by blast
  note unf = trans [OF rtcp_compound_loop.simps [of ssrc buf off "(force, obs)",
      unfolded w bind.bind_lunit Let_def if_P [OF 4] prod.case]]
  show "length buf < off + frame_len (drop off buf) \<Longrightarrow> rtcp_compound_loop ssrc buf off s = Some s"
    unfolding n_def [symmetric] s by (rule unf) simp
  assume fits: "off + frame_len (drop off buf) \<le> length buf"
  then have fits: "off + n \<le> length buf" by (simp add: n_def)
  have n: "4 \<le> n" by (simp add: n_def frame_len_ge4)
  have len: "length p = n" using fits by (simp add: p_def)
  have b: "p ! 0 = buf ! off" "p ! 1 = buf ! (off + 1)"
    using n fits by (simp_all add: p_def)
  have r: "i + 4 \<le> n \<Longrightarrow> rd32 buf (off + i) = Some (be32_at p i)" for i
    using rd32_in_frame fits by (simp add: p_def)
  show "rtcp_compound_loop ssrc buf off s = rtcp_compound_loop ssrc buf (off + frame_len (drop off buf))
      (publisher_step ssrc (take (frame_len (drop off buf)) (drop off buf)) s)"
    unfolding n_def [symmetric] p_def [symmetric] s
    by (rule unf) (use fits r [of 4] r [of 8] b len in
        \<open>simp add: publisher_step_def is_rr_def is_pli_for_def del: rd32_Some One_nat_def\<close>)
qed

interpretation sub_rtcp: rtcp_loop rtcp_sr_loop subscriber_step
proof
  fix buf :: bytes and off and obs :: observations
  show "length buf < off + 4 \<Longrightarrow> rtcp_sr_loop buf off obs = Some obs"
    by (subst rtcp_sr_loop.simps) simp
  assume 4: "off + 4 \<le> length buf"
  define n where "n = frame_len (drop off buf)"
  define p where "p = take n (drop off buf)"
  obtain w where w: "rd16 buf (off + 2) = Some w" "(unat w + 1) * 4 = n"
      "rd buf off = Some (buf ! off)" "rd buf (off + 1) = Some (buf ! (off + 1))"
    using frame_header [OF 4] unfolding n_def by blast
  note unf = trans [OF rtcp_sr_loop.simps [of buf off obs,
      unfolded w bind.bind_lunit Let_def if_P [OF 4]]]
  show "length buf < off + frame_len (drop off buf) \<Longrightarrow> rtcp_sr_loop buf off obs = Some obs"
    unfolding n_def [symmetric] by (rule unf) simp
  assume "off + frame_len (drop off buf) \<le> length buf"
  then have fits: "off + n \<le> length buf" by (simp add: n_def)
  have n: "4 \<le> n" by (simp add: n_def frame_len_ge4)
  have len: "length p = n" using fits by (simp add: p_def)
  have b: "p ! 1 = buf ! (off + 1)" using n fits by (simp add: p_def)
  have r: "i + 4 \<le> n \<Longrightarrow> rd32 buf (off + i) = Some (be32_at p i)" for i
    using rd32_in_frame fits by (simp add: p_def)
  show "rtcp_sr_loop buf off obs = rtcp_sr_loop buf (off + frame_len (drop off buf))
      (subscriber_step (take (frame_len (drop off buf)) (drop off buf)) obs)"
    unfolding n_def [symmetric] p_def [symmetric]
    by (rule unf) (use fits r b len in
        \<open>simp add: subscriber_step_def is_sr_def sr_of_def record_sr_def del: rd32_Some One_nat_def\<close>)
qed

section \<open>Properties\<close>

text \<open>The fold of the steps, field by field.\<close>

lemma publisher_fold:
  "fold (publisher_step ssrc) ps (force, obs) =
     (force \<or> (\<exists>p \<in> set ps. is_pli_for ssrc p),
      obs\<lparr>rr_sender_ssrcs := rr_sender_ssrcs obs \<union> set (map (\<lambda>p. be32_at p 4) (filter is_rr ps)),
          rr_received_count := rr_received_count obs + of_nat (length (filter is_rr ps)),
          pli_received_count := pli_received_count obs + of_nat (length (filter (is_pli_for ssrc) ps))\<rparr>)"
proof (induction ps arbitrary: force obs)
  case (Cons p ps)
  have "\<not> (is_rr p \<and> is_pli_for ssrc p)" by (auto simp: is_rr_def is_pli_for_def)
  moreover have "publisher_step ssrc p (force, obs) =
      (if is_rr p then (force, record_rr (be32_at p 4) obs)
       else if is_pli_for ssrc p then (True, record_pli obs) else (force, obs))"
    by (simp add: publisher_step_def)
  ultimately show ?case
    by (auto simp: Cons record_rr_def record_pli_def add.assoc)
qed simp

lemma subscriber_fold:
  "fold subscriber_step ps obs =
     obs\<lparr>sr_received := sr_received obs @ map sr_of (filter is_sr ps)\<rparr>"
  by (induction ps arbitrary: obs) (simp_all add: subscriber_step_def)

text \<open>C37: the publisher's RTCP reader returns for every buffer, and what it leaves is what the
  packets of the buffer say: the force flag is raised exactly if it was or some PLI names the own
  video SSRC, PLIs for it and receiver reports are counted, the reports' senders are collected,
  and no other observation changes.\<close>

theorem parse_rtcp_compound_effect:
  "parse_rtcp_compound buf ssrc force obs = Some
     (force \<or> (\<exists>p \<in> set (rtcp_frames buf). is_pli_for ssrc p),
      obs\<lparr>rr_sender_ssrcs := rr_sender_ssrcs obs
            \<union> set (map (\<lambda>p. be32_at p 4) (filter is_rr (rtcp_frames buf))),
          rr_received_count := rr_received_count obs + of_nat (length (filter is_rr (rtcp_frames buf))),
          pli_received_count := pli_received_count obs
            + of_nat (length (filter (is_pli_for ssrc) (rtcp_frames buf)))\<rparr>)"
  by (simp add: parse_rtcp_compound_def pub_rtcp.loop_frames publisher_fold)

text \<open>The subscriber's RTCP reader returns for every buffer and appends exactly the sender
  reports of the buffer's packets, in order, with their six fields; nothing else changes.\<close>

theorem parse_rtcp_for_sr_effect:
  "parse_rtcp_for_sr buf obs = Some
     (obs\<lparr>sr_received := sr_received obs @ map sr_of (filter is_sr (rtcp_frames buf))\<rparr>)"
  by (simp add: parse_rtcp_for_sr_def sub_rtcp.loop_frames subscriber_fold)

end
