(* ===== verification/Subscriber.thy ===== *)
theory Subscriber
  imports Rtp F64
begin

text \<open>
  Receive metrics (\<open>rtp_subscriber.rs\<close>): the per-SSRC counters of
  \<open>SsrcRecvMetrics\<close>, the store that keeps one per SSRC, and the snapshot.  The clock
  reading \<open>Instant::now()\<close> is an argument, in nanoseconds; \<open>duration_since\<close>
  saturates at zero.  The store's \<open>HashMap\<close> is a finite map; the order in which an
  iteration yields its keys is an argument of the snapshot.
\<close>

section \<open>One SSRC\<close>

record ssrc_metrics =
  sm_ssrc :: u32
  sm_pt :: u8
  packets_received :: u64
  packets_lost :: u64
  out_of_order :: u64
  jitter :: f64
  last_seq :: u16
  max_seq_seen :: u16
  first_seq :: u16
  initialized :: bool
  last_arrival :: nat
  last_rtp_ts :: u32
  clock_rate :: u32

definition ssrc_metrics_new :: "u32 \<Rightarrow> u8 \<Rightarrow> nat \<Rightarrow> ssrc_metrics" where
  "ssrc_metrics_new ssrc pt now = \<lparr>sm_ssrc = ssrc, sm_pt = pt, packets_received = 0,
     packets_lost = 0, out_of_order = 0, jitter = Fin 0, last_seq = 0, max_seq_seen = 0,
     first_seq = 0, initialized = False, last_arrival = now, last_rtp_ts = 0,
     clock_rate = (if pt = 111 then 48000 else 90000)\<rparr>"

definition jitter_deviation :: "u32 \<Rightarrow> nat \<Rightarrow> u32 \<Rightarrow> f64" where
  "jitter_deviation rate arrival_diff rtp_ts_diff = (
     let arrival_diff_ms = f_mul (as_secs_f64 arrival_diff) (f_lit 1000);
         arrival_diff_ticks = f_div (f_mul arrival_diff_ms (f_of_u32 rate)) (f_lit 1000);
         rtp_diff = f_of_u32 rtp_ts_diff
     in f_abs (f_sub arrival_diff_ticks rtp_diff))"

definition ssrc_metrics_update :: "nat \<Rightarrow> u16 \<Rightarrow> u32 \<Rightarrow> ssrc_metrics \<Rightarrow> ssrc_metrics" where
  "ssrc_metrics_update now seq ts m = (
     let m = m\<lparr>packets_received := packets_received m + 1\<rparr> in
     if \<not> initialized m then
       m\<lparr>first_seq := seq, last_seq := seq, max_seq_seen := seq, last_arrival := now,
         last_rtp_ts := ts, initialized := True\<rparr>
     else
       let expected = last_seq m + 1;
           diff = sint (seq - expected);
           m = (if 0 < diff then m\<lparr>packets_lost := packets_lost m + of_int diff\<rparr>
                else if diff < - 1 then m\<lparr>out_of_order := out_of_order m + 1\<rparr>
                else m);
           fwd = seq - max_seq_seen m;
           m = (if 0 < sint fwd then m\<lparr>max_seq_seen := seq\<rparr> else m);
           d = jitter_deviation (clock_rate m) (now - last_arrival m) (ts - last_rtp_ts m);
           m = m\<lparr>jitter := f_add (jitter m) (f_div (f_sub d (jitter m)) (f_lit 16))\<rparr>
       in m\<lparr>last_seq := seq, last_arrival := now, last_rtp_ts := ts\<rparr>)"

section \<open>The store\<close>

type_synonym metrics_store = "u32 \<Rightarrow> ssrc_metrics option"

definition metrics_store_new :: metrics_store where
  "metrics_store_new = (\<lambda>_. None)"

definition metrics_store_update ::
    "nat \<Rightarrow> u32 \<Rightarrow> u8 \<Rightarrow> u16 \<Rightarrow> u32 \<Rightarrow> metrics_store \<Rightarrow> metrics_store" where
  "metrics_store_update now ssrc pt seq ts store = (
     let entry = (case store ssrc of Some m \<Rightarrow> m | None \<Rightarrow> ssrc_metrics_new ssrc pt now)
     in store(ssrc \<mapsto> ssrc_metrics_update now seq ts entry))"

record recv_snapshot =
  total_packets :: u64
  total_lost :: u64
  total_ooo :: u64
  ssrc_count :: nat
  streams :: "ssrc_metrics list"

definition recv_snapshot_default :: recv_snapshot where
  "recv_snapshot_default = \<lparr>total_packets = 0, total_lost = 0, total_ooo = 0, ssrc_count = 0,
     streams = []\<rparr>"

definition metrics_store_snapshot :: "u32 list \<Rightarrow> metrics_store \<Rightarrow> recv_snapshot" where
  "metrics_store_snapshot order store = (let ss = List.map_filter store order in
     \<lparr>total_packets = sum_u64 (map packets_received ss),
      total_lost = sum_u64 (map packets_lost ss),
      total_ooo = sum_u64 (map out_of_order ss),
      ssrc_count = length ss,
      streams = ss\<rparr>)"

text \<open>What an iteration yields: every key once.\<close>

definition iteration_order :: "'k list \<Rightarrow> ('k \<Rightarrow> 'v option) \<Rightarrow> bool" where
  "iteration_order order store \<longleftrightarrow> distinct order \<and> set order = dom store"

definition format_recv_summary :: "string \<Rightarrow> recv_snapshot \<Rightarrow> string" where
  "format_recv_summary bot_id snap =
     (if ssrc_count snap = 0 then ''[bot:'' @ bot_id @ ''] recv: no streams''
      else let details = map (\<lambda>s. let kind = (if sm_pt s = 111 then ''A'' else ''V'') in
          kind @ '':0x'' @ hex08 (sm_ssrc s) @ ''(rx='' @ show_word (packets_received s)
          @ '' lost='' @ show_word (packets_lost s) @ '' ooo='' @ show_word (out_of_order s)
          @ '' jit='' @ show_fixed 0 (jitter s) @ '')'') (streams snap)
        in ''[bot:'' @ bot_id @ ''] recv: pkts='' @ show_word (total_packets snap)
          @ '' lost='' @ show_word (total_lost snap) @ '' ooo='' @ show_word (total_ooo snap)
          @ '' streams='' @ show_nat (ssrc_count snap) @ '' ['' @ join '', '' details @ '']'')"

section \<open>Counting\<close>

definition feed :: "ssrc_metrics \<Rightarrow> (nat \<times> u16 \<times> u32) list \<Rightarrow> ssrc_metrics" where
  "feed m arrivals = fold (\<lambda>(now, seq, ts) m. ssrc_metrics_update now seq ts m) arrivals m"

lemma feed_simps [simp]:
  "feed m [] = m" "feed m ((now, seq, ts) # as) = feed (ssrc_metrics_update now seq ts m) as"
  "feed m (as @ bs) = feed (feed m as) bs"
  by (simp_all add: feed_def)

text \<open>What one update does to the counters and the sequence state.\<close>

lemma update_first:
  "\<not> initialized m \<Longrightarrow> ssrc_metrics_update now seq ts m =
     m\<lparr>packets_received := packets_received m + 1, first_seq := seq, last_seq := seq,
       max_seq_seen := seq, last_arrival := now, last_rtp_ts := ts, initialized := True\<rparr>"
  by (simp add: ssrc_metrics_update_def Let_def)

lemma update_fields [simp]:
  "packets_received (ssrc_metrics_update now seq ts m) = packets_received m + 1"
  "last_seq (ssrc_metrics_update now seq ts m) = seq"
  "initialized (ssrc_metrics_update now seq ts m)"
  "sm_ssrc (ssrc_metrics_update now seq ts m) = sm_ssrc m"
  "sm_pt (ssrc_metrics_update now seq ts m) = sm_pt m"
  "clock_rate (ssrc_metrics_update now seq ts m) = clock_rate m"
  by (auto simp: ssrc_metrics_update_def Let_def)

definition seq_step :: "u16 \<Rightarrow> u16 \<Rightarrow> int" where
  "seq_step prev seq = sint (seq - (prev + 1))"

lemma update_lost:
  "initialized m \<Longrightarrow> packets_lost (ssrc_metrics_update now seq ts m) =
     packets_lost m + (if 0 < seq_step (last_seq m) seq then of_int (seq_step (last_seq m) seq) else 0)"
  by (auto simp: ssrc_metrics_update_def Let_def seq_step_def)

lemma update_ooo:
  "initialized m \<Longrightarrow> out_of_order (ssrc_metrics_update now seq ts m) =
     out_of_order m + (if seq_step (last_seq m) seq < - 1 then 1 else 0)"
  by (auto simp: ssrc_metrics_update_def Let_def seq_step_def)

lemma seq_step_next [simp]: "seq_step s (s + 1) = 0"
  by (simp add: seq_step_def)

lemma sint_of_small: "k < 2 ^ 15 \<Longrightarrow> sint (of_nat k :: u16) = int k"
  by (simp add: signed_of_nat signed_take_bit_int_eq_self)

fun in_order :: "u16 \<Rightarrow> (nat \<times> u16 \<times> u32) list \<Rightarrow> bool" where
  "in_order s0 [] = True"
| "in_order s0 ((now, seq, ts) # as) \<longleftrightarrow> seq = s0 \<and> in_order (s0 + 1) as"

lemma in_order_snoc:
  "in_order s0 (as @ [(now, seq, ts)]) \<longleftrightarrow> in_order s0 as \<and> seq = s0 + of_nat (length as)"
  by (induction s0 as rule: in_order.induct) (auto simp: algebra_simps)

lemma feed_received: "packets_received (feed m as) = packets_received m + of_nat (length as)"
  by (induction as arbitrary: m) (auto simp: algebra_simps)

lemma feed_in_order:
  assumes "in_order s0 as"
  shows "packets_lost (feed (ssrc_metrics_new ssrc pt t0) as) = 0
    \<and> out_of_order (feed (ssrc_metrics_new ssrc pt t0) as) = 0
    \<and> (as \<noteq> [] \<longrightarrow> initialized (feed (ssrc_metrics_new ssrc pt t0) as)
        \<and> last_seq (feed (ssrc_metrics_new ssrc pt t0) as) = s0 + of_nat (length as - 1))"
  using assms
proof (induction as rule: rev_induct)
  case (snoc a as)
  obtain now seq ts where a: "a = (now, seq, ts)" by (cases a) auto
  with snoc.prems have ord: "in_order s0 as" "seq = s0 + of_nat (length as)"
    by (simp_all add: in_order_snoc)
  show ?case
  proof (cases "as = []")
    case True
    then show ?thesis using a ord by (simp add: update_first ssrc_metrics_new_def)
  next
    case False
    then obtain n where "length as = Suc n" by (cases as) auto
    then show ?thesis using a ord snoc.IH [OF ord(1)] False
      by (simp add: update_lost update_ooo seq_step_def algebra_simps)
  qed
qed (simp add: ssrc_metrics_new_def)

section \<open>Jitter\<close>

text \<open>The deviation of a packet is a finite, non-negative double: no clock difference below
  584 years overflows it.\<close>

lemma jitter_deviation_finite:
  assumes "d < 2 ^ 64"
  obtains x where "jitter_deviation r d t = Fin x" "0 \<le> x" "is_f64 (Fin x)"
proof -
  obtain a where a: "as_secs_f64 d = Fin a" "0 \<le> a" "a \<le> 2 ^ 65" using as_secs_bounds assms .
  obtain r' where r: "f_of_u32 r = Fin r'" "0 \<le> r'" "r' \<le> 2 ^ 64" by (rule f_of_u32_bounds)
  obtain t' where t: "f_of_u32 t = Fin t'" "0 \<le> t'" "t' \<le> 2 ^ 64" by (rule f_of_u32_bounds)
  obtain b where b: "f_mul (Fin a) (Fin 1000) = Fin b" "0 \<le> b" "b \<le> 2 ^ 65 * 2 ^ 10"
    using f_mul_le [of a "2 ^ 65" 1000 "2 ^ 10"] a is_f64_pow2 [of 75] by auto
  obtain c where c: "f_mul (Fin b) (Fin r') = Fin c" "0 \<le> c" "c \<le> 2 ^ 75 * 2 ^ 64"
    using f_mul_le [of b "2 ^ 75" r' "2 ^ 64"] b r is_f64_pow2 [of 139] by auto
  obtain e where e: "f_div (Fin c) (Fin 1000) = Fin e" "0 \<le> e" "e \<le> 2 ^ 139"
    using f_div_le [of c "2 ^ 139" 1000] c is_f64_pow2 [of 139] by auto
  have "f_le (rnd (e - t')) (Fin (2 ^ 139))" "f_le (Fin (- (2 ^ 139))) (rnd (e - t'))"
  proof -
    show "f_le (rnd (e - t')) (Fin (2 ^ 139))"
      using e t is_f64_pow2 [of 139] by (intro rnd_upper) auto
    have "rnd (- (2 ^ 139)) = Fin (- (2 ^ 139))"
      using is_f64_pow2 [of 139] by (simp add: rnd_neg)
    then show "f_le (Fin (- (2 ^ 139))) (rnd (e - t'))"
      using e t by (intro rnd_lower) auto
  qed
  then obtain x where x: "rnd (e - t') = Fin x" by (cases "rnd (e - t')") auto
  have "is_f64 (Fin x)" using is_f64_rnd [of "e - t'"] x by simp
  moreover have "is_f64 (Fin (- x))"
    using calculation by (simp add: rnd_neg)
  ultimately have "is_f64 (Fin \<bar>x\<bar>)" by (auto simp: abs_if)
  moreover have "jitter_deviation r d t = Fin \<bar>x\<bar>"
    using a b c e r t x by (simp add: jitter_deviation_def f_sub_def)
  ultimately show thesis using that by simp
qed

lemma rnd_16: "rnd 16 = Fin 16"
  by (simp add: f64_eval)

lemma update_jitter:
  "initialized m \<Longrightarrow> jitter (ssrc_metrics_update now seq ts m) =
     (let d = jitter_deviation (clock_rate m) (now - last_arrival m) (ts - last_rtp_ts m)
      in f_add (jitter m) (f_div (f_sub d (jitter m)) (Fin 16)))"
  by (simp add: ssrc_metrics_update_def Let_def rnd_16)

section \<open>Properties\<close>

text \<open>C33: the sequence accounting of one further packet, over every distance from the expected
  number: a packet \<open>j\<close> ahead adds \<open>j\<close> lost, one more than one behind counts as out of
  order, the expected one and a repetition of the last one change neither; each counts as
  received, and the next expected number follows this packet.\<close>

theorem update_accounting:
  assumes "initialized m" "- (2 ^ 15) \<le> j" "j < 2 ^ 15"
  shows "let m' = ssrc_metrics_update now (last_seq m + 1 + of_int j) ts m in
    packets_received m' = packets_received m + 1
    \<and> packets_lost m' = packets_lost m + (if 0 < j then of_int j else 0)
    \<and> out_of_order m' = out_of_order m + (if j < - 1 then 1 else 0)
    \<and> last_seq m' = last_seq m + 1 + of_int j"
proof -
  have "seq_step (last_seq m) (last_seq m + 1 + of_int j) = j"
    using assms by (simp add: seq_step_def signed_of_int signed_take_bit_int_eq_self)
  then show ?thesis using assms by (simp add: update_lost update_ooo)
qed

theorem update_accounting_witness:
  "packets_lost (ssrc_metrics_update 5 3 2880 (ssrc_metrics_update 0 0 0 (ssrc_metrics_new 1000 111 0))) = 2"
  using update_accounting [of "ssrc_metrics_update 0 0 0 (ssrc_metrics_new 1000 111 0)" 2 5 2880]
  by (simp add: Let_def update_first ssrc_metrics_new_def)

text \<open>A stream that arrives complete and in order, from any first sequence number and through
  any number of wrap-arounds, at any times and with any timestamps, is counted as such: as many
  received as arrived, none lost, none out of order.\<close>

theorem in_order_nothing_lost:
  assumes "in_order s0 as"
  shows "let m = feed (ssrc_metrics_new ssrc pt t0) as in packets_received m = of_nat (length as) \<and> packets_lost m = 0 \<and> out_of_order m = 0"
  using feed_in_order [OF assms] by (simp add: Let_def feed_received ssrc_metrics_new_def)

theorem in_order_nothing_lost_witness:
  "packets_lost (feed (ssrc_metrics_new 7 111 0) [(1, 65535, 0), (2, 0, 960), (3, 1, 1920)]) = 0"
  using in_order_nothing_lost [of 65535 "[(1, 65535, 0), (2, 0, 960), (3, 1, 1920)]" 7 111 0]
  by (simp add: Let_def)

text \<open>Two neighbouring packets that swap are counted as two losses although all four packets
  arrive, for every start: after the late packet the next expected number is taken from it, so
  the packet after the pair looks like another gap.\<close>

theorem swap_counts_two_lost:
  "let m = feed (ssrc_metrics_new ssrc pt t0) [(t1, s, ts1), (t2, s + 2, ts2), (t3, s + 1, ts3), (t4, s + 3, ts4)]
   in packets_received m = 4 \<and> packets_lost m = 2 \<and> out_of_order m = 1"
  by (simp add: Let_def update_lost update_ooo update_first seq_step_def ssrc_metrics_new_def
      algebra_simps)

text \<open>C34: the jitter estimate moves towards the deviation of the arriving packet and never past
  it: from a finite non-negative estimate, the new one lies between the old one and the
  (finite, non-negative) deviation, in double arithmetic, for every clock difference below
  584 years.\<close>

theorem jitter_between:
  assumes "initialized m" "jitter m = Fin j" "is_f64 (Fin j)" "0 \<le> j"
    and "now - last_arrival m < 2 ^ 64"
  shows "\<exists>d j'. jitter_deviation (clock_rate m) (now - last_arrival m) (ts - last_rtp_ts m) = Fin d
    \<and> 0 \<le> d \<and> jitter (ssrc_metrics_update now seq ts m) = Fin j' \<and> min j d \<le> j' \<and> j' \<le> max j d"
proof -
  obtain d where d: "jitter_deviation (clock_rate m) (now - last_arrival m) (ts - last_rtp_ts m) = Fin d"
      "0 \<le> d" "is_f64 (Fin d)" using jitter_deviation_finite [OF assms(5)] .
  obtain j' where "f_add (Fin j) (f_div (f_sub (Fin d) (Fin j)) (Fin 16)) = Fin j'"
      "min j d \<le> j'" "j' \<le> max j d" using f_smooth assms d by metis
  then show ?thesis using d assms by (simp add: update_jitter)
qed

theorem jitter_between_witness:
  "\<exists>d j'. jitter_deviation 48000 20000000 960 = Fin d
    \<and> jitter (ssrc_metrics_update 20000000 1 960 (ssrc_metrics_update 0 0 0 (ssrc_metrics_new 9 111 0)))
      = Fin j' \<and> 0 \<le> j' \<and> j' \<le> d"
  using jitter_between [of "ssrc_metrics_update 0 0 0 (ssrc_metrics_new 9 111 0)" 0 20000000 960 1]
  by (auto simp: update_first ssrc_metrics_new_def)

section \<open>The store as a keyed store\<close>

record rtp_arrival =
  ra_now :: nat
  ra_ssrc :: u32
  ra_pt :: u8
  ra_seq :: u16
  ra_ts :: u32

definition arrive :: "rtp_arrival \<Rightarrow> metrics_store \<Rightarrow> metrics_store" where
  "arrive e = metrics_store_update (ra_now e) (ra_ssrc e) (ra_pt e) (ra_seq e) (ra_ts e)"

definition arrive_metrics :: "rtp_arrival \<Rightarrow> ssrc_metrics \<Rightarrow> ssrc_metrics" where
  "arrive_metrics e = ssrc_metrics_update (ra_now e) (ra_seq e) (ra_ts e)"

definition new_metrics_for :: "rtp_arrival \<Rightarrow> ssrc_metrics" where
  "new_metrics_for e = ssrc_metrics_new (ra_ssrc e) (ra_pt e) (ra_now e)"

interpretation metrics: keyed_store arrive "\<lambda>s. s" ra_ssrc new_metrics_for arrive_metrics
  by unfold_locales
    (auto simp: arrive_def metrics_store_update_def Let_def new_metrics_for_def arrive_metrics_def
      split: option.split)

lemma arrive_received:
  "packets_received (fold arrive_metrics es m) = packets_received m + of_nat (length es)"
  by (induction es arbitrary: m) (auto simp: arrive_metrics_def)

lemma sum_map_filter:
  "distinct order \<Longrightarrow> set order \<subseteq> dom store \<Longrightarrow>
     sum_list (map f (List.map_filter store order)) = (\<Sum>k \<in> set order. f (the (store k)))"
  by (induction order) (auto simp: map_filter_simps split: option.split)

lemma length_map_filter:
  "set order \<subseteq> dom store \<Longrightarrow> length (List.map_filter store order) = length order"
  by (induction order) (auto simp: map_filter_simps split: option.split)

lemma sum_per_key:
  "finite A \<Longrightarrow> key ` set es \<subseteq> A \<Longrightarrow>
     (\<Sum>k \<in> A. of_nat (length (filter (\<lambda>e. key e = k) es))) = (of_nat (length es) :: 'a::comm_semiring_1)"
proof (induction es)
  case (Cons e es)
  have "(\<Sum>k \<in> A. of_nat (length (filter (\<lambda>e. key e = k) (e # es))))
      = (\<Sum>k \<in> A. (if key e = k then 1 else 0) + of_nat (length (filter (\<lambda>e. key e = k) es)) :: 'a)"
    by (intro sum.cong) auto
  then show ?case using Cons by (simp add: sum.distrib)
qed simp

text \<open>SSRCs do not interfere: whatever the arrivals of other streams, the metrics of an SSRC
  are those of its own packets fed one after the other to a fresh entry, which exists exactly
  when a packet of it came.\<close>

theorem store_streams_independent:
  "fold arrive es metrics_store_new ssrc =
     (let own = filter (\<lambda>e. ra_ssrc e = ssrc) es
      in if own = [] then None else Some (fold arrive_metrics own (new_metrics_for (hd own))))"
  using metrics.entry_updates [of es metrics_store_new ssrc]
  by (simp add: metrics_store_new_def)

text \<open>the snapshot accounts for every packet: in whatever order the table is walked, the total
  is the number of packets that arrived (in 64 bits), there is one stream per SSRC seen, and the
  lost and out-of-order totals are the sums over the SSRCs.\<close>

theorem snapshot_accounts:
  assumes "iteration_order order (fold arrive es metrics_store_new)"
  shows "let store = fold arrive es metrics_store_new; snap = metrics_store_snapshot order store in
    total_packets snap = of_nat (length es)
    \<and> ssrc_count snap = card (ra_ssrc ` set es)
    \<and> total_lost snap = (\<Sum>k \<in> ra_ssrc ` set es. packets_lost (the (store k)))
    \<and> total_ooo snap = (\<Sum>k \<in> ra_ssrc ` set es. out_of_order (the (store k)))"
proof -
  define store where "store = fold arrive es metrics_store_new"
  have dom: "dom store = ra_ssrc ` set es"
    using metrics.dom_updates [of es metrics_store_new] by (simp add: store_def metrics_store_new_def)
  have ord: "distinct order" "set order = ra_ssrc ` set es"
    using assms by (simp_all add: iteration_order_def store_def [symmetric] dom)
  have sums: "sum_u64 (map f (List.map_filter store order)) = (\<Sum>k \<in> ra_ssrc ` set es. f (the (store k)))" for f
    using sum_map_filter [of order store f] ord dom by (simp add: sum_u64_sum_list)
  have "packets_received (the (store k)) = of_nat (length (filter (\<lambda>e. ra_ssrc e = k) es))"
    if "k \<in> ra_ssrc ` set es" for k
  proof -
    from that have "filter (\<lambda>e. ra_ssrc e = k) es \<noteq> []" by (auto simp: filter_empty_conv)
    moreover have "store k = (let own = filter (\<lambda>e. ra_ssrc e = k) es
        in if own = [] then None else Some (fold arrive_metrics own (new_metrics_for (hd own))))"
      using metrics.entry_updates [of es metrics_store_new k] by (simp add: store_def metrics_store_new_def)
    ultimately show ?thesis
      by (simp add: arrive_received new_metrics_for_def ssrc_metrics_new_def Let_def)
  qed
  then have "(\<Sum>k \<in> ra_ssrc ` set es. packets_received (the (store k))) = of_nat (length es)"
    by (simp add: sum_per_key)
  moreover have "length (List.map_filter store order) = card (ra_ssrc ` set es)"
    using ord dom distinct_card [of order] by (simp add: length_map_filter)
  ultimately show ?thesis
    by (simp add: store_def [symmetric] metrics_store_snapshot_def Let_def sums)
qed

theorem snapshot_accounts_witness:
  "total_packets (metrics_store_snapshot [1000, 2000]
     (fold arrive [\<lparr>ra_now = 0, ra_ssrc = 1000, ra_pt = 111, ra_seq = 0, ra_ts = 0\<rparr>,
        \<lparr>ra_now = 1, ra_ssrc = 2000, ra_pt = 96, ra_seq = 0, ra_ts = 0\<rparr>,
        \<lparr>ra_now = 2, ra_ssrc = 1000, ra_pt = 111, ra_seq = 1, ra_ts = 960\<rparr>] metrics_store_new)) = 3"
proof -
  let ?es = "[\<lparr>ra_now = 0, ra_ssrc = 1000, ra_pt = 111, ra_seq = 0, ra_ts = 0\<rparr>,
      \<lparr>ra_now = 1, ra_ssrc = 2000, ra_pt = 96, ra_seq = 0, ra_ts = 0\<rparr>,
      \<lparr>ra_now = 2, ra_ssrc = 1000, ra_pt = 111, ra_seq = 1, ra_ts = 960\<rparr>]"
  have "iteration_order [1000, 2000] (fold arrive ?es metrics_store_new)"
    using metrics.dom_updates [of ?es metrics_store_new]
    by (auto simp: iteration_order_def metrics_store_new_def)
  then show ?thesis using snapshot_accounts [of "[1000, 2000]" ?es] by (simp add: Let_def)
qed

text \<open>Reading packets \<open>ps\<close> at the times \<open>clocks\<close>: what the header reader
  accepts reaches the metrics.\<close>

definition read_all :: "nat list \<Rightarrow> bytes list \<Rightarrow> (nat \<times> u16 \<times> u32) list" where
  "read_all clocks ps = List.map_filter (\<lambda>(t, p). case parse_rtp_mini p of
     Some (Some m) \<Rightarrow> Some (t, rm_seq m, rm_ts m) | _ \<Rightarrow> None) (zip clocks ps)"

lemma in_stream_Suc:
  "in_stream tick h (Suc i) p = in_stream tick (h\<lparr>rm_seq := rm_seq h + 1, rm_ts := rm_ts h + tick\<rparr>) i p"
  by (simp add: in_stream_def algebra_simps)

lemma read_all_stream:
  "length clocks = length ps \<Longrightarrow> \<forall>i < length ps. in_stream tick h i (ps ! i) \<Longrightarrow>
     in_order (rm_seq h) (read_all clocks ps) \<and> length (read_all clocks ps) = length ps"
proof (induction ps arbitrary: clocks h)
  case (Cons p ps)
  then obtain t ts where c: "clocks = t # ts" "length ts = length ps" by (cases clocks) auto
  let ?h = "h\<lparr>rm_seq := rm_seq h + 1, rm_ts := rm_ts h + tick\<rparr>"
  have "in_stream tick h 0 p" using Cons.prems(2) by auto
  moreover have "\<forall>i < length ps. in_stream tick ?h i (ps ! i)"
    using Cons.prems(2) by (auto simp flip: in_stream_Suc)
  then have "in_order (rm_seq ?h) (read_all ts ps) \<and> length (read_all ts ps) = length ps"
    using Cons.IH [OF c(2)] by blast
  ultimately show ?case using c by (auto simp: read_all_def map_filter_simps in_stream_def)
qed (simp add: read_all_def map_filter_simps)

text \<open>End to end, a receiver that reads every Opus packet a generator sent, in the order sent
  and at any times, counts the stream as complete.\<close>

theorem opus_received_complete:
  assumes "build_many build_opus_packet n st = Some (pkts, st')" and "length clocks = n"
  shows "let m = feed (ssrc_metrics_new (audio_ssrc (config st)) OPUS_PT t0) (read_all clocks pkts) in
    packets_received m = of_nat n \<and> packets_lost m = 0 \<and> out_of_order m = 0"
proof -
  have "length pkts = n" "\<forall>i < n. in_stream 960 (opus_hdr st) i (pkts ! i)"
    using opus_source.build_many_stream [of n st] assms(1) by auto
  then have "in_order (rm_seq (opus_hdr st)) (read_all clocks pkts)" "length (read_all clocks pkts) = n"
    using read_all_stream [of clocks pkts] assms(2) by auto
  then show ?thesis
    using feed_in_order [of "rm_seq (opus_hdr st)" "read_all clocks pkts"]
    by (simp add: Let_def feed_received, simp add: ssrc_metrics_new_def)
qed

theorem opus_received_complete_witness:
  "\<exists>pkts st'. build_many build_opus_packet 2 (rtp_pub_new rtp_config_default) = Some (pkts, st')
     \<and> packets_lost (feed (ssrc_metrics_new 0xA0000001 111 0) (read_all [5, 25] pkts)) = 0"
proof -
  obtain pkts st' where b: "build_many build_opus_packet 2 (rtp_pub_new rtp_config_default) = Some (pkts, st')"
    using opus_source.build_many_stream [of 2 "rtp_pub_new rtp_config_default"] by blast
  from opus_received_complete [OF b, of "[5, 25]" 0] b show ?thesis
    by (simp add: Let_def rtp_pub_new_def rtp_config_default_def)
qed

end
