(* ===== verification/NetFilter.thy ===== *)
theory NetFilter
  imports F64
begin

text \<open>
  The userspace network filter of \<open>oxlab-net\<close>: \<open>filter.rs\<close> (token bucket, random
  loss, delay with jitter, statistics) and the built-in presets of \<open>profile.rs\<close>.  The
  clock reading is an argument in nanoseconds.  The generator of the \<open>rand\<close> crate is the
  parameter \<open>rng_ops\<close>; what the code relies on, its documented ranges, is
  \<open>rng_in_range\<close>, and the properties that need it say so.
\<close>

section \<open>Configuration and results\<close>

record filter_config =
  loss_percent :: f64
  delay_ms :: u32
  jitter_ms :: u32
  bandwidth_kbps :: u32

definition filter_config_default :: filter_config where
  "filter_config_default = \<lparr>loss_percent = Fin 0, delay_ms = 0, jitter_ms = 0, bandwidth_kbps = 0\<rparr>"

text \<open>The delay is in milliseconds.\<close>

datatype filter_result = Drop | Pass (delay: u64)

section \<open>Token bucket\<close>

record token_bucket =
  tokens :: f64
  capacity :: f64
  rate :: f64
  last_refill :: nat

definition token_bucket_new :: "nat \<Rightarrow> u32 \<Rightarrow> token_bucket" where
  "token_bucket_new now kbps = (
     let rate = f_div (f_mul (f_of_u32 kbps) (f_lit 1000)) (f_lit 8);
         capacity = f_mul rate (f_lit (1 / 10))
     in \<lparr>tokens = capacity, capacity = capacity, rate = rate, last_refill = now\<rparr>)"

definition token_bucket_consume :: "nat \<Rightarrow> nat \<Rightarrow> token_bucket \<Rightarrow> bool \<times> token_bucket" where
  "token_bucket_consume now bytes b = (
     let elapsed = as_secs_f64 (now - last_refill b);
         b = b\<lparr>last_refill := now\<rparr>;
         b = b\<lparr>tokens := f_min (f_add (tokens b) (f_mul (rate b) elapsed)) (capacity b)\<rparr>;
         cost = f_of_nat bytes
     in if f_ge (tokens b) cost then (True, b\<lparr>tokens := f_sub (tokens b) cost\<rparr>)
        else (False, b))"

section \<open>The filter\<close>

text \<open>\<open>gen_range(0.0..100.0)\<close> and \<open>gen_range(-j..=j)\<close>.\<close>

record 'g rng_ops =
  gen_percent :: "'g \<Rightarrow> f64 \<times> 'g"
  gen_symmetric :: "int \<Rightarrow> 'g \<Rightarrow> int \<times> 'g"

definition rng_in_range :: "'g rng_ops \<Rightarrow> bool" where
  "rng_in_range R \<longleftrightarrow>
     (\<forall>g. f_le (Fin 0) (fst (gen_percent R g)) \<and> f_lt (fst (gen_percent R g)) (Fin 100))
     \<and> (\<forall>j g. 0 \<le> j \<longrightarrow> - j \<le> fst (gen_symmetric R j g) \<and> fst (gen_symmetric R j g) \<le> j)"

record 'g net_filter =
  nf_config :: filter_config
  nf_rng :: 'g
  nf_token_bucket :: "token_bucket option"
  stats_total :: u64
  stats_dropped :: u64

definition bucket_for :: "nat \<Rightarrow> filter_config \<Rightarrow> token_bucket option" where
  "bucket_for now cfg =
     (if 0 < bandwidth_kbps cfg then Some (token_bucket_new now (bandwidth_kbps cfg)) else None)"

definition net_filter_new :: "nat \<Rightarrow> 'g \<Rightarrow> filter_config \<Rightarrow> 'g net_filter" where
  "net_filter_new now rng cfg = \<lparr>nf_config = cfg, nf_rng = rng,
     nf_token_bucket = bucket_for now cfg, stats_total = 0, stats_dropped = 0\<rparr>"

definition net_filter_pristine :: "nat \<Rightarrow> 'g \<Rightarrow> 'g net_filter" where
  "net_filter_pristine now rng = net_filter_new now rng filter_config_default"

definition net_filter_filter ::
    "'g rng_ops \<Rightarrow> nat \<Rightarrow> nat \<Rightarrow> 'g net_filter \<Rightarrow> filter_result \<times> 'g net_filter" where
  "net_filter_filter R now packet_len f = (
     let f = f\<lparr>stats_total := stats_total f + 1\<rparr>;
         (passed, f) = (case nf_token_bucket f of
             None \<Rightarrow> (True, f)
           | Some bucket \<Rightarrow> let (ok, bucket) = token_bucket_consume now packet_len bucket
               in (ok, f\<lparr>nf_token_bucket := Some bucket\<rparr>))
     in if \<not> passed then (Drop, f\<lparr>stats_dropped := stats_dropped f + 1\<rparr>)
     else
       let (lost, f) = (if f_gt (loss_percent (nf_config f)) (Fin 0)
           then let (roll, g) = gen_percent R (nf_rng f)
             in (f_lt roll (loss_percent (nf_config f)), f\<lparr>nf_rng := g\<rparr>)
           else (False, f))
       in if lost then (Drop, f\<lparr>stats_dropped := stats_dropped f + 1\<rparr>)
       else
         let base_delay = int (unat (delay_ms (nf_config f)));
             (jitter, f) = (if 0 < jitter_ms (nf_config f)
               then let (x, g) = gen_symmetric R (int (unat (jitter_ms (nf_config f)))) (nf_rng f)
                 in (x, f\<lparr>nf_rng := g\<rparr>)
               else (0, f));
             total_ms = of_int (max (base_delay + jitter) 0)
         in (Pass total_ms, f))"

definition net_filter_update :: "nat \<Rightarrow> filter_config \<Rightarrow> 'g net_filter \<Rightarrow> 'g net_filter" where
  "net_filter_update now cfg f = f\<lparr>nf_token_bucket := bucket_for now cfg, nf_config := cfg\<rparr>"

definition drop_rate :: "'g net_filter \<Rightarrow> f64" where
  "drop_rate f = (if stats_total f = 0 then Fin 0
     else f_mul (f_div (f_of_u64 (stats_dropped f)) (f_of_u64 (stats_total f))) (f_lit 100))"

section \<open>Profiles\<close>

record profile_meta =
  pm_name :: string
  pm_description :: string
  pm_origin :: string

definition default_origin :: string where
  "default_origin = ''preset''"

record network_profile =
  np_meta :: profile_meta
  np_conditions :: filter_config

text \<open>Reading the file, the TOML decoder and the path operations are parameters.\<close>

definition profile_load ::
    "('p \<Rightarrow> 'e + string) \<Rightarrow> (string \<Rightarrow> 'e + network_profile) \<Rightarrow> 'p \<Rightarrow> 'e + network_profile" where
  "profile_load read_to_string from_toml path =
     (case read_to_string path of Inl e \<Rightarrow> Inl e
      | Inr content \<Rightarrow> (case from_toml content of Inl e \<Rightarrow> Inl e | Inr profile \<Rightarrow> Inr profile))"

definition profile_load_by_name ::
    "('p \<Rightarrow> 'e + string) \<Rightarrow> (string \<Rightarrow> 'e + network_profile) \<Rightarrow> ('p \<Rightarrow> string \<Rightarrow> 'p)
       \<Rightarrow> 'p \<Rightarrow> string \<Rightarrow> 'e + network_profile" where
  "profile_load_by_name read_to_string from_toml path_join profiles_dir name =
     profile_load read_to_string from_toml (path_join profiles_dir (name @ ''.toml''))"

text \<open>The em dash of the descriptions is the bytes 226, 128, 148.\<close>

definition em_dash :: string where
  "em_dash = utf8 [226, 128, 148]"

definition profile_pristine :: network_profile where
  "profile_pristine = \<lparr>np_meta = \<lparr>pm_name = ''pristine'',
       pm_description = ''Ideal network '' @ em_dash @ '' no impairment'', pm_origin = ''builtin''\<rparr>,
     np_conditions = filter_config_default\<rparr>"

definition profile_office_wifi :: network_profile where
  "profile_office_wifi = \<lparr>np_meta = \<lparr>pm_name = ''office_wifi'',
       pm_description = ''Office Wi-Fi'', pm_origin = ''builtin''\<rparr>,
     np_conditions = \<lparr>loss_percent = f_lit (1 / 2), delay_ms = 5, jitter_ms = 10, bandwidth_kbps = 50000\<rparr>\<rparr>"

definition profile_field_lte :: network_profile where
  "profile_field_lte = \<lparr>np_meta = \<lparr>pm_name = ''field_lte'',
       pm_description = ''Field LTE '' @ em_dash @ '' good signal'', pm_origin = ''builtin''\<rparr>,
     np_conditions = \<lparr>loss_percent = f_lit 2, delay_ms = 50, jitter_ms = 30, bandwidth_kbps = 10000\<rparr>\<rparr>"

definition profile_field_lte_poor :: network_profile where
  "profile_field_lte_poor = \<lparr>np_meta = \<lparr>pm_name = ''field_lte_poor'',
       pm_description = ''Field LTE '' @ em_dash @ '' poor signal'', pm_origin = ''builtin''\<rparr>,
     np_conditions = \<lparr>loss_percent = f_lit 8, delay_ms = 100, jitter_ms = 80, bandwidth_kbps = 3000\<rparr>\<rparr>"

definition profile_basement :: network_profile where
  "profile_basement = \<lparr>np_meta = \<lparr>pm_name = ''basement'',
       pm_description = ''Basement / elevator'', pm_origin = ''builtin''\<rparr>,
     np_conditions = \<lparr>loss_percent = f_lit 15, delay_ms = 150, jitter_ms = 100, bandwidth_kbps = 1000\<rparr>\<rparr>"

definition profile_builtin :: "string \<Rightarrow> network_profile option" where
  "profile_builtin name =
     (if name = ''pristine'' then Some profile_pristine
      else if name = ''office_wifi'' then Some profile_office_wifi
      else if name = ''field_lte'' then Some profile_field_lte
      else if name = ''field_lte_poor'' then Some profile_field_lte_poor
      else if name = ''basement'' then Some profile_basement
      else None)"

section \<open>The bucket invariant\<close>

definition bucket_ok :: "token_bucket \<Rightarrow> bool" where
  "bucket_ok b \<longleftrightarrow> (case (tokens b, capacity b, rate b) of
     (Fin t, Fin c, Fin r) \<Rightarrow> 0 \<le> t \<and> t \<le> c \<and> 0 \<le> r \<and> r \<le> 2 ^ 74
       \<and> is_f64 (Fin t) \<and> is_f64 (Fin c) \<and> c \<le> 2 ^ 74
     | _ \<Rightarrow> False)"

lemma bucket_okE:
  assumes "bucket_ok b"
  obtains t c r where "tokens b = Fin t" "capacity b = Fin c" "rate b = Fin r" "0 \<le> t" "t \<le> c"
    "0 \<le> r" "r \<le> 2 ^ 74" "is_f64 (Fin t)" "is_f64 (Fin c)" "c \<le> 2 ^ 74"
  using assms by (auto simp: bucket_ok_def split: f64.splits)

lemma rnd_lits: "rnd 8 = Fin 8" "rnd (1 / 10) = Fin (3602879701896397 / 36028797018963968)"
  by (simp_all add: f64_eval)

lemma bucket_new_ok: "bucket_ok (token_bucket_new now kbps)"
proof -
  obtain k where k: "f_of_u32 kbps = Fin k" "0 \<le> k" "k \<le> 2 ^ 64" by (rule f_of_u32_bounds)
  obtain a where a: "f_mul (Fin k) (Fin 1000) = Fin a" "0 \<le> a" "a \<le> 2 ^ 64 * 2 ^ 10"
    using f_mul_le [of k "2 ^ 64" 1000 "2 ^ 10"] k is_f64_pow2 [of 74] by auto
  obtain r where r: "f_div (Fin a) (Fin 8) = Fin r" "0 \<le> r" "r \<le> 2 ^ 74"
    using f_div_le [of a "2 ^ 74" 8] a is_f64_pow2 [of 74] by auto
  obtain c where c: "f_mul (Fin r) (rnd (1 / 10)) = Fin c" "0 \<le> c" "c \<le> 2 ^ 74 * 1"
    using f_mul_le [of r "2 ^ 74" "3602879701896397 / 36028797018963968" 1] r is_f64_pow2 [of 74]
    by (auto simp: rnd_lits)
  have "is_f64 (Fin c)" using c(1) is_f64_ops(3) by metis
  then show ?thesis using k a r c by (simp add: token_bucket_new_def Let_def rnd_lits bucket_ok_def)
qed

lemma f_min_Fin: "f_min (Fin a) (Fin b) = Fin (min a b)"
  by (simp add: f_min_def min_def)

lemma bucket_consume_ok:
  assumes "bucket_ok b" "now - last_refill b < 2 ^ 64"
  shows "bucket_ok (snd (token_bucket_consume now n b))"
    "capacity (snd (token_bucket_consume now n b)) = capacity b"
    "f_lt (capacity b) (f_of_nat n) \<Longrightarrow> \<not> fst (token_bucket_consume now n b)"
    "last_refill (snd (token_bucket_consume now n b)) = now"
proof -
  obtain t c r where b: "tokens b = Fin t" "capacity b = Fin c" "rate b = Fin r" "0 \<le> t" "t \<le> c"
    "0 \<le> r" "r \<le> 2 ^ 74" "is_f64 (Fin t)" "is_f64 (Fin c)" "c \<le> 2 ^ 74" using bucket_okE assms(1) .
  obtain e where e: "as_secs_f64 (now - last_refill b) = Fin e" "0 \<le> e" "e \<le> 2 ^ 65"
    using as_secs_bounds assms(2) .
  obtain x where x: "f_mul (Fin r) (Fin e) = Fin x" "0 \<le> x" "x \<le> 2 ^ 74 * 2 ^ 65"
    using f_mul_le [of r "2 ^ 74" e "2 ^ 65"] b e is_f64_pow2 [of 139] by auto
  have "t + x \<le> 2 ^ 140" using b x by simp
  then obtain y where y: "f_add (Fin t) (Fin x) = Fin y" "0 \<le> y"
    using f_add_le [of t x "2 ^ 140"] b(4) x(2) is_f64_pow2 [of 140] by auto
  define m where "m = min y c"
  have "is_f64 (Fin y)" using is_f64_ops(1) y(1) by metis
  then have m: "0 \<le> m" "m \<le> c" "is_f64 (Fin m)" using b y by (auto simp: m_def min_def)
  have c0: "0 \<le> c" using b by simp
  have refill: "token_bucket_consume now n b =
      (if f_ge (Fin m) (f_of_nat n)
       then (True, b\<lparr>last_refill := now, tokens := f_sub (Fin m) (f_of_nat n)\<rparr>)
       else (False, b\<lparr>last_refill := now, tokens := Fin m\<rparr>))"
    using b e x y by (simp add: token_bucket_consume_def Let_def m_def f_min_Fin)
  show cap: "capacity (snd (token_bucket_consume now n b)) = capacity b"
    "last_refill (snd (token_bucket_consume now n b)) = now" by (simp_all add: refill)
  show "\<not> fst (token_bucket_consume now n b)" if "f_lt (capacity b) (f_of_nat n)"
    using that b m by (cases "f_of_nat n") (auto simp: refill)
  show "bucket_ok (snd (token_bucket_consume now n b))"
  proof (cases "f_ge (Fin m) (f_of_nat n)")
    case True
    then obtain k where k: "f_of_nat n = Fin k" "0 \<le> k" "k \<le> m"
      using f_of_nat_nonneg [of n] by (cases "f_of_nat n") (auto simp del: f_of_nat_nonneg)
    have "f_le (rnd (m - k)) (Fin m)" "f_le (Fin 0) (rnd (m - k))"
      using m k by (auto intro!: rnd_upper rnd_nonneg)
    then obtain z where z: "rnd (m - k) = Fin z" "0 \<le> z" "z \<le> m" by (cases "rnd (m - k)") auto
    then have "is_f64 (Fin z)" using is_f64_rnd by metis
    then show ?thesis using True b k z m by (simp add: refill bucket_ok_def f_sub_def)
  next
    case False
    then show ?thesis using b m by (simp add: refill bucket_ok_def)
  qed
qed

section \<open>Filters as a contract\<close>

text \<open>A packet after another, with the results in order.\<close>

fun run_filter :: "('p \<Rightarrow> 's \<Rightarrow> filter_result \<times> 's) \<Rightarrow> 'p list \<Rightarrow> 's \<Rightarrow> filter_result list \<times> 's" where
  "run_filter filt [] s = ([], s)"
| "run_filter filt (p # ps) s =
     (let (r, s) = filt p s; (rs, s) = run_filter filt ps s in (r # rs, s))"

text \<open>What the bots and the engine rely on: a filter keeps the two counters, and an invariant of its
  own.\<close>

locale packet_filter =
  fixes filt :: "'p \<Rightarrow> 's \<Rightarrow> filter_result \<times> 's"
    and total :: "'s \<Rightarrow> u64"
    and dropped :: "'s \<Rightarrow> u64"
  assumes total_step: "total (snd (filt p s)) = total s + 1"
    and dropped_step: "dropped (snd (filt p s)) = dropped s + (if fst (filt p s) = Drop then 1 else 0)"
begin

lemma run_length: "length (fst (run_filter filt ps s)) = length ps"
  by (induction ps arbitrary: s) (simp_all add: Let_def split_beta)

lemma run_total: "total (snd (run_filter filt ps s)) = total s + of_nat (length ps)"
proof (induction ps arbitrary: s)
  case (Cons p ps)
  show ?case using Cons [of "snd (filt p s)"] total_step [of p s]
    by (simp add: Let_def split_beta algebra_simps)
qed simp

lemma run_dropped:
  "dropped (snd (run_filter filt ps s))
    = dropped s + of_nat (length (filter (\<lambda>r. r = Drop) (fst (run_filter filt ps s))))"
proof (induction ps arbitrary: s)
  case (Cons p ps)
  show ?case using Cons [of "snd (filt p s)"] dropped_step [of p s]
    by (simp add: Let_def split_beta algebra_simps)
qed simp

lemma run_invariant:
  assumes "\<And>p s. P p \<Longrightarrow> I s \<Longrightarrow> I (snd (filt p s))" and "\<And>p s. P p \<Longrightarrow> I s \<Longrightarrow> Q p (fst (filt p s))"
    and "\<forall>p \<in> set ps. P p" and "I s"
  shows "list_all2 Q ps (fst (run_filter filt ps s)) \<and> I (snd (run_filter filt ps s))"
  using assms(3,4)
proof (induction ps arbitrary: s)
  case (Cons p ps)
  then show ?case using assms(1,2) by (auto simp: Let_def split_beta)
qed simp

lemma run_results:
  assumes "\<And>p s. I s \<Longrightarrow> I (snd (filt p s))" and "\<And>p s. I s \<Longrightarrow> Q (fst (filt p s))" and "I s"
  shows "\<forall>r \<in> set (fst (run_filter filt ps s)). Q r"
proof -
  have "list_all2 (\<lambda>_. Q) ps (fst (run_filter filt ps s))"
    using run_invariant [of "\<lambda>_. True" I "\<lambda>_. Q" ps s] assms by blast
  then show ?thesis by (auto simp: list_all2_conv_all_nth in_set_conv_nth)
qed

end

definition filter_at :: "'g rng_ops \<Rightarrow> nat \<times> nat \<Rightarrow> 'g net_filter \<Rightarrow> filter_result \<times> 'g net_filter" where
  "filter_at R p f = net_filter_filter R (fst p) (snd p) f"

lemmas filter_defs = filter_at_def net_filter_filter_def Let_def split_beta

interpretation net: packet_filter "filter_at R" stats_total stats_dropped for R
  by unfold_locales (auto simp: filter_defs split: option.splits)

lemma filter_keeps_config [simp]: "nf_config (snd (filter_at R p f)) = nf_config f"
  by (auto simp: filter_defs split: option.splits)

lemma filter_keeps_no_bucket:
  "nf_token_bucket f = None \<Longrightarrow> nf_token_bucket (snd (filter_at R p f)) = None"
  by (auto simp: filter_defs)

lemma pristine_step:
  assumes "nf_config f = filter_config_default" "nf_token_bucket f = None"
  shows "fst (filter_at R p f) = Pass 0"
  using assms by (simp add: filter_defs filter_config_default_def)

lemma full_loss_step:
  assumes "rng_in_range R" "f_le (Fin 100) (loss_percent (nf_config f))"
  shows "fst (filter_at R p f) = Drop"
proof -
  have pos: "f_lt (Fin 0) (loss_percent (nf_config f))"
    using assms(2) by (cases "loss_percent (nf_config f)") auto
  have "f_lt (fst (gen_percent R g)) (loss_percent (nf_config f))" for g
  proof -
    have "f_le (Fin 0) (fst (gen_percent R g))" "f_lt (fst (gen_percent R g)) (Fin 100)"
      using assms(1) by (simp_all add: rng_in_range_def)
    then show ?thesis using assms(2)
      by (cases "fst (gen_percent R g)"; cases "loss_percent (nf_config f)") auto
  qed
  then show ?thesis using pos by (auto simp: filter_defs split: option.splits)
qed

definition delay_of :: "filter_config \<Rightarrow> int \<Rightarrow> u64" where
  "delay_of c x = of_int (max (int (unat (delay_ms c)) + x) 0)"

lemma filter_pass_delay:
  assumes "fst (filter_at R p f) = Pass d"
  shows "if 0 < jitter_ms (nf_config f)
    then \<exists>g. d = delay_of (nf_config f) (fst (gen_symmetric R (int (unat (jitter_ms (nf_config f)))) g))
    else d = delay_of (nf_config f) 0"
  using assms
  unfolding filter_at_def net_filter_filter_def Let_def split_beta delay_of_def [symmetric]
  by (auto split: option.splits if_splits)

lemma delay_step:
  assumes "rng_in_range R" "fst (filter_at R p f) = Pass d"
  shows "int (unat (delay_ms (nf_config f))) - int (unat (jitter_ms (nf_config f))) \<le> int (unat d)
    \<and> unat d \<le> unat (delay_ms (nf_config f)) + unat (jitter_ms (nf_config f))"
proof -
  let ?c = "nf_config f"
  define D J where "D = int (unat (delay_ms ?c))" and "J = int (unat (jitter_ms ?c))"
  have small: "0 \<le> D" "D < 2 ^ 32" "0 \<le> J" "J < 2 ^ 32"
    using unsigned_less [where w = "delay_ms ?c" and 'a = int]
      unsigned_less [where w = "jitter_ms ?c" and 'a = int] by (simp_all add: D_def J_def)
  obtain x where x: "d = of_int (max (D + x) 0)" "- J \<le> x" "x \<le> J"
  proof -
    have draw: "- J \<le> fst (gen_symmetric R J g)" "fst (gen_symmetric R J g) \<le> J" for g
      using assms(1) small by (simp_all add: rng_in_range_def)
    have "\<exists>x. d = delay_of ?c x \<and> - J \<le> x \<and> x \<le> J"
    proof (cases "0 < jitter_ms ?c")
      case True
      then obtain g where "d = delay_of ?c (fst (gen_symmetric R J g))"
        using filter_pass_delay [OF assms(2)] by (auto simp: J_def)
      then show ?thesis using draw by blast
    next
      case False
      then have "d = delay_of ?c 0" using filter_pass_delay [OF assms(2)] by simp
      then show ?thesis using small by (intro exI [of _ 0]) simp
    qed
    then show thesis using that by (auto simp: delay_of_def D_def)
  qed
  have "max (D + x) 0 < 2 ^ 64" "0 \<le> max (D + x) 0" using small x by auto
  then have "int (unat d) = max (D + x) 0"
    using x(1) by (simp add: uint_word_of_int_eq take_bit_int_eq_self flip: uint_nat)
  then have "D - J \<le> int (unat d)" "int (unat d) \<le> D + J" using x small by linarith+
  then show ?thesis by (simp add: D_def J_def nat_int_comparison)
qed

lemma bucket_step:
  assumes "nf_token_bucket f = Some b" "bucket_ok b" "capacity b = c" "fst p < 2 ^ 64"
  shows "\<exists>b'. nf_token_bucket (snd (filter_at R p f)) = Some b' \<and> bucket_ok b' \<and> capacity b' = c"
    and "f_lt c (f_of_nat (snd p)) \<Longrightarrow> fst (filter_at R p f) = Drop"
proof -
  have "fst p - last_refill b < 2 ^ 64" using assms(4) by (rule le_less_trans [OF diff_le_self])
  note ok = bucket_consume_ok [OF assms(2) this]
  show "\<exists>b'. nf_token_bucket (snd (filter_at R p f)) = Some b' \<and> bucket_ok b' \<and> capacity b' = c"
    using ok assms by (auto simp: filter_defs)
  show "f_lt c (f_of_nat (snd p)) \<Longrightarrow> fst (filter_at R p f) = Drop"
    using ok(3) assms by (simp add: filter_defs)
qed

section \<open>Properties\<close>

text \<open>C35: the statistics are the traffic: after any sequence of packets through a new filter, with
  any configuration and any draws, the total is the number of packets, the dropped count is the
  number of \<open>Drop\<close> results, and the drop rate is a percentage between 0 and 100.\<close>

theorem filter_statistics:
  assumes "length ps < 2 ^ 64" and "run_filter (filter_at R) ps (net_filter_new now rng cfg) = (rs, f)"
  shows "length rs = length ps
    \<and> unat (stats_total f) = length ps
    \<and> unat (stats_dropped f) = length (filter (\<lambda>r. r = Drop) rs)
    \<and> (\<exists>p. drop_rate f = Fin p \<and> 0 \<le> p \<and> p \<le> 100)"
proof -
  have rs: "rs = fst (run_filter (filter_at R) ps (net_filter_new now rng cfg))"
    "f = snd (run_filter (filter_at R) ps (net_filter_new now rng cfg))" using assms(2) by simp_all
  have len: "length rs = length ps" by (simp add: rs net.run_length)
  have le: "length (filter (\<lambda>r. r = Drop) rs) \<le> length ps"
    using length_filter_le [of _ rs] len by simp
  have t: "unat (stats_total f) = length ps"
    using assms(1) by (simp add: rs net.run_total net_filter_new_def unat_of_nat_eq)
  have d: "unat (stats_dropped f) = length (filter (\<lambda>r. r = Drop) rs)"
    using assms(1) le by (simp add: rs net.run_dropped net_filter_new_def unat_of_nat_eq)
  have "\<exists>p. drop_rate f = Fin p \<and> 0 \<le> p \<and> p \<le> 100"
  proof (cases "stats_total f = 0")
    case False
    then have "0 < length ps" using t by (metis gr0I unat_eq_0)
    moreover have "length ps \<le> 2 ^ 64" using assms(1) by (rule less_imp_le)
    ultimately obtain p where "f_mul (f_div (f_of_nat (length (filter (\<lambda>r. r = Drop) rs)))
        (f_of_nat (length ps))) (f_lit 100) = Fin p" "0 \<le> p" "p \<le> 100"
      using f_percent_bounds [OF le] by metis
    then show ?thesis using False by (simp add: drop_rate_def f_of_u64_def t d)
  qed (simp add: drop_rate_def)
  with len t d show ?thesis by blast
qed

text \<open>A generator that meets the documented ranges, for the witnesses.\<close>

definition counting_rng :: "nat rng_ops" where
  "counting_rng = \<lparr>gen_percent = (\<lambda>g. (Fin (of_nat (g mod 100)), g + 1)),
     gen_symmetric = (\<lambda>j g. (- j + int g mod (2 * j + 1), g + 1))\<rparr>"

lemma counting_rng_in_range: "rng_in_range counting_rng"
proof -
  have "of_nat (g mod 100) < (100 :: rat)" for g
  proof -
    have "g mod 100 < 100" by simp
    then have "of_nat (g mod 100) < (of_nat 100 :: rat)" by (simp only: of_nat_less_iff)
    then show ?thesis by simp
  qed
  moreover have "int g mod (2 * j + 1) \<le> 2 * j" if "0 \<le> j" for j g
    using pos_mod_bound [of "2 * j + 1" "int g"] that by simp
  ultimately show ?thesis by (simp add: rng_in_range_def counting_rng_def)
qed

theorem filter_statistics_witness:
  "\<exists>rs f. run_filter (filter_at counting_rng) [(0, 1200), (5, 1200)]
       (net_filter_new 0 0 (np_conditions profile_basement)) = (rs, f) \<and> unat (stats_total f) = 2"
proof -
  obtain rs f where "run_filter (filter_at counting_rng) [(0, 1200), (5, 1200)]
      (net_filter_new 0 0 (np_conditions profile_basement)) = (rs, f)" by fastforce
  from filter_statistics [OF _ this] this show ?thesis by simp
qed

text \<open>A pristine filter passes every packet of every sequence at once, whatever the generator
  draws.\<close>

theorem pristine_passes:
  "fst (run_filter (filter_at R) ps (net_filter_pristine now rng)) = replicate (length ps) (Pass 0)"
proof -
  let ?I = "\<lambda>f. nf_config f = filter_config_default \<and> nf_token_bucket f = None"
  have "\<forall>r \<in> set (fst (run_filter (filter_at R) ps (net_filter_pristine now rng))). r = Pass 0"
    by (rule net.run_results [where I = ?I])
      (auto simp: pristine_step filter_keeps_no_bucket net_filter_pristine_def net_filter_new_def
        bucket_for_def filter_config_default_def)
  then show ?thesis by (metis net.run_length replicate_length_same)
qed

text \<open>Switching a running filter to a loss of 100 percent or more drops every packet from then
  on, whatever the configuration was before.\<close>

theorem full_loss_drops:
  assumes "rng_in_range R" and "f_le (Fin 100) (loss_percent cfg)"
  shows "fst (run_filter (filter_at R) ps (net_filter_update now cfg f)) = replicate (length ps) Drop"
proof -
  have "\<forall>r \<in> set (fst (run_filter (filter_at R) ps (net_filter_update now cfg f))). r = Drop"
    by (rule net.run_results [where I = "\<lambda>f. nf_config f = cfg"])
      (use assms in \<open>auto simp: full_loss_step net_filter_update_def\<close>)
  then show ?thesis by (metis net.run_length replicate_length_same)
qed

theorem full_loss_drops_witness:
  "fst (run_filter (filter_at counting_rng) [(1, 100)]
     (net_filter_update 1 (filter_config_default\<lparr>loss_percent := Fin 100\<rparr>) (net_filter_pristine 0 0)))
   = [Drop]"
  using full_loss_drops [OF counting_rng_in_range, of "filter_config_default\<lparr>loss_percent := Fin 100\<rparr>"
      "[(1, 100)]" 1 "net_filter_pristine 0 0"] by simp

text \<open>The delay of a passed packet is the configured one give or take the configured jitter,
  and never negative.\<close>

theorem delay_within_jitter:
  assumes "rng_in_range R" and "net_filter_filter R now n f = (Pass d, f')"
  shows "int (unat (delay_ms (nf_config f))) - int (unat (jitter_ms (nf_config f))) \<le> int (unat d)
    \<and> unat d \<le> unat (delay_ms (nf_config f)) + unat (jitter_ms (nf_config f))"
  using delay_step [OF assms(1), of "(now, n)" f d] assms(2) by (simp add: filter_at_def)

theorem delay_within_jitter_witness:
  "\<exists>d f'. net_filter_filter counting_rng 0 1200
       (net_filter_new 0 0 (filter_config_default\<lparr>delay_ms := 50, jitter_ms := 10\<rparr>)) = (Pass d, f')
     \<and> unat d \<le> 60"
proof -
  let ?f = "net_filter_new 0 0 (filter_config_default\<lparr>delay_ms := 50, jitter_ms := 10\<rparr>) :: nat net_filter"
  obtain d f' where r: "net_filter_filter counting_rng 0 1200 ?f = (Pass d, f')"
    by (simp add: net_filter_filter_def net_filter_new_def bucket_for_def filter_config_default_def
        counting_rng_def Let_def)
  from delay_within_jitter [OF counting_rng_in_range r] r show ?thesis
    by (simp add: net_filter_new_def filter_config_default_def)
qed

text \<open>C36: the token bucket of a limited link: through any sequence of packets (at any clock readings
  below 584 years) the tokens stay between zero and the capacity, a tenth of a second of the
  rate, and a packet larger than that capacity never passes, however long the link was idle.\<close>

theorem bandwidth_bucket:
  assumes "0 < bandwidth_kbps cfg" and "\<forall>p \<in> set ps. fst p < 2 ^ 64"
    and "run_filter (filter_at R) ps (net_filter_new now rng cfg) = (rs, f)"
  shows "(\<exists>b t c. nf_token_bucket f = Some b \<and> tokens b = Fin t \<and> capacity b = Fin c
      \<and> capacity b = capacity (token_bucket_new now (bandwidth_kbps cfg)) \<and> 0 \<le> t \<and> t \<le> c)
    \<and> (\<forall>i < length ps. f_lt (capacity (token_bucket_new now (bandwidth_kbps cfg))) (f_of_nat (snd (ps ! i)))
         \<longrightarrow> rs ! i = Drop)"
proof -
  define c where "c = capacity (token_bucket_new now (bandwidth_kbps cfg))"
  let ?I = "\<lambda>f. \<exists>b. nf_token_bucket f = Some b \<and> bucket_ok b \<and> capacity b = c"
  let ?Q = "\<lambda>p r. f_lt c (f_of_nat (snd p)) \<longrightarrow> r = Drop"
  have "?I (net_filter_new now rng cfg)"
    using assms(1) bucket_new_ok by (simp add: net_filter_new_def bucket_for_def c_def)
  then have "list_all2 ?Q ps (fst (run_filter (filter_at R) ps (net_filter_new now rng cfg)))
      \<and> ?I (snd (run_filter (filter_at R) ps (net_filter_new now rng cfg)))"
  proof (intro net.run_invariant [where P = "\<lambda>p. fst p < 2 ^ 64"])
    fix p :: "nat \<times> nat" and g :: "'a net_filter"
    assume p: "fst p < 2 ^ 64" and "?I g"
    then obtain b where "nf_token_bucket g = Some b" "bucket_ok b" "capacity b = c" by blast
    from bucket_step [OF this p] show "?I (snd (filter_at R p g))" "?Q p (fst (filter_at R p g))"
      by blast+
  qed (use assms(2) in blast)+
  then have q: "list_all2 ?Q ps rs" and "?I f" using assms(3) by auto
  then obtain b where b: "nf_token_bucket f = Some b" "bucket_ok b" "capacity b = c" by blast
  from b(2) obtain t c' where "tokens b = Fin t" "capacity b = Fin c'" "0 \<le> t" "t \<le> c'"
    by (rule bucket_okE)
  then show ?thesis using b q unfolding c_def [symmetric] by (auto simp: list_all2_conv_all_nth)
qed

theorem bandwidth_bucket_witness:
  "fst (run_filter (filter_at counting_rng) [(0, 1200), (10 ^ 12, 1300)]
     (net_filter_new 0 0 (filter_config_default\<lparr>bandwidth_kbps := 100\<rparr>))) ! 1 = Drop"
proof -
  let ?cfg = "filter_config_default\<lparr>bandwidth_kbps := 100\<rparr>"
  obtain rs f where r: "run_filter (filter_at counting_rng) [(0, 1200), (10 ^ 12, 1300)]
      (net_filter_new 0 0 ?cfg) = (rs, f)" by fastforce
  have kbps: "bandwidth_kbps ?cfg = 100" by simp
  have "capacity (token_bucket_new 0 100) = Fin 1250"
    by (simp add: token_bucket_new_def Let_def f_of_u32_def f_of_nat_def f64_eval)
  moreover have "f_of_nat 1300 = Fin 1300" by (simp add: f_of_nat_def f64_eval)
  ultimately have "f_lt (capacity (token_bucket_new 0 (bandwidth_kbps ?cfg))) (f_of_nat 1300)"
    by (simp only: kbps f_lt.simps)
  moreover have "0 < bandwidth_kbps ?cfg" by simp
  moreover have "\<forall>p \<in> set [(0, 1200), (10 ^ 12, 1300 :: nat)]. fst p < (2 ^ 64 :: nat)" by simp
  note big = bandwidth_bucket [OF \<open>0 < bandwidth_kbps ?cfg\<close> this r]
  ultimately have "rs ! 1 = Drop" using big [THEN conjunct2, THEN spec, of 1] by simp
  then show ?thesis by (simp only: r fst_conv)
qed

end
