(* ===== verification/Registry.thy ===== *)
theory Registry
  imports Prelude
begin

text \<open>
  The checkpoints of the first judging layer: the category type of \<open>oxlab-judge/src/lib.rs\<close>
  and the registry of \<open>checkpoint_registry.rs\<close>.  The Korean descriptions are their UTF-8
  bytes.
\<close>

section \<open>Categories\<close>

datatype checkpoint_category =
  RtcpTerminator | SrTranslation | PttRelay | PliGovernor | SubscriberGate | FloorControl
  | CoreRelay | Simulcast | ScreenShare | Lifecycle

fun show_category :: "checkpoint_category \<Rightarrow> string" where
  "show_category RtcpTerminator = ''RTCP Terminator''"
| "show_category SrTranslation = ''SR Translation''"
| "show_category PttRelay = ''PTT Relay''"
| "show_category PliGovernor = ''PLI Governor''"
| "show_category SubscriberGate = ''SubscriberGate''"
| "show_category FloorControl = ''Floor Control''"
| "show_category CoreRelay = ''Core Relay''"
| "show_category Simulcast = ''Simulcast''"
| "show_category ScreenShare = ''Screen Share''"
| "show_category Lifecycle = ''Lifecycle''"

text \<open>\<open>to_lowercase\<close> of the Unicode library is a parameter.\<close>

definition category_from_str_loose :: "(string \<Rightarrow> string) \<Rightarrow> string \<Rightarrow> checkpoint_category option" where
  "category_from_str_loose to_lowercase str = (let s = to_lowercase str in
     if s = ''rtcp_terminator'' \<or> s = ''rtcpterminator'' then Some RtcpTerminator
     else if s = ''sr_translation'' \<or> s = ''srtranslation'' then Some SrTranslation
     else if s = ''ptt_relay'' \<or> s = ''pttrelay'' then Some PttRelay
     else if s = ''pli_governor'' \<or> s = ''pligovernor'' then Some PliGovernor
     else if s = ''subscriber_gate'' \<or> s = ''subscribergate'' then Some SubscriberGate
     else if s = ''floor_control'' \<or> s = ''floorcontrol'' then Some FloorControl
     else if s = ''core_relay'' \<or> s = ''corerelay'' then Some CoreRelay
     else if s = ''simulcast'' then Some Simulcast
     else if s = ''screen_share'' \<or> s = ''screenshare'' then Some ScreenShare
     else if s = ''lifecycle'' then Some Lifecycle
     else None)"

section \<open>The registry\<close>

record checkpoint_def =
  cd_id :: string
  cd_name :: string
  cd_category :: checkpoint_category
  cd_description :: string

definition REGISTRY :: "checkpoint_def list" where
  "REGISTRY = [
  \<lparr>cd_id = ''L1-01'', cd_name = ''subscriber RR relay blocked'',
     cd_category = RtcpTerminator,
     cd_description = ''subscriber'' @ utf8 [236, 157, 152] @ '' RR'' @ utf8 [236, 157, 180] @
       '' publisher'' @ utf8 [236, 151, 144, 234, 178, 140, 32, 235, 166, 180, 235, 160, 136,
       236, 157, 180, 235, 144, 152, 236, 167, 128, 32, 236, 149, 138, 236, 149, 132, 236, 149,
       188, 32, 237, 149, 156, 235, 139, 164]\<rparr>,
  \<lparr>cd_id = ''L1-02'', cd_name = ''SR NTP timestamp preserved'',
     cd_category = SrTranslation,
     cd_description = utf8 [83, 82, 236, 157, 152] @ '' NTP timestamp'' @ utf8 [236, 157, 128] @
       '' publisher '' @ utf8 [236, 155, 144, 235, 179, 184, 32, 234, 183, 184, 235, 140, 128,
       235, 161, 156, 32, 236, 156, 160, 236, 167, 128, 235, 144, 152, 236, 150, 180, 236, 149,
       188, 32, 237, 149, 156, 235, 139, 164]\<rparr>,
  \<lparr>cd_id = ''L1-03'', cd_name = ''SR RTP ts continuity'',
     cd_category = SrTranslation,
     cd_description = utf8 [83, 82, 236, 157, 152] @ '' RTP timestamp'' @ utf8 [236, 157, 128,
       32, 234, 181, 172, 235, 143, 133, 32, 235, 160, 136, 236, 157, 180, 236, 150, 180] @
       '' offset'' @ utf8 [234, 179, 188, 32, 236, 157, 188, 234, 180, 128, 235, 144, 152, 236,
       150, 180, 236, 149, 188, 32, 237, 149, 156, 235, 139, 164]\<rparr>,
  \<lparr>cd_id = ''L1-04'', cd_name = ''PTT non-speaker RTP gating'',
     cd_category = PttRelay,
     cd_description = utf8 [235, 185, 132, 235, 176, 156, 237, 153, 148, 236, 158, 144, 236, 157,
       152] @ '' RTP'' @ utf8 [235, 138, 148] @ '' ingress'' @ utf8 [236, 151, 144, 236, 132,
       156, 32, 236, 176, 168, 235, 139, 168, 235, 144, 152, 236, 150, 180, 236, 149, 188, 32,
       237, 149, 156, 235, 139, 164]\<rparr>,
  \<lparr>cd_id = ''L1-05'', cd_name = ''PTT silence flush'',
     cd_category = PttRelay,
     cd_description = ''clear_speaker '' @ utf8 [236, 139, 156] @ '' Opus silence 3'' @
       utf8 [237, 148, 132, 235, 160, 136, 236, 158, 132, 236, 157, 180, 32, 236, 163, 188, 236,
       158, 133, 235, 144, 152, 236, 150, 180, 236, 149, 188, 32, 237, 149, 156, 235, 139, 164]\<rparr>,
  \<lparr>cd_id = ''L1-06'', cd_name = ''PTT speaker switch keyframe first'',
     cd_category = PttRelay,
     cd_description = utf8 [237, 153, 148, 236, 158, 144, 32, 236, 160, 132, 237, 153, 152, 32,
       237, 155, 132, 32, 236, 178, 171, 32, 235, 166, 180, 235, 160, 136, 236, 157, 180, 32,
       237, 140, 168, 237, 130, 183, 236, 157, 128] @ '' VP8 keyframe'' @ utf8 [236, 157, 180,
       236, 150, 180, 236, 149, 188, 32, 237, 149, 156, 235, 139, 164]\<rparr>,
  \<lparr>cd_id = ''L1-07'', cd_name = ''SSRC rewriting consistency'',
     cd_category = PttRelay,
     cd_description = ''virtual SSRC'' @ utf8 [234, 176, 128, 32, 237, 153, 148, 236, 158, 144,
       32, 236, 160, 132, 237, 153, 152, 32, 237, 155, 132, 236, 151, 144, 235, 143, 132, 32,
       236, 157, 188, 234, 180, 128, 235, 144, 152, 236, 150, 180, 236, 149, 188, 32, 237, 149,
       156, 235, 139, 164]\<rparr>,
  \<lparr>cd_id = ''L1-08'', cd_name = ''ts_gap continuity after idle'',
     cd_category = PttRelay,
     cd_description = ''idle '' @ utf8 [237, 155, 132, 32, 235, 179, 181, 234, 183, 128, 32, 236,
       139, 156] @ '' ts gap'' @ utf8 [236, 157, 180, 32, 234, 178, 189, 234, 179, 188, 32, 236,
       139, 156, 234, 176, 132, 236, 157, 132, 32, 235, 176, 152, 236, 152, 129, 237, 149, 180,
       236, 149, 188, 32, 237, 149, 156, 235, 139, 164]\<rparr>,
  \<lparr>cd_id = ''L1-09'', cd_name = ''PLI '' @ utf8 [226, 134, 146] @ '' keyframe response'',
     cd_category = PliGovernor,
     cd_description = ''PLI '' @ utf8 [236, 160, 132, 236, 134, 161, 32, 237, 155, 132, 32, 236,
       160, 156, 237, 149, 156, 32, 236, 139, 156, 234, 176, 132, 32, 235, 130, 180, 236, 151,
       144] @ '' keyframe'' @ utf8 [236, 157, 180, 32, 235, 143, 132, 236, 176, 169, 237, 149,
       180, 236, 149, 188, 32, 237, 149, 156, 235, 139, 164]\<rparr>,
  \<lparr>cd_id = ''L1-10'', cd_name = ''PLI burst auto-cancel on keyframe'',
     cd_category = PliGovernor,
     cd_description = ''keyframe '' @ utf8 [235, 143, 132, 236, 176, 169, 32, 236, 139, 156, 32,
       236, 158, 148, 236, 151, 172] @ '' PLI burst'' @ utf8 [234, 176, 128, 32, 236, 183, 168,
       236, 134, 140, 235, 144, 152, 236, 150, 180, 236, 149, 188, 32, 237, 149, 156, 235, 139,
       164]\<rparr>,
  \<lparr>cd_id = ''L1-11'', cd_name = ''SubscriberGate blocks before ACK'',
     cd_category = SubscriberGate,
     cd_description = ''TRACKS_ACK '' @ utf8 [236, 136, 152, 236, 139, 160, 32, 236, 160, 132,
       236, 151, 144, 235, 138, 148] @ '' video '' @ utf8 [237, 140, 168, 237, 130, 183, 236,
       157, 180, 32, 48, 234, 176, 156, 236, 151, 172, 236, 149, 188, 32, 237, 149, 156, 235,
       139, 164]\<rparr>,
  \<lparr>cd_id = ''L1-12'', cd_name = ''SubscriberGate GATE:PLI after ACK'',
     cd_category = SubscriberGate,
     cd_description = ''TRACKS_ACK '' @ utf8 [236, 136, 152, 236, 139, 160, 32, 237, 155, 132] @
       '' GATE:PLI'' @ utf8 [234, 176, 128, 32, 235, 176, 156, 236, 130, 172, 235, 144, 152, 236,
       150, 180, 236, 149, 188, 32, 237, 149, 156, 235, 139, 164]\<rparr>,
  \<lparr>cd_id = ''L1-13'', cd_name = ''fan-out integrity (pristine)'',
     cd_category = CoreRelay,
     cd_description = ''pristine '' @ utf8 [237, 153, 152, 234, 178, 189, 236, 151, 144, 236,
       132, 156, 32, 236, 160, 132, 236, 155, 144, 32, 235, 143, 153, 236, 157, 188] @
       '' seq '' @ utf8 [236, 136, 152, 236, 139, 160, 32, 40, 235, 172, 180, 236, 134, 144, 236,
       139, 164] @ '' fan-out)''\<rparr>,
  \<lparr>cd_id = ''L1-14'', cd_name = ''floor grant priority order'',
     cd_category = FloorControl,
     cd_description = ''floor_request'' @ utf8 [235, 138, 148] @ '' priority '' @ utf8 [236, 136,
       156, 236, 156, 188, 235, 161, 156] @ '' grant'' @ utf8 [235, 144, 152, 236, 150, 180, 236,
       149, 188, 32, 237, 149, 156, 235, 139, 164]\<rparr>,
  \<lparr>cd_id = ''L1-15'', cd_name = ''preemption '' @ utf8 [226, 134, 146] @ '' revoke delivery'',
     cd_category = FloorControl,
     cd_description = ''preemption '' @ utf8 [235, 176, 156, 236, 131, 157, 32, 236, 139, 156,
       32, 237, 152, 132, 32, 235, 176, 156, 237, 153, 148, 236, 158, 144, 236, 151, 144, 234,
       178, 140] @ '' revoke'' @ utf8 [234, 176, 128, 32, 235, 143, 132, 236, 176, 169, 237, 149,
       180, 236, 149, 188, 32, 237, 149, 156, 235, 139, 164]\<rparr>,
  \<lparr>cd_id = ''L1-16'', cd_name = ''queue position consistency'',
     cd_category = FloorControl,
     cd_description = utf8 [237, 129, 144, 32, 236, 156, 132, 236, 185, 152, 32, 236, 157, 145,
       235, 139, 181, 236, 157, 180, 32, 236, 139, 164, 236, 160, 156, 32, 237, 129, 144, 32,
       236, 136, 156, 236, 132, 156, 236, 153, 128, 32, 236, 157, 188, 236, 185, 152, 237, 149,
       180, 236, 149, 188, 32, 237, 149, 156, 235, 139, 164]\<rparr>,
  \<lparr>cd_id = ''L1-17'', cd_name = ''zombie cleanup'',
     cd_category = Lifecycle,
     cd_description = utf8 [235, 185, 132, 236, 160, 149, 236, 131, 129, 32, 236, 162, 133, 235,
       163, 140, 32, 237, 155, 132, 32, 236, 160, 156, 237, 149, 156, 32, 236, 139, 156, 234,
       176, 132, 32, 235, 130, 180, 236, 151, 144] @ '' cleanup'' @ utf8 [235, 144, 152, 236,
       150, 180, 236, 149, 188, 32, 237, 149, 156, 235, 139, 164]\<rparr>,
  \<lparr>cd_id = ''L1-18'', cd_name = ''simulcast layer switch SSRC'',
     cd_category = Simulcast,
     cd_description = utf8 [235, 160, 136, 236, 157, 180, 236, 150, 180, 32, 236, 160, 132, 237,
       153, 152, 32, 236, 139, 156, 32, 236, 131, 136, 32, 235, 160, 136, 236, 157, 180, 236,
       150, 180] @ '' SSRC'' @ utf8 [235, 161, 156, 32, 236, 160, 132, 237, 153, 152, 235, 144,
       152, 236, 150, 180, 236, 149, 188, 32, 237, 149, 156, 235, 139, 164]\<rparr>,
  \<lparr>cd_id = ''L1-19'', cd_name = ''simulcast layer switch ts continuity'',
     cd_category = Simulcast,
     cd_description = utf8 [235, 160, 136, 236, 157, 180, 236, 150, 180, 32, 236, 160, 132, 237,
       153, 152, 32, 237, 155, 132] @ '' ts offset'' @ utf8 [236, 157, 180, 32, 236, 156, 160,
       236, 167, 128, 235, 144, 152, 236, 150, 180, 236, 149, 188, 32, 237, 149, 156, 235, 139,
       164]\<rparr>,
  \<lparr>cd_id = ''L1-20'', cd_name = ''simulcast layer switch keyframe first'',
     cd_category = Simulcast,
     cd_description = utf8 [235, 160, 136, 236, 157, 180, 236, 150, 180, 32, 236, 160, 132, 237,
       153, 152, 32, 236, 139, 156] @ '' I-frame'' @ utf8 [236, 157, 180, 32, 236, 132, 160, 237,
       150, 137, 237, 149, 180, 236, 149, 188, 32, 237, 149, 156, 235, 139, 164]\<rparr>,
  \<lparr>cd_id = ''L1-21'', cd_name = ''screen share non-simulcast relay'',
     cd_category = ScreenShare,
     cd_description = ''screen share'' @ utf8 [235, 138, 148, 32, 236, 155, 144, 235, 179, 184] @
       '' SSRC '' @ utf8 [236, 156, 160, 236, 167, 128] @ '' + non-simulcast relay''\<rparr>]"

definition find_by_id :: "string \<Rightarrow> checkpoint_def option" where
  "find_by_id key = find (\<lambda>d. cd_id d = key) REGISTRY"

definition find_by_category :: "checkpoint_category \<Rightarrow> checkpoint_def list" where
  "find_by_category category = filter (\<lambda>d. cd_category d = category) REGISTRY"

definition find_by_categories :: "checkpoint_category list \<Rightarrow> checkpoint_def list" where
  "find_by_categories categories = filter (\<lambda>d. cd_category d \<in> set categories) REGISTRY"

definition all_ids :: "string list" where
  "all_ids = map cd_id REGISTRY"

lemma all_ids_eq:
  "all_ids = [''L1-01'', ''L1-02'', ''L1-03'', ''L1-04'', ''L1-05'', ''L1-06'', ''L1-07'', ''L1-08'',
     ''L1-09'', ''L1-10'', ''L1-11'', ''L1-12'', ''L1-13'', ''L1-14'', ''L1-15'', ''L1-16'', ''L1-17'',
     ''L1-18'', ''L1-19'', ''L1-20'', ''L1-21'']"
  by (simp add: all_ids_def REGISTRY_def)

lemma distinct_all_ids: "distinct all_ids"
  unfolding all_ids_eq by simp

lemma find_distinct:
  "distinct (map f xs) \<Longrightarrow> find (\<lambda>x. f x = k) xs = Some x \<longleftrightarrow> x \<in> set xs \<and> f x = k"
  by (induction xs) (auto simp: image_iff)

lemma category_UNIV:
  "c \<in> set [RtcpTerminator, SrTranslation, PttRelay, PliGovernor, SubscriberGate, FloorControl,
     CoreRelay, Simulcast, ScreenShare, Lifecycle]"
  by (cases c) simp_all

text \<open>The registry is a key: its 21 identifiers L1-01 to L1-21 are distinct and in order, a
  lookup gives an entry exactly when the entry is registered under that identifier, and looking up
  by a list of categories gives exactly the registered entries of those categories, none twice.\<close>

theorem registry_lookup:
  "length REGISTRY = 21 \<and> sorted all_ids \<and> distinct all_ids
   \<and> (\<forall>key d. find_by_id key = Some d \<longleftrightarrow> d \<in> set REGISTRY \<and> cd_id d = key)
   \<and> (\<forall>cs d. d \<in> set (find_by_categories cs) \<longleftrightarrow> d \<in> set REGISTRY \<and> cd_category d \<in> set cs)
   \<and> (\<forall>cs. distinct (find_by_categories cs))"
proof (intro conjI allI)
  show "length REGISTRY = 21"
    using arg_cong [OF all_ids_eq, of length] by (simp add: all_ids_def)
  show "sorted all_ids" unfolding all_ids_eq by (simp add: less_eq_char_def)
  show "distinct all_ids" by (rule distinct_all_ids)
  show "find_by_id key = Some d \<longleftrightarrow> d \<in> set REGISTRY \<and> cd_id d = key" for key d
    using distinct_all_ids by (simp add: find_by_id_def find_distinct all_ids_def)
  show "distinct (find_by_categories cs)" for cs
    using distinct_all_ids by (simp add: find_by_categories_def all_ids_def distinct_map)
qed (auto simp: find_by_categories_def)

end
