(* ===== verification/Judge.thy ===== *)
theory Judge
  imports Registry F64 "HOL-Library.Multiset"
begin

text \<open>
  The two-layer judge (\<open>oxlab-judge/src/lib.rs\<close>, \<open>thresholds.rs\<close>): layer 1
  aggregates checkpoint results, layer 2 compares the receive metrics of every participant with a
  baseline of an earlier run, \<open>judge\<close> combines both.  The \<open>HashMap\<close> of
  participants is the list of its entries in the order an iteration yields them (keys distinct);
  the iteration order of the \<open>HashSet\<close> of the summary and the clock are parameters.
\<close>

section \<open>Verdicts and results\<close>

datatype verdict = VPass | VFail

fun show_verdict :: "verdict \<Rightarrow> string" where
  "show_verdict VPass = ''PASS''"
| "show_verdict VFail = ''FAIL''"

datatype regression_verdict = Stable | Improved | Regressed | NoBaseline

fun show_regression_verdict :: "regression_verdict \<Rightarrow> string" where
  "show_regression_verdict Stable = ''STABLE''"
| "show_regression_verdict Improved = ''IMPROVED''"
| "show_regression_verdict Regressed = ''REGRESS''"
| "show_regression_verdict NoBaseline = ''NO_BASELINE''"

record checkpoint_result =
  cr_id :: string
  cr_name :: string
  cr_category :: checkpoint_category
  cr_verdict :: verdict
  cr_expected :: string
  cr_actual :: string

definition checkpoint_pass ::
    "string \<Rightarrow> string \<Rightarrow> checkpoint_category \<Rightarrow> string \<Rightarrow> string \<Rightarrow> checkpoint_result" where
  "checkpoint_pass cid name category expected actual = \<lparr>cr_id = cid, cr_name = name,
     cr_category = category, cr_verdict = VPass, cr_expected = expected, cr_actual = actual\<rparr>"

definition checkpoint_fail ::
    "string \<Rightarrow> string \<Rightarrow> checkpoint_category \<Rightarrow> string \<Rightarrow> string \<Rightarrow> checkpoint_result" where
  "checkpoint_fail cid name category expected actual = \<lparr>cr_id = cid, cr_name = name,
     cr_category = category, cr_verdict = VFail, cr_expected = expected, cr_actual = actual\<rparr>"

definition pass_from_def :: "checkpoint_def \<Rightarrow> string \<Rightarrow> checkpoint_result" where
  "pass_from_def d actual = checkpoint_pass (cd_id d) (cd_name d) (cd_category d) (cd_description d) actual"

definition fail_from_def :: "checkpoint_def \<Rightarrow> string \<Rightarrow> checkpoint_result" where
  "fail_from_def d actual = checkpoint_fail (cd_id d) (cd_name d) (cd_category d) (cd_description d) actual"

record layer1_result =
  l1_checkpoints :: "checkpoint_result list"
  l1_verdict :: verdict
  l1_passed :: nat
  l1_failed :: nat
  l1_skipped :: nat

record regression_metric =
  rm_name :: string
  rm_current :: f64
  rm_baseline :: "f64 option"
  rm_delta :: "f64 option"
  rm_threshold :: f64
  rm_verdict :: regression_verdict

record participant_metrics =
  pm_total_packets :: u64
  pm_total_lost :: u64
  pm_loss_rate_percent :: f64
  pm_max_jitter :: f64
  pm_total_ooo :: u64

record layer2_participant =
  l2_id :: string
  l2_metrics :: participant_metrics
  l2_regression :: "regression_metric list"
  l2_verdict :: regression_verdict

record layer2_result =
  l2_participants :: "layer2_participant list"
  l2_overall :: regression_verdict

record judge_report =
  jr_scenario :: string
  jr_profile :: string
  jr_timestamp :: string
  jr_layer1 :: layer1_result
  jr_layer2 :: layer2_result
  jr_overall :: verdict
  jr_summary :: string
  jr_errors :: "string list"

section \<open>Inputs, baseline, thresholds\<close>

record stream_input =
  si_ssrc :: u32
  si_pt :: u8
  si_packets_received :: u64
  si_packets_lost :: u64
  si_out_of_order :: u64
  si_jitter :: f64

record recv_input =
  ri_total_packets :: u64
  ri_total_lost :: u64
  ri_total_ooo :: u64
  ri_streams :: "stream_input list"

record baseline_entry =
  be_participant_id :: string
  be_loss_rate_percent :: f64
  be_max_jitter :: f64
  be_total_ooo :: u64

record baseline_file =
  bf_scenario :: string
  bf_profile :: string
  bf_timestamp :: string
  bf_participants :: "baseline_entry list"

definition baseline_find :: "baseline_file \<Rightarrow> string \<Rightarrow> baseline_entry option" where
  "baseline_find b participant_id = find (\<lambda>e. be_participant_id e = participant_id) (bf_participants b)"

definition baseline_key :: "string \<Rightarrow> string \<Rightarrow> string" where
  "baseline_key scenario profile = scenario @ ''__'' @ profile"

definition baseline_resolve_path :: "('p \<Rightarrow> string \<Rightarrow> 'p) \<Rightarrow> 'p \<Rightarrow> string \<Rightarrow> string \<Rightarrow> 'p" where
  "baseline_resolve_path path_join dir scenario profile =
     (let key = baseline_key scenario profile in path_join dir (key @ ''.json''))"

text \<open>The file system and the JSON reader are the parameter \<open>load\<close>.\<close>

definition baseline_try_load ::
    "('p \<Rightarrow> 'e + baseline_file) \<Rightarrow> ('p \<Rightarrow> string \<Rightarrow> 'p) \<Rightarrow> 'p \<Rightarrow> string \<Rightarrow> string \<Rightarrow> baseline_file option" where
  "baseline_try_load load path_join dir scenario profile =
     (case load (baseline_resolve_path path_join dir scenario profile) of Inr b \<Rightarrow> Some b | Inl _ \<Rightarrow> None)"

record regression_thresholds =
  loss_rate_delta :: f64
  jitter_increase_ratio :: f64
  ooo_increase_ratio :: f64
  floor_grant_latency_delta_ms :: f64

definition thresholds_default :: regression_thresholds where
  "thresholds_default = \<lparr>loss_rate_delta = f_lit 2, jitter_increase_ratio = f_lit (1 / 2),
     ooo_increase_ratio = f_lit 1, floor_grant_latency_delta_ms = f_lit 100\<rparr>"

definition thresholds_strict :: regression_thresholds where
  "thresholds_strict = \<lparr>loss_rate_delta = f_lit (1 / 2), jitter_increase_ratio = f_lit (1 / 5),
     ooo_increase_ratio = f_lit (1 / 2), floor_grant_latency_delta_ms = f_lit 50\<rparr>"

definition thresholds_resolve ::
    "('p \<Rightarrow> 'e + regression_thresholds) \<Rightarrow> (string \<Rightarrow> string \<Rightarrow> 'p) \<Rightarrow> string \<Rightarrow> regression_thresholds" where
  "thresholds_resolve load path_join name =
     (if name = ''default'' then thresholds_default
      else if name = ''strict'' then thresholds_strict
      else case load (path_join ''judgements'' (name @ ''.toml'')) of
        Inr t \<Rightarrow> t | Inl _ \<Rightarrow> thresholds_default)"

section \<open>Layer 1\<close>

definition judge_layer1 :: "checkpoint_result list \<Rightarrow> nat \<Rightarrow> layer1_result" where
  "judge_layer1 checkpoints total_applicable = (
     let passed = length (filter (\<lambda>c. cr_verdict c = VPass) checkpoints);
         failed = length (filter (\<lambda>c. cr_verdict c = VFail) checkpoints);
         skipped = total_applicable - (passed + failed);
         verdict = (if 0 < failed then VFail else VPass)
     in \<lparr>l1_checkpoints = checkpoints, l1_verdict = verdict, l1_passed = passed,
         l1_failed = failed, l1_skipped = skipped\<rparr>)"

section \<open>Layer 2\<close>

text \<open>The verdict of a difference or a ratio against a threshold, as the three metrics take it.\<close>

definition judge_change :: "f64 \<Rightarrow> f64 \<Rightarrow> regression_verdict" where
  "judge_change delta threshold =
     (if f_gt delta threshold then Regressed
      else if f_lt delta (f_neg threshold) then Improved
      else Stable)"

definition participant_metrics_of :: "recv_input \<Rightarrow> participant_metrics" where
  "participant_metrics_of recv = (
     let total = ri_total_packets recv + ri_total_lost recv;
         loss_pct = (if 0 < total
           then f_mul (f_div (f_of_u64 (ri_total_lost recv)) (f_of_u64 total)) (f_lit 100) else Fin 0);
         max_jitter = foldl f_max (Fin 0) (map si_jitter (ri_streams recv))
     in \<lparr>pm_total_packets = ri_total_packets recv, pm_total_lost = ri_total_lost recv,
         pm_loss_rate_percent = loss_pct, pm_max_jitter = max_jitter, pm_total_ooo = ri_total_ooo recv\<rparr>)"

definition judge_loss :: "f64 \<Rightarrow> baseline_entry option \<Rightarrow> regression_thresholds \<Rightarrow> regression_metric" where
  "judge_loss loss_pct prev thresholds = (
     let (v, delta) = (case prev of
         Some p \<Rightarrow> let delta = f_sub loss_pct (be_loss_rate_percent p)
           in (judge_change delta (loss_rate_delta thresholds), Some delta)
       | None \<Rightarrow> (NoBaseline, None))
     in \<lparr>rm_name = ''loss_rate'', rm_current = loss_pct,
         rm_baseline = map_option be_loss_rate_percent prev, rm_delta = delta,
         rm_threshold = loss_rate_delta thresholds, rm_verdict = v\<rparr>)"

definition judge_jitter :: "f64 \<Rightarrow> baseline_entry option \<Rightarrow> regression_thresholds \<Rightarrow> regression_metric" where
  "judge_jitter max_jitter prev thresholds = (
     let (v, delta) = (case prev of
         Some p \<Rightarrow> (if f_gt (be_max_jitter p) (Fin 0)
           then let ratio = f_div (f_sub max_jitter (be_max_jitter p)) (be_max_jitter p)
             in (judge_change ratio (jitter_increase_ratio thresholds), Some ratio)
           else (Stable, Some (Fin 0)))
       | None \<Rightarrow> (NoBaseline, None))
     in \<lparr>rm_name = ''jitter'', rm_current = max_jitter,
         rm_baseline = map_option be_max_jitter prev, rm_delta = delta,
         rm_threshold = jitter_increase_ratio thresholds, rm_verdict = v\<rparr>)"

definition judge_ooo :: "u64 \<Rightarrow> baseline_entry option \<Rightarrow> regression_thresholds \<Rightarrow> regression_metric" where
  "judge_ooo total_ooo prev thresholds = (
     let (v, delta) = (case prev of
         Some p \<Rightarrow> (if 0 < be_total_ooo p
           then let ratio = f_div (f_sub (f_of_u64 total_ooo) (f_of_u64 (be_total_ooo p)))
                  (f_of_u64 (be_total_ooo p))
             in (judge_change ratio (ooo_increase_ratio thresholds), Some ratio)
           else if 0 < total_ooo then (Regressed, Some (f_of_u64 total_ooo))
           else (Stable, Some (Fin 0)))
       | None \<Rightarrow> (NoBaseline, None))
     in \<lparr>rm_name = ''ooo'', rm_current = f_of_u64 total_ooo,
         rm_baseline = map_option (\<lambda>p. f_of_u64 (be_total_ooo p)) prev, rm_delta = delta,
         rm_threshold = ooo_increase_ratio thresholds, rm_verdict = v\<rparr>)"

text \<open>One turn of the loop over the participants.  \<open>participant_regressed\<close> is set exactly
  where a metric gets the verdict \<open>Regressed\<close>.\<close>

definition judge_participant ::
    "baseline_file option \<Rightarrow> regression_thresholds \<Rightarrow> string \<times> recv_input \<Rightarrow> layer2_participant" where
  "judge_participant baseline thresholds = (\<lambda>(pid, recv).
     let metrics = participant_metrics_of recv;
         prev = Option.bind baseline (\<lambda>b. baseline_find b pid);
         regression = [judge_loss (pm_loss_rate_percent metrics) prev thresholds,
           judge_jitter (pm_max_jitter metrics) prev thresholds,
           judge_ooo (ri_total_ooo recv) prev thresholds];
         participant_regressed = list_ex (\<lambda>m. rm_verdict m = Regressed) regression;
         p_verdict = (if participant_regressed then Regressed
           else if baseline = None then NoBaseline
           else if list_ex (\<lambda>m. rm_verdict m = Improved) regression then Improved
           else Stable)
     in \<lparr>l2_id = pid, l2_metrics = metrics, l2_regression = regression, l2_verdict = p_verdict\<rparr>)"

definition judge_layer2 ::
    "(string \<times> recv_input) list \<Rightarrow> baseline_file option \<Rightarrow> regression_thresholds \<Rightarrow> string list
       \<Rightarrow> layer2_result" where
  "judge_layer2 participants baseline thresholds errors = (
     let l2 = map (judge_participant baseline thresholds) participants;
         any_regressed = list_ex (\<lambda>p. l2_verdict p = Regressed) l2;
         l2 = sort_key l2_id l2;
         any_regressed = (any_regressed \<or> errors \<noteq> []);
         verdict = (if any_regressed then Regressed
           else if baseline = None then NoBaseline
           else if list_ex (\<lambda>p. l2_verdict p = Improved) l2 then Improved
           else Stable)
     in \<lparr>l2_participants = l2, l2_overall = verdict\<rparr>)"

section \<open>The report\<close>

definition l1_summary :: "layer1_result \<Rightarrow> string" where
  "l1_summary layer1 =
     (if 0 < l1_failed layer1 then
        let failed_ids = map cr_id (filter (\<lambda>c. cr_verdict c = VFail) (l1_checkpoints layer1))
        in ''L1:'' @ show_nat (l1_passed layer1) @ ''/'' @ show_nat (l1_passed layer1 + l1_failed layer1)
           @ ''[FAIL:'' @ join '','' failed_ids @ '']''
      else ''L1:'' @ show_nat (l1_passed layer1) @ ''/'' @ show_nat (l1_passed layer1 + l1_failed layer1))"

text \<open>\<open>hash_order\<close> turns the collected names into the \<open>HashSet\<close>'s iteration.\<close>

definition l2_summary :: "(string list \<Rightarrow> string list) \<Rightarrow> layer2_result \<Rightarrow> string" where
  "l2_summary hash_order layer2 =
     (if l2_overall layer2 = Regressed then
        let regressed_metrics = hash_order (map rm_name (filter (\<lambda>m. rm_verdict m = Regressed)
              (concat (map l2_regression (l2_participants layer2)))))
        in ''L2:REGRESS['' @ join '','' regressed_metrics @ '']''
      else ''L2:'' @ show_regression_verdict (l2_overall layer2))"

definition judge ::
    "(string list \<Rightarrow> string list) \<Rightarrow> string \<Rightarrow> string \<Rightarrow> string \<Rightarrow> checkpoint_result list \<Rightarrow> nat
       \<Rightarrow> (string \<times> recv_input) list \<Rightarrow> baseline_file option \<Rightarrow> regression_thresholds \<Rightarrow> string list
       \<Rightarrow> judge_report" where
  "judge hash_order timestamp scenario_name profile_name layer1_checkpoints total_applicable
      recv_inputs baseline thresholds errors = (
     let layer1 = judge_layer1 layer1_checkpoints total_applicable;
         layer2 = judge_layer2 recv_inputs baseline thresholds errors;
         overall = (if l1_verdict layer1 = VFail then VFail
           else if l2_overall layer2 = Regressed then VFail else VPass);
         summary = l1_summary layer1 @ '' '' @ l2_summary hash_order layer2
     in \<lparr>jr_scenario = scenario_name, jr_profile = profile_name, jr_timestamp = timestamp,
         jr_layer1 = layer1, jr_layer2 = layer2, jr_overall = overall, jr_summary = summary,
         jr_errors = errors\<rparr>)"

definition create_baseline :: "judge_report \<Rightarrow> baseline_file" where
  "create_baseline report = \<lparr>bf_scenario = jr_scenario report, bf_profile = jr_profile report,
     bf_timestamp = jr_timestamp report,
     bf_participants = map (\<lambda>p. \<lparr>be_participant_id = l2_id p,
         be_loss_rate_percent = pm_loss_rate_percent (l2_metrics p),
         be_max_jitter = pm_max_jitter (l2_metrics p),
         be_total_ooo = pm_total_ooo (l2_metrics p)\<rparr>) (l2_participants (jr_layer2 report))\<rparr>"

section \<open>Lemmas\<close>

lemma layer1_counts:
  "length (filter (\<lambda>c. cr_verdict c = VPass) cs) + length (filter (\<lambda>c. cr_verdict c = VFail) cs) = length cs"
proof (induction cs)
  case (Cons c cs)
  then show ?case by (cases "cr_verdict c") auto
qed simp

lemma layer2_regressed_iff:
  "l2_overall (judge_layer2 ps baseline thr errors) = Regressed \<longleftrightarrow>
     errors \<noteq> [] \<or> (\<exists>p \<in> set ps. l2_verdict (judge_participant baseline thr p) = Regressed)"
  by (auto simp: judge_layer2_def Let_def list_ex_iff)

lemma participant_regressed_iff:
  "l2_verdict (judge_participant baseline thr p) = Regressed \<longleftrightarrow>
     (\<exists>m \<in> set (l2_regression (judge_participant baseline thr p)). rm_verdict m = Regressed)"
  by (cases p) (auto simp: judge_participant_def Let_def list_ex_iff)

lemma judge_participant_sel [simp]:
  "l2_id (judge_participant baseline thr p) = fst p"
  "l2_metrics (judge_participant baseline thr p) = participant_metrics_of (snd p)"
  by (cases p; simp add: judge_participant_def Let_def)+

lemma l2_participants_judge:
  "l2_participants (judge_layer2 ps baseline thr errors)
     = sort_key l2_id (map (judge_participant baseline thr) ps)"
  by (simp add: judge_layer2_def Let_def)

text \<open>A threshold that is looser than another, metric by metric.\<close>

definition looser :: "regression_thresholds \<Rightarrow> regression_thresholds \<Rightarrow> bool" where
  "looser t u \<longleftrightarrow> f_le (loss_rate_delta u) (loss_rate_delta t)
     \<and> f_le (jitter_increase_ratio u) (jitter_increase_ratio t)
     \<and> f_le (ooo_increase_ratio u) (ooo_increase_ratio t)"

lemma judge_change_looser:
  "f_le u t \<Longrightarrow> judge_change d t = Regressed \<Longrightarrow> judge_change d u = Regressed"
  by (cases d; cases t; cases u) (auto simp: judge_change_def split: if_splits)

lemma metrics_looser:
  assumes "looser t u"
  shows "rm_verdict (judge_loss x prev t) = Regressed \<Longrightarrow> rm_verdict (judge_loss x prev u) = Regressed"
    and "rm_verdict (judge_jitter x prev t) = Regressed \<Longrightarrow> rm_verdict (judge_jitter x prev u) = Regressed"
    and "rm_verdict (judge_ooo n prev t) = Regressed \<Longrightarrow> rm_verdict (judge_ooo n prev u) = Regressed"
  using assms judge_change_looser
  by (auto simp: looser_def judge_loss_def judge_jitter_def judge_ooo_def Let_def
      split: option.splits if_splits)

lemma participant_looser:
  assumes "looser t u" "l2_verdict (judge_participant baseline t p) = Regressed"
  shows "l2_verdict (judge_participant baseline u p) = Regressed"
  using assms(2) metrics_looser [OF assms(1)]
  by (cases p) (auto simp: participant_regressed_iff, auto simp: judge_participant_def Let_def)

text \<open>Comparing a measurement with itself.\<close>

lemma f_sub_same_cases: "f_sub x x = Fin 0 \<or> f_sub x x = NaN"
  by (cases x) (auto simp: f_sub_def)

lemma judge_change_zero:
  "f_le (Fin 0) t \<Longrightarrow> judge_change (Fin 0) t = Stable" "judge_change NaN t = Stable"
  by (cases t; auto simp: judge_change_def)+

lemma judge_change_same: "f_le (Fin 0) t \<Longrightarrow> judge_change (f_sub x x) t = Stable"
  using f_sub_same_cases [of x] by (auto simp: judge_change_zero)

lemma judge_change_same_ratio: "f_le (Fin 0) t \<Longrightarrow> judge_change (f_div (f_sub x x) x) t = Stable"
  using f_sub_same_cases [of x] by (cases x) (auto simp: judge_change_zero f_sub_def)

lemma same_stable:
  assumes "f_le (Fin 0) (loss_rate_delta t)" "f_le (Fin 0) (jitter_increase_ratio t)"
    "f_le (Fin 0) (ooo_increase_ratio t)"
  shows "rm_verdict (judge_loss (be_loss_rate_percent e) (Some e) t) = Stable"
    and "rm_verdict (judge_jitter (be_max_jitter e) (Some e) t) = Stable"
    and "rm_verdict (judge_ooo (be_total_ooo e) (Some e) t) = Stable"
  using assms
  by (simp_all add: judge_loss_def judge_jitter_def judge_ooo_def judge_change_same judge_change_same_ratio Let_def
      word_gt_0)

lemma find_map_key:
  "x \<in> set xs \<Longrightarrow> distinct (map f xs) \<Longrightarrow> (\<And>x. g (h x) = f x) \<Longrightarrow>
     find (\<lambda>e. g e = f x) (map h xs) = Some (h x)"
  by (induction xs) (auto simp: image_iff)

lemma baseline_of_own:
  assumes "distinct (map fst ps)" "(pid, recv) \<in> set ps"
  shows "baseline_find (create_baseline (judge ho ts sc pr cps n ps bl thr errs)) pid
    = Some \<lparr>be_participant_id = pid,
        be_loss_rate_percent = pm_loss_rate_percent (participant_metrics_of recv),
        be_max_jitter = pm_max_jitter (participant_metrics_of recv),
        be_total_ooo = pm_total_ooo (participant_metrics_of recv)\<rparr>"
proof -
  let ?l2 = "sort_key l2_id (map (judge_participant bl thr) ps)"
  let ?p = "judge_participant bl thr (pid, recv)"
  have "mset (map l2_id ?l2) = mset (map fst ps)"
    by (simp add: image_mset.compositionality o_def)
  then have "distinct (map l2_id ?l2)" using assms(1) mset_eq_imp_distinct_iff by blast
  moreover have "?p \<in> set ?l2" using assms(2) by auto
  ultimately have "find (\<lambda>e. be_participant_id e = l2_id ?p) (map (\<lambda>p. \<lparr>be_participant_id = l2_id p,
      be_loss_rate_percent = pm_loss_rate_percent (l2_metrics p),
      be_max_jitter = pm_max_jitter (l2_metrics p),
      be_total_ooo = pm_total_ooo (l2_metrics p)\<rparr>) ?l2) = Some \<lparr>be_participant_id = l2_id ?p,
      be_loss_rate_percent = pm_loss_rate_percent (l2_metrics ?p),
      be_max_jitter = pm_max_jitter (l2_metrics ?p),
      be_total_ooo = pm_total_ooo (l2_metrics ?p)\<rparr>"
    by (intro find_map_key) auto
  then show ?thesis
    by (simp add: baseline_find_def create_baseline_def judge_def Let_def l2_participants_judge)
qed

lemma distinct_singleton: "distinct xs \<Longrightarrow> set xs = {k} \<Longrightarrow> xs = [k]"
proof (cases xs)
  case (Cons y ys)
  assume "distinct xs" "set xs = {k}"
  with Cons have "y = k" "\<And>x. x \<in> set ys \<Longrightarrow> x = k" "k \<notin> set ys" by auto
  then show ?thesis using Cons by (cases ys) auto
qed simp

lemma sort_key_mset_eq:
  assumes "mset xs = mset ys" "distinct (map f xs)"
  shows "sort_key f xs = sort_key f ys"
proof (rule properties_for_sort_key)
  show "mset (sort_key f ys) = mset xs" using assms by simp
  show "sorted (map f (sort_key f ys))" by simp
  fix k assume "k \<in> set (sort_key f ys)"
  then have k: "k \<in> set xs" using assms(1) by (metis set_mset_mset set_sort)
  have inj: "inj_on f (set xs)" "distinct xs" using assms(2) by (simp_all add: distinct_map)
  have "set ys = set xs" "distinct ys" using assms(1) inj(2)
    by (metis set_mset_mset, metis mset_eq_imp_distinct_iff)
  then have "distinct (sort_key f ys)" "set (sort_key f ys) = set xs" by simp_all
  moreover have "filter (\<lambda>x. f k = f x) zs = [k]" if "distinct zs" "set zs = set xs" for zs
  proof -
    have "set (filter (\<lambda>x. f k = f x) zs) = {k}" using that k inj(1) by (auto dest: inj_onD)
    moreover have "distinct (filter (\<lambda>x. f k = f x) zs)" using that by simp
    ultimately show ?thesis by (rule distinct_singleton [rotated])
  qed
  ultimately show "filter (\<lambda>x. f k = f x) (sort_key f ys) = filter (\<lambda>x. f k = f x) xs"
    using inj(2) by simp
qed

lemma unat_plus_no_wrap: "unat a + unat b < 2 ^ 64 \<Longrightarrow> unat (a + b :: u64) = unat a + unat b"
  by (simp add: unat_word_ariths)

section \<open>Properties\<close>

text \<open>Layer 1 is a gate: it fails exactly when some checkpoint failed; passed and failed split
  the evaluated checkpoints, and the skipped ones are the rest of the applicable ones.\<close>

theorem layer1_gate:
  "let r = judge_layer1 cps n in
     (l1_verdict r = VFail \<longleftrightarrow> (\<exists>c \<in> set cps. cr_verdict c = VFail))
     \<and> l1_passed r + l1_failed r = length cps \<and> l1_checkpoints r = cps
     \<and> l1_skipped r = n - length cps"
proof -
  have "0 < length (filter (\<lambda>c. cr_verdict c = VFail) cps) \<longleftrightarrow> (\<exists>c \<in> set cps. cr_verdict c = VFail)"
    by (auto simp: filter_empty_conv)
  then show ?thesis using layer1_counts [of cps] by (simp add: judge_layer1_def Let_def)
qed

text \<open>C12: the overall verdict is Pass exactly when no checkpoint failed, the run reported no
  error, and no metric of any participant regressed against the baseline.\<close>

theorem overall_pass_iff:
  "jr_overall (judge ho ts sc pr cps n ps baseline thr errors) = VPass \<longleftrightarrow>
     (\<forall>c \<in> set cps. cr_verdict c = VPass) \<and> errors = []
     \<and> (\<forall>p \<in> set ps. \<forall>m \<in> set (l2_regression (judge_participant baseline thr p)).
           rm_verdict m \<noteq> Regressed)"
proof -
  have "l1_verdict (judge_layer1 cps n) = VFail \<longleftrightarrow> (\<exists>c \<in> set cps. cr_verdict c = VFail)"
    by (auto simp: judge_layer1_def Let_def filter_empty_conv)
  moreover have "(v = VPass) = (v \<noteq> VFail)" for v by (cases v) auto
  ultimately show ?thesis
    by (auto simp: judge_def Let_def layer2_regressed_iff participant_regressed_iff)
qed

definition sample_input :: recv_input where
  "sample_input = \<lparr>ri_total_packets = 1000, ri_total_lost = 10, ri_total_ooo = 2,
     ri_streams = [\<lparr>si_ssrc = 1, si_pt = 111, si_packets_received = 1000, si_packets_lost = 10,
       si_out_of_order = 2, si_jitter = Fin 5\<rparr>]\<rparr>"

theorem overall_pass_iff_witness:
  "jr_overall (judge (\<lambda>xs. xs) ''0s'' ''test'' ''pristine'' [checkpoint_pass ''L1-01'' ''t'' RtcpTerminator ''0'' ''0'']
     1 [(''bot_1'', sample_input)] None thresholds_default []) = VPass"
  by (simp add: overall_pass_iff checkpoint_pass_def judge_participant_def judge_loss_def
      judge_jitter_def judge_ooo_def Let_def)

text \<open>C31: no false alarm: a run judged against the baseline made of its own report, without
  errors and under any thresholds that are not negative, is stable, for every participant and in
  every metric, whatever infinities or missing packets the metrics hold.\<close>

theorem own_baseline_stable:
  assumes "distinct (map fst ps)"
    and "f_le (Fin 0) (loss_rate_delta thr)" "f_le (Fin 0) (jitter_increase_ratio thr)"
      "f_le (Fin 0) (ooo_increase_ratio thr)"
  shows "let b = create_baseline (judge ho ts sc pr cps n ps baseline0 thr0 errors0) in
    l2_overall (judge_layer2 ps (Some b) thr []) = Stable
    \<and> (\<forall>p \<in> set (l2_participants (judge_layer2 ps (Some b) thr [])). l2_verdict p = Stable)"
proof -
  define b where "b = create_baseline (judge ho ts sc pr cps n ps baseline0 thr0 errors0)"
  have stable: "l2_verdict (judge_participant (Some b) thr p) = Stable" if "p \<in> set ps" for p
  proof -
    obtain pid recv where p: "p = (pid, recv)" by (cases p)
    let ?m = "participant_metrics_of recv"
    define e where "e = \<lparr>be_participant_id = pid, be_loss_rate_percent = pm_loss_rate_percent ?m,
      be_max_jitter = pm_max_jitter ?m, be_total_ooo = pm_total_ooo ?m\<rparr>"
    have "baseline_find b pid = Some e"
      using baseline_of_own [OF assms(1)] that p by (simp add: b_def e_def)
    moreover have "be_loss_rate_percent e = pm_loss_rate_percent ?m"
      "be_max_jitter e = pm_max_jitter ?m" "be_total_ooo e = ri_total_ooo recv"
      by (simp_all add: e_def participant_metrics_of_def Let_def)
    ultimately show ?thesis using same_stable [OF assms(2-4), of e] p
      by (simp add: judge_participant_def Let_def)
  qed
  then have "\<forall>p \<in> set (map (judge_participant (Some b) thr) ps). l2_verdict p = Stable" by auto
  then show ?thesis unfolding b_def [symmetric]
    by (auto simp: judge_layer2_def Let_def list_ex_iff)
qed

theorem own_baseline_stable_witness:
  "l2_overall (judge_layer2 [(''bot_1'', sample_input)]
     (Some (create_baseline (judge (\<lambda>xs. xs) ''0s'' ''test'' ''pristine'' [] 0 [(''bot_1'', sample_input)]
        None thresholds_default []))) thresholds_strict []) = Stable"
  using own_baseline_stable [of "[(''bot_1'', sample_input)]" thresholds_strict "\<lambda>xs. xs" "''0s''" "''test''"
      "''pristine''" "[]" 0 None thresholds_default "[]"]
  by (simp add: thresholds_strict_def rnd_nonneg Let_def)

text \<open>The result does not depend on the iteration order of the participants' hash map: two
  orders of the same entries give the same layer 2 result, whose participants are sorted by
  identifier and are exactly the ones given.\<close>

theorem layer2_order_independent:
  assumes "distinct (map fst ps)" and "mset qs = mset ps"
  shows "judge_layer2 qs baseline thr errors = judge_layer2 ps baseline thr errors
    \<and> sorted (map l2_id (l2_participants (judge_layer2 ps baseline thr errors)))
    \<and> mset (map l2_id (l2_participants (judge_layer2 ps baseline thr errors))) = mset (map fst ps)"
proof -
  let ?f = "judge_participant baseline thr"
  have "distinct (map l2_id (map ?f ps))" using assms(1) by (simp add: o_def)
  moreover have "mset (map ?f ps) = mset (map ?f qs)" using assms(2) by simp
  ultimately have s: "sort_key l2_id (map ?f qs) = sort_key l2_id (map ?f ps)"
    using sort_key_mset_eq by metis
  have "set qs = set ps" using assms(2) by (metis set_mset_mset)
  then have "judge_layer2 qs baseline thr errors = judge_layer2 ps baseline thr errors"
    unfolding judge_layer2_def Let_def s by (simp add: list_ex_iff)
  then show ?thesis by (simp add: l2_participants_judge image_mset.compositionality o_def)
qed

theorem layer2_order_independent_witness:
  "judge_layer2 [(''b'', sample_input), (''a'', sample_input)] None thresholds_default []
   = judge_layer2 [(''a'', sample_input), (''b'', sample_input)] None thresholds_default []"
  using layer2_order_independent [of "[(''a'', sample_input), (''b'', sample_input)]"
      "[(''b'', sample_input), (''a'', sample_input)]" None thresholds_default "[]"] by simp

text \<open>C32: loosening thresholds only ever turns failures into passes: whatever the run and the
  baseline, what passes under thresholds passes under looser ones; the default thresholds are
  looser than the strict ones.\<close>

theorem looser_thresholds_pass:
  assumes "looser t u" and "jr_overall (judge ho ts sc pr cps n ps baseline u errors) = VPass"
  shows "jr_overall (judge ho ts sc pr cps n ps baseline t errors) = VPass"
  using assms(2) participant_looser [OF assms(1)]
  by (auto simp: judge_def Let_def layer2_regressed_iff split: if_splits)

lemma default_looser: "looser thresholds_default thresholds_strict"
  by (simp add: looser_def thresholds_default_def thresholds_strict_def rnd_mono rnd_upper)

theorem looser_thresholds_pass_witness:
  "jr_overall (judge (\<lambda>xs. xs) ''0s'' ''test'' ''pristine'' [] 0 [(''bot_1'', sample_input)] None
     thresholds_default []) = VPass"
  by (rule looser_thresholds_pass [OF default_looser])
    (simp add: judge_def judge_layer1_def judge_layer2_def judge_participant_def judge_loss_def
      judge_jitter_def judge_ooo_def Let_def)

text \<open>The loss rate of every participant is a percentage, between 0 and 100, as long as the
  packet counters do not overflow 64 bits.\<close>

theorem loss_rate_is_percentage:
  assumes "unat (ri_total_packets recv) + unat (ri_total_lost recv) < 2 ^ 64"
  shows "\<exists>p. pm_loss_rate_percent (participant_metrics_of recv) = Fin p \<and> 0 \<le> p \<and> p \<le> 100"
proof (cases "0 < ri_total_packets recv + ri_total_lost recv")
  case True
  let ?m = "unat (ri_total_lost recv)" and ?n = "unat (ri_total_packets recv) + unat (ri_total_lost recv)"
  have u: "unat (ri_total_packets recv + ri_total_lost recv) = ?n" using assms by (rule unat_plus_no_wrap)
  then have "0 < ?n" using True by (metis gr0I unat_eq_0 word_greater_zero_iff)
  moreover have "?n \<le> 2 ^ 64" using assms by (rule less_imp_le)
  ultimately obtain p where "f_mul (f_div (f_of_nat ?m) (f_of_nat ?n)) (f_lit 100) = Fin p" "0 \<le> p" "p \<le> 100"
    using f_percent_bounds [of ?m ?n] by auto
  then show ?thesis using True by (simp add: participant_metrics_of_def Let_def f_of_u64_def u)
qed (simp add: participant_metrics_of_def)

theorem loss_rate_is_percentage_witness:
  "\<exists>p. pm_loss_rate_percent (participant_metrics_of sample_input) = Fin p \<and> p \<le> 100"
  using loss_rate_is_percentage [of sample_input] by (auto simp: sample_input_def)

end
