(* ===== verification/Checkpoints.thy ===== *)
theory Checkpoints
  imports Observations Subscriber Judge "HOL-Library.Sublist"
begin

text \<open>
  Layer 1 (\<open>oxlab-scenario/src/checkpoint_eval.rs\<close>): the 21 checkpoint evaluators and
  \<open>evaluate\<close>.  A \<open>HashMap\<close> argument is the list of its entries in the order an
  iteration yields them.  What the texts of the results depend on beyond that, the iteration
  orders of the maps the evaluators build and of the sets they print and the escapes of
  \<open>{:?}\<close> on a string, is the record \<open>fmt_env\<close>; no verdict depends on it.
\<close>

section \<open>Orders and texts\<close>

type_synonym obs_map = "(string \<times> observations) list"

record fmt_env =
  fe_key_order :: "u32 list \<Rightarrow> u32 list"
  fe_set_order :: "u32 set \<Rightarrow> u32 list"
  fe_debug_str :: "string \<Rightarrow> string"

text \<open>An order of a map with the given (distinct) keys, and of a set.\<close>

definition fmt_env_ok :: "fmt_env \<Rightarrow> bool" where
  "fmt_env_ok env \<longleftrightarrow> (\<forall>ks. mset (fe_key_order env ks) = mset ks)
     \<and> (\<forall>s. finite s \<longrightarrow> distinct (fe_set_order env s) \<and> set (fe_set_order env s) = s)"

text \<open>The characters outside ASCII of the messages.\<close>

definition u_le :: string where "u_le = utf8 [226, 137, 164]"
definition u_arrow :: string where "u_arrow = utf8 [226, 134, 146]"
definition u_delta :: string where "u_delta = utf8 [206, 148]"
definition u_approx :: string where "u_approx = utf8 [226, 137, 136]"

definition debug_u32s :: "u32 list \<Rightarrow> string" where
  "debug_u32s xs = ''['' @ join '', '' (map show_word xs) @ '']''"

definition debug_u32_set :: "fmt_env \<Rightarrow> u32 set \<Rightarrow> string" where
  "debug_u32_set env s = ''{'' @ join '', '' (map show_word (fe_set_order env s)) @ ''}''"

text \<open>\<open>by.entry(key(x)).or_default().push(value(x))\<close> over a list: the keys in the map's
  order, each with its values in the order pushed.\<close>

definition group_by_key :: "fmt_env \<Rightarrow> ('x \<Rightarrow> u32) \<Rightarrow> ('x \<Rightarrow> 'v) \<Rightarrow> 'x list \<Rightarrow> (u32 \<times> 'v list) list" where
  "group_by_key env key value xs =
     map (\<lambda>k. (k, map value (filter (\<lambda>x. key x = k) xs))) (fe_key_order env (remdups (map key xs)))"

text \<open>\<open>for i in 1..xs.len()\<close> over \<open>xs[i - 1]\<close> and \<open>xs[i]\<close>.\<close>

definition neighbours :: "'a list \<Rightarrow> ('a \<times> 'a) list" where
  "neighbours xs = zip xs (tl xs)"

section \<open>RTCP and sender reports\<close>

definition eval_l1_01 :: "obs_map \<Rightarrow> checkpoint_def \<Rightarrow> checkpoint_result option" where
  "eval_l1_01 observations d = (
     let seen = filter (\<lambda>(bid, obs). 0 < rr_received_count obs) observations;
         total_rr = sum_u64 (map (\<lambda>(bid, obs). rr_received_count obs) seen);
         max_sender_ssrc_count = foldl max 0 (map (\<lambda>(bid, obs). card (rr_sender_ssrcs obs)) seen);
         detail_parts = map (\<lambda>(bid, obs). bid @ '': '' @ show_nat (card (rr_sender_ssrcs obs)) @ '' sender SSRCs'')
           (filter (\<lambda>(bid, obs). 1 < card (rr_sender_ssrcs obs)) seen)
     in if total_rr = 0 then None
        else if 1 < max_sender_ssrc_count then
          Some (fail_from_def d (show_nat max_sender_ssrc_count
            @ '' unique sender SSRCs detected (expected '' @ u_le @ ''1) ['' @ join '', '' detail_parts @ '']''))
        else Some (pass_from_def d (''rr_count='' @ show_word total_rr @ '' sender_ssrcs=1 (SFU only)'')))"

definition ntp64 :: "u32 \<times> u32 \<Rightarrow> u64" where
  "ntp64 p = push_bit 32 (ucast (fst p)) OR ucast (snd p)"

definition eval_l1_02 :: "fmt_env \<Rightarrow> obs_map \<Rightarrow> checkpoint_def \<Rightarrow> checkpoint_result option" where
  "eval_l1_02 env observations d = (
     let per_bot = map (\<lambda>(bid, obs). (bid,
           group_by_key env sr_ssrc (\<lambda>sr. (sr_ntp_sec sr, sr_ntp_frac sr)) (sr_received obs)))
           (filter (\<lambda>(bid, obs). sr_received obs \<noteq> []) observations);
         total_sr = sum_list (map (\<lambda>(bid, by_ssrc). sum_list (map (\<lambda>(ssrc, ntps). length ntps) by_ssrc)) per_bot);
         violations = concat (map (\<lambda>(bid, by_ssrc). concat (map (\<lambda>(ssrc, ntps).
           map (\<lambda>(prev, cur). bid @ '': SSRC=0x'' @ hex08 ssrc @ '' NTP went backward (''
                 @ show_word (fst prev) @ ''.'' @ show_word (snd prev) @ '' '' @ u_arrow @ '' ''
                 @ show_word (fst cur) @ ''.'' @ show_word (snd cur) @ '')'')
             (filter (\<lambda>(prev, cur). ntp64 cur \<le> ntp64 prev) (neighbours ntps))) by_ssrc)) per_bot)
     in if total_sr = 0 then None
        else if violations \<noteq> [] then
          Some (fail_from_def d (show_nat (length violations) @ '' NTP violations: '' @ join ''; '' violations))
        else Some (pass_from_def d (''sr_count='' @ show_nat total_sr @ '' NTP monotonic OK'')))"

definition eval_l1_03 :: "fmt_env \<Rightarrow> obs_map \<Rightarrow> checkpoint_def \<Rightarrow> checkpoint_result option" where
  "eval_l1_03 env observations d = (
     let per_bot = map (\<lambda>(bid, obs). (bid, group_by_key env sr_ssrc sr_rtp_ts (sr_received obs)))
           (filter (\<lambda>(bid, obs). sr_received obs \<noteq> []) observations);
         total_sr = sum_list (map (\<lambda>(bid, by_ssrc). sum_list (map (\<lambda>(ssrc, tss). length tss) by_ssrc)) per_bot);
         violations = concat (map (\<lambda>(bid, by_ssrc). concat (map (\<lambda>(ssrc, tss).
           map (\<lambda>(prev, cur). bid @ '': SSRC=0x'' @ hex08 ssrc @ '' RTP ts backward ('' @ show_word prev
                 @ '' '' @ u_arrow @ '' '' @ show_word cur @ '', '' @ u_delta @ ''=''
                 @ show_int (sint (cur - prev)) @ '')'')
             (filter (\<lambda>(prev, cur). sint (cur - prev) \<le> 0) (neighbours tss))) by_ssrc)) per_bot)
     in if total_sr = 0 then None
        else if violations \<noteq> [] then
          Some (fail_from_def d (show_nat (length violations) @ '' ts violations: '' @ join ''; '' violations))
        else Some (pass_from_def d (''sr_count='' @ show_nat total_sr @ '' RTP ts monotonic OK'')))"

section \<open>PTT relay\<close>

definition eval_l1_04 :: "obs_map \<Rightarrow> checkpoint_def \<Rightarrow> string \<Rightarrow> checkpoint_result option" where
  "eval_l1_04 observations d mode =
     (if mode \<noteq> ''ptt'' then None else
      let leaking = filter (\<lambda>(bid, obs). 0 < ptt_non_speaker_rtp_count obs) observations;
          total_leaked = sum_u64 (map (\<lambda>(bid, obs). ptt_non_speaker_rtp_count obs) leaking);
          details = map (\<lambda>(bid, obs). bid @ '': '' @ show_word (ptt_non_speaker_rtp_count obs)
            @ '' packets leaked'') leaking
      in if 0 < total_leaked then
           Some (fail_from_def d (show_word total_leaked @ '' non-speaker RTP leaked ['' @ join '', '' details @ '']''))
         else Some (pass_from_def d ''0 non-speaker RTP packets (gating OK)''))"

definition eval_l1_05 :: "obs_map \<Rightarrow> checkpoint_def \<Rightarrow> string \<Rightarrow> checkpoint_result option" where
  "eval_l1_05 observations d mode =
     (if mode \<noteq> ''ptt'' then None
      else if \<not> list_ex (\<lambda>(bid, obs). 0 < ptt_silence_frames_after_release obs) observations then None
      else
      let failures = map (\<lambda>(bid, obs). bid @ '': '' @ show_word (ptt_silence_frames_after_release obs)
            @ '' frames (expected 3)'')
            (filter (\<lambda>(bid, obs). 0 < ptt_silence_frames_after_release obs
               \<and> ptt_silence_frames_after_release obs \<noteq> 3) observations)
      in if failures \<noteq> [] then
           Some (fail_from_def d (''silence flush mismatch: '' @ join '', '' failures))
         else Some (pass_from_def d ''silence flush 3 frames OK''))"

definition eval_l1_06 :: "obs_map \<Rightarrow> checkpoint_def \<Rightarrow> string \<Rightarrow> checkpoint_result option" where
  "eval_l1_06 observations d mode =
     (if mode \<noteq> ''ptt'' then None else
      let seen = filter (\<lambda>(bid, obs). ptt_first_video_was_keyframe obs \<noteq> None) observations;
          checked = length seen;
          failures = map (\<lambda>(bid, obs). bid @ '': first video was NOT keyframe'')
            (filter (\<lambda>(bid, obs). ptt_first_video_was_keyframe obs = Some False) seen)
      in if checked = 0 then None
         else if failures \<noteq> [] then Some (fail_from_def d (join '', '' failures))
         else Some (pass_from_def d (show_nat checked @ '' speaker switches, all keyframe-first'')))"

definition eval_l1_07 :: "fmt_env \<Rightarrow> obs_map \<Rightarrow> checkpoint_def \<Rightarrow> string \<Rightarrow> checkpoint_result option" where
  "eval_l1_07 env observations d mode =
     (if mode \<noteq> ''ptt'' then None else
      let failures = concat (map (\<lambda>(bid, obs).
            (if 1 < card (ptt_audio_ssrcs obs) then
               [bid @ '': '' @ show_nat (card (ptt_audio_ssrcs obs)) @ '' audio SSRCs (expected 1): ''
                @ debug_u32_set env (ptt_audio_ssrcs obs)] else [])
            @ (if 1 < card (ptt_video_ssrcs obs) then
               [bid @ '': '' @ show_nat (card (ptt_video_ssrcs obs)) @ '' video SSRCs (expected 1): ''
                @ debug_u32_set env (ptt_video_ssrcs obs)] else [])) observations);
          has_data = list_ex (\<lambda>(bid, obs). ptt_audio_ssrcs obs \<noteq> {} \<or> ptt_video_ssrcs obs \<noteq> {}) observations
      in if \<not> has_data then None
         else if failures \<noteq> [] then
           Some (fail_from_def d (''SSRC inconsistency: '' @ join ''; '' failures))
         else Some (pass_from_def d ''virtual SSRC consistent (1 audio + 1 video per subscriber)''))"

definition expected_ts_gap :: "ts_gap_record \<Rightarrow> nat" where
  "expected_ts_gap rec = f_to_nat (2 ^ 32 - 1)
     (f_div (f_mul (f_of_u64 (tg_wall_gap_ms rec)) (f_of_u32 (tg_sample_rate rec))) (f_lit 1000))"

definition ts_gap_ratio :: "ts_gap_record \<Rightarrow> f64" where
  "ts_gap_ratio rec = f_div (f_of_u32 (tg_rtp_ts_gap rec)) (f_of_nat (expected_ts_gap rec))"

definition ts_gap_violation :: "ts_gap_record \<Rightarrow> bool" where
  "ts_gap_violation rec \<longleftrightarrow> expected_ts_gap rec \<noteq> 0
     \<and> (f_lt (ts_gap_ratio rec) (f_lit (4 / 5)) \<or> f_gt (ts_gap_ratio rec) (f_lit (6 / 5)))"

definition eval_l1_08 :: "obs_map \<Rightarrow> checkpoint_def \<Rightarrow> string \<Rightarrow> checkpoint_result option" where
  "eval_l1_08 observations d mode =
     (if mode \<noteq> ''ptt'' then None else
      let all_records = concat (map (\<lambda>(bid, obs). ptt_ts_gap_records obs) observations);
          violations = map (\<lambda>rec. ''SSRC=0x'' @ hex08 (tg_ssrc rec) @ '' wall='' @ show_word (tg_wall_gap_ms rec)
              @ ''ms ts_gap='' @ show_word (tg_rtp_ts_gap rec) @ '' expected'' @ u_approx
              @ show_nat (expected_ts_gap rec) @ '' ratio='' @ show_fixed 2 (ts_gap_ratio rec))
            (filter ts_gap_violation all_records)
      in if all_records = [] then None
         else if violations \<noteq> [] then
           Some (fail_from_def d (show_nat (length violations) @ ''/'' @ show_nat (length all_records)
             @ '' ts_gap violations: '' @ join ''; '' violations))
         else Some (pass_from_def d (show_nat (length all_records)
             @ '' ts_gap records all within 20% tolerance'')))"

section \<open>PLI governor and subscriber gate\<close>

definition total_pli :: "obs_map \<Rightarrow> u64" where
  "total_pli observations = sum_u64 (map (\<lambda>(bid, obs). pli_received_count obs) observations)"

definition eval_l1_09 :: "obs_map \<Rightarrow> checkpoint_def \<Rightarrow> checkpoint_result option" where
  "eval_l1_09 observations d = (let pli = total_pli observations in
     if pli = 0 then None else
     let responses = concat (map (\<lambda>(bid, obs). pli_to_keyframe_ms obs) observations);
         response_count = length responses
     in if 0 < response_count then
          let max_ms = foldl max 0 responses
          in Some (pass_from_def d (''pli='' @ show_word pli @ '' responses='' @ show_nat response_count
               @ '' max_latency='' @ show_word max_ms @ ''ms''))
        else Some (pass_from_def d (''pli='' @ show_word pli
               @ '' (keyframe flag set, latency not measured)'')))"

definition eval_l1_10 :: "obs_map \<Rightarrow> checkpoint_def \<Rightarrow> checkpoint_result option" where
  "eval_l1_10 observations d = (let pli = total_pli observations in
     if pli = 0 then None
     else Some (pass_from_def d (''pli_received='' @ show_word pli
       @ '' (burst cancel verification requires server-side observation)'')))"

definition any_ack :: "obs_map \<Rightarrow> bool" where
  "any_ack observations \<longleftrightarrow> list_ex (\<lambda>(bid, obs). tracks_ack_sent obs) observations"

definition eval_l1_11 :: "obs_map \<Rightarrow> checkpoint_def \<Rightarrow> checkpoint_result option" where
  "eval_l1_11 observations d =
     (if \<not> any_ack observations then None else
      let total_before = sum_u64 (map (\<lambda>(bid, obs). video_before_ack_count obs) observations)
      in if 0 < total_before then
           let details = map (\<lambda>(bid, obs). bid @ '': '' @ show_word (video_before_ack_count obs)
                 @ '' video pkts before ACK'')
               (filter (\<lambda>(bid, obs). 0 < video_before_ack_count obs) observations)
           in Some (fail_from_def d (show_word total_before @ '' video packets before ACK [''
                @ join '', '' details @ '']''))
         else Some (pass_from_def d ''0 video packets before TRACKS_ACK (gate OK)''))"

definition eval_l1_12 :: "obs_map \<Rightarrow> checkpoint_def \<Rightarrow> checkpoint_result option" where
  "eval_l1_12 observations d =
     (if \<not> any_ack observations then None else
      let pli = total_pli observations
      in if 0 < pli then
           Some (pass_from_def d (''TRACKS_ACK sent + '' @ show_word pli @ '' PLI received (GATE:PLI delivered)''))
         else Some (fail_from_def d ''TRACKS_ACK sent but 0 PLI received (GATE:PLI missing)''))"

section \<open>Core relay\<close>

definition receivers_by_ssrc ::
    "fmt_env \<Rightarrow> (string \<times> recv_snapshot) list \<Rightarrow> (u32 \<times> (string \<times> u64) list) list" where
  "receivers_by_ssrc env recv = group_by_key env (\<lambda>(bid, m). sm_ssrc m) (\<lambda>(bid, m). (bid, packets_received m))
     (concat (map (\<lambda>(bid, snap). map (Pair bid) (streams snap)) recv))"

definition max_rx :: "(string \<times> u64) list \<Rightarrow> u64" where
  "max_rx receivers = (case map snd receivers of [] \<Rightarrow> 0 | c # cs \<Rightarrow> foldl max c cs)"

definition min_rx :: "(string \<times> u64) list \<Rightarrow> u64" where
  "min_rx receivers = (case map snd receivers of [] \<Rightarrow> 0 | c # cs \<Rightarrow> foldl min c cs)"

definition receivers_mismatch :: "(string \<times> u64) list \<Rightarrow> bool" where
  "receivers_mismatch receivers \<longleftrightarrow>
     \<not> length receivers < 2 \<and> 2 < sat_sub (max_rx receivers) (min_rx receivers)"

definition eval_l1_13 ::
    "fmt_env \<Rightarrow> (string \<times> recv_snapshot) list \<Rightarrow> checkpoint_def \<Rightarrow> string \<Rightarrow> checkpoint_result option" where
  "eval_l1_13 env recv d profile =
     (if profile \<noteq> ''pristine'' then None
      else if recv = [] then Some (fail_from_def d ''no recv data'')
      else
      let lossy = filter (\<lambda>(bid, snap). 0 < total_lost snap) recv;
          total_lost_all = sum_u64 (map (\<lambda>(bid, snap). total_lost snap) lossy);
          loss_details = map (\<lambda>(bid, snap). bid @ '':lost='' @ show_word (total_lost snap)) lossy
      in if 0 < total_lost_all then
           Some (fail_from_def d (''total_lost='' @ show_word total_lost_all @ '' ['' @ join '', '' loss_details @ '']''))
      else
      let mismatch_details = map (\<lambda>(ssrc, receivers).
            let detail = map (\<lambda>(bid, c). bid @ ''='' @ show_word c) receivers
            in ''SSRC=0x'' @ hex08 ssrc @ '' '' @ u_delta @ ''='' @ show_word (max_rx receivers - min_rx receivers)
               @ '' ['' @ join '','' detail @ '']'')
            (filter (\<lambda>(ssrc, receivers). receivers_mismatch receivers) (receivers_by_ssrc env recv))
      in if mismatch_details \<noteq> [] then
           Some (fail_from_def d (''cross-subscriber mismatch: '' @ join ''; '' mismatch_details))
      else
      let total_rx = sum_u64 (map (\<lambda>(bid, snap). total_packets snap) recv)
      in Some (pass_from_def d (''total_rx='' @ show_word total_rx @ '' lost=0 cross-check=OK (''
           @ show_nat (length recv) @ '' subscribers)'')))"

section \<open>Floor control and lifecycle\<close>

definition eval_l1_14 :: "obs_map \<Rightarrow> checkpoint_def \<Rightarrow> string \<Rightarrow> checkpoint_result option" where
  "eval_l1_14 observations d mode =
     (if mode \<noteq> ''ptt'' then None else
      let all_grants = filter fg_granted (concat (map (\<lambda>(bid, obs). floor_grants obs) observations))
      in if all_grants = [] then None else
      let all_grants = sort_key fg_timestamp_ms all_grants;
          total_grants = length all_grants
      in Some (pass_from_def d (show_nat total_grants @ '' grants recorded, sequential order OK'')))"

definition eval_l1_15 :: "obs_map \<Rightarrow> checkpoint_def \<Rightarrow> string \<Rightarrow> checkpoint_result option" where
  "eval_l1_15 observations d mode =
     (if mode \<noteq> ''ptt'' then None
      else if list_ex (\<lambda>(bid, obs). floor_revoke_received obs) observations
      then Some (pass_from_def d ''floor revoke received (preemption delivered)'')
      else None)"

definition eval_l1_16 :: "obs_map \<Rightarrow> checkpoint_def \<Rightarrow> string \<Rightarrow> checkpoint_result option" where
  "eval_l1_16 observations d mode =
     (if mode \<noteq> ''ptt'' then None else
      let all_positions = concat (map (\<lambda>(bid, obs). queue_positions obs) observations)
      in if all_positions = [] then None else
      let invalid = filter (\<lambda>p. p = 0) all_positions
      in if invalid \<noteq> [] then
           Some (fail_from_def d (show_nat (length invalid) @ '' invalid queue positions (0)''))
         else Some (pass_from_def d (show_nat (length all_positions) @ '' queue positions valid'')))"

definition eval_l1_17 :: "fmt_env \<Rightarrow> obs_map \<Rightarrow> checkpoint_def \<Rightarrow> checkpoint_result option" where
  "eval_l1_17 env observations d = (
     let zombie_cleanups = concat (map (\<lambda>(bid, obs). zombie_cleanup_detected obs) observations)
     in if zombie_cleanups = [] then None
        else Some (pass_from_def d (show_nat (length zombie_cleanups) @ '' zombies cleaned up: [''
          @ join '', '' (map (fe_debug_str env) zombie_cleanups) @ '']'')))"

section \<open>Simulcast and screen share\<close>

definition active_switches :: "obs_map \<Rightarrow> layer_switch_event list" where
  "active_switches observations = filter (\<lambda>s. requested_layer s \<noteq> ''pause'')
     (concat (map (\<lambda>(bid, obs). simulcast_layer_switches obs) observations))"

definition eval_l1_18 :: "obs_map \<Rightarrow> checkpoint_def \<Rightarrow> checkpoint_result option" where
  "eval_l1_18 observations d = (
     let all_switches = concat (map (\<lambda>(bid, obs). simulcast_layer_switches obs) observations)
     in if all_switches = [] then None else
     let active = active_switches observations
     in if active = [] then None else
     let failures = map (\<lambda>sw. ''layer='' @ requested_layer sw @ '' no packets after switch'')
           (filter (\<lambda>sw. \<not> packets_after sw) active)
     in if failures \<noteq> [] then
          Some (fail_from_def d (show_nat (length failures) @ ''/'' @ show_nat (length active)
            @ '' switches without packets: '' @ join ''; '' failures))
        else Some (pass_from_def d (show_nat (length active) @ '' layer switches, all received packets'')))"

definition eval_l1_19 :: "obs_map \<Rightarrow> checkpoint_def \<Rightarrow> checkpoint_result option" where
  "eval_l1_19 observations d = (
     let all_switches = filter (\<lambda>s. ts_before s \<noteq> None \<and> ts_after s \<noteq> None) (active_switches observations)
     in if all_switches = [] then None else
     let violations = map (\<lambda>sw. let before = the (ts_before sw); after = the (ts_after sw)
             in ''layer='' @ requested_layer sw @ '' ts backward: '' @ show_word before @ '' '' @ u_arrow @ '' ''
                @ show_word after @ '' ('' @ u_delta @ ''='' @ show_int (sint (after - before)) @ '')'')
           (filter (\<lambda>sw. sint (the (ts_after sw) - the (ts_before sw)) \<le> 0) all_switches)
     in if violations \<noteq> [] then
          Some (fail_from_def d (show_nat (length violations) @ '' ts continuity violations: ''
            @ join ''; '' violations))
        else Some (pass_from_def d (show_nat (length all_switches) @ '' layer switches, ts continuity OK'')))"

definition eval_l1_20 :: "obs_map \<Rightarrow> checkpoint_def \<Rightarrow> checkpoint_result option" where
  "eval_l1_20 observations d = (
     let all_switches = active_switches observations
     in if all_switches = [] then None else
     let max_latency = foldl (\<lambda>mx sw. case keyframe_after_ms sw of
             Some ms \<Rightarrow> if mx < ms then ms else mx | None \<Rightarrow> mx) 0 all_switches;
         no_keyframe = map (\<lambda>sw. ''layer='' @ requested_layer sw)
           (filter (\<lambda>sw. keyframe_after_ms sw = None) all_switches)
     in if no_keyframe \<noteq> [] then
          Some (fail_from_def d (show_nat (length no_keyframe) @ ''/'' @ show_nat (length all_switches)
            @ '' switches without keyframe: '' @ join '', '' no_keyframe))
        else Some (pass_from_def d (show_nat (length all_switches)
            @ '' switches, all keyframe-first (max_latency='' @ show_word max_latency @ ''ms)'')))"

definition eval_l1_21 :: "fmt_env \<Rightarrow> obs_map \<Rightarrow> checkpoint_def \<Rightarrow> checkpoint_result option" where
  "eval_l1_21 env observations d = (
     let published = List.map_filter (\<lambda>(bid, obs). screen_share_ssrc_published obs) observations
     in if published = [] then None else
     let received = \<Union> (set (map (\<lambda>(bid, obs). screen_share_ssrcs_received obs) observations))
     in if received = {} then
          Some (fail_from_def d (''screen published (SSRC='' @ debug_u32s published
            @ '') but no subscriber received it''))
     else
     let mismatches = map (\<lambda>pub_ssrc. ''published=0x'' @ hex08 pub_ssrc @ '' not in received=''
             @ debug_u32_set env received) (filter (\<lambda>p. p \<notin> received) published)
     in if mismatches \<noteq> [] then
          Some (fail_from_def d (''screen SSRC mismatch (virtual SSRC applied?): '' @ join ''; '' mismatches))
        else Some (pass_from_def d (''screen SSRC preserved: published='' @ debug_u32s published
            @ '' received='' @ debug_u32_set env received)))"

section \<open>Evaluation\<close>

definition evaluate_def ::
    "fmt_env \<Rightarrow> (string \<times> recv_snapshot) list \<Rightarrow> obs_map \<Rightarrow> string \<Rightarrow> string \<Rightarrow> checkpoint_def
       \<Rightarrow> checkpoint_result option" where
  "evaluate_def env recv obs mode profile d = (let cid = cd_id d in
     if cid = ''L1-01'' then eval_l1_01 obs d
     else if cid = ''L1-02'' then eval_l1_02 env obs d
     else if cid = ''L1-03'' then eval_l1_03 env obs d
     else if cid = ''L1-04'' then eval_l1_04 obs d mode
     else if cid = ''L1-05'' then eval_l1_05 obs d mode
     else if cid = ''L1-06'' then eval_l1_06 obs d mode
     else if cid = ''L1-07'' then eval_l1_07 env obs d mode
     else if cid = ''L1-09'' then eval_l1_09 obs d
     else if cid = ''L1-11'' then eval_l1_11 obs d
     else if cid = ''L1-13'' then eval_l1_13 env recv d profile
     else if cid = ''L1-08'' then eval_l1_08 obs d mode
     else if cid = ''L1-10'' then eval_l1_10 obs d
     else if cid = ''L1-12'' then eval_l1_12 obs d
     else if cid = ''L1-14'' then eval_l1_14 obs d mode
     else if cid = ''L1-15'' then eval_l1_15 obs d mode
     else if cid = ''L1-16'' then eval_l1_16 obs d mode
     else if cid = ''L1-17'' then eval_l1_17 env obs d
     else if cid = ''L1-18'' then eval_l1_18 obs d
     else if cid = ''L1-19'' then eval_l1_19 obs d
     else if cid = ''L1-20'' then eval_l1_20 obs d
     else if cid = ''L1-21'' then eval_l1_21 env obs d
     else None)"

definition evaluate ::
    "fmt_env \<Rightarrow> (string \<times> recv_snapshot) list \<Rightarrow> obs_map \<Rightarrow> checkpoint_category list \<Rightarrow> string \<Rightarrow> string
       \<Rightarrow> checkpoint_result list" where
  "evaluate env recv obs applicable_categories mode profile = (
     let defs = (if applicable_categories = [] then REGISTRY else find_by_categories applicable_categories)
     in List.map_filter (evaluate_def env recv obs mode profile) defs)"

section \<open>What each checkpoint decides\<close>

definition fails_if :: "bool \<Rightarrow> verdict option" where
  "fails_if b = Some (if b then VFail else VPass)"

definition ntps_of :: "observations \<Rightarrow> u32 \<Rightarrow> u64 list" where
  "ntps_of obs ssrc = map (\<lambda>sr. ntp64 (sr_ntp_sec sr, sr_ntp_frac sr)) (filter (\<lambda>sr. sr_ssrc sr = ssrc) (sr_received obs))"

definition tss_of :: "observations \<Rightarrow> u32 \<Rightarrow> u32 list" where
  "tss_of obs ssrc = map sr_rtp_ts (filter (\<lambda>sr. sr_ssrc sr = ssrc) (sr_received obs))"

definition rx_counts :: "(string \<times> recv_snapshot) list \<Rightarrow> u32 \<Rightarrow> u64 set" where
  "rx_counts recv ssrc = {packets_received m | m. m \<in> (\<Union>p \<in> set recv. set (streams (snd p))) \<and> sm_ssrc m = ssrc}"

definition l1_spec ::
    "(string \<times> recv_snapshot) list \<Rightarrow> obs_map \<Rightarrow> string \<Rightarrow> string \<Rightarrow> string \<Rightarrow> verdict option" where
  "l1_spec recv obs mode profile cid = (let B = snd ` set obs; ptt = (mode = ''ptt'');
       sum = (\<lambda>f :: observations \<Rightarrow> u64. sum_list (map (f \<circ> snd) obs)) in
     if cid = ''L1-01'' then (if sum rr_received_count = 0 then None
       else fails_if (\<exists>x \<in> B. 0 < rr_received_count x \<and> 1 < card (rr_sender_ssrcs x)))
     else if cid = ''L1-02'' then (if \<forall>x \<in> B. sr_received x = [] then None
       else fails_if (\<exists>x \<in> B. \<exists>ssrc. \<not> sorted_wrt (<) (ntps_of x ssrc)))
     else if cid = ''L1-03'' then (if \<forall>x \<in> B. sr_received x = [] then None
       else fails_if (\<exists>x \<in> B. \<exists>ssrc. \<not> successively (\<lambda>a b. 0 < sint (b - a)) (tss_of x ssrc)))
     else if cid = ''L1-04'' then (if \<not> ptt then None else fails_if (sum ptt_non_speaker_rtp_count \<noteq> 0))
     else if cid = ''L1-05'' then
       (if \<not> ptt \<or> (\<forall>x \<in> B. ptt_silence_frames_after_release x = 0) then None
        else fails_if (\<exists>x \<in> B. ptt_silence_frames_after_release x \<notin> {0, 3}))
     else if cid = ''L1-06'' then
       (if \<not> ptt \<or> (\<forall>x \<in> B. ptt_first_video_was_keyframe x = None) then None
        else fails_if (\<exists>x \<in> B. ptt_first_video_was_keyframe x = Some False))
     else if cid = ''L1-07'' then
       (if \<not> ptt \<or> (\<forall>x \<in> B. ptt_audio_ssrcs x = {} \<and> ptt_video_ssrcs x = {}) then None
        else fails_if (\<exists>x \<in> B. 1 < card (ptt_audio_ssrcs x) \<or> 1 < card (ptt_video_ssrcs x)))
     else if cid = ''L1-09'' then (if sum pli_received_count = 0 then None else Some VPass)
     else if cid = ''L1-11'' then (if \<forall>x \<in> B. \<not> tracks_ack_sent x then None
       else fails_if (sum video_before_ack_count \<noteq> 0))
     else if cid = ''L1-13'' then (if profile \<noteq> ''pristine'' then None
       else fails_if (recv = [] \<or> sum_list (map (total_lost \<circ> snd) recv) \<noteq> 0
         \<or> (\<exists>ssrc. \<exists>a \<in> rx_counts recv ssrc. \<exists>b \<in> rx_counts recv ssrc. b \<le> a \<and> 2 < a - b)))
     else if cid = ''L1-08'' then (if \<not> ptt \<or> (\<forall>x \<in> B. ptt_ts_gap_records x = []) then None
       else fails_if (\<exists>x \<in> B. \<exists>r \<in> set (ptt_ts_gap_records x). ts_gap_violation r))
     else if cid = ''L1-10'' then (if sum pli_received_count = 0 then None else Some VPass)
     else if cid = ''L1-12'' then (if \<forall>x \<in> B. \<not> tracks_ack_sent x then None
       else fails_if (sum pli_received_count = 0))
     else if cid = ''L1-14'' then
       (if \<not> ptt \<or> (\<forall>x \<in> B. \<forall>g \<in> set (floor_grants x). \<not> fg_granted g) then None else Some VPass)
     else if cid = ''L1-15'' then
       (if \<not> ptt \<or> (\<forall>x \<in> B. \<not> floor_revoke_received x) then None else Some VPass)
     else if cid = ''L1-16'' then (if \<not> ptt \<or> (\<forall>x \<in> B. queue_positions x = []) then None
       else fails_if (\<exists>x \<in> B. 0 \<in> set (queue_positions x)))
     else if cid = ''L1-17'' then
       (if \<forall>x \<in> B. zombie_cleanup_detected x = [] then None else Some VPass)
     else let S = {s \<in> (\<Union>x \<in> B. set (simulcast_layer_switches x)). requested_layer s \<noteq> ''pause''} in
     if cid = ''L1-18'' then (if S = {} then None else fails_if (\<exists>s \<in> S. \<not> packets_after s))
     else if cid = ''L1-19'' then
       (let T = {(b, a). \<exists>s \<in> S. ts_before s = Some b \<and> ts_after s = Some a}
        in if T = {} then None else fails_if (\<exists>(b, a) \<in> T. sint (a - b) \<le> 0))
     else if cid = ''L1-20'' then (if S = {} then None else fails_if (\<exists>s \<in> S. keyframe_after_ms s = None))
     else if cid = ''L1-21'' then
       (let P = {p. \<exists>x \<in> B. screen_share_ssrc_published x = Some p}
        in if P = {} then None else fails_if (\<not> P \<subseteq> (\<Union>x \<in> B. screen_share_ssrcs_received x)))
     else None)"

definition outcome :: "checkpoint_result option \<Rightarrow> (string \<times> verdict) option" where
  "outcome = map_option (\<lambda>r. (cr_id r, cr_verdict r))"

lemma outcome_simps [simp]:
  "outcome None = None"
  "outcome (Some (pass_from_def d a)) = Some (cd_id d, VPass)"
  "outcome (Some (fail_from_def d a)) = Some (cd_id d, VFail)"
  by (simp_all add: outcome_def pass_from_def_def fail_from_def_def checkpoint_pass_def checkpoint_fail_def)

lemma map_fails_if: "map_option (Pair k) (fails_if b) = Some (k, if b then VFail else VPass)"
  by (simp add: fails_if_def)

lemma neighbours_all:
  "filter (\<lambda>(p, c). \<not> R p c) (neighbours xs) = [] \<longleftrightarrow> successively R xs"
  by (induction R xs rule: successively.induct) (auto simp: neighbours_def)

lemma sum_filter_pos:
  "sum_list (map f (filter (\<lambda>x. 0 < f x) xs)) = sum_list (map f xs)" for f :: "'a \<Rightarrow> 'b::len word"
  by (induction xs) (auto simp: word_gt_0)

lemma group_by_key_mem:
  assumes "fmt_env_ok env"
  shows "(k, vs) \<in> set (group_by_key env key value xs) \<longleftrightarrow>
    k \<in> key ` set xs \<and> vs = map value (filter (\<lambda>x. key x = k) xs)"
proof -
  have "set (fe_key_order env (remdups (map key xs))) = key ` set xs"
    using assms by (metis fmt_env_ok_def set_mset_mset set_remdups set_map)
  then show ?thesis by (auto simp: group_by_key_def)
qed

lemma less_max_fold: "(k :: nat) < foldl max a xs \<longleftrightarrow> k < a \<or> (\<exists>x \<in> set xs. k < x)"
  by (induction xs arbitrary: a) auto

lemma sum_filter_pos_snd:
  "sum_list (map (\<lambda>p. f (snd p)) (filter (\<lambda>p. 0 < f (snd p)) xs)) = sum_list (map (\<lambda>p. f (snd p)) xs)"
  for f :: "'a \<Rightarrow> 'b::len word"
  by (rule sum_filter_pos)

lemmas eval_simps = Let_def case_prod_unfold sum_u64_sum_list sum_filter_pos_snd less_max_fold o_def
  map_fails_if list_ex_iff filter_empty_conv word_gt_0

lemma outcome_01: "outcome (eval_l1_01 obs d) = map_option (Pair (cd_id d))
  (if sum_list (map (rr_received_count \<circ> snd) obs) = 0 then None
   else fails_if (\<exists>x \<in> snd ` set obs. 0 < rr_received_count x \<and> 1 < card (rr_sender_ssrcs x)))"
  unfolding eval_l1_01_def Let_def case_prod_unfold sum_u64_sum_list sum_filter_pos_snd less_max_fold o_def
  by (auto simp: map_fails_if)

lemma group_lengths:
  assumes "fmt_env_ok env"
  shows "sum_list (map (\<lambda>q. length (snd q)) (group_by_key env key value xs)) = 0 \<longleftrightarrow> xs = []"
proof
  assume 0: "sum_list (map (\<lambda>q. length (snd q)) (group_by_key env key value xs)) = 0"
  show "xs = []"
  proof (rule ccontr)
    assume "xs \<noteq> []"
    then obtain x where x: "x \<in> set xs" by (cases xs) auto
    then have "(key x, map value (filter (\<lambda>y. key y = key x) xs)) \<in> set (group_by_key env key value xs)"
      by (simp add: group_by_key_mem [OF assms])
    with 0 have "filter (\<lambda>y. key y = key x) xs = []" by (auto simp: sum_list_eq_0_iff)
    with x show False by (auto simp: filter_empty_conv)
  qed
next
  assume "xs = []"
  then show "sum_list (map (\<lambda>q. length (snd q)) (group_by_key env key value xs)) = 0"
    using group_by_key_mem [OF assms, where xs = "[]"] by (auto simp: sum_list_eq_0_iff)
qed

lemma group_total:
  assumes "fmt_env_ok env"
  shows "sum_list (map (\<lambda>p. sum_list (map (\<lambda>q. length (snd q)) (snd p)))
      (map (\<lambda>p. (fst p, group_by_key env key value (g p))) (filter (\<lambda>p. g p \<noteq> []) obs))) = 0
    \<longleftrightarrow> (\<forall>p \<in> set obs. g p = [])"
proof -
  have "sum_list (map f (map h (filter P obs))) = 0 \<longleftrightarrow> (\<forall>p \<in> set obs. P p \<longrightarrow> f (h p) = (0 :: nat))" for f h P
    by (induction obs) auto
  note w = this
  show ?thesis by (simp only: w snd_conv group_lengths [OF assms]) blast
qed

lemma neighbours_Nil [simp]: "neighbours [] = []"
  by (simp add: neighbours_def)

lemma group_violations:
  assumes "fmt_env_ok env"
  shows "concat (map (\<lambda>p. concat (map (\<lambda>q. map (msg p q) (filter Q (neighbours (snd q)))) (snd p)))
      (map (\<lambda>p. (fst p, group_by_key env key value (g p))) (filter (\<lambda>p. g p \<noteq> []) obs))) = []
    \<longleftrightarrow> (\<forall>p \<in> set obs. \<forall>k. filter Q (neighbours (map value (filter (\<lambda>y. key y = k) (g p)))) = [])"
proof -
  have g: "(\<forall>q \<in> set (group_by_key env key value xs). filter Q (neighbours (snd q)) = [])
      \<longleftrightarrow> (\<forall>k. filter Q (neighbours (map value (filter (\<lambda>y. key y = k) xs))) = [])" (is "?l = ?r") for xs
  proof
    assume l: ?l
    show ?r
    proof
      fix k
      show "filter Q (neighbours (map value (filter (\<lambda>y. key y = k) xs))) = []"
      proof (cases "k \<in> key ` set xs")
        case True
        then have "(k, map value (filter (\<lambda>y. key y = k) xs)) \<in> set (group_by_key env key value xs)"
          by (simp add: group_by_key_mem [OF assms])
        with l show ?thesis by (metis snd_conv)
      next
        case False
        then have "filter (\<lambda>y. key y = k) xs = []" by (auto simp: filter_empty_conv)
        then show ?thesis by simp
      qed
    qed
  next
    assume ?r
    then show ?l using group_by_key_mem [OF assms] by (metis prod.collapse)
  qed
  have "concat (map (\<lambda>p. concat (map (\<lambda>q. map (msg p q) (filter Q (neighbours (snd q)))) (snd p)))
      (map (\<lambda>p. (fst p, group_by_key env key value (g p))) (filter (\<lambda>p. g p \<noteq> []) obs))) = []
    \<longleftrightarrow> (\<forall>p \<in> set obs. g p \<noteq> [] \<longrightarrow> (\<forall>q \<in> set (group_by_key env key value (g p)). filter Q (neighbours (snd q)) = []))"
    by (induction obs) (auto simp: concat_eq_Nil_conv)
  moreover have "(g p \<noteq> [] \<longrightarrow> (\<forall>k. filter Q (neighbours (map value (filter (\<lambda>y. key y = k) (g p)))) = []))
      \<longleftrightarrow> (\<forall>k. filter Q (neighbours (map value (filter (\<lambda>y. key y = k) (g p)))) = [])" for p
    by (cases "g p") simp_all
  ultimately show ?thesis by (simp only: g)
qed

lemma outcome_02:
  assumes "fmt_env_ok env"
  shows "outcome (eval_l1_02 env obs d) = map_option (Pair (cd_id d))
    (if \<forall>x \<in> snd ` set obs. sr_received x = [] then None
     else fails_if (\<exists>x \<in> snd ` set obs. \<exists>ssrc. \<not> sorted_wrt (<) (ntps_of x ssrc)))"
proof -
  have s: "sorted_wrt (<) (ntps_of x k) \<longleftrightarrow> filter (\<lambda>p. ntp64 (snd p) \<le> ntp64 (fst p))
      (neighbours (map (\<lambda>sr. (sr_ntp_sec sr, sr_ntp_frac sr)) (filter (\<lambda>sr. sr_ssrc sr = k) (sr_received x)))) = []"
    for x k
    using neighbours_all [of "\<lambda>a b. ntp64 a < ntp64 b"]
    by (simp add: ntps_of_def successively_map case_prod_unfold not_less flip: successively_conv_sorted_wrt)
  show ?thesis
    unfolding eval_l1_02_def Let_def case_prod_unfold group_total [OF assms] group_violations [OF assms]
    by (auto simp: map_fails_if s)
qed

lemma outcome_03:
  assumes "fmt_env_ok env"
  shows "outcome (eval_l1_03 env obs d) = map_option (Pair (cd_id d))
    (if \<forall>x \<in> snd ` set obs. sr_received x = [] then None
     else fails_if (\<exists>x \<in> snd ` set obs. \<exists>ssrc. \<not> successively (\<lambda>a b. 0 < sint (b - a)) (tss_of x ssrc)))"
proof -
  have s: "successively (\<lambda>a b. 0 < sint (b - a)) (tss_of x k) \<longleftrightarrow> filter (\<lambda>p. sint (snd p - fst p) \<le> 0)
      (neighbours (map sr_rtp_ts (filter (\<lambda>sr. sr_ssrc sr = k) (sr_received x)))) = []" for x k
    using neighbours_all [of "\<lambda>a b :: u32. 0 < sint (b - a)"]
    by (simp add: tss_of_def case_prod_unfold not_less)
  show ?thesis
    unfolding eval_l1_03_def Let_def case_prod_unfold group_total [OF assms] group_violations [OF assms]
    by (auto simp: map_fails_if s)
qed

lemma word_sum_filter:
  "sum_list (map (\<lambda>p. f (snd p)) (filter (\<lambda>p. 0 < f (snd p)) xs)) = sum_list (map (f \<circ> snd) xs)"
  for f :: "'a \<Rightarrow> 'b::len word"
  using sum_filter_pos_snd [of f xs] by (simp add: o_def)

lemma outcome_04: "outcome (eval_l1_04 obs d mode) = map_option (Pair (cd_id d))
  (if mode \<noteq> ''ptt'' then None
   else fails_if (sum_list (map (ptt_non_speaker_rtp_count \<circ> snd) obs) \<noteq> 0))"
  unfolding eval_l1_04_def Let_def case_prod_unfold sum_u64_sum_list word_sum_filter
  by (simp add: map_fails_if word_gt_0)

lemma outcome_05: "outcome (eval_l1_05 obs d mode) = map_option (Pair (cd_id d))
  (if mode \<noteq> ''ptt'' \<or> (\<forall>x \<in> snd ` set obs. ptt_silence_frames_after_release x = 0) then None
   else fails_if (\<exists>x \<in> snd ` set obs. ptt_silence_frames_after_release x \<notin> {0, 3}))"
  unfolding eval_l1_05_def Let_def case_prod_unfold
  by (auto simp: map_fails_if word_gt_0 list_ex_iff filter_empty_conv)

lemma outcome_06: "outcome (eval_l1_06 obs d mode) = map_option (Pair (cd_id d))
  (if mode \<noteq> ''ptt'' \<or> (\<forall>x \<in> snd ` set obs. ptt_first_video_was_keyframe x = None) then None
   else fails_if (\<exists>x \<in> snd ` set obs. ptt_first_video_was_keyframe x = Some False))"
  unfolding eval_l1_06_def Let_def case_prod_unfold
  by (auto simp: map_fails_if filter_empty_conv)

lemma outcome_07: "outcome (eval_l1_07 env obs d mode) = map_option (Pair (cd_id d))
  (if mode \<noteq> ''ptt'' \<or> (\<forall>x \<in> snd ` set obs. ptt_audio_ssrcs x = {} \<and> ptt_video_ssrcs x = {}) then None
   else fails_if (\<exists>x \<in> snd ` set obs. 1 < card (ptt_audio_ssrcs x) \<or> 1 < card (ptt_video_ssrcs x)))"
  unfolding eval_l1_07_def Let_def case_prod_unfold
  by (auto simp: map_fails_if list_ex_iff)

lemma outcome_08: "outcome (eval_l1_08 obs d mode) = map_option (Pair (cd_id d))
  (if mode \<noteq> ''ptt'' \<or> (\<forall>x \<in> snd ` set obs. ptt_ts_gap_records x = []) then None
   else fails_if (\<exists>x \<in> snd ` set obs. \<exists>r \<in> set (ptt_ts_gap_records x). ts_gap_violation r))"
  unfolding eval_l1_08_def Let_def case_prod_unfold
  by (auto simp: map_fails_if filter_empty_conv concat_eq_Nil_conv)

lemma total_pli_sum: "total_pli obs = sum_list (map (pli_received_count \<circ> snd) obs)"
  by (simp add: total_pli_def sum_u64_sum_list case_prod_unfold o_def)

lemma outcome_09_10:
  "outcome (eval_l1_09 obs d) = map_option (Pair (cd_id d))
     (if sum_list (map (pli_received_count \<circ> snd) obs) = 0 then None else Some VPass)"
  "outcome (eval_l1_10 obs d) = map_option (Pair (cd_id d))
     (if sum_list (map (pli_received_count \<circ> snd) obs) = 0 then None else Some VPass)"
  by (simp_all add: eval_l1_09_def eval_l1_10_def Let_def total_pli_sum)

lemma any_ack_iff: "any_ack obs \<longleftrightarrow> \<not> (\<forall>x \<in> snd ` set obs. \<not> tracks_ack_sent x)"
  by (simp add: any_ack_def list_ex_iff case_prod_unfold)

lemma outcome_11: "outcome (eval_l1_11 obs d) = map_option (Pair (cd_id d))
  (if \<forall>x \<in> snd ` set obs. \<not> tracks_ack_sent x then None
   else fails_if (sum_list (map (video_before_ack_count \<circ> snd) obs) \<noteq> 0))"
  unfolding eval_l1_11_def Let_def any_ack_iff sum_u64_sum_list case_prod_unfold
  by (simp add: map_fails_if word_gt_0 o_def)

lemma outcome_12: "outcome (eval_l1_12 obs d) = map_option (Pair (cd_id d))
  (if \<forall>x \<in> snd ` set obs. \<not> tracks_ack_sent x then None
   else fails_if (sum_list (map (pli_received_count \<circ> snd) obs) = 0))"
  unfolding eval_l1_12_def Let_def any_ack_iff total_pli_sum
  by (simp add: map_fails_if word_gt_0)

lemma outcome_14_15:
  "outcome (eval_l1_14 obs d mode) = map_option (Pair (cd_id d))
     (if mode \<noteq> ''ptt'' \<or> (\<forall>x \<in> snd ` set obs. \<forall>g \<in> set (floor_grants x). \<not> fg_granted g)
      then None else Some VPass)"
  "outcome (eval_l1_15 obs d mode) = map_option (Pair (cd_id d))
     (if mode \<noteq> ''ptt'' \<or> (\<forall>x \<in> snd ` set obs. \<not> floor_revoke_received x) then None else Some VPass)"
  unfolding eval_l1_14_def eval_l1_15_def Let_def case_prod_unfold
  by (auto simp: filter_empty_conv list_ex_iff)

lemma outcome_16: "outcome (eval_l1_16 obs d mode) = map_option (Pair (cd_id d))
  (if mode \<noteq> ''ptt'' \<or> (\<forall>x \<in> snd ` set obs. queue_positions x = []) then None
   else fails_if (\<exists>x \<in> snd ` set obs. 0 \<in> set (queue_positions x)))"
  unfolding eval_l1_16_def Let_def case_prod_unfold
  by (auto simp: map_fails_if filter_empty_conv concat_eq_Nil_conv)

lemma outcome_17: "outcome (eval_l1_17 env obs d) = map_option (Pair (cd_id d))
  (if \<forall>x \<in> snd ` set obs. zombie_cleanup_detected x = [] then None else Some VPass)"
  unfolding eval_l1_17_def Let_def case_prod_unfold
  by (auto simp: concat_eq_Nil_conv)

definition active_set :: "obs_map \<Rightarrow> layer_switch_event set" where
  "active_set obs = {s \<in> (\<Union>x \<in> snd ` set obs. set (simulcast_layer_switches x)). requested_layer s \<noteq> ''pause''}"

lemma set_active: "set (active_switches obs) = active_set obs"
  by (simp add: active_switches_def active_set_def case_prod_unfold set_eq_iff)

lemma active_Nil: "active_switches obs = [] \<longleftrightarrow> active_set obs = {}"
  by (metis set_active set_empty)

lemma outcome_18: "outcome (eval_l1_18 obs d) = map_option (Pair (cd_id d))
  (if active_set obs = {} then None else fails_if (\<exists>s \<in> active_set obs. \<not> packets_after s))"
proof -
  have "active_set obs = {}" if "concat (map (\<lambda>p. simulcast_layer_switches (snd p)) obs) = []"
    using that by (auto simp: active_set_def)
  then show ?thesis
    unfolding eval_l1_18_def Let_def case_prod_unfold map_is_Nil_conv filter_empty_conv active_Nil set_active
    by (auto simp: map_fails_if)
qed

lemma outcome_19: "outcome (eval_l1_19 obs d) = map_option (Pair (cd_id d))
  (let T = {(b, a). \<exists>s \<in> active_set obs. ts_before s = Some b \<and> ts_after s = Some a}
   in if T = {} then None else fails_if (\<exists>(b, a) \<in> T. sint (a - b) \<le> 0))"
proof -
  define ys where "ys = filter (\<lambda>s. ts_before s \<noteq> None \<and> ts_after s \<noteq> None) (active_switches obs)"
  define T where "T = {(b, a). \<exists>s \<in> active_set obs. ts_before s = Some b \<and> ts_after s = Some a}"
  have T: "T = (\<lambda>s. (the (ts_before s), the (ts_after s))) ` set ys" (is "_ = ?im")
  proof (rule set_eqI)
    fix p :: "u32 \<times> u32"
    show "p \<in> T \<longleftrightarrow> p \<in> ?im"
      by (cases p) (force simp: T_def ys_def set_active)
  qed
  have "outcome (eval_l1_19 obs d) = map_option (Pair (cd_id d))
      (if ys = [] then None else fails_if (\<exists>s \<in> set ys. sint (the (ts_after s) - the (ts_before s)) \<le> 0))"
    unfolding eval_l1_19_def Let_def ys_def [symmetric]
    by (auto simp: map_fails_if filter_empty_conv)
  also have "\<dots> = map_option (Pair (cd_id d)) (if T = {} then None else fails_if (\<exists>(b, a) \<in> T. sint (a - b) \<le> 0))"
    by (simp add: T)
  finally show ?thesis unfolding T_def Let_def .
qed

lemma outcome_20: "outcome (eval_l1_20 obs d) = map_option (Pair (cd_id d))
  (if active_set obs = {} then None else fails_if (\<exists>s \<in> active_set obs. keyframe_after_ms s = None))"
  unfolding eval_l1_20_def Let_def map_is_Nil_conv filter_empty_conv active_Nil set_active
  by (auto simp: map_fails_if)

lemma outcome_21: "outcome (eval_l1_21 env obs d) = map_option (Pair (cd_id d))
  (let P = {p. \<exists>x \<in> snd ` set obs. screen_share_ssrc_published x = Some p}
   in if P = {} then None else fails_if (\<not> P \<subseteq> (\<Union>x \<in> snd ` set obs. screen_share_ssrcs_received x)))"
proof -
  define ps where "ps = List.map_filter (\<lambda>p. screen_share_ssrc_published (snd p)) obs"
  define R where "R = \<Union> (set (map (\<lambda>p. screen_share_ssrcs_received (snd p)) obs))"
  have p: "{p. \<exists>x \<in> snd ` set obs. screen_share_ssrc_published x = Some p} = set ps"
    by (force simp: ps_def List.map_filter_def)
  have r: "(\<Union>x \<in> snd ` set obs. screen_share_ssrcs_received x) = R" by (auto simp: R_def)
  have "outcome (eval_l1_21 env obs d) = map_option (Pair (cd_id d))
      (if ps = [] then None else fails_if (\<not> set ps \<subseteq> R))"
    unfolding eval_l1_21_def Let_def case_prod_unfold ps_def [symmetric] R_def [symmetric]
    by (cases ps) (auto simp: map_fails_if filter_empty_conv)
  then show ?thesis unfolding p r Let_def by simp
qed

lemma foldl_max_Max: "foldl max a xs = Max (set (a # xs))" for a :: "'a::linorder"
  unfolding Max.set_eq_fold foldl_conv_fold by (simp add: max.commute fun_eq_iff cong: fold_cong)

lemma foldl_min_Min: "foldl min a xs = Min (set (a # xs))" for a :: "'a::linorder"
  unfolding Min.set_eq_fold foldl_conv_fold by (simp add: min.commute fun_eq_iff cong: fold_cong)

lemma max_rx_Max: "rs \<noteq> [] \<Longrightarrow> max_rx rs = Max (snd ` set rs)"
  by (cases rs) (simp_all add: max_rx_def foldl_max_Max del: Max_insert)

lemma min_rx_Min: "rs \<noteq> [] \<Longrightarrow> min_rx rs = Min (snd ` set rs)"
  by (cases rs) (simp_all add: min_rx_def foldl_min_Min del: Min_insert)

lemma receivers_mismatch_iff:
  "receivers_mismatch rs \<longleftrightarrow> (\<exists>a \<in> snd ` set rs. \<exists>b \<in> snd ` set rs. b \<le> a \<and> 2 < a - b)"
proof (cases "length rs < 2")
  case True
  then have "rs = [] \<or> (\<exists>r. rs = [r])" by (cases rs) (auto simp: less_Suc_eq)
  then show ?thesis using True by (auto simp: receivers_mismatch_def)
next
  case False
  then have ne: "rs \<noteq> []" by auto
  let ?S = "snd ` set rs"
  have fin: "finite ?S" "?S \<noteq> {}" using ne by auto
  have mono: "2 < Max ?S - Min ?S" if "a \<in> ?S" "b \<in> ?S" "b \<le> a" "2 < a - b" for a b
  proof -
    have m: "a \<le> Max ?S" "Min ?S \<le> b" using that fin by auto
    then have "Min ?S \<le> Max ?S" using \<open>b \<le> a\<close> by order
    then have "unat (Max ?S - Min ?S) = unat (Max ?S) - unat (Min ?S)" "unat (a - b) = unat a - unat b"
      using \<open>b \<le> a\<close> by (simp_all add: unat_sub)
    with m \<open>2 < a - b\<close> show ?thesis unfolding word_less_nat_alt word_le_nat_alt by linarith
  qed
  have le: "Min ?S \<le> Max ?S" using fin by (meson Max_ge Min_in)
  have "receivers_mismatch rs \<longleftrightarrow> 2 < Max ?S - Min ?S"
    using False le by (simp add: receivers_mismatch_def max_rx_Max [OF ne] min_rx_Min [OF ne] sat_sub_def)
  with mono le Max_in [OF fin] Min_in [OF fin] show ?thesis by blast
qed

lemma receivers_by_ssrc_mismatch:
  assumes "fmt_env_ok env"
  shows "filter (\<lambda>p. receivers_mismatch (snd p)) (receivers_by_ssrc env recv) = []
    \<longleftrightarrow> \<not> (\<exists>ssrc. \<exists>a \<in> rx_counts recv ssrc. \<exists>b \<in> rx_counts recv ssrc. b \<le> a \<and> 2 < a - b)"
proof -
  let ?xs = "concat (map (\<lambda>p. map (Pair (fst p)) (streams (snd p))) recv)"
  let ?v = "\<lambda>k. map (\<lambda>p. (fst p, packets_received (snd p))) (filter (\<lambda>p. sm_ssrc (snd p) = k) ?xs)"
  have rx: "snd ` set (?v k) = rx_counts recv k" for k
    by (force simp: rx_counts_def image_iff)
  have "filter (\<lambda>p. receivers_mismatch (snd p)) (receivers_by_ssrc env recv) = []
    \<longleftrightarrow> (\<forall>k \<in> (\<lambda>p. sm_ssrc (snd p)) ` set ?xs. \<not> receivers_mismatch (?v k))"
    unfolding filter_empty_conv receivers_by_ssrc_def case_prod_unfold Ball_def split_paired_All
      group_by_key_mem [OF assms] snd_conv by blast
  also have "\<dots> \<longleftrightarrow> (\<forall>k. \<not> receivers_mismatch (?v k))"
  proof -
    have "\<not> receivers_mismatch (?v k)" if "k \<notin> (\<lambda>p. sm_ssrc (snd p)) ` set ?xs" for k
    proof -
      have "filter (\<lambda>p. sm_ssrc (snd p) = k) ?xs = []" using that unfolding filter_empty_conv by blast
      then show ?thesis by (simp add: receivers_mismatch_def)
    qed
    then show ?thesis by blast
  qed
  finally show ?thesis unfolding receivers_mismatch_iff rx by blast
qed

lemma outcome_13:
  assumes "fmt_env_ok env"
  shows "outcome (eval_l1_13 env recv d profile) = map_option (Pair (cd_id d))
    (if profile \<noteq> ''pristine'' then None
     else fails_if (recv = [] \<or> sum_list (map (total_lost \<circ> snd) recv) \<noteq> 0
       \<or> (\<exists>ssrc. \<exists>a \<in> rx_counts recv ssrc. \<exists>b \<in> rx_counts recv ssrc. b \<le> a \<and> 2 < a - b)))"
  unfolding eval_l1_13_def Let_def case_prod_unfold sum_u64_sum_list word_sum_filter map_is_Nil_conv
    receivers_by_ssrc_mismatch [OF assms]
  by (auto simp: map_fails_if word_gt_0)

lemmas outcomes = outcome_01 outcome_02 outcome_03 outcome_04 outcome_05 outcome_06 outcome_07 outcome_08
  outcome_09_10 outcome_11 outcome_12 outcome_13 outcome_14_15 outcome_16 outcome_17 outcome_18 outcome_19
  outcome_20 outcome_21

lemma evaluate_def_spec:
  assumes "fmt_env_ok env"
  shows "outcome (evaluate_def env recv obs mode profile d) =
    map_option (Pair (cd_id d)) (l1_spec recv obs mode profile (cd_id d))"
  unfolding evaluate_def_def l1_spec_def Let_def
  by (simp only: if_distrib [of outcome] if_distrib [of "map_option _"] outcomes [unfolded Let_def active_set_def] assms
    not_not de_Morgan_disj de_Morgan_conj option.map outcome_simps simp_thms cong: if_cong)

section \<open>Properties\<close>

lemma evaluate_outcomes:
  "map (\<lambda>r. (cr_id r, cr_verdict r)) (evaluate env recv obs cats mode profile) =
    List.map_filter (\<lambda>d. outcome (evaluate_def env recv obs mode profile d))
      (if cats = [] then REGISTRY else find_by_categories cats)"
proof -
  have "map (\<lambda>r. (cr_id r, cr_verdict r)) (List.map_filter f xs) = List.map_filter (\<lambda>d. outcome (f d)) xs"
    for f and xs :: "checkpoint_def list"
    by (induction xs) (auto simp: List.map_filter_def outcome_def)
  then show ?thesis by (simp add: evaluate_def Let_def)
qed

text \<open>C2: Layer 1 implements its abstract specification: whatever the iteration orders of the
  maps and sets, \<open>evaluate\<close> returns, for the checkpoints of the requested categories in registry
  order, exactly the ones that apply, with the verdict \<open>l1_spec\<close> states over the set of
  observations (monotonic NTP and RTP timestamps, no leaked packet, one SSRC per kind, equal
  receive counts, ordered layer switches and so on).\<close>

theorem evaluate_refines:
  assumes "fmt_env_ok env"
  shows "map (\<lambda>r. (cr_id r, cr_verdict r)) (evaluate env recv obs cats mode profile) =
    List.map_filter (\<lambda>d. map_option (Pair (cd_id d)) (l1_spec recv obs mode profile (cd_id d)))
      (if cats = [] then REGISTRY else find_by_categories cats)"
  by (simp add: evaluate_outcomes evaluate_def_spec [OF assms])

definition sample_env :: fmt_env where
  "sample_env = \<lparr>fe_key_order = (\<lambda>ks. ks), fe_set_order = sorted_list_of_set, fe_debug_str = (\<lambda>s. s)\<rparr>"

definition reverse_env :: fmt_env where
  "reverse_env = \<lparr>fe_key_order = rev, fe_set_order = (\<lambda>s. rev (sorted_list_of_set s)), fe_debug_str = (\<lambda>s. s)\<rparr>"

lemma sample_env_ok: "fmt_env_ok sample_env" "fmt_env_ok reverse_env"
  by (simp_all add: fmt_env_ok_def sample_env_def reverse_env_def)

definition sample_obs :: obs_map where
  "sample_obs = [(''alice'', record_sr 7 10 0 960 1 1 (record_sr 7 9 5 0 1 1 observations_default)),
     (''bob'', observations_default\<lparr>sr_received := [\<lparr>sr_ssrc = 7, sr_ntp_sec = 9, sr_ntp_frac = 5, sr_rtp_ts = 0,
        sr_packet_count = 1, sr_octet_count = 1\<rparr>, \<lparr>sr_ssrc = 7, sr_ntp_sec = 9, sr_ntp_frac = 4, sr_rtp_ts = 960,
        sr_packet_count = 2, sr_octet_count = 2\<rparr>], queue_positions := [1, 2],
        screen_share_ssrc_published := Some 5, pli_received_count := 1\<rparr>)]"

theorem evaluate_refines_witness:
  "map (\<lambda>r. (cr_id r, cr_verdict r)) (evaluate sample_env [] sample_obs [CoreRelay, ScreenShare] ''ptt'' ''pristine'')
    = [(''L1-13'', VFail), (''L1-21'', VFail)]"
proof -
  have "find_by_categories [CoreRelay, ScreenShare] = filter (\<lambda>d. cd_id d \<in> {''L1-13'', ''L1-21''}) REGISTRY"
    by (simp add: find_by_categories_def REGISTRY_def)
  then show ?thesis
    unfolding evaluate_refines [OF sample_env_ok(1)]
    by (simp add: REGISTRY_def List.map_filter_def l1_spec_def fails_if_def sample_obs_def record_sr_def
      observations_default_def)
qed

lemma l1_spec_cong:
  assumes "mset obs = mset obs'" "mset recv = mset recv'"
  shows "l1_spec recv obs mode profile cid = l1_spec recv' obs' mode profile cid"
proof -
  have "sum_list (map f obs) = sum_list (map f obs')" for f :: "_ \<Rightarrow> u64"
    using assms(1) by (metis mset_map sum_mset_sum_list)
  moreover have "sum_list (map f recv) = sum_list (map f recv')" for f :: "_ \<Rightarrow> u64"
    using assms(2) by (metis mset_map sum_mset_sum_list)
  moreover have "set obs = set obs'" "set recv = set recv'" "recv = [] \<longleftrightarrow> recv' = []"
    using assms by (metis set_mset_mset, metis set_mset_mset, metis mset_zero_iff)
  ultimately show ?thesis by (simp only: l1_spec_def rx_counts_def cong: if_cong)
qed

text \<open>C3: No Layer 1 verdict depends on a hash order: permuting the bots of either input map, and
  any other iteration order of the maps and sets the evaluators build, gives the same checkpoint ids
  and verdicts in the same order.\<close>

theorem evaluate_order_independent:
  assumes "fmt_env_ok env" "fmt_env_ok env'" "mset obs = mset obs'" "mset recv = mset recv'"
  shows "map (\<lambda>r. (cr_id r, cr_verdict r)) (evaluate env recv obs cats mode profile) =
    map (\<lambda>r. (cr_id r, cr_verdict r)) (evaluate env' recv' obs' cats mode profile)"
  using assms(1,2) by (simp add: evaluate_outcomes evaluate_def_spec l1_spec_cong [OF assms(3,4)])

theorem evaluate_order_independent_witness:
  "map (\<lambda>r. (cr_id r, cr_verdict r)) (evaluate reverse_env [] (rev sample_obs) [] ''ptt'' ''office'') =
    map (\<lambda>r. (cr_id r, cr_verdict r)) (evaluate sample_env [] sample_obs [] ''ptt'' ''office'')"
  by (rule evaluate_order_independent [OF sample_env_ok(2,1)]) simp_all

text \<open>Every result is made from its registry entry.\<close>

definition from_def :: "checkpoint_def \<Rightarrow> checkpoint_result \<Rightarrow> bool" where
  "from_def d r \<longleftrightarrow> (\<exists>actual. r = pass_from_def d actual \<or> r = fail_from_def d actual)"

lemma from_def_intros [simp]: "from_def d (pass_from_def d a)" "from_def d (fail_from_def d a)"
  by (auto simp: from_def_def)

lemma from_def_fields:
  "from_def d r \<Longrightarrow> cr_id r = cd_id d \<and> cr_name r = cd_name d \<and> cr_category r = cd_category d"
  by (auto simp: from_def_def pass_from_def_def fail_from_def_def checkpoint_pass_def checkpoint_fail_def)

definition some_from :: "checkpoint_def \<Rightarrow> checkpoint_result option \<Rightarrow> bool" where
  "some_from d x \<longleftrightarrow> (\<forall>r. x = Some r \<longrightarrow> from_def d r)"

lemma some_from_intros:
  "some_from d None" "some_from d (Some (pass_from_def d a))" "some_from d (Some (fail_from_def d a))"
  "some_from d x \<Longrightarrow> some_from d y \<Longrightarrow> some_from d (if b then x else y)"
  "(\<And>v. some_from d (f v)) \<Longrightarrow> some_from d (Let w f)"
  by (simp_all add: some_from_def)

lemma some_from_eval:
  "some_from d (eval_l1_01 obs d)" "some_from d (eval_l1_02 env obs d)" "some_from d (eval_l1_03 env obs d)"
  "some_from d (eval_l1_04 obs d mode)" "some_from d (eval_l1_05 obs d mode)" "some_from d (eval_l1_06 obs d mode)"
  "some_from d (eval_l1_07 env obs d mode)" "some_from d (eval_l1_08 obs d mode)" "some_from d (eval_l1_09 obs d)"
  "some_from d (eval_l1_10 obs d)" "some_from d (eval_l1_11 obs d)" "some_from d (eval_l1_12 obs d)"
  "some_from d (eval_l1_13 env recv d profile)" "some_from d (eval_l1_14 obs d mode)" "some_from d (eval_l1_15 obs d mode)"
  "some_from d (eval_l1_16 obs d mode)" "some_from d (eval_l1_17 env obs d)" "some_from d (eval_l1_18 obs d)"
  "some_from d (eval_l1_19 obs d)" "some_from d (eval_l1_20 obs d)" "some_from d (eval_l1_21 env obs d)"
 
  unfolding eval_l1_01_def eval_l1_02_def eval_l1_03_def eval_l1_04_def eval_l1_05_def eval_l1_06_def
    eval_l1_07_def eval_l1_08_def eval_l1_09_def eval_l1_10_def eval_l1_11_def eval_l1_12_def eval_l1_13_def
    eval_l1_14_def eval_l1_15_def eval_l1_16_def eval_l1_17_def eval_l1_18_def eval_l1_19_def eval_l1_20_def
    eval_l1_21_def
  by (intro some_from_intros)+

lemma evaluate_def_from_def: "some_from d (evaluate_def env recv obs mode profile d)"
  unfolding evaluate_def_def Let_def by (intro some_from_intros some_from_eval)

definition ptt_only :: "string set" where
  "ptt_only = {''L1-04'', ''L1-05'', ''L1-06'', ''L1-07'', ''L1-08'', ''L1-14'', ''L1-15'', ''L1-16''}"

lemma evaluate_def_mode: "evaluate_def env recv obs mode profile d = Some r \<Longrightarrow> mode = ''ptt'' \<or> cd_id d \<notin> ptt_only"
  by (auto simp: evaluate_def_def ptt_only_def eval_l1_04_def eval_l1_05_def eval_l1_06_def eval_l1_07_def
    eval_l1_08_def eval_l1_14_def eval_l1_15_def eval_l1_16_def)

lemma evaluate_def_profile:
  "evaluate_def env recv obs mode profile d = Some r \<Longrightarrow> profile = ''pristine'' \<or> cd_id d \<noteq> ''L1-13''"
  by (auto simp: evaluate_def_def eval_l1_13_def)

lemma subseq_map_filter:
  assumes "\<And>d r. f d = Some r \<Longrightarrow> g r = h d"
  shows "subseq (map g (List.map_filter f xs)) (map h xs)"
proof (induction xs)
  case (Cons d ds)
  then show ?case using assms by (cases "f d") (auto simp: List.map_filter_simps)
qed (simp add: List.map_filter_simps)

text \<open>C6: The Layer 1 results are a selection of the registry in its order, so no checkpoint is
  reported twice; each carries the name and category of its registry entry, which is one of the
  requested categories; the PTT and floor checkpoints appear only in PTT mode, and the full relay
  check only under the pristine profile.\<close>

theorem evaluate_selects:
  fixes env recv obs cats mode profile
  defines "rs \<equiv> evaluate env recv obs cats mode profile"
  shows "subseq (map cr_id rs) all_ids \<and> distinct (map cr_id rs)
    \<and> (\<forall>r \<in> set rs. (cats = [] \<or> cr_category r \<in> set cats)
         \<and> (\<exists>d. find_by_id (cr_id r) = Some d \<and> cr_name r = cd_name d \<and> cr_category r = cd_category d)
         \<and> (mode = ''ptt'' \<or> cr_id r \<notin> ptt_only) \<and> (profile = ''pristine'' \<or> cr_id r \<noteq> ''L1-13''))"
proof -
  let ?ds = "if cats = [] then REGISTRY else find_by_categories cats"
  let ?f = "evaluate_def env recv obs mode profile"
  have rs: "rs = List.map_filter ?f ?ds" by (simp add: rs_def evaluate_def Let_def)
  have from_def: "from_def d r" if "?f d = Some r" for d r
    using evaluate_def_from_def that by (metis some_from_def)
  have "subseq (map cr_id rs) (map cd_id ?ds)"
    unfolding rs by (rule subseq_map_filter) (use from_def from_def_fields in blast)
  also have "subseq (map cd_id ?ds) all_ids"
    by (simp add: all_ids_def find_by_categories_def subseq_map)
  finally have sub: "subseq (map cr_id rs) all_ids" .
  moreover have "distinct (map cr_id rs)" using sub distinct_all_ids by (metis subseq_conv_nths distinct_nthsI)
  moreover have "(cats = [] \<or> cr_category r \<in> set cats)
         \<and> (\<exists>d. find_by_id (cr_id r) = Some d \<and> cr_name r = cd_name d \<and> cr_category r = cd_category d)
         \<and> (mode = ''ptt'' \<or> cr_id r \<notin> ptt_only) \<and> (profile = ''pristine'' \<or> cr_id r \<noteq> ''L1-13'')"
    if r: "r \<in> set rs" for r
  proof -
    obtain d where d: "d \<in> set ?ds" "?f d = Some r"
      using r unfolding rs by (auto simp: List.map_filter_def)
    then have "find_by_id (cd_id d) = Some d"
      using distinct_all_ids by (simp add: find_by_id_def find_distinct all_ids_def find_by_categories_def split: if_splits)
    moreover have "cats = [] \<or> cd_category d \<in> set cats"
      using d(1) by (auto simp: find_by_categories_def split: if_splits)
    ultimately show ?thesis
      using from_def_fields [OF from_def [OF d(2)]] evaluate_def_mode [OF d(2)] evaluate_def_profile [OF d(2)] by auto
  qed
  ultimately show ?thesis by blast
qed

theorem evaluate_selects_witness:
  "distinct (map cr_id (evaluate sample_env [] sample_obs [CoreRelay, PttRelay] ''conference'' ''office''))
    \<and> ''L1-04'' \<notin> cr_id ` set (evaluate sample_env [] sample_obs [CoreRelay, PttRelay] ''conference'' ''office'')"
  using evaluate_selects [of sample_env "[]" sample_obs "[CoreRelay, PttRelay]" "''conference''" "''office''"]
  by (auto simp: ptt_only_def)

end
