(* ===== verification/Signaling.thy ===== *)
theory Signaling
  imports Prelude
begin

text \<open>
  The WebSocket signaling client (\<open>common/src/signaling.rs\<close>, wire v3).  Parameters stand for
  the code outside the repository: \<open>json_ops\<close> for \<open>serde_json\<close> (the type \<open>'j\<close> is its
  \<open>Value\<close>), \<open>wire_env\<close> for the codec and the opcodes of \<open>oxsig\<close>.  The socket is the list of
  what its stream yields and the frames sent through its sink; when the pending timer of a
  \<open>tokio::time::timeout\<close> fires, relative to what arrives, is the item \<open>WsTimer\<close>.
\<close>

section \<open>Environment\<close>

record 'j json_ops =
  jo_index :: "'j \<Rightarrow> string \<Rightarrow> 'j"
  jo_get :: "'j \<Rightarrow> string \<Rightarrow> 'j option"
  jo_as_str :: "'j \<Rightarrow> string option"
  jo_as_u64 :: "'j \<Rightarrow> u64 option"
  jo_as_array :: "'j \<Rightarrow> 'j list option"
  jo_null :: 'j
  jo_str :: "string \<Rightarrow> 'j"
  jo_num :: "u32 \<Rightarrow> 'j"
  jo_bool :: "bool \<Rightarrow> 'j"
  jo_array :: "'j list \<Rightarrow> 'j"
  jo_object :: "(string \<times> 'j) list \<Rightarrow> 'j"
  jo_entry_or_insert :: "'j \<Rightarrow> string \<Rightarrow> 'j \<Rightarrow> 'j"
  jo_to_vec :: "'j \<Rightarrow> string + bytes"
  jo_from_slice :: "bytes \<Rightarrow> 'j option"
  jo_debug :: "'j \<Rightarrow> string"

text \<open>The acknowledgement states the code names; any other state of the header is \<open>AckOther\<close>.\<close>

datatype wire_ack_state = AckMsg | AckOk | AckFail | AckOther

record wire_header =
  wh_op :: u16
  wh_pid :: u32
  wh_ack :: "wire_ack_state option"

datatype opcode =
    OP_HELLO | OP_HEARTBEAT | OP_IDENTIFY | OP_IDENTIFY_RESULT | OP_ROOM_CREATE | OP_ROOM_JOIN
  | OP_ROOM_LEAVE | OP_ROOM_EVENT | OP_PUBLISH_TRACKS | OP_TRACKS_READY | OP_TRACKS_UPDATE
  | OP_SUBSCRIBE_LAYER | OP_FLOOR_MBCP

record wire_env =
  we_split_frame :: "bytes \<Rightarrow> string + (wire_header \<times> bytes)"
  we_frame :: "u16 \<Rightarrow> u32 \<Rightarrow> wire_ack_state \<Rightarrow> bytes \<Rightarrow> bytes"
  we_op :: "opcode \<Rightarrow> u16"
  we_is_event :: "u16 \<Rightarrow> bool"
  we_is_error :: "u16 \<Rightarrow> bool"
  we_is_ack :: "wire_ack_state \<Rightarrow> bool"

record 'j sig_env =
  js :: "'j json_ops"
  wire :: wire_env

section \<open>The socket\<close>

datatype ws_item = WsBinary bytes | WsClose | WsOther | WsErr string | WsTimer

record ws =
  ws_in :: "ws_item list"
  ws_out :: "bytes list"
  ws_tries :: nat
  ws_close_sent :: bool
  ws_send_error :: "nat \<Rightarrow> string option"

text \<open>\<open>ws.send(frame).await\<close>: the n-th attempt fails when \<open>ws_send_error\<close> says so.\<close>

definition ws_send :: "bytes \<Rightarrow> ws \<Rightarrow> (string + unit) \<times> ws" where
  "ws_send frame w = (case ws_send_error w (ws_tries w) of
       None \<Rightarrow> (Inr (), w\<lparr>ws_out := ws_out w @ [frame], ws_tries := ws_tries w + 1\<rparr>)
     | Some e \<Rightarrow> (Inl e, w\<lparr>ws_tries := ws_tries w + 1\<rparr>))"

section \<open>Data\<close>

record 'j packet =
  pk_op :: u16
  pk_pid :: u32
  pk_ok :: "bool option"
  pk_d :: 'j

definition packet_new :: "u16 \<Rightarrow> u32 \<Rightarrow> 'j \<Rightarrow> 'j packet" where
  "packet_new op pid d = \<lparr>pk_op = op, pk_pid = pid, pk_ok = None, pk_d = d\<rparr>"

record server_config =
  pub_ufrag :: string
  pub_pwd :: string
  sub_ufrag :: string
  sub_pwd :: string
  server_ip :: string
  server_port :: u16
  fingerprint :: string

definition str_or :: "string \<Rightarrow> string option \<Rightarrow> string" where
  "str_or dflt x = (case x of Some s \<Rightarrow> s | None \<Rightarrow> dflt)"

definition server_config_parse :: "'j json_ops \<Rightarrow> 'j \<Rightarrow> server_config" where
  "server_config_parse J d = (
     let sc = jo_index J d ''server_config'';
         ice = jo_index J sc ''ice'';
         dtls = jo_index J sc ''dtls''
     in \<lparr>pub_ufrag = str_or [] (jo_as_str J (jo_index J ice ''publish_ufrag'')),
         pub_pwd = str_or [] (jo_as_str J (jo_index J ice ''publish_pwd'')),
         sub_ufrag = str_or [] (jo_as_str J (jo_index J ice ''subscribe_ufrag'')),
         sub_pwd = str_or [] (jo_as_str J (jo_index J ice ''subscribe_pwd'')),
         server_ip = str_or ''127.0.0.1'' (jo_as_str J (jo_index J ice ''ip'')),
         server_port = (case jo_as_u64 J (jo_index J ice ''port'') of Some p \<Rightarrow> ucast p | None \<Rightarrow> 19740),
         fingerprint = str_or [] (jo_as_str J (jo_index J dtls ''fingerprint''))\<rparr>)"

type_synonym recv_frame = "wire_header \<times> bytes"

record 'j session =
  s_ws :: ws
  s_pid :: u32
  s_user_id :: string
  s_room_id :: string
  s_server_config :: "server_config option"
  s_event_buf :: "'j packet list"
  s_floor_mbcp_buf :: "bytes list"

definition frame_to_packet :: "'j json_ops \<Rightarrow> wire_header \<Rightarrow> bytes \<Rightarrow> 'j packet" where
  "frame_to_packet J header body = \<lparr>pk_op = wh_op header, pk_pid = wh_pid header,
     pk_ok = (case wh_ack header of Some AckOk \<Rightarrow> Some True | Some AckFail \<Rightarrow> Some False | _ \<Rightarrow> None),
     pk_d = (if body = [] then jo_null J
             else case jo_from_slice J body of Some d \<Rightarrow> d | None \<Rightarrow> jo_null J)\<rparr>"

section \<open>Sending and receiving\<close>

definition next_pid :: "'j session \<Rightarrow> u32 \<times> 'j session" where
  "next_pid s = (s_pid s, s\<lparr>s_pid := s_pid s + 1\<rparr>)"

definition buffer_frame :: "'j sig_env \<Rightarrow> recv_frame \<Rightarrow> 'j session \<Rightarrow> 'j session" where
  "buffer_frame E rf s = (case rf of (header, body) \<Rightarrow>
     if wh_op header = we_op (wire E) OP_FLOOR_MBCP
     then s\<lparr>s_floor_mbcp_buf := s_floor_mbcp_buf s @ [body]\<rparr>
     else s\<lparr>s_event_buf := s_event_buf s @ [frame_to_packet (js E) header body]\<rparr>)"

definition send_msg :: "'j sig_env \<Rightarrow> u16 \<Rightarrow> u32 \<Rightarrow> 'j \<Rightarrow> 'j session \<Rightarrow> (string + unit) \<times> 'j session" where
  "send_msg E op pid d s = (case jo_to_vec (js E) d of
       Inl e \<Rightarrow> (Inl e, s)
     | Inr body \<Rightarrow>
        let (r, w) = ws_send (we_frame (wire E) op pid AckMsg body) (s_ws s) in (r, s\<lparr>s_ws := w\<rparr>))"

definition needs_ack :: "wire_env \<Rightarrow> wire_header \<Rightarrow> bool" where
  "needs_ack W header \<longleftrightarrow> (case wh_ack header of Some a \<Rightarrow> a | None \<Rightarrow> AckMsg) = AckMsg
     \<and> we_is_event W (wh_op header) \<and> wh_op header \<noteq> we_op W OP_FLOOR_MBCP"

definition ack_frame :: "wire_env \<Rightarrow> wire_header \<Rightarrow> bytes" where
  "ack_frame W header = we_frame W (wh_op header) (wh_pid header) AckOk []"

definition auto_ack :: "wire_env \<Rightarrow> wire_header \<Rightarrow> ws \<Rightarrow> ws" where
  "auto_ack W header w = (if needs_ack W header then snd (ws_send (ack_frame W header) w) else w)"

text \<open>\<open>recv_frame\<close>, possibly under a \<open>timeout\<close>: the loop over the stream's items.  Without a
  timeout no timer is pending and \<open>WsTimer\<close> has no meaning.\<close>

datatype 'a timed = Elapsed | Ready 'a

fun recv_loop :: "wire_env \<Rightarrow> bool \<Rightarrow> ws_item list \<Rightarrow> ws \<Rightarrow> (string + recv_frame) timed \<times> ws" where
  "recv_loop W under_timeout [] w = (Ready (Inl ''ws closed''), w\<lparr>ws_in := []\<rparr>)"
| "recv_loop W under_timeout (WsBinary data # rest) w = (case we_split_frame W data of
       Inl e \<Rightarrow> (Ready (Inl e), w\<lparr>ws_in := rest\<rparr>)
     | Inr (header, body) \<Rightarrow> (Ready (Inr (header, body)), auto_ack W header (w\<lparr>ws_in := rest\<rparr>)))"
| "recv_loop W under_timeout (WsClose # rest) w = (Ready (Inl ''ws closed''), w\<lparr>ws_in := rest\<rparr>)"
| "recv_loop W under_timeout (WsOther # rest) w = recv_loop W under_timeout rest w"
| "recv_loop W under_timeout (WsErr e # rest) w = (Ready (Inl (''ws error: '' @ e)), w\<lparr>ws_in := rest\<rparr>)"
| "recv_loop W under_timeout (WsTimer # rest) w =
     (if under_timeout then (Elapsed, w\<lparr>ws_in := rest\<rparr>) else recv_loop W under_timeout rest w)"

definition recv_frame :: "'j sig_env \<Rightarrow> 'j session \<Rightarrow> (string + recv_frame) \<times> 'j session" where
  "recv_frame E s = (case recv_loop (wire E) False (ws_in (s_ws s)) (s_ws s) of
       (Ready r, w) \<Rightarrow> (r, s\<lparr>s_ws := w\<rparr>)
     | (Elapsed, w) \<Rightarrow> (Inl [], s\<lparr>s_ws := w\<rparr>))"

definition recv_frame_timeout ::
    "'j sig_env \<Rightarrow> 'j session \<Rightarrow> (string + recv_frame) timed \<times> 'j session" where
  "recv_frame_timeout E s = (let (r, w) = recv_loop (wire E) True (ws_in (s_ws s)) (s_ws s)
     in (r, s\<lparr>s_ws := w\<rparr>))"

abbreviation pending :: "'j session \<Rightarrow> nat" where
  "pending s \<equiv> length (ws_in (s_ws s))"

lemma ws_in_ws_send [simp]: "ws_in (snd (ws_send f w)) = ws_in w"
  by (simp add: ws_send_def split: option.splits)

lemma ws_in_auto_ack [simp]: "ws_in (auto_ack W h w) = ws_in w"
  by (simp add: auto_ack_def)

lemma ws_in_buffer_frame [simp]: "s_ws (buffer_frame E rf s) = s_ws s"
  by (simp add: buffer_frame_def split: prod.splits)

lemma recv_loop_consumes: "recv_loop W t is w = (Ready (Inr f), w') \<Longrightarrow> length (ws_in w') < length is"
  by (induction W t "is" w rule: recv_loop.induct) (auto split: sum.splits prod.splits if_splits)

lemma recv_frame_consumes: "recv_frame E s = (Inr f, s') \<Longrightarrow> pending s' < pending s"
  by (auto simp: recv_frame_def dest: recv_loop_consumes split: prod.splits timed.splits)

lemma recv_frame_timeout_consumes: "recv_frame_timeout E s = (Ready (Inr f), s') \<Longrightarrow> pending s' < pending s"
  by (auto simp: recv_frame_timeout_def dest: recv_loop_consumes split: prod.splits)

section \<open>Requests\<close>

definition is_reply :: "wire_env \<Rightarrow> u16 \<Rightarrow> recv_frame \<Rightarrow> bool" where
  "is_reply W op rf \<longleftrightarrow>
     wh_op (fst rf) = op \<and> (case wh_ack (fst rf) of Some st \<Rightarrow> we_is_ack W st | None \<Rightarrow> False)
     \<or> we_is_error W (wh_op (fst rf))"

function request_loop :: "'j sig_env \<Rightarrow> u16 \<Rightarrow> 'j session \<Rightarrow> (string + 'j packet) \<times> 'j session" where
  "request_loop E op s = (case recv_frame E s of
       (Inl e, s') \<Rightarrow> (Inl e, s')
     | (Inr rf, s') \<Rightarrow>
        if is_reply (wire E) op rf then (Inr (frame_to_packet (js E) (fst rf) (snd rf)), s')
        else request_loop E op (buffer_frame E rf s'))"
  by pat_completeness auto
termination
  by (relation "measure (\<lambda>(E, op, s). pending s)") (auto dest: recv_frame_consumes[OF sym])

declare request_loop.simps [simp del]

definition request :: "'j sig_env \<Rightarrow> u16 \<Rightarrow> 'j \<Rightarrow> 'j session \<Rightarrow> (string + 'j packet) \<times> 'j session" where
  "request E op d s = (let (pid, s) = next_pid s in
     case send_msg E op pid d s of
       (Inl e, s) \<Rightarrow> (Inl e, s)
     | (Inr u, s) \<Rightarrow> request_loop E op s)"

text \<open>\<open>request_routed\<close>: a body that is an object gets the session's room id unless it has one.\<close>

definition request_routed :: "'j sig_env \<Rightarrow> u16 \<Rightarrow> 'j \<Rightarrow> 'j session \<Rightarrow> (string + 'j packet) \<times> 'j session" where
  "request_routed E op d s =
     request E op (jo_entry_or_insert (js E) d ''room_id'' (jo_str (js E) (s_room_id s))) s"

definition publish_tracks :: "'j sig_env \<Rightarrow> (string \<times> u32) list \<Rightarrow> 'j session \<Rightarrow> (string + unit) \<times> 'j session" where
  "publish_tracks E tracks s = (let J = js E;
       items = map (\<lambda>(kind, ssrc). jo_object J [(''kind'', jo_str J kind), (''ssrc'', jo_num J ssrc)]) tracks
     in case request_routed E (we_op (wire E) OP_PUBLISH_TRACKS) (jo_object J [(''tracks'', jo_array J items)]) s of
       (Inl e, s) \<Rightarrow> (Inl e, s)
     | (Inr resp, s) \<Rightarrow> if pk_ok resp \<noteq> Some True then (Inl (''PUBLISH_TRACKS failed: '' @ jo_debug J (pk_d resp)), s)
        else (Inr (), s))"

definition tracks_ready :: "'j sig_env \<Rightarrow> 'j session \<Rightarrow> (string + 'j packet) \<times> 'j session" where
  "tracks_ready E s = request_routed E (we_op (wire E) OP_TRACKS_READY)
     (jo_object (js E) [(''ssrcs'', jo_array (js E) [])]) s"

definition subscribe_layer :: "'j sig_env \<Rightarrow> 'j list \<Rightarrow> 'j session \<Rightarrow> (string + 'j packet) \<times> 'j session" where
  "subscribe_layer E targets s = request_routed E (we_op (wire E) OP_SUBSCRIBE_LAYER)
     (jo_object (js E) [(''targets'', jo_array (js E) targets)]) s"

definition heartbeat :: "'j sig_env \<Rightarrow> 'j session \<Rightarrow> (string + unit) \<times> 'j session" where
  "heartbeat E s = (case request E (we_op (wire E) OP_HEARTBEAT) (jo_object (js E) []) s of
       (Inl e, s) \<Rightarrow> (Inl e, s) | (Inr resp, s) \<Rightarrow> (Inr (), s))"

definition send_floor_mbcp :: "'j sig_env \<Rightarrow> bytes \<Rightarrow> 'j session \<Rightarrow> (string + unit) \<times> 'j session" where
  "send_floor_mbcp E mbcp s = (let (pid, s) = next_pid s;
       (r, w) = ws_send (we_frame (wire E) (we_op (wire E) OP_FLOOR_MBCP) pid AckMsg mbcp) (s_ws s)
     in (r, s\<lparr>s_ws := w\<rparr>))"

definition close :: "'j session \<Rightarrow> 'j session" where
  "close s = s\<lparr>s_ws := (s_ws s)\<lparr>ws_close_sent := True\<rparr>\<rparr>"

section \<open>Event buffers\<close>

definition drain_floor_mbcp :: "'j session \<Rightarrow> bytes list \<times> 'j session" where
  "drain_floor_mbcp s = (s_floor_mbcp_buf s, s\<lparr>s_floor_mbcp_buf := []\<rparr>)"

definition drain_event :: "u16 \<Rightarrow> 'j session \<Rightarrow> 'j packet option \<times> 'j session" where
  "drain_event op s = (case List.extract (\<lambda>p. pk_op p = op) (s_event_buf s) of
       None \<Rightarrow> (None, s)
     | Some (before, p, after) \<Rightarrow> (Some p, s\<lparr>s_event_buf := before @ after\<rparr>))"

definition drain_all_events :: "u16 \<Rightarrow> 'j session \<Rightarrow> 'j packet list \<times> 'j session" where
  "drain_all_events op s = (filter (\<lambda>p. pk_op p = op) (s_event_buf s),
     s\<lparr>s_event_buf := filter (\<lambda>p. pk_op p \<noteq> op) (s_event_buf s)\<rparr>)"

function poll_events :: "'j sig_env \<Rightarrow> 'j session \<Rightarrow> 'j session" where
  "poll_events E s = (case recv_frame_timeout E s of
       (Ready (Inr rf), s') \<Rightarrow> poll_events E (buffer_frame E rf s')
     | (r, s') \<Rightarrow> s')"
  by pat_completeness auto
termination
  by (relation "measure (\<lambda>(E, s). pending s)") (auto dest: recv_frame_timeout_consumes[OF sym])

declare poll_events.simps [simp del]

function wait_loop :: "'j sig_env \<Rightarrow> u16 \<Rightarrow> 'j session \<Rightarrow> 'j packet option \<times> 'j session" where
  "wait_loop E op s = (case recv_frame_timeout E s of
       (Ready (Inr rf), s') \<Rightarrow>
         if wh_op (fst rf) = op then (Some (frame_to_packet (js E) (fst rf) (snd rf)), s')
         else wait_loop E op (buffer_frame E rf s')
     | (r, s') \<Rightarrow> (None, s'))"
  by pat_completeness auto
termination
  by (relation "measure (\<lambda>(E, op, s). pending s)") (auto dest: recv_frame_timeout_consumes[OF sym])

declare wait_loop.simps [simp del]

definition wait_event :: "'j sig_env \<Rightarrow> u16 \<Rightarrow> 'j session \<Rightarrow> 'j packet option \<times> 'j session" where
  "wait_event E op s = (case drain_event op s of
       (Some pkt, s') \<Rightarrow> (Some pkt, s')
     | (None, s') \<Rightarrow> wait_loop E op s')"

section \<open>Connecting\<close>

definition hex04 :: "u16 \<Rightarrow> string" where
  "hex04 w = drop 4 (hex08 (ucast w))"

text \<open>The loop of \<open>open\<close> up to its \<open>break\<close>: the body of the \<open>IDENTIFY_RESULT\<close> frame.\<close>

function identify_loop :: "'j sig_env \<Rightarrow> 'j session \<Rightarrow> (string + bytes) \<times> 'j session" where
  "identify_loop E s = (case recv_frame E s of
       (Inl e, s') \<Rightarrow> (Inl e, s')
     | (Inr rf, s') \<Rightarrow>
        if wh_op (fst rf) = we_op (wire E) OP_IDENTIFY_RESULT then (Inr (snd rf), s')
        else identify_loop E (buffer_frame E rf s'))"
  by pat_completeness auto
termination
  by (relation "measure (\<lambda>(E, s). pending s)") (auto dest: recv_frame_consumes[OF sym])

declare identify_loop.simps [simp del]

definition assigned_user :: "'j json_ops \<Rightarrow> string \<Rightarrow> bytes \<Rightarrow> string" where
  "assigned_user J user_id body =
     (let d = (case jo_from_slice J body of Some d \<Rightarrow> d | None \<Rightarrow> jo_null J)
      in str_or user_id (jo_as_str J (jo_index J d ''user_id'')))"

definition ws_url :: "string \<Rightarrow> u16 \<Rightarrow> string" where
  "ws_url server ws_port = ''ws://'' @ server @ '':'' @ show_word ws_port @ ''/media/ws''"

text \<open>A failing constructor drops the session, so its result is the error alone.  \<open>connect_async\<close>
  gives an error or an open socket for each URL.\<close>

definition open_session ::
    "'j sig_env \<Rightarrow> (string \<Rightarrow> string + ws) \<Rightarrow> string \<Rightarrow> u16 \<Rightarrow> string \<Rightarrow> string + 'j session" where
  "open_session E connect_async server ws_port user_id =
     (case connect_async (ws_url server ws_port) of
       Inl e \<Rightarrow> Inl e
     | Inr w \<Rightarrow>
        let s = \<lparr>s_ws = w, s_pid = 1, s_user_id = user_id, s_room_id = [], s_server_config = None,
                 s_event_buf = [], s_floor_mbcp_buf = []\<rparr>
        in case recv_frame E s of
             (Inl e, s) \<Rightarrow> Inl e
           | (Inr hello, s) \<Rightarrow>
              if wh_op (fst hello) \<noteq> we_op (wire E) OP_HELLO
              then Inl (''expected HELLO, got op=0x'' @ hex04 (wh_op (fst hello)))
              else
              let body = jo_object (js E) [(''token'', jo_str (js E) ''oxlab''), (''user_id'', jo_str (js E) user_id)]
              in case send_msg E (we_op (wire E) OP_IDENTIFY) 0 body s of
                   (Inl e, s) \<Rightarrow> Inl e
                 | (Inr u, s) \<Rightarrow>
                    (case identify_loop E s of
                       (Inl e, s) \<Rightarrow> Inl e
                     | (Inr body, s) \<Rightarrow> Inr (s\<lparr>s_user_id := assigned_user (js E) user_id body\<rparr>)))"

definition do_join :: "'j sig_env \<Rightarrow> string \<Rightarrow> 'j session \<Rightarrow> string + 'j session" where
  "do_join E room_id s = (let J = js E in
     case request E (we_op (wire E) OP_ROOM_JOIN) (jo_object J [(''room_id'', jo_str J room_id)]) s of
       (Inl e, s) \<Rightarrow> Inl e
     | (Inr resp, s) \<Rightarrow>
        if pk_ok resp \<noteq> Some True then Inl (''ROOM_JOIN failed: '' @ jo_debug J (pk_d resp))
        else Inr (s\<lparr>s_room_id := room_id, s_server_config := Some (server_config_parse J (pk_d resp))\<rparr>))"

definition connect ::
    "'j sig_env \<Rightarrow> (string \<Rightarrow> string + ws) \<Rightarrow> string \<Rightarrow> u16 \<Rightarrow> string \<Rightarrow> string \<Rightarrow> string \<Rightarrow> string + 'j session" where
  "connect E connect_async server ws_port user_id room_name mode = (let J = js E in
     case open_session E connect_async server ws_port user_id of
       Inl e \<Rightarrow> Inl e
     | Inr s \<Rightarrow>
        case request E (we_op (wire E) OP_ROOM_CREATE) (jo_object J [(''name'', jo_str J room_name)]) s of
          (Inl e, s) \<Rightarrow> Inl e
        | (Inr create, s) \<Rightarrow>
           if pk_ok create \<noteq> Some True then Inl (''ROOM_CREATE failed: '' @ jo_debug J (pk_d create))
           else case jo_as_str J (jo_index J (pk_d create) ''room_id'') of
                  None \<Rightarrow> Inl ''ROOM_CREATE response missing room_id''
                | Some room_id \<Rightarrow> do_join E room_id s)"

definition connect_with_room_id ::
    "'j sig_env \<Rightarrow> (string \<Rightarrow> string + ws) \<Rightarrow> string \<Rightarrow> u16 \<Rightarrow> string \<Rightarrow> string \<Rightarrow> string + 'j session" where
  "connect_with_room_id E connect_async server ws_port user_id room_id = (let J = js E in
     case open_session E connect_async server ws_port user_id of
       Inl e \<Rightarrow> Inl e
     | Inr s \<Rightarrow>
        case request E (we_op (wire E) OP_ROOM_CREATE)
               (jo_object J [(''room_id'', jo_str J room_id), (''name'', jo_str J room_id)]) s of
          (Inl e, s) \<Rightarrow> Inl e
        | (Inr create, s) \<Rightarrow>
           if pk_ok create \<noteq> Some True then Inl (''ROOM_CREATE(ensure) failed: '' @ jo_debug J (pk_d create))
           else do_join E room_id s)"

definition connect_to_room ::
    "'j sig_env \<Rightarrow> (string \<Rightarrow> string + ws) \<Rightarrow> string \<Rightarrow> u16 \<Rightarrow> string \<Rightarrow> string \<Rightarrow> string + 'j session" where
  "connect_to_room E connect_async server ws_port user_id room_id =
     (case open_session E connect_async server ws_port user_id of
       Inl e \<Rightarrow> Inl e
     | Inr s \<Rightarrow> do_join E room_id s)"

section \<open>What a loop over the socket does\<close>

text \<open>The frames the stream delivers before it ends, fails, or the timer fires, and how it stops.\<close>

fun frames :: "wire_env \<Rightarrow> bool \<Rightarrow> ws_item list \<Rightarrow> recv_frame list" where
  "frames W t [] = []"
| "frames W t (WsBinary data # rest) =
     (case we_split_frame W data of Inl e \<Rightarrow> [] | Inr f \<Rightarrow> f # frames W t rest)"
| "frames W t (WsClose # rest) = []"
| "frames W t (WsOther # rest) = frames W t rest"
| "frames W t (WsErr e # rest) = []"
| "frames W t (WsTimer # rest) = (if t then [] else frames W t rest)"

definition all_sent :: "ws \<Rightarrow> bool" where
  "all_sent w \<longleftrightarrow> ws_send_error w = (\<lambda>n. None)"

lemma ws_send_all_sent [simp]:
  "all_sent w \<Longrightarrow> ws_send f w = (Inr (), w\<lparr>ws_out := ws_out w @ [f], ws_tries := ws_tries w + 1\<rparr>)"
  by (simp add: ws_send_def all_sent_def)

lemma all_sent_updates [simp]:
  "all_sent (w\<lparr>ws_in := i\<rparr>) = all_sent w" "all_sent (w\<lparr>ws_out := out\<rparr>) = all_sent w"
  "all_sent (w\<lparr>ws_tries := n\<rparr>) = all_sent w"
  by (simp_all add: all_sent_def)

lemma auto_ack_effect:
  "all_sent w \<Longrightarrow> all_sent (auto_ack W h w)
     \<and> ws_out (auto_ack W h w) = ws_out w @ (if needs_ack W h then [ack_frame W h] else [])"
  by (simp add: auto_ack_def)

definition receive :: "'j sig_env \<Rightarrow> bool \<Rightarrow> 'j session \<Rightarrow> (string + recv_frame) timed \<times> 'j session" where
  "receive E t s = (let (r, w) = recv_loop (wire E) t (ws_in (s_ws s)) (s_ws s) in (r, s\<lparr>s_ws := w\<rparr>))"

lemma recv_loop_frame:
  "recv_loop W t is w = (Ready (Inr f), w') \<Longrightarrow>
     frames W t is = f # frames W t (ws_in w') \<and> w' = auto_ack W (fst f) (w\<lparr>ws_in := ws_in w'\<rparr>)"
  by (induction W t "is" w rule: recv_loop.induct) (auto split: sum.splits prod.splits if_splits)

lemma recv_loop_stop:
  "recv_loop W t is w = (r, w') \<Longrightarrow> (\<And>f. r \<noteq> Ready (Inr f)) \<Longrightarrow>
     frames W t is = [] \<and> w' = w\<lparr>ws_in := ws_in w'\<rparr>"
  by (induction W t "is" w rule: recv_loop.induct) (auto split: sum.splits prod.splits if_splits)

lemma recv_loop_no_timer: "recv_loop W t is w = (Elapsed, w') \<Longrightarrow> t"
  by (induction W t "is" w rule: recv_loop.induct) (auto split: sum.splits prod.splits if_splits)

definition acks :: "wire_env \<Rightarrow> recv_frame list \<Rightarrow> bytes list" where
  "acks W fs = map (ack_frame W) (filter (needs_ack W) (map fst fs))"

lemma receive_frame:
  assumes "receive E t s = (Ready (Inr f), s')"
  shows "frames (wire E) t (ws_in (s_ws s)) = f # frames (wire E) t (ws_in (s_ws s'))"
    and "\<exists>w. s' = s\<lparr>s_ws := w\<rparr>"
    and "pending s' < pending s"
    and "all_sent (s_ws s) \<Longrightarrow> all_sent (s_ws s') \<and> ws_out (s_ws s') = ws_out (s_ws s) @ acks (wire E) [f]"
proof -
  obtain w where w: "recv_loop (wire E) t (ws_in (s_ws s)) (s_ws s) = (Ready (Inr f), w)" "s' = s\<lparr>s_ws := w\<rparr>"
    using assms by (auto simp: receive_def split: prod.splits)
  note l = recv_loop_frame [OF w(1)]
  show "frames (wire E) t (ws_in (s_ws s)) = f # frames (wire E) t (ws_in (s_ws s'))" using l w(2) by simp
  show "\<exists>w. s' = s\<lparr>s_ws := w\<rparr>" using w(2) by blast
  show "pending s' < pending s" using recv_loop_consumes [OF w(1)] w(2) by simp
  show "all_sent (s_ws s) \<Longrightarrow> all_sent (s_ws s') \<and> ws_out (s_ws s') = ws_out (s_ws s) @ acks (wire E) [f]"
    using auto_ack_effect [of "(s_ws s)\<lparr>ws_in := ws_in w\<rparr>" "wire E" "fst f"] l w(2) by (simp add: acks_def)
qed

lemma receive_stop:
  assumes "receive E t s = (r, s')" "\<forall>f. r \<noteq> Ready (Inr f)"
  shows "frames (wire E) t (ws_in (s_ws s)) = []"
    and "\<exists>w. s' = s\<lparr>s_ws := w\<rparr>"
    and "all_sent (s_ws s) \<Longrightarrow> all_sent (s_ws s') \<and> ws_out (s_ws s') = ws_out (s_ws s)"
proof -
  obtain w where w: "recv_loop (wire E) t (ws_in (s_ws s)) (s_ws s) = (r, w)" "s' = s\<lparr>s_ws := w\<rparr>"
    using assms(1) by (auto simp: receive_def split: prod.splits)
  have l: "frames (wire E) t (ws_in (s_ws s)) = []" "w = (s_ws s)\<lparr>ws_in := ws_in w\<rparr>"
    using recv_loop_stop [OF w(1)] assms(2) by blast+
  show "frames (wire E) t (ws_in (s_ws s)) = []" by (rule l)
  show "\<exists>w. s' = s\<lparr>s_ws := w\<rparr>" using w(2) by blast
  show "all_sent (s_ws s) \<Longrightarrow> all_sent (s_ws s') \<and> ws_out (s_ws s') = ws_out (s_ws s)"
    by (simp add: w(2)) (subst (1 2) l(2), simp)
qed

lemma recv_frame_receive:
  "recv_frame E s = (case receive E False s of (Ready r, s') \<Rightarrow> (r, s') | (Elapsed, s') \<Rightarrow> (Inl [], s'))"
  "recv_frame_timeout E s = receive E True s"
  by (auto simp: recv_frame_def recv_frame_timeout_def receive_def split: prod.splits timed.splits)

definition is_floor :: "wire_env \<Rightarrow> recv_frame \<Rightarrow> bool" where
  "is_floor W f \<longleftrightarrow> wh_op (fst f) = we_op W OP_FLOOR_MBCP"

definition packet_of :: "'j sig_env \<Rightarrow> recv_frame \<Rightarrow> 'j packet" where
  "packet_of E f = frame_to_packet (js E) (fst f) (snd f)"

definition same_identity :: "'j session \<Rightarrow> 'j session \<Rightarrow> bool" where
  "same_identity s s' \<longleftrightarrow> s_pid s' = s_pid s \<and> s_user_id s' = s_user_id s
     \<and> s_room_id s' = s_room_id s \<and> s_server_config s' = s_server_config s"

text \<open>The effect on the two buffers of frames that were read and put aside, in order.\<close>

definition buffered :: "'j sig_env \<Rightarrow> recv_frame list \<Rightarrow> 'j session \<Rightarrow> 'j session \<Rightarrow> bool" where
  "buffered E fs s s' \<longleftrightarrow> same_identity s s'
     \<and> s_event_buf s' = s_event_buf s @ map (packet_of E) (filter (\<lambda>f. \<not> is_floor (wire E) f) fs)
     \<and> s_floor_mbcp_buf s' = s_floor_mbcp_buf s @ map snd (filter (is_floor (wire E)) fs)"

lemma buffered_step: "buffered E fs (buffer_frame E f (s\<lparr>s_ws := w\<rparr>)) s' \<Longrightarrow> buffered E (f # fs) s s'"
  by (auto simp: buffered_def buffer_frame_def same_identity_def is_floor_def packet_of_def
    split: prod.splits if_splits)

lemma buffered_Nil: "buffered E [] s (s\<lparr>s_ws := w\<rparr>)"
  by (simp add: buffered_def same_identity_def)

text \<open>A loop that reads frames, puts the ones it does not want into the buffers and returns at
  the first one it wants.\<close>

locale frame_reader =
  fixes E :: "'j sig_env" and t :: bool and loop :: "'j session \<Rightarrow> 'r \<times> 'j session"
    and stop :: "recv_frame \<Rightarrow> bool" and found :: "recv_frame \<Rightarrow> 'r" and failed :: "'r \<Rightarrow> bool"
  assumes loop_found: "receive E t s = (Ready (Inr f), s') \<Longrightarrow> stop f \<Longrightarrow> loop s = (found f, s')"
    and loop_next: "receive E t s = (Ready (Inr f), s') \<Longrightarrow> \<not> stop f \<Longrightarrow> loop s = loop (buffer_frame E f s')"
    and loop_end: "receive E t s = (r, s') \<Longrightarrow> \<forall>f. r \<noteq> Ready (Inr f) \<Longrightarrow> \<exists>r'. loop s = (r', s') \<and> failed r'"
begin

abbreviation incoming :: "'j session \<Rightarrow> recv_frame list" where
  "incoming s \<equiv> frames (wire E) t (ws_in (s_ws s))"

abbreviation skipped :: "'j session \<Rightarrow> recv_frame list" where
  "skipped s \<equiv> takeWhile (\<lambda>f. \<not> stop f) (incoming s)"

lemma reading_cases:
  obtains f s' where "receive E t s = (Ready (Inr f), s')" "stop f" "loop s = (found f, s')"
  | f s' where "receive E t s = (Ready (Inr f), s')" "\<not> stop f" "loop s = loop (buffer_frame E f s')"
  | r s' r' where "receive E t s = (r, s')" "\<forall>f. r \<noteq> Ready (Inr f)" "loop s = (r', s')" "failed r'"
  using loop_found [of s] loop_next [of s] loop_end [of s] by (metis surj_pair)

lemma loop_result:
  "(case find stop (incoming s) of Some f \<Rightarrow> fst (loop s) = found f | None \<Rightarrow> failed (fst (loop s)))
   \<and> buffered E (skipped s) s (snd (loop s))
   \<and> (find stop (incoming s) \<noteq> None \<longrightarrow>
        incoming (snd (loop s)) = tl (dropWhile (\<lambda>f. \<not> stop f) (incoming s)))"
proof (induction "pending s" arbitrary: s rule: less_induct)
  case less
  show ?case
  proof (cases s rule: reading_cases)
    case (1 f s')
    obtain w where "s' = s\<lparr>s_ws := w\<rparr>" using receive_frame(2) [OF 1(1)] by blast
    then show ?thesis using receive_frame(1) [OF 1(1)] 1(2,3) by (simp add: buffered_Nil)
  next
    case (2 f s')
    have "pending (buffer_frame E f s') < pending s" using receive_frame(3) [OF 2(1)] by simp
    note IH = less(1) [OF this]
    obtain w where w: "s' = s\<lparr>s_ws := w\<rparr>" using receive_frame(2) [OF 2(1)] by blast
    have "buffered E (skipped (buffer_frame E f s')) (buffer_frame E f s') (snd (loop (buffer_frame E f s')))"
      using IH by blast
    then have "buffered E (f # skipped (buffer_frame E f s')) s (snd (loop s))"
      unfolding w 2(3) by (rule buffered_step)
    then show ?thesis unfolding 2(3) using IH receive_frame(1) [OF 2(1)] 2(2) by (simp split: option.split)
  next
    case (3 r s' r')
    obtain w where "s' = s\<lparr>s_ws := w\<rparr>" using receive_stop(2) [OF 3(1,2)] by blast
    then show ?thesis using receive_stop(1) [OF 3(1,2)] 3(3,4) by (simp add: buffered_Nil)
  qed
qed

lemma loop_acks:
  assumes "all_sent (s_ws s)"
  shows "all_sent (s_ws (snd (loop s))) \<and> ws_out (s_ws (snd (loop s))) =
    ws_out (s_ws s) @ acks (wire E) (take (length (skipped s) + 1) (incoming s))"
  using assms
proof (induction "pending s" arbitrary: s rule: less_induct)
  case less
  show ?case
  proof (cases s rule: reading_cases)
    case (1 f s')
    then show ?thesis using receive_frame(1,4) [OF 1(1)] less(2) by simp
  next
    case (2 f s')
    have "pending (buffer_frame E f s') < pending s" using receive_frame(3) [OF 2(1)] by simp
    from less(1) [OF this] show ?thesis
      using receive_frame(1,4) [OF 2(1)] less(2) 2(2,3) by (simp add: acks_def)
  next
    case (3 r s' r')
    then show ?thesis using receive_stop(1,3) [OF 3(1,2)] less(2) by (simp add: acks_def)
  qed
qed

lemma loop_at:
  assumes "incoming s = pre @ f # rest" "\<forall>g \<in> set pre. \<not> stop g" "stop f" "all_sent (s_ws s)"
  shows "\<exists>s'. loop s = (found f, s') \<and> buffered E pre s s' \<and> incoming s' = rest \<and> all_sent (s_ws s')
    \<and> ws_out (s_ws s') = ws_out (s_ws s) @ acks (wire E) (pre @ [f])"
proof -
  have *: "find stop (incoming s) = Some f" "skipped s = pre" "dropWhile (\<lambda>f. \<not> stop f) (incoming s) = f # rest"
    using assms(2,3) unfolding assms(1) by (simp_all add: find_at takeWhile_append2 dropWhile_append2)
  note r = loop_result [of s, unfolded *] and a = loop_acks [OF assms(4), unfolded *]
  have "take (length pre + 1) (incoming s) = pre @ [f]" by (simp add: assms(1))
  with r a show ?thesis by (cases "loop s") simp
qed

end

interpretation request_reader: frame_reader E False "request_loop E op" "is_reply (wire E) op"
  "\<lambda>f. Inr (packet_of E f)" isl for E :: "'j sig_env" and op
proof unfold_locales
  show "receive E False s = (Ready (Inr f), s') \<Longrightarrow> is_reply (wire E) op f \<Longrightarrow>
      request_loop E op s = (Inr (packet_of E f), s')" for s f s'
    by (subst request_loop.simps) (simp add: recv_frame_receive packet_of_def)
  show "receive E False s = (Ready (Inr f), s') \<Longrightarrow> \<not> is_reply (wire E) op f \<Longrightarrow>
      request_loop E op s = request_loop E op (buffer_frame E f s')" for s f s'
    by (subst request_loop.simps) (simp add: recv_frame_receive)
  show "receive E False s = (r, s') \<Longrightarrow> \<forall>f. r \<noteq> Ready (Inr f) \<Longrightarrow>
      \<exists>r'. request_loop E op s = (r', s') \<and> isl r'" for s r s'
    by (subst request_loop.simps) (auto simp: recv_frame_receive split: timed.splits sum.splits)
qed

interpretation identify_reader: frame_reader E False "identify_loop E"
  "\<lambda>f. wh_op (fst f) = we_op (wire E) OP_IDENTIFY_RESULT" "\<lambda>f. Inr (snd f)" isl for E :: "'j sig_env"
proof unfold_locales
  show "receive E False s = (Ready (Inr f), s') \<Longrightarrow> wh_op (fst f) = we_op (wire E) OP_IDENTIFY_RESULT \<Longrightarrow>
      identify_loop E s = (Inr (snd f), s')" for s f s'
    by (subst identify_loop.simps) (simp add: recv_frame_receive)
  show "receive E False s = (Ready (Inr f), s') \<Longrightarrow> wh_op (fst f) \<noteq> we_op (wire E) OP_IDENTIFY_RESULT \<Longrightarrow>
      identify_loop E s = identify_loop E (buffer_frame E f s')" for s f s'
    by (subst identify_loop.simps) (simp add: recv_frame_receive)
  show "receive E False s = (r, s') \<Longrightarrow> \<forall>f. r \<noteq> Ready (Inr f) \<Longrightarrow>
      \<exists>r'. identify_loop E s = (r', s') \<and> isl r'" for s r s'
    by (subst identify_loop.simps) (auto simp: recv_frame_receive split: timed.splits sum.splits)
qed

interpretation wait_reader: frame_reader E True "wait_loop E op" "\<lambda>f. wh_op (fst f) = op"
  "\<lambda>f. Some (packet_of E f)" "\<lambda>r. r = None" for E :: "'j sig_env" and op
proof unfold_locales
  show "receive E True s = (Ready (Inr f), s') \<Longrightarrow> wh_op (fst f) = op \<Longrightarrow>
      wait_loop E op s = (Some (packet_of E f), s')" for s f s'
    by (subst wait_loop.simps) (simp add: recv_frame_receive packet_of_def)
  show "receive E True s = (Ready (Inr f), s') \<Longrightarrow> wh_op (fst f) \<noteq> op \<Longrightarrow>
      wait_loop E op s = wait_loop E op (buffer_frame E f s')" for s f s'
    by (subst wait_loop.simps) (simp add: recv_frame_receive)
  show "receive E True s = (r, s') \<Longrightarrow> \<forall>f. r \<noteq> Ready (Inr f) \<Longrightarrow>
      \<exists>r'. wait_loop E op s = (r', s') \<and> r' = None" for s r s'
    by (subst wait_loop.simps) (auto simp: recv_frame_receive split: timed.splits sum.splits)
qed

interpretation poll_reader: frame_reader E True "\<lambda>s. ((), poll_events E s)" "\<lambda>f. False" "\<lambda>f. ()" "\<lambda>r. True"
  for E :: "'j sig_env"
proof unfold_locales
  show "receive E True s = (Ready (Inr f), s') \<Longrightarrow> \<not> False \<Longrightarrow>
      ((), poll_events E s) = ((), poll_events E (buffer_frame E f s'))" for s f s'
    by (subst poll_events.simps) (simp add: recv_frame_receive)
  show "receive E True s = (r, s') \<Longrightarrow> \<forall>f. r \<noteq> Ready (Inr f) \<Longrightarrow>
      \<exists>r'. ((), poll_events E s) = (r', s') \<and> True" for s r s'
    by (subst poll_events.simps) (auto simp: recv_frame_receive split: timed.splits sum.splits)
qed simp_all

lemma recv_frame_at:
  assumes "frames (wire E) False (ws_in (s_ws s)) = f # rest" "all_sent (s_ws s)"
  shows "\<exists>s'. recv_frame E s = (Inr f, s') \<and> buffered E [] s s' \<and> frames (wire E) False (ws_in (s_ws s')) = rest
    \<and> all_sent (s_ws s') \<and> ws_out (s_ws s') = ws_out (s_ws s) @ acks (wire E) [f]"
proof -
  obtain r s' where r: "receive E False s = (r, s')" by (cases "receive E False s")
  then obtain g where g: "r = Ready (Inr g)" using receive_stop(1) [OF r] assms(1) by fastforce
  note w = receive_frame [OF r [unfolded g]]
  from w(1,2,4) assms show ?thesis by (auto simp: recv_frame_receive r g buffered_Nil)
qed

lemma request_sent:
  assumes "all_sent (s_ws s)" "jo_to_vec (js E) d = Inr body"
  shows "\<exists>s1. request E op d s = request_loop E op s1 \<and> s_pid s1 = s_pid s + 1 \<and> s_user_id s1 = s_user_id s
    \<and> s_room_id s1 = s_room_id s \<and> s_server_config s1 = s_server_config s \<and> s_event_buf s1 = s_event_buf s
    \<and> s_floor_mbcp_buf s1 = s_floor_mbcp_buf s \<and> ws_in (s_ws s1) = ws_in (s_ws s) \<and> all_sent (s_ws s1)
    \<and> ws_out (s_ws s1) = ws_out (s_ws s) @ [we_frame (wire E) op (s_pid s) AckMsg body]"
  using assms by (simp add: request_def next_pid_def send_msg_def) (intro exI conjI, rule refl, simp_all)

text \<open>\<open>n\<close> requests sent and the frames \<open>fs\<close> put aside, nothing else changed.\<close>

definition advances :: "'j sig_env \<Rightarrow> u32 \<Rightarrow> recv_frame list \<Rightarrow> 'j session \<Rightarrow> 'j session \<Rightarrow> bool" where
  "advances E n fs s s' \<longleftrightarrow> s_pid s' = s_pid s + n \<and> s_user_id s' = s_user_id s \<and> s_room_id s' = s_room_id s
     \<and> s_server_config s' = s_server_config s
     \<and> s_event_buf s' = s_event_buf s @ map (packet_of E) (filter (\<lambda>f. \<not> is_floor (wire E) f) fs)
     \<and> s_floor_mbcp_buf s' = s_floor_mbcp_buf s @ map snd (filter (is_floor (wire E)) fs)"

lemma buffered_advances: "buffered E fs s s' \<Longrightarrow> advances E 0 fs s s'"
  by (simp add: buffered_def advances_def same_identity_def)

lemma advances_trans:
  "advances E n fs s s' \<Longrightarrow> advances E m gs s' s'' \<Longrightarrow> advances E (n + m) (fs @ gs) s s''"
  by (simp add: advances_def)

lemma request_at:
  assumes "frames (wire E) False (ws_in (s_ws s)) = pre @ f # rest"
    and "\<forall>g \<in> set pre. \<not> is_reply (wire E) op g" "is_reply (wire E) op f"
    and "all_sent (s_ws s)" "\<exists>body. jo_to_vec (js E) d = Inr body"
  shows "\<exists>s'. request E op d s = (Inr (packet_of E f), s') \<and> advances E 1 pre s s'
    \<and> frames (wire E) False (ws_in (s_ws s')) = rest \<and> all_sent (s_ws s')"
proof -
  obtain body where "jo_to_vec (js E) d = Inr body" using assms(5) by blast
  from request_sent [OF assms(4) this, where op = op] obtain s1 where s1: "request E op d s = request_loop E op s1"
    "ws_in (s_ws s1) = ws_in (s_ws s)" "all_sent (s_ws s1)" "advances E 1 [] s s1"
    by (auto simp: advances_def)
  then have "frames (wire E) False (ws_in (s_ws s1)) = pre @ f # rest" using assms(1) by simp
  from request_reader.loop_at [OF this assms(2,3) s1(3)] obtain s' where
    s': "request_loop E op s1 = (Inr (packet_of E f), s')" "buffered E pre s1 s'"
      "frames (wire E) False (ws_in (s_ws s')) = rest" "all_sent (s_ws s')" by blast
  from advances_trans [OF s1(4) buffered_advances [OF s'(2)]] have "advances E 1 pre s s'" by simp
  with s' show ?thesis by (simp add: s1(1))
qed

lemma poll_events_effect:
  "buffered E (frames (wire E) True (ws_in (s_ws s))) s (poll_events E s)"
  using poll_reader.loop_result [of E s] by (simp add: takeWhile_True)

text \<open>C7: A request is answered by the first frame that acknowledges its opcode or reports an error
  (the correlation id is not compared), and an exchange that is not answered fails; every other
  frame received meanwhile stays in its buffer in arrival order, every event received is
  acknowledged exactly once, in order, after the request, and the request takes the next id.\<close>

theorem request_exchange:
  fixes E :: "'j sig_env" and op d s
  defines "fs \<equiv> frames (wire E) False (ws_in (s_ws s))"
    and "pre \<equiv> takeWhile (\<lambda>f. \<not> is_reply (wire E) op f) (frames (wire E) False (ws_in (s_ws s)))"
    and "s' \<equiv> snd (request E op d s)"
  assumes "all_sent (s_ws s)" "jo_to_vec (js E) d = Inr body"
  shows "(case find (is_reply (wire E) op) fs of
        Some f \<Rightarrow> fst (request E op d s) = Inr (packet_of E f)
      | None \<Rightarrow> isl (fst (request E op d s)))
    \<and> s_event_buf s' = s_event_buf s @ map (packet_of E) (filter (\<lambda>f. \<not> is_floor (wire E) f) pre)
    \<and> s_floor_mbcp_buf s' = s_floor_mbcp_buf s @ map snd (filter (is_floor (wire E)) pre)
    \<and> s_pid s' = s_pid s + 1
    \<and> ws_out (s_ws s') = ws_out (s_ws s) @ we_frame (wire E) op (s_pid s) AckMsg body
        # acks (wire E) (take (length pre + 1) fs)"
proof -
  obtain s1 where s1: "request E op d s = request_loop E op s1" "s_pid s1 = s_pid s + 1"
    "s_event_buf s1 = s_event_buf s" "s_floor_mbcp_buf s1 = s_floor_mbcp_buf s" "ws_in (s_ws s1) = ws_in (s_ws s)"
    "all_sent (s_ws s1)" "ws_out (s_ws s1) = ws_out (s_ws s) @ [we_frame (wire E) op (s_pid s) AckMsg body]"
    using request_sent [OF assms(4,5)] by metis
  show ?thesis
    using request_reader.loop_acks [OF s1(6), of E op] request_reader.loop_result [of E op s1]
    unfolding fs_def pre_def s'_def s1 by (simp add: s1 buffered_def same_identity_def)
qed

text \<open>C11: Waiting for an event takes it from the buffer when it is there, and otherwise returns the
  first such frame that arrives before the timer; other frames are kept in the buffers in arrival
  order, none lost.\<close>

theorem wait_event_first:
  fixes E :: "'j sig_env" and op s
  defines "fs \<equiv> frames (wire E) True (ws_in (s_ws s))"
    and "s' \<equiv> snd (wait_event E op s)"
  shows "case find (\<lambda>p. pk_op p = op) (s_event_buf s) of
      Some p \<Rightarrow> fst (wait_event E op s) = Some p \<and> s_ws s' = s_ws s
        \<and> s_floor_mbcp_buf s' = s_floor_mbcp_buf s \<and> s_event_buf s' = remove1 p (s_event_buf s)
    | None \<Rightarrow> fst (wait_event E op s) = map_option (packet_of E) (find (\<lambda>f. wh_op (fst f) = op) fs)
        \<and> buffered E (takeWhile (\<lambda>f. wh_op (fst f) \<noteq> op) fs) s s'"
proof (cases "List.extract (\<lambda>p. pk_op p = op) (s_event_buf s)")
  case None
  then have n: "find (\<lambda>p. pk_op p = op) (s_event_buf s) = None"
    by (simp add: extract_None_iff find_None_iff)
  have w: "wait_event E op s = wait_loop E op s" by (simp add: wait_event_def drain_event_def None split: prod.splits option.splits)
  show ?thesis using wait_reader.loop_result [of E op s] unfolding n w s'_def fs_def
    by (auto split: option.splits)
next
  case (Some x)
  then obtain xs p ys where x: "x = (xs, p, ys)" by (cases x)
  from Some [unfolded x] have e: "s_event_buf s = xs @ p # ys" "pk_op p = op" "\<not> (\<exists>y \<in> set xs. pk_op y = op)"
    by (auto simp: extract_Some_iff)
  then have "find (\<lambda>p. pk_op p = op) (s_event_buf s) = Some p" by (simp add: find_at)
  moreover have "wait_event E op s = (Some p, s\<lparr>s_event_buf := xs @ ys\<rparr>)"
    by (simp add: wait_event_def drain_event_def Some x)
  moreover have "remove1 p (s_event_buf s) = xs @ ys" using e by (auto simp: remove1_append)
  ultimately show ?thesis by (simp add: s'_def)
qed

text \<open>C8: Connecting ends in the joined room: when the server greets, identifies the user and
  acknowledges the room's creation and the join, with any other frames in between, the session has
  the assigned user, the room of the creation's answer and the server configuration of the join's,
  three ids are used, and every frame in between is in its buffer in arrival order.\<close>

theorem connect_joins:
  fixes E :: "'j sig_env"
  assumes "connect_async (ws_url server ws_port) = Inr w"
    and "all_sent w" "\<forall>d. \<exists>b. jo_to_vec (js E) d = Inr b"
    and "frames (wire E) False (ws_in w) =
      hello # before @ identified # between @ created # after @ joined # rest"
    and "wh_op (fst hello) = we_op (wire E) OP_HELLO"
    and "wh_op (fst identified) = we_op (wire E) OP_IDENTIFY_RESULT"
      "\<forall>f \<in> set before. wh_op (fst f) \<noteq> we_op (wire E) OP_IDENTIFY_RESULT"
    and "is_reply (wire E) (we_op (wire E) OP_ROOM_CREATE) created" "pk_ok (packet_of E created) = Some True"
      "\<forall>f \<in> set between. \<not> is_reply (wire E) (we_op (wire E) OP_ROOM_CREATE) f"
      "jo_as_str (js E) (jo_index (js E) (pk_d (packet_of E created)) ''room_id'') = Some room_id"
    and "is_reply (wire E) (we_op (wire E) OP_ROOM_JOIN) joined" "pk_ok (packet_of E joined) = Some True"
      "\<forall>f \<in> set after. \<not> is_reply (wire E) (we_op (wire E) OP_ROOM_JOIN) f"
  shows "\<exists>s. connect E connect_async server ws_port user_id room_name mode = Inr s
    \<and> s_room_id s = room_id \<and> s_user_id s = assigned_user (js E) user_id (snd identified)
    \<and> s_server_config s = Some (server_config_parse (js E) (pk_d (packet_of E joined))) \<and> s_pid s = 3
    \<and> s_event_buf s = map (packet_of E) (filter (\<lambda>f. \<not> is_floor (wire E) f) (before @ between @ after))
    \<and> s_floor_mbcp_buf s = map snd (filter (is_floor (wire E)) (before @ between @ after))"
proof -
  let ?fr = "\<lambda>s. frames (wire E) False (ws_in (s_ws s))"
  define s0 :: "'j session" where "s0 = \<lparr>s_ws = w, s_pid = 1, s_user_id = user_id, s_room_id = [],
    s_server_config = None, s_event_buf = [], s_floor_mbcp_buf = []\<rparr>"
  obtain s1 where s1: "recv_frame E s0 = (Inr hello, s1)" "buffered E [] s0 s1"
      "?fr s1 = before @ identified # between @ created # after @ joined # rest" "all_sent (s_ws s1)"
    using recv_frame_at [of E s0] assms(2,4) by (auto simp: s0_def)
  define body where "body = jo_object (js E) [(''token'', jo_str (js E) ''oxlab''), (''user_id'', jo_str (js E) user_id)]"
  obtain b where b: "jo_to_vec (js E) body = Inr b" using assms(3) by blast
  define s2 where "s2 = snd (send_msg E (we_op (wire E) OP_IDENTIFY) 0 body s1)"
  have s2: "send_msg E (we_op (wire E) OP_IDENTIFY) 0 body s1 = (Inr (), s2)" "buffered E [] s1 s2"
      "?fr s2 = ?fr s1" "all_sent (s_ws s2)"
    using s1(4) b by (simp_all add: s2_def send_msg_def buffered_Nil)
  obtain s3 where s3: "identify_loop E s2 = (Inr (snd identified), s3)" "buffered E before s2 s3"
      "?fr s3 = between @ created # after @ joined # rest" "all_sent (s_ws s3)"
    using identify_reader.loop_at [OF trans [OF s2(3) s1(3)] assms(7) assms(6) s2(4)] by blast
  define s4 where "s4 = s3\<lparr>s_user_id := assigned_user (js E) user_id (snd identified)\<rparr>"
  have open_ok: "open_session E connect_async server ws_port user_id = Inr s4"
    using assms(5) by (simp add: open_session_def assms(1) s0_def [symmetric] s1(1) body_def [symmetric] s2(1) s3(1) s4_def)
  have "?fr s4 = between @ created # after @ joined # rest" "all_sent (s_ws s4)"
    using s3(3,4) by (simp_all add: s4_def)
  from request_at [OF this(1) assms(10,8) this(2), of "jo_object (js E) [(''name'', jo_str (js E) room_name)]"] assms(3)
  obtain s5 where s5: "request E (we_op (wire E) OP_ROOM_CREATE) (jo_object (js E) [(''name'', jo_str (js E) room_name)]) s4
      = (Inr (packet_of E created), s5)" "advances E 1 between s4 s5" "?fr s5 = after @ joined # rest" "all_sent (s_ws s5)"
    by blast
  from request_at [OF s5(3) assms(14,12) s5(4), of "jo_object (js E) [(''room_id'', jo_str (js E) room_id)]"] assms(3)
  obtain s6 where s6: "request E (we_op (wire E) OP_ROOM_JOIN) (jo_object (js E) [(''room_id'', jo_str (js E) room_id)]) s5
      = (Inr (packet_of E joined), s6)" "advances E 1 after s5 s6"
    by blast
  have adv: "advances E 0 ([] @ [] @ before) s0 s3" "advances E (1 + 1) (between @ after) s4 s6"
    using advances_trans [OF buffered_advances [OF s1(2)] advances_trans [OF buffered_advances [OF s2(2)]
      buffered_advances [OF s3(2)]]] advances_trans [OF s5(2) s6(2)] by simp_all
  have "connect E connect_async server ws_port user_id room_name mode = Inr (s6\<lparr>s_room_id := room_id,
      s_server_config := Some (server_config_parse (js E) (pk_d (packet_of E joined)))\<rparr>)"
    using assms(9,11,13) by (simp add: connect_def do_join_def open_ok s5(1) s6(1) Let_def)
  then show ?thesis using adv by (simp add: advances_def s4_def s0_def)
qed

section \<open>A concrete environment for the witnesses\<close>

datatype sample_json = SNull | SBool bool | SStr string | SNum u64 | SArr "sample_json list" | SObj "(string \<times> sample_json) list"

definition sample_get :: "sample_json \<Rightarrow> string \<Rightarrow> sample_json option" where
  "sample_get j k = (case j of SObj xs \<Rightarrow> map_of xs k | _ \<Rightarrow> None)"

definition sample_json_ops :: "sample_json json_ops" where
  "sample_json_ops = \<lparr>jo_index = (\<lambda>j k. case sample_get j k of Some v \<Rightarrow> v | None \<Rightarrow> SNull), jo_get = sample_get,
     jo_as_str = (\<lambda>j. case j of SStr s \<Rightarrow> Some s | _ \<Rightarrow> None), jo_as_u64 = (\<lambda>j. case j of SNum n \<Rightarrow> Some n | _ \<Rightarrow> None),
     jo_as_array = (\<lambda>j. case j of SArr a \<Rightarrow> Some a | _ \<Rightarrow> None), jo_null = SNull, jo_str = SStr,
     jo_num = (\<lambda>n. SNum (ucast n)), jo_bool = SBool, jo_array = SArr, jo_object = SObj,
     jo_entry_or_insert = (\<lambda>j k v. case j of SObj xs \<Rightarrow> SObj (if map_of xs k = None then xs @ [(k, v)] else xs) | _ \<Rightarrow> j),
     jo_to_vec = (\<lambda>j. Inr [0]),
     jo_from_slice = (\<lambda>b. if b = [1] then Some (SObj [(''room_id'', SStr ''r1''), (''user_id'', SStr ''bob'')])
       else if b = [2] then Some (SObj [(''server_config'', SObj [(''ice'', SObj [(''port'', SNum 19741)])])]) else None),
     jo_debug = (\<lambda>j. [])\<rparr>"

fun sample_op :: "opcode \<Rightarrow> u16" where
  "sample_op OP_HELLO = 1" | "sample_op OP_HEARTBEAT = 2" | "sample_op OP_IDENTIFY = 3"
| "sample_op OP_IDENTIFY_RESULT = 4" | "sample_op OP_ROOM_CREATE = 5" | "sample_op OP_ROOM_JOIN = 6"
| "sample_op OP_ROOM_LEAVE = 7" | "sample_op OP_ROOM_EVENT = 129" | "sample_op OP_PUBLISH_TRACKS = 8"
| "sample_op OP_TRACKS_READY = 9" | "sample_op OP_TRACKS_UPDATE = 130" | "sample_op OP_SUBSCRIBE_LAYER = 10"
| "sample_op OP_FLOOR_MBCP = 131"

text \<open>A frame is opcode, id and acknowledgement state, a byte each, and the body.\<close>

fun sample_split :: "bytes \<Rightarrow> string + (wire_header \<times> bytes)" where
  "sample_split (op # pid # a # body) = Inr (\<lparr>wh_op = ucast op, wh_pid = ucast pid,
     wh_ack = Some (if a = 0 then AckMsg else if a = 1 then AckOk else AckFail)\<rparr>, body)"
| "sample_split _ = Inl ''short frame''"

definition sample_wire :: wire_env where
  "sample_wire = \<lparr>we_split_frame = sample_split,
     we_frame = (\<lambda>op pid a body. [ucast op, ucast pid, if a = AckMsg then 0 else if a = AckOk then 1 else 2] @ body),
     we_op = sample_op, we_is_event = (\<lambda>op. 128 < op), we_is_error = (\<lambda>op. op = 127),
     we_is_ack = (\<lambda>a. a \<noteq> AckMsg)\<rparr>"

definition sample_sig :: "sample_json sig_env" where
  "sample_sig = \<lparr>js = sample_json_ops, wire = sample_wire\<rparr>"

definition sample_ws :: "bytes list \<Rightarrow> ws" where
  "sample_ws fs = \<lparr>ws_in = map WsBinary fs, ws_out = [], ws_tries = 0, ws_close_sent = False,
     ws_send_error = (\<lambda>n. None)\<rparr>"

definition sample_session :: "bytes list \<Rightarrow> sample_json session" where
  "sample_session fs = \<lparr>s_ws = sample_ws fs, s_pid = 1, s_user_id = ''bob'', s_room_id = ''r1'',
     s_server_config = None, s_event_buf = [], s_floor_mbcp_buf = []\<rparr>"

lemmas sample_sig_defs = sample_sig_def sample_wire_def sample_json_ops_def sample_ws_def sample_session_def
  all_sent_def is_reply_def packet_of_def frame_to_packet_def is_floor_def acks_def needs_ack_def ack_frame_def
  sample_get_def

text \<open>Two events, a floor message and an answer that carries another request's id: the answer is
  taken, the two events are acknowledged.\<close>

theorem request_exchange_witness:
  "let s = sample_session [[130, 7, 0], [131, 8, 0, 42], [129, 9, 0], [8, 99, 1], [129, 1, 0]]
   in fst (request sample_sig 8 SNull s) = Inr \<lparr>pk_op = 8, pk_pid = 99, pk_ok = Some True, pk_d = SNull\<rparr>
    \<and> map pk_op (s_event_buf (snd (request sample_sig 8 SNull s))) = [130, 129]
    \<and> s_floor_mbcp_buf (snd (request sample_sig 8 SNull s)) = [[42]]
    \<and> ws_out (s_ws (snd (request sample_sig 8 SNull s))) = [[8, 1, 0, 0], [130, 7, 1], [129, 9, 1]]"
  unfolding Let_def
  using request_exchange [of "sample_session [[130, 7, 0], [131, 8, 0, 42], [129, 9, 0], [8, 99, 1], [129, 1, 0]]"
      sample_sig SNull "[0]" 8]
  by (simp add: sample_sig_defs)

definition sample_server :: "string \<Rightarrow> string + ws" where
  "sample_server url = Inr (sample_ws [[1, 0, 0], [129, 1, 0], [4, 0, 0, 1], [130, 2, 0], [5, 1, 1, 1],
     [131, 3, 0, 42], [6, 2, 1, 2]])"

theorem connect_joins_witness:
  "\<exists>s. connect sample_sig sample_server ''h'' 1974 ''alice'' ''room'' ''ptt'' = Inr s
    \<and> s_room_id s = ''r1'' \<and> s_user_id s = ''bob'' \<and> s_pid s = 3
    \<and> map pk_op (s_event_buf s) = [129, 130] \<and> s_floor_mbcp_buf s = [[42]]"
proof -
  let ?fr = "\<lambda>op pid a body. (\<lparr>wh_op = op, wh_pid = pid, wh_ack = Some a\<rparr>, body)"
  have "\<exists>s. connect sample_sig sample_server ''h'' 1974 ''alice'' ''room'' ''ptt'' = Inr s
    \<and> s_room_id s = ''r1'' \<and> s_user_id s = assigned_user (js sample_sig) ''alice'' (snd (?fr 4 0 AckMsg [1]))
    \<and> s_server_config s = Some (server_config_parse (js sample_sig) (pk_d (packet_of sample_sig (?fr 6 2 AckOk [2]))))
    \<and> s_pid s = 3
    \<and> s_event_buf s = map (packet_of sample_sig) (filter (\<lambda>f. \<not> is_floor (wire sample_sig) f)
        ([?fr 129 1 AckMsg []] @ [?fr 130 2 AckMsg []] @ [?fr 131 3 AckMsg [42]]))
    \<and> s_floor_mbcp_buf s = map snd (filter (is_floor (wire sample_sig))
        ([?fr 129 1 AckMsg []] @ [?fr 130 2 AckMsg []] @ [?fr 131 3 AckMsg [42]]))"
    by (rule connect_joins [where hello = "?fr 1 0 AckMsg []" and created = "?fr 5 1 AckOk [1]" and rest = "[]"
          and w = "sample_ws [[1, 0, 0], [129, 1, 0], [4, 0, 0, 1], [130, 2, 0], [5, 1, 1, 1], [131, 3, 0, 42], [6, 2, 1, 2]]"])
      (simp_all add: sample_server_def sample_sig_defs)
  then obtain s where s: "connect sample_sig sample_server ''h'' 1974 ''alice'' ''room'' ''ptt'' = Inr s"
    "s_room_id s = ''r1''" "s_user_id s = assigned_user (js sample_sig) ''alice'' [1]" "s_pid s = 3"
    "s_event_buf s = map (packet_of sample_sig) (filter (\<lambda>f. \<not> is_floor (wire sample_sig) f)
        [?fr 129 1 AckMsg [], ?fr 130 2 AckMsg [], ?fr 131 3 AckMsg [42]])"
    "s_floor_mbcp_buf s = map snd (filter (is_floor (wire sample_sig))
        [?fr 129 1 AckMsg [], ?fr 130 2 AckMsg [], ?fr 131 3 AckMsg [42]])"
    unfolding append_Cons append_Nil snd_conv by (elim exE conjE) (rule that; assumption)
  have u: "assigned_user (js sample_sig) ''alice'' [1] = ''bob''"
    by (simp add: sample_sig_def sample_json_ops_def assigned_user_def str_or_def sample_get_def)
  have b: "map pk_op (s_event_buf s) = [129, 130]" "s_floor_mbcp_buf s = [[42]]"
    unfolding s(5,6) by (simp_all add: sample_sig_def sample_wire_def is_floor_def packet_of_def frame_to_packet_def)
  show ?thesis
    by (rule exI [of _ s]) (intro conjI s(1,2,4) b trans [OF s(3) u])
qed

end
