(* ===== verification/Media.thy ===== *)
theory Media
  imports Prelude
begin

text \<open>
  Media setup of a bot: the STUN binding request (\<open>common/src/stun.rs\<close>), the packet classes, the
  SRTP wrapper, the DTLS demultiplexer and \<open>setup_media_pc\<close> (\<open>common/src/media.rs\<close>).  HMAC-SHA1,
  CRC-32, the random generator, the SRTP contexts of \<open>webrtc_srtp\<close> and the DTLS handshake are
  parameters; what a UDP socket receives is the list of its receive results.
\<close>

section \<open>STUN binding request\<close>

definition MAGIC_COOKIE :: u32 where "MAGIC_COOKIE = 0x2112A442"
definition HEADER_SIZE :: nat where "HEADER_SIZE = 20"
definition BINDING_REQUEST :: u16 where "BINDING_REQUEST = 1"
definition ATTR_USERNAME :: u16 where "ATTR_USERNAME = 0x0006"
definition ATTR_MESSAGE_INTEGRITY :: u16 where "ATTR_MESSAGE_INTEGRITY = 0x0008"
definition ATTR_PRIORITY :: u16 where "ATTR_PRIORITY = 0x0024"
definition ATTR_USE_CANDIDATE :: u16 where "ATTR_USE_CANDIDATE = 0x0025"
definition ATTR_ICE_CONTROLLING :: u16 where "ATTR_ICE_CONTROLLING = 0x802A"
definition ATTR_FINGERPRINT :: u16 where "ATTR_FINGERPRINT = 0x8028"

lemmas stun_consts = MAGIC_COOKIE_def HEADER_SIZE_def BINDING_REQUEST_def ATTR_USERNAME_def
  ATTR_MESSAGE_INTEGRITY_def ATTR_PRIORITY_def ATTR_USE_CANDIDATE_def ATTR_ICE_CONTROLLING_def
  ATTR_FINGERPRINT_def

record crypto_ops =
  co_hmac_sha1 :: "bytes \<Rightarrow> bytes \<Rightarrow> bytes"
  co_crc32 :: "bytes \<Rightarrow> u32"

text \<open>\<open>Vec::extend_from_slice\<close> of type, length, value and padding.\<close>

definition write_attr :: "bytes \<Rightarrow> u16 \<Rightarrow> bytes \<Rightarrow> bytes" where
  "write_attr buf attr_type value =
     buf @ be16 attr_type @ be16 (of_nat (length value)) @ value
       @ replicate ((4 - length value mod 4) mod 4) 0"

definition set_length :: "bytes \<Rightarrow> u16 \<Rightarrow> bytes option" where
  "set_length buf len = wr_slice buf 2 (be16 len)"

definition build_binding_request ::
    "crypto_ops \<Rightarrow> bytes \<Rightarrow> bytes \<Rightarrow> string \<Rightarrow> string \<Rightarrow> string \<Rightarrow> bytes option" where
  "build_binding_request C tid tie_breaker server_ufrag client_ufrag server_pwd = (
     let buf = be16 BINDING_REQUEST @ be16 0 @ be32 MAGIC_COOKIE @ tid;
         username = server_ufrag @ '':'' @ client_ufrag;
         buf = write_attr buf ATTR_USERNAME (as_bytes username);
         buf = write_attr buf ATTR_PRIORITY (be32 2130706431);
         buf = write_attr buf ATTR_ICE_CONTROLLING tie_breaker;
         buf = write_attr buf ATTR_USE_CANDIDATE [];
         key = as_bytes server_pwd;
         len_with_mi = of_nat (length buf - HEADER_SIZE + 24)
     in do {
       buf \<leftarrow> set_length buf len_with_mi;
       let buf = write_attr buf ATTR_MESSAGE_INTEGRITY (co_hmac_sha1 C buf key);
       let len_with_fp = of_nat (length buf - HEADER_SIZE + 8);
       buf \<leftarrow> set_length buf len_with_fp;
       let crc = co_crc32 C buf XOR 0x5354554E;
       let buf = write_attr buf ATTR_FINGERPRINT (be32 crc);
       let final_len = of_nat (length buf - HEADER_SIZE);
       set_length buf final_len
     })"

section \<open>Packet classes\<close>

definition is_stun :: "u8 \<Rightarrow> bool" where "is_stun b \<longleftrightarrow> b \<le> 0x03"
definition is_dtls :: "u8 \<Rightarrow> bool" where "is_dtls b \<longleftrightarrow> 0x14 \<le> b \<and> b \<le> 0x3F"
definition is_rtp :: "u8 \<Rightarrow> bool" where "is_rtp b \<longleftrightarrow> 0x80 \<le> b \<and> b \<le> 0xBF"

definition ice_char :: "u8 \<Rightarrow> char" where
  "ice_char b = (let r = b mod 36 in
     if r < 10 then char_of_u8 (48 + r) else char_of_u8 (97 + r - 10))"

definition random_ice_string :: "bytes \<Rightarrow> string" where
  "random_ice_string random = map ice_char random"

section \<open>SRTP\<close>

text \<open>A context of \<open>webrtc_srtp\<close> is an opaque \<open>'c\<close> that its operations update.\<close>

record 'c srtp_ops =
  so_context_new :: "bytes \<Rightarrow> bytes \<Rightarrow> 'c option"
  so_encrypt_rtp :: "'c \<Rightarrow> bytes \<Rightarrow> bytes option \<times> 'c"
  so_decrypt_rtp :: "'c \<Rightarrow> bytes \<Rightarrow> bytes option \<times> 'c"
  so_encrypt_rtcp :: "'c \<Rightarrow> bytes \<Rightarrow> bytes option \<times> 'c"
  so_decrypt_rtcp :: "'c \<Rightarrow> bytes \<Rightarrow> bytes option \<times> 'c"

record 'c srtp_ctx =
  sc_inner :: "'c option"

definition srtp_new :: "'c srtp_ctx" where
  "srtp_new = \<lparr>sc_inner = None\<rparr>"

definition srtp_install :: "'c srtp_ops \<Rightarrow> bytes \<Rightarrow> bytes \<Rightarrow> 'c srtp_ctx \<Rightarrow> 'c srtp_ctx" where
  "srtp_install S key salt x = (case so_context_new S key salt of
       Some ctx \<Rightarrow> x\<lparr>sc_inner := Some ctx\<rparr>
     | None \<Rightarrow> x)"

definition srtp_apply ::
    "('c \<Rightarrow> bytes \<Rightarrow> bytes option \<times> 'c) \<Rightarrow> bytes \<Rightarrow> 'c srtp_ctx \<Rightarrow> bytes option \<times> 'c srtp_ctx" where
  "srtp_apply f pkt x = (case sc_inner x of
       None \<Rightarrow> (None, x)
     | Some ctx \<Rightarrow> let (r, ctx) = f ctx pkt in (r, x\<lparr>sc_inner := Some ctx\<rparr>))"

definition encrypt_rtp :: "'c srtp_ops \<Rightarrow> bytes \<Rightarrow> 'c srtp_ctx \<Rightarrow> bytes option \<times> 'c srtp_ctx" where
  "encrypt_rtp S = srtp_apply (so_encrypt_rtp S)"
definition decrypt_rtp :: "'c srtp_ops \<Rightarrow> bytes \<Rightarrow> 'c srtp_ctx \<Rightarrow> bytes option \<times> 'c srtp_ctx" where
  "decrypt_rtp S = srtp_apply (so_decrypt_rtp S)"
definition encrypt_rtcp :: "'c srtp_ops \<Rightarrow> bytes \<Rightarrow> 'c srtp_ctx \<Rightarrow> bytes option \<times> 'c srtp_ctx" where
  "encrypt_rtcp S = srtp_apply (so_encrypt_rtcp S)"
definition decrypt_rtcp :: "'c srtp_ops \<Rightarrow> bytes \<Rightarrow> 'c srtp_ctx \<Rightarrow> bytes option \<times> 'c srtp_ctx" where
  "decrypt_rtcp S = srtp_apply (so_decrypt_rtcp S)"

section \<open>The DTLS demultiplexer\<close>

text \<open>\<open>DemuxConn::recv\<close> copies what fits; the receiving task forwards the datagrams whose first
  byte, as it stands in its buffer, is a DTLS byte (an empty datagram leaves the old one).\<close>

definition demux_recv :: "nat \<Rightarrow> bytes option \<Rightarrow> string + bytes" where
  "demux_recv buf_len received = (case received of
       Some data \<Rightarrow> Inr (take (min (length data) buf_len) data)
     | None \<Rightarrow> Inl ''channel closed'')"

text \<open>The connection has one peer: what it receives is from the peer and what it sends goes there, whatever
  target is asked for.  \<open>send_to\<close> is the socket's.\<close>

definition demux_recv_from :: "string \<Rightarrow> nat \<Rightarrow> bytes option \<Rightarrow> string + bytes \<times> string" where
  "demux_recv_from peer_addr buf_len received = (case demux_recv buf_len received of
       Inl e \<Rightarrow> Inl e | Inr data \<Rightarrow> Inr (data, peer_addr))"

definition demux_send :: "(bytes \<Rightarrow> string \<Rightarrow> string + nat) \<Rightarrow> string \<Rightarrow> bytes \<Rightarrow> string + nat" where
  "demux_send send_to peer_addr buf = send_to buf peer_addr"

definition demux_send_to ::
    "(bytes \<Rightarrow> string \<Rightarrow> string + nat) \<Rightarrow> string \<Rightarrow> bytes \<Rightarrow> string \<Rightarrow> string + nat" where
  "demux_send_to send_to peer_addr buf target = demux_send send_to peer_addr buf"

fun demux_forward :: "u8 \<Rightarrow> bytes list \<Rightarrow> bytes list" where
  "demux_forward b0 [] = []"
| "demux_forward b0 (datagram # rest) = (
     let b0 = (case datagram of [] \<Rightarrow> b0 | b # _ \<Rightarrow> b)
     in (if is_dtls b0 then [take 2048 datagram] else []) @ demux_forward b0 rest)"

section \<open>Media setup\<close>

datatype recv_result = Datagram bytes | RecvError string | RecvTimeout

text \<open>The wait for the binding response: the list holds what the socket yields before the
  deadline; past it the loop ends.\<close>

fun stun_wait :: "recv_result list \<Rightarrow> bool" where
  "stun_wait [] = False"
| "stun_wait (Datagram d # rest) = (
     let buf = take 2048 d in
     if 20 \<le> length buf \<and> is_stun (buf ! 0) then
       (if from_be16 (buf ! 0) (buf ! 1) = 0x0101 then True else stun_wait rest)
     else stun_wait rest)"
| "stun_wait (RecvError e # rest) = stun_wait rest"
| "stun_wait (RecvTimeout # rest) = False"

record media_env =
  me_crypto :: crypto_ops
  me_ice_random :: bytes
  me_tid :: bytes
  me_tie_breaker :: bytes
  me_send_error :: "string option"
  me_received :: "recv_result list"
  me_dtls :: "string + bytes"

record srtp_keys4 =
  client_key :: bytes
  server_key :: bytes
  client_salt :: bytes
  server_salt :: bytes

definition split_keying_material :: "bytes \<Rightarrow> srtp_keys4 option" where
  "split_keying_material mat = do {
     ck \<leftarrow> rd_slice mat 0 16;
     sk \<leftarrow> rd_slice mat 16 32;
     cs \<leftarrow> rd_slice mat 32 46;
     ss \<leftarrow> rd_slice mat 46 60;
     Some \<lparr>client_key = ck, server_key = sk, client_salt = cs, server_salt = ss\<rparr>
   }"

definition setup_media_pc :: "media_env \<Rightarrow> string \<Rightarrow> string \<Rightarrow> string \<Rightarrow> (string + srtp_keys4) option" where
  "setup_media_pc M ufrag pwd label = do {
     let client_ufrag = random_ice_string (me_ice_random M);
     stun_req \<leftarrow> build_binding_request (me_crypto M) (me_tid M) (me_tie_breaker M) ufrag client_ufrag pwd;
     case me_send_error M of
       Some e \<Rightarrow> Some (Inl e)
     | None \<Rightarrow>
        if \<not> stun_wait (me_received M) then Some (Inl (label @ '' STUN timeout''))
        else case me_dtls M of
          Inl e \<Rightarrow> Some (Inl e)
        | Inr mat \<Rightarrow> do { keys \<leftarrow> split_keying_material mat; Some (Inr keys) }
   }"

section \<open>Reading a request back\<close>

definition attr :: "u16 \<Rightarrow> bytes \<Rightarrow> bytes" where
  "attr t v = write_attr [] t v"

lemma write_attr_append: "write_attr buf t v = buf @ attr t v"
  by (simp add: write_attr_def attr_def)

text \<open>The attributes of a STUN message: type, length, value and padding to four bytes.\<close>

function stun_attrs :: "bytes \<Rightarrow> (u16 \<times> bytes) list option" where
  "stun_attrs bs = (if bs = [] then Some []
     else if length bs < 4 then None
     else let len = unat (from_be16 (bs ! 2) (bs ! 3)); padded = 4 * ((len + 3) div 4)
       in if length bs < 4 + padded then None
          else map_option (Cons (from_be16 (bs ! 0) (bs ! 1), take len (drop 4 bs)))
            (stun_attrs (drop (4 + padded) bs)))"
  by auto
termination by (relation "measure length") auto

declare stun_attrs.simps [simp del]

lemma padding: "n + (4 - n mod 4) mod 4 = 4 * ((n + 3) div 4)" for n :: nat
proof -
  obtain q r where n: "n = 4 * q + r" "r < 4" by (metis mod_less_divisor mult_div_mod_eq zero_less_numeral)
  then consider "r = 0" | "r = 1" | "r = 2" | "r = 3" by linarith
  then show ?thesis by cases (simp_all add: n mod_Suc)
qed

lemma length_attr [simp]: "length (attr t v) = 4 + 4 * ((length v + 3) div 4)"
  using padding [of "length v"] by (simp add: attr_def write_attr_def)

lemma stun_attrs_attr:
  assumes "length v < 65536"
  shows "stun_attrs (attr t v @ rest) = map_option (Cons (t, v)) (stun_attrs rest)"
proof -
  obtain a b where t: "be16 t = [a, b]" "from_be16 a b = t"
    by (metis be16_def from_be16_be16)
  obtain c d where l: "be16 (of_nat (length v)) = [c, d]" "from_be16 c d = of_nat (length v)"
    by (metis be16_def from_be16_be16)
  have u: "unat (of_nat (length v) :: u16) = length v" using assms by (simp add: unat_of_nat_eq)
  let ?p = "replicate ((4 - length v mod 4) mod 4) 0"
  have bs: "attr t v @ rest = [a, b, c, d] @ v @ ?p @ rest"
    by (simp add: attr_def write_attr_def t l)
  have len: "length (v @ ?p) = 4 * ((length v + 3) div 4)" using padding by simp
  have "stun_attrs ([a, b, c, d] @ (v @ ?p) @ rest) = map_option (Cons (t, v)) (stun_attrs rest)"
    by (subst stun_attrs.simps) (simp add: t l u len [unfolded length_append] drop_Cons' flip: len)
  then show ?thesis by (simp add: bs)
qed

lemma stun_attrs_Nil [simp]: "stun_attrs [] = Some []"
  by (simp add: stun_attrs.simps)

definition stun_header :: "bytes \<Rightarrow> nat \<Rightarrow> bytes" where
  "stun_header tid n = be16 BINDING_REQUEST @ be16 (of_nat n) @ be32 MAGIC_COOKIE @ tid"

lemma set_length_header:
  "set_length (be16 BINDING_REQUEST @ be16 l @ be32 MAGIC_COOKIE @ tid @ rest) (of_nat n)
    = Some (stun_header tid n @ rest)"
  by (simp add: set_length_def stun_header_def wr_slice_def be16_def be32_def numeral_eq_Suc)

definition request_attrs :: "bytes \<Rightarrow> string \<Rightarrow> bytes" where
  "request_attrs tie_breaker username = attr ATTR_USERNAME (as_bytes username)
     @ attr ATTR_PRIORITY (be32 2130706431) @ attr ATTR_ICE_CONTROLLING tie_breaker @ attr ATTR_USE_CANDIDATE []"

lemma build_binding_request_bytes:
  fixes C tid tie su cu pwd
  defines "pre \<equiv> request_attrs tie (su @ '':'' @ cu)"
  defines "mi \<equiv> attr ATTR_MESSAGE_INTEGRITY (co_hmac_sha1 C (stun_header tid (length pre + 24) @ pre) (as_bytes pwd))"
  defines "fp \<equiv> co_crc32 C (stun_header tid (length (pre @ mi) + 8) @ pre @ mi) XOR 0x5354554E"
  assumes "length tid = 12"
  shows "build_binding_request C tid tie su cu pwd =
    Some (stun_header tid (length (pre @ mi) + 8) @ pre @ mi @ attr ATTR_FINGERPRINT (be32 fp))"
proof -
  have h: "length (stun_header tid n) = 20" for n by (simp add: stun_header_def assms(4))
  have s0: "set_length (be16 BINDING_REQUEST @ be16 0 @ be32 MAGIC_COOKIE @ tid @ pre) (of_nat (length pre + 24))
      = Some (stun_header tid (length pre + 24) @ pre)"
    by (rule set_length_header)
  have s: "set_length (stun_header tid k @ rest) (of_nat n) = Some (stun_header tid n @ rest)" for k rest n
    using set_length_header [of "of_nat k" tid rest n] by (simp add: stun_header_def)
  have b0: "be16 BINDING_REQUEST @ be16 0 @ be32 MAGIC_COOKIE @ tid @ pre
      = write_attr (write_attr (write_attr (write_attr (be16 BINDING_REQUEST @ be16 0 @ be32 MAGIC_COOKIE @ tid)
          ATTR_USERNAME (as_bytes (su @ '':'' @ cu))) ATTR_PRIORITY (be32 2130706431)) ATTR_ICE_CONTROLLING tie)
          ATTR_USE_CANDIDATE []"
    by (simp add: write_attr_append pre_def request_attrs_def)
  have len0: "length (be16 BINDING_REQUEST @ be16 0 @ be32 MAGIC_COOKIE @ tid @ pre) - HEADER_SIZE + 24 = length pre + 24"
    by (simp add: HEADER_SIZE_def assms(4))
  have len1: "length (stun_header tid k @ x) - HEADER_SIZE = length x" for k x
    by (simp add: HEADER_SIZE_def h)
  have fp_len: "length (pre @ mi @ attr ATTR_FINGERPRINT (be32 x)) = length (pre @ mi) + 8" for x by simp
  show ?thesis
    unfolding build_binding_request_def Let_def
    unfolding b0 [symmetric] len0 s0 bind.bind_lunit
    unfolding write_attr_append mi_def [symmetric] append_assoc len1 s fp_len bind.bind_lunit fp_def [symmetric] ..
qed

text \<open>C40: A binding request reads back: it is a STUN request header with the given transaction id and
  the length of what follows, and its attributes are the user name, the priority, the tie breaker,
  use-candidate, a message integrity computed over everything before it with the length field up to
  and including itself, and a fingerprint computed the same way.\<close>

theorem stun_request_roundtrip:
  assumes "length tid = 12" "length tie_breaker = 8" "\<forall>d k. length (co_hmac_sha1 C d k) = 20"
    and "length server_ufrag + length client_ufrag < 65000"
  shows "\<exists>attrs mi fp. build_binding_request C tid tie_breaker server_ufrag client_ufrag server_pwd
      = Some (stun_header tid (length (attrs @ mi @ fp)) @ attrs @ mi @ fp)
    \<and> stun_attrs (attrs @ mi @ fp) =
      Some [(ATTR_USERNAME, as_bytes (server_ufrag @ '':'' @ client_ufrag)), (ATTR_PRIORITY, be32 2130706431),
        (ATTR_ICE_CONTROLLING, tie_breaker), (ATTR_USE_CANDIDATE, []),
        (ATTR_MESSAGE_INTEGRITY, co_hmac_sha1 C (stun_header tid (length (attrs @ mi)) @ attrs) (as_bytes server_pwd)),
        (ATTR_FINGERPRINT, be32 (co_crc32 C (stun_header tid (length (attrs @ mi @ fp)) @ attrs @ mi) XOR 0x5354554E))]
    \<and> length (attrs @ mi @ fp) mod 4 = 0 \<and> unat (of_nat (length (attrs @ mi @ fp)) :: u16) = length (attrs @ mi @ fp)"
proof -
  have u16: "n < 65536 \<Longrightarrow> unat (of_nat n :: u16) = n" for n by (simp add: unat_of_nat_eq)
  define attrs where "attrs = request_attrs tie_breaker (server_ufrag @ '':'' @ client_ufrag)"
  define h where "h = co_hmac_sha1 C (stun_header tid (length attrs + 24) @ attrs) (as_bytes server_pwd)"
  define mi where "mi = attr ATTR_MESSAGE_INTEGRITY h"
  define crc where "crc = co_crc32 C (stun_header tid (length (attrs @ mi) + 8) @ attrs @ mi) XOR 0x5354554E"
  define fp where "fp = attr ATTR_FINGERPRINT (be32 crc)"
  have h: "length h = 20" using assms(3) by (simp add: h_def)
  have len: "length (attrs @ mi) = length attrs + 24" "length (attrs @ mi @ fp) = length (attrs @ mi) + 8"
    by (simp_all add: mi_def fp_def h)
  have req: "build_binding_request C tid tie_breaker server_ufrag client_ufrag server_pwd
      = Some (stun_header tid (length (attrs @ mi @ fp)) @ attrs @ mi @ fp)"
    using build_binding_request_bytes [OF assms(1), of C tie_breaker server_ufrag client_ufrag server_pwd]
    unfolding len(2) attrs_def [symmetric] h_def [symmetric] mi_def [symmetric] crc_def [symmetric]
      fp_def [symmetric] .
  have a: "stun_attrs (attrs @ mi @ fp) =
      Some [(ATTR_USERNAME, as_bytes (server_ufrag @ '':'' @ client_ufrag)), (ATTR_PRIORITY, be32 2130706431),
        (ATTR_ICE_CONTROLLING, tie_breaker), (ATTR_USE_CANDIDATE, []), (ATTR_MESSAGE_INTEGRITY, h),
        (ATTR_FINGERPRINT, be32 crc)]"
    using stun_attrs_attr [of "be32 crc" ATTR_FINGERPRINT "[]"] assms(2,4)
    by (simp add: attrs_def request_attrs_def mi_def fp_def stun_attrs_attr h)
  have m: "length (attrs @ mi @ fp) mod 4 = 0"
    by (simp add: attrs_def request_attrs_def mi_def fp_def)
  have "length (attrs @ mi @ fp) < 65536"
    using assms(2,4) unfolding len by (simp add: attrs_def request_attrs_def)
  then have "unat (of_nat (length (attrs @ mi @ fp)) :: u16) = length (attrs @ mi @ fp)"
    by (rule u16)
  with req a m show ?thesis
    unfolding h_def crc_def len [symmetric] by (intro exI conjI)
qed

definition sample_crypto :: crypto_ops where
  "sample_crypto = \<lparr>co_hmac_sha1 = (\<lambda>d k. replicate 20 7), co_crc32 = (\<lambda>d. of_nat (length d))\<rparr>"

theorem stun_request_roundtrip_witness:
  "\<exists>attrs mi fp. build_binding_request sample_crypto (replicate 12 1) (replicate 8 2) ''srv'' ''cli'' ''pw''
      = Some (stun_header (replicate 12 1) (length (attrs @ mi @ fp)) @ attrs @ mi @ fp)
    \<and> map_option (map fst) (stun_attrs (attrs @ mi @ fp)) =
      Some [ATTR_USERNAME, ATTR_PRIORITY, ATTR_ICE_CONTROLLING, ATTR_USE_CANDIDATE, ATTR_MESSAGE_INTEGRITY,
        ATTR_FINGERPRINT]"
proof -
  have "\<forall>d k. length (co_hmac_sha1 sample_crypto d k) = 20" by (simp add: sample_crypto_def)
  from stun_request_roundtrip [of "replicate 12 1" "replicate 8 2" sample_crypto "''srv''" "''cli''" "''pw''", OF _ _ this]
  obtain attrs mi fp where "build_binding_request sample_crypto (replicate 12 1) (replicate 8 2) ''srv'' ''cli'' ''pw''
      = Some (stun_header (replicate 12 1) (length (attrs @ mi @ fp)) @ attrs @ mi @ fp)"
    "map_option (map fst) (stun_attrs (attrs @ mi @ fp)) =
      Some [ATTR_USERNAME, ATTR_PRIORITY, ATTR_ICE_CONTROLLING, ATTR_USE_CANDIDATE, ATTR_MESSAGE_INTEGRITY,
        ATTR_FINGERPRINT]"
    by auto
  then show ?thesis by (intro exI conjI)
qed

end
