(* ===== verification/BotTasks.thy ===== *)
theory BotTasks
  imports Observations Subscriber NetFilter Media
begin

text \<open>
  The media tasks of a bot (\<open>oxlab-bot/src/bot.rs\<close>, \<open>start_publishing\<close>): audio and video
  publishers, the publisher's RTCP reader and the subscriber's reader.  One iteration of a task's
  loop is one definition over the task's own state and the state it shares with the others; the
  clock does not advance within an iteration and iterations are not interleaved with each other.
  A result \<open>None\<close> is a panic of the task.
\<close>

section \<open>Shared state\<close>

record floor_state =
  floor_idle :: bool
  speaker_just_changed :: bool
  floor_just_released :: bool
  ack_sent :: bool

definition floor_state_new :: floor_state where
  "floor_state_new = \<lparr>floor_idle = True, speaker_just_changed = False, floor_just_released = False,
     ack_sent = False\<rparr>"

record pending_layer_switch =
  pls_requested_layer :: string
  pls_request_time :: nat
  pls_ts_before :: "u32 option"
  pls_done :: bool

record srtp_keys =
  sk_key :: bytes
  sk_salt :: bytes

definition new_srtp_ctx :: "'c srtp_ops \<Rightarrow> srtp_keys \<Rightarrow> 'c srtp_ctx" where
  "new_srtp_ctx S k = srtp_install S (sk_key k) (sk_salt k) srtp_new"

record 'g shared =
  sh_metrics :: metrics_store
  sh_obs :: observations
  sh_floor :: floor_state
  sh_pending :: "pending_layer_switch option"
  sh_filter :: "'g net_filter option"

section \<open>Publishing\<close>

record 'c publish_task =
  pt_srtp :: "'c srtp_ctx"
  pt_state :: rtp_pub

text \<open>One tick: build, encrypt, filter, send.  A failed encryption and a dropped packet send
  nothing; a failed send ends the task.  What is sent comes with the filter's delay.\<close>

definition publish_tick ::
    "'c srtp_ops \<Rightarrow> 'g rng_ops \<Rightarrow> (rtp_pub \<Rightarrow> (bytes \<times> rtp_pub) option) \<Rightarrow> nat \<Rightarrow> string option
     \<Rightarrow> 'c publish_task \<times> 'g net_filter option
     \<Rightarrow> ('c publish_task option \<times> 'g net_filter option \<times> (u64 \<times> bytes) option) option" where
  "publish_tick S R build now send_error = (\<lambda>(task, net). do {
     (pkt, st) \<leftarrow> build (pt_state task);
     let (encrypted, srtp) = encrypt_rtp S pkt (pt_srtp task);
     let task = \<lparr>pt_srtp = srtp, pt_state = st\<rparr>;
     case encrypted of
       None \<Rightarrow> Some (Some task, net, None)
     | Some e \<Rightarrow>
        let (filter_result, net) = (case net of
            None \<Rightarrow> (None, None)
          | Some f \<Rightarrow> let (r, f) = net_filter_filter R now (length e) f in (Some r, Some f))
        in case filter_result of
             Some Drop \<Rightarrow> Some (Some task, net, None)
           | _ \<Rightarrow>
              let d = (case filter_result of Some (Pass dl) \<Rightarrow> dl | _ \<Rightarrow> 0)
              in case send_error of
                   Some err \<Rightarrow> Some (None, net, None)
                 | None \<Rightarrow> Some (Some task, net, Some (d, e))
   })"

section \<open>The publisher's RTCP reader\<close>

record 'c pub_recv_task =
  pr_srtp :: "'c srtp_ctx"
  pr_pli_count :: u32
  pr_rtcp_count :: u32
  pr_decrypt_fail :: u32

definition pub_recv_step ::
    "'c srtp_ops \<Rightarrow> u32 \<Rightarrow> recv_result \<Rightarrow> 'c pub_recv_task \<times> bool \<times> observations
     \<Rightarrow> ('c pub_recv_task option \<times> bool \<times> observations) option" where
  "pub_recv_step S my_video_ssrc received = (\<lambda>(task, force, obs). case received of
       Datagram d \<Rightarrow>
         let buf = take 2048 d in
         if length buf < 12 then Some (Some task, force, obs)
         else
         let task = task\<lparr>pr_rtcp_count := pr_rtcp_count task + 1\<rparr>;
             (plaintext, srtp) = decrypt_rtcp S buf (pr_srtp task);
             task = task\<lparr>pr_srtp := srtp\<rparr>
         in (case plaintext of
               Some p \<Rightarrow> do {
                 let prev = force;
                 (force, obs) \<leftarrow> parse_rtcp_compound p my_video_ssrc force obs;
                 let task = (if \<not> prev \<and> force then task\<lparr>pr_pli_count := pr_pli_count task + 1\<rparr> else task);
                 Some (Some task, force, obs)
               }
             | None \<Rightarrow> Some (Some (task\<lparr>pr_decrypt_fail := pr_decrypt_fail task + 1\<rparr>), force, obs))
     | _ \<Rightarrow> Some (None, force, obs))"

section \<open>The subscriber's reader\<close>

record 'c sub_recv_task =
  sr_srtp :: "'c srtp_ctx"
  sr_ssrc_last :: "u32 \<Rightarrow> (nat \<times> u32) option"

text \<open>L1-07, L1-04, L1-05, L1-06, L1-11 and L1-08: what one decrypted RTP packet adds to the
  observations.\<close>

definition observe_ssrc :: "u8 \<Rightarrow> u32 \<Rightarrow> observations \<Rightarrow> observations" where
  "observe_ssrc rtp_pt ssrc obs =
     (if rtp_pt = 111 then record_ptt_audio_ssrc ssrc obs else record_ptt_video_ssrc ssrc obs)"

definition observe_non_speaker :: "string \<Rightarrow> floor_state \<Rightarrow> observations \<Rightarrow> observations" where
  "observe_non_speaker mode fl obs =
     (if mode = ''ptt'' \<and> floor_idle fl then record_ptt_non_speaker_rtp obs else obs)"

definition observe_silence :: "string \<Rightarrow> floor_state \<Rightarrow> u8 \<Rightarrow> nat \<Rightarrow> observations \<Rightarrow> observations" where
  "observe_silence mode fl rtp_pt len obs =
     (if mode = ''ptt'' \<and> floor_just_released fl then
        if rtp_pt = 111 \<and> 12 \<le> len then
          let payload_len = len - 12
          in if payload_len \<le> 3 then record_ptt_silence_frame obs else obs
        else obs
      else obs)"

definition observe_first_video ::
    "string \<Rightarrow> u8 \<Rightarrow> bytes \<Rightarrow> floor_state \<times> observations \<Rightarrow> (floor_state \<times> observations) option" where
  "observe_first_video mode rtp_pt plaintext = (\<lambda>(fl, obs).
     if mode = ''ptt'' \<and> rtp_pt \<noteq> 111 then
       let changed = speaker_just_changed fl;
           fl = fl\<lparr>speaker_just_changed := False\<rparr>
       in if changed then do {
            is_kf \<leftarrow> detect_vp8_keyframe plaintext;
            Some (fl, record_ptt_first_video_keyframe is_kf obs)
          } else Some (fl, obs)
     else Some (fl, obs))"

definition observe_before_ack :: "u8 \<Rightarrow> floor_state \<Rightarrow> observations \<Rightarrow> observations" where
  "observe_before_ack rtp_pt fl obs =
     (if rtp_pt \<noteq> 111 \<and> \<not> ack_sent fl then record_video_before_ack obs else obs)"

text \<open>Instants are nanoseconds; \<open>as_millis() as u64\<close>.\<close>

definition millis :: "nat \<Rightarrow> u64" where
  "millis ns = of_nat (ns div 1000000)"

definition observe_ts_gap ::
    "string \<Rightarrow> nat \<Rightarrow> u32 \<Rightarrow> u32 \<Rightarrow> u8 \<Rightarrow> (u32 \<Rightarrow> (nat \<times> u32) option) \<Rightarrow> observations \<Rightarrow> observations" where
  "observe_ts_gap mode now ssrc ts rtp_pt ssrc_last obs =
     (if mode = ''ptt'' then
        case ssrc_last ssrc of
          Some (prev_time, prev_ts) \<Rightarrow>
            let wall_gap_ms = millis (now - prev_time) in
            if 1000 < wall_gap_ms then
              let rtp_ts_gap = ts - prev_ts;
                  sample_rate = (if rtp_pt = 111 then 48000 else 90000)
              in record_ts_gap ssrc wall_gap_ms rtp_ts_gap sample_rate obs
            else obs
        | None \<Rightarrow> obs
      else obs)"

text \<open>L1-18 to L1-20.  \<open>ssrc_last.values().next()\<close> takes an entry of the map in its hash order:
  \<open>first_of\<close> names its key.\<close>

definition observe_layer_switch ::
    "(u32 set \<Rightarrow> u32) \<Rightarrow> nat \<Rightarrow> u32 \<Rightarrow> u8 \<Rightarrow> bytes \<Rightarrow> (u32 \<Rightarrow> (nat \<times> u32) option)
     \<Rightarrow> pending_layer_switch option \<times> observations \<Rightarrow> (pending_layer_switch option \<times> observations) option" where
  "observe_layer_switch first_of now ts rtp_pt plaintext ssrc_last = (\<lambda>(pending, obs).
     if rtp_pt \<noteq> 111 then
       case pending of
         None \<Rightarrow> Some (None, obs)
       | Some sw \<Rightarrow>
          if pls_done sw then Some (Some sw, obs)
          else
          let sw = (if pls_ts_before sw = None
                then sw\<lparr>pls_ts_before := (if dom ssrc_last = {} then None
                       else map_option snd (ssrc_last (first_of (dom ssrc_last))))\<rparr>
                else sw)
          in do {
            is_kf \<leftarrow> detect_vp8_keyframe plaintext;
            let elapsed = millis (now - pls_request_time sw);
            let event = \<lparr>requested_layer = pls_requested_layer sw, request_timestamp_ms = elapsed,
                  keyframe_after_ms = (if is_kf then Some elapsed else None),
                  ts_before = pls_ts_before sw, ts_after = Some ts, packets_after = True\<rparr>;
            Some (Some (sw\<lparr>pls_done := True\<rparr>), record_layer_switch event obs)
          }
     else Some (pending, obs))"

definition sub_rtp ::
    "(u32 set \<Rightarrow> u32) \<Rightarrow> string \<Rightarrow> nat \<Rightarrow> bytes \<Rightarrow> (u32 \<Rightarrow> (nat \<times> u32) option) \<Rightarrow> 'g shared
     \<Rightarrow> ((u32 \<Rightarrow> (nat \<times> u32) option) \<times> 'g shared) option" where
  "sub_rtp first_of mode now plaintext ssrc_last sh =
     (if length plaintext < 12 then Some (ssrc_last, sh)
      else do {
        seq \<leftarrow> rd16 plaintext 2;
        ts \<leftarrow> rd32 plaintext 4;
        ssrc \<leftarrow> rd32 plaintext 8;
        b1 \<leftarrow> rd plaintext 1;
        let rtp_pt = b1 AND 0x7F;
        let sh = sh\<lparr>sh_metrics := metrics_store_update now ssrc rtp_pt seq ts (sh_metrics sh)\<rparr>;
        let obs = observe_ssrc rtp_pt ssrc (sh_obs sh);
        let obs = observe_non_speaker mode (sh_floor sh) obs;
        let obs = observe_silence mode (sh_floor sh) rtp_pt (length plaintext) obs;
        (fl, obs) \<leftarrow> observe_first_video mode rtp_pt plaintext (sh_floor sh, obs);
        let obs = observe_before_ack rtp_pt fl obs;
        let obs = observe_ts_gap mode now ssrc ts rtp_pt ssrc_last obs;
        let ssrc_last = ssrc_last(ssrc \<mapsto> (now, ts));
        (pending, obs) \<leftarrow> observe_layer_switch first_of now ts rtp_pt plaintext ssrc_last (sh_pending sh, obs);
        Some (ssrc_last, sh\<lparr>sh_floor := fl, sh_obs := obs, sh_pending := pending\<rparr>)
      })"

definition sub_recv_step ::
    "'c srtp_ops \<Rightarrow> (u32 set \<Rightarrow> u32) \<Rightarrow> string \<Rightarrow> nat \<Rightarrow> recv_result \<Rightarrow> 'c sub_recv_task \<times> 'g shared
     \<Rightarrow> ('c sub_recv_task option \<times> 'g shared) option" where
  "sub_recv_step S first_of mode now received = (\<lambda>(task, sh). case received of
       Datagram d \<Rightarrow>
         let buf = take 2048 d in
         if length buf < 12 then Some (Some task, sh)
         else do {
           b0 \<leftarrow> rd buf 0;
           b1 \<leftarrow> rd buf 1;
           let pt = b1 AND 0x7F;
           if is_rtp b0 \<and> \<not> (72 \<le> pt \<and> pt \<le> 79) then
             let (decrypted, srtp) = decrypt_rtp S buf (sr_srtp task);
                 task = task\<lparr>sr_srtp := srtp\<rparr>
             in case decrypted of
                  None \<Rightarrow> Some (Some task, sh)
                | Some plaintext \<Rightarrow> do {
                    (ssrc_last, sh) \<leftarrow> sub_rtp first_of mode now plaintext (sr_ssrc_last task) sh;
                    Some (Some (task\<lparr>sr_ssrc_last := ssrc_last\<rparr>), sh)
                  }
           else
             let (decrypted, srtp) = decrypt_rtcp S buf (sr_srtp task);
                 task = task\<lparr>sr_srtp := srtp\<rparr>
             in case decrypted of
                  None \<Rightarrow> Some (Some task, sh)
                | Some plaintext \<Rightarrow> do {
                    obs \<leftarrow> parse_rtcp_for_sr plaintext (sh_obs sh);
                    Some (Some task, sh\<lparr>sh_obs := obs\<rparr>)
                  }
         }
     | _ \<Rightarrow> Some (None, sh))"

end
