(* ===== verification/Bot.thy ===== *)
theory Bot
  imports BotTasks Signaling Mbcp
begin

text \<open>
  The bot (\<open>oxlab-bot/src/bot.rs\<close>): its lifecycle from joining to publishing and stopping, floor
  control, event handling, and its step relation, in which commands and task iterations
  interleave.  The environment record holds what lies outside: socket setup, DTLS, the clock of
  the floor wait (\<open>be_floor_rounds\<close>, how often its loop runs before the deadline) and the hash
  order \<open>be_first_of\<close>.
\<close>

section \<open>Data\<close>

datatype bot_status = Created | Connected | Joined | MediaReady | Publishing | Failed | Stopped

fun show_status :: "bot_status \<Rightarrow> string" where
  "show_status Created = ''Created''"
| "show_status Connected = ''Connected''"
| "show_status Joined = ''Joined''"
| "show_status MediaReady = ''MediaReady''"
| "show_status Publishing = ''Publishing''"
| "show_status Failed = ''Failed''"
| "show_status Stopped = ''Stopped''"

record bot_config =
  bc_id :: string
  bc_server :: string
  bc_ws_port :: u16
  bc_room_name :: string
  bc_mode :: string
  bc_profile :: "string option"

definition default_ws_port :: u16 where "default_ws_port = 1974"
definition default_mode :: string where "default_mode = ''conference''"

record 'c media_context =
  mc_pub_srtp :: "'c srtp_ctx"
  mc_sub_srtp :: "'c srtp_ctx"
  mc_server_addr :: string
  mc_pub_client_keys :: srtp_keys
  mc_pub_server_keys :: srtp_keys
  mc_sub_server_keys :: srtp_keys

text \<open>The four tasks of one \<open>start_publishing\<close>; \<open>None\<close> is a task that ended.  The force-keyframe
  flag is theirs in common.\<close>

record 'c tasks =
  tk_audio :: "'c publish_task option"
  tk_video :: "'c publish_task option"
  tk_pub_recv :: "'c pub_recv_task option"
  tk_sub_recv :: "'c sub_recv_task option"
  tk_force_keyframe :: bool

text \<open>\<open>task_handles\<close> and \<open>media_cancel\<close>: the groups of tasks started and not stopped, the newest
  last; the newest is attached while the bot holds its handles and its cancel channel.  A group
  whose handles are overwritten runs on.\<close>

record ('j, 'g, 'c) bot =
  b_config :: bot_config
  b_status :: bot_status
  b_user_id :: "string option"
  b_room_id :: "string option"
  b_session :: "'j session option"
  b_media :: "'c media_context option"
  b_rtp_config :: rtp_config
  b_shared :: "'g shared"
  b_groups :: "'c tasks list"
  b_attached :: bool
  b_subscribe_ssrcs :: "u32 set"
  b_udp_out :: "(u64 \<times> bytes) list"

record ('j, 'g, 'c) bot_env =
  be_sig :: "'j sig_env"
  be_rng :: "'g rng_ops"
  be_srtp :: "'c srtp_ops"
  be_connect :: "string \<Rightarrow> string + ws"
  be_parse_addr :: "string \<Rightarrow> string + string"
  be_pub_bind_error :: "string option"
  be_sub_bind_error :: "string option"
  be_pub_media :: media_env
  be_sub_media :: media_env
  be_floor_rounds :: nat
  be_first_of :: "u32 set \<Rightarrow> u32"


definition bot_new :: "bot_config \<Rightarrow> 'g net_filter option \<Rightarrow> ('j, 'g, 'c) bot" where
  "bot_new cfg net_filter = (
     let id_hash = simple_hash (bc_id cfg);
         rtp = rtp_config_default\<lparr>audio_ssrc := 0xA0000000 OR (id_hash AND 0x00FFFFFF),
                                  video_ssrc := 0xB0000000 OR (id_hash AND 0x00FFFFFF)\<rparr>
     in \<lparr>b_config = cfg, b_status = Created, b_user_id = None, b_room_id = None, b_session = None,
         b_media = None, b_rtp_config = rtp,
         b_shared = \<lparr>sh_metrics = metrics_store_new, sh_obs = observations_default,
            sh_floor = floor_state_new, sh_pending = None, sh_filter = net_filter\<rparr>,
         b_groups = [], b_attached = False, b_subscribe_ssrcs = {}, b_udp_out = []\<rparr>)"

section \<open>Joining\<close>

definition joined :: "'j session \<Rightarrow> ('j, 'g, 'c) bot \<Rightarrow> ('j, 'g, 'c) bot" where
  "joined session b = b\<lparr>b_user_id := Some (s_user_id session), b_room_id := Some (s_room_id session),
     b_session := Some session, b_status := Joined\<rparr>"

definition connect_and_join ::
    "('j, 'g, 'c) bot_env \<Rightarrow> ('j, 'g, 'c) bot \<Rightarrow> (string + unit) \<times> ('j, 'g, 'c) bot" where
  "connect_and_join E b = (case connect (be_sig E) (be_connect E) (bc_server (b_config b)) (bc_ws_port (b_config b))
         (bc_id (b_config b)) (bc_room_name (b_config b)) (bc_mode (b_config b)) of
       Inl e \<Rightarrow> (Inl e, b)
     | Inr session \<Rightarrow> (Inr (), joined session b))"

definition join_existing_room ::
    "('j, 'g, 'c) bot_env \<Rightarrow> string \<Rightarrow> ('j, 'g, 'c) bot \<Rightarrow> (string + unit) \<times> ('j, 'g, 'c) bot" where
  "join_existing_room E room_id b = (case connect_to_room (be_sig E) (be_connect E) (bc_server (b_config b))
         (bc_ws_port (b_config b)) (bc_id (b_config b)) room_id of
       Inl e \<Rightarrow> (Inl e, b)
     | Inr session \<Rightarrow> (Inr (), joined session b))"

section \<open>Media\<close>

definition keys_of :: "bytes \<Rightarrow> bytes \<Rightarrow> srtp_keys" where
  "keys_of k s = \<lparr>sk_key = k, sk_salt = s\<rparr>"

text \<open>Each step of the setup may fail with its message; the bot changes only when all succeed.\<close>

definition setup_media ::
    "('j, 'g, 'c) bot_env \<Rightarrow> ('j, 'g, 'c) bot \<Rightarrow> ((string + unit) \<times> ('j, 'g, 'c) bot) option" where
  "setup_media E b =
     (if b_status b \<noteq> Joined then
        Some (Inl (''setup_media requires Joined, current='' @ show_status (b_status b)), b)
      else case b_session b of None \<Rightarrow> Some (Inl ''no signaling session'', b) | Some session \<Rightarrow>
      case s_server_config session of None \<Rightarrow> Some (Inl ''no server_config'', b) | Some sc \<Rightarrow>
      case be_parse_addr E (server_ip sc @ '':'' @ show_word (server_port sc)) of
        Inl e \<Rightarrow> Some (Inl (''parse server addr: '' @ e), b)
      | Inr server_addr \<Rightarrow>
      case be_pub_bind_error E of Some e \<Rightarrow> Some (Inl (''pub bind: '' @ e), b) | None \<Rightarrow> do {
      pub \<leftarrow> setup_media_pc (be_pub_media E) (pub_ufrag sc) (pub_pwd sc) (''pub:'' @ bc_id (b_config b));
      case pub of Inl e \<Rightarrow> Some (Inl (''pub media setup: '' @ e), b) | Inr pk \<Rightarrow>
      case be_sub_bind_error E of Some e \<Rightarrow> Some (Inl (''sub bind: '' @ e), b) | None \<Rightarrow> do {
      sub \<leftarrow> setup_media_pc (be_sub_media E) (sub_ufrag sc) (sub_pwd sc) (''sub:'' @ bc_id (b_config b));
      case sub of Inl e \<Rightarrow> Some (Inl (''sub media setup: '' @ e), b) | Inr sk \<Rightarrow>
        Some (Inr (), b\<lparr>b_media := Some
            \<lparr>mc_pub_srtp = srtp_install (be_srtp E) (client_key pk) (client_salt pk) srtp_new,
             mc_sub_srtp = srtp_install (be_srtp E) (server_key sk) (server_salt sk) srtp_new,
             mc_server_addr = server_addr,
             mc_pub_client_keys = keys_of (client_key pk) (client_salt pk),
             mc_pub_server_keys = keys_of (server_key pk) (server_salt pk),
             mc_sub_server_keys = keys_of (server_key sk) (server_salt sk)\<rparr>,
           b_status := MediaReady\<rparr>)
      }})"

section \<open>Publishing\<close>

definition RID_EXTMAP_ID :: u8 where "RID_EXTMAP_ID = 4"

text \<open>\<open>video_pt + 1\<close> wraps in a release build.\<close>

definition build_publish_intent_json :: "'j json_ops \<Rightarrow> rtp_config \<Rightarrow> string \<Rightarrow> 'j" where
  "build_publish_intent_json J cfg duplex = (
     let rtx_pt = video_pt cfg + 1;
         num8 = \<lambda>x :: u8. jo_num J (ucast x)
     in jo_object J [
       (''action'', jo_str J ''add''),
       (''mid_extmap_id'', num8 (mid_extmap_id cfg)),
       (''rid_extmap_id'', num8 RID_EXTMAP_ID),
       (''video_pt'', num8 (video_pt cfg)),
       (''rtx_pt'', num8 rtx_pt),
       (''tracks'', jo_array J [
         jo_object J [(''kind'', jo_str J ''audio''), (''mid'', jo_str J (audio_mid cfg)),
           (''ssrc'', jo_num J (audio_ssrc cfg)), (''duplex'', jo_str J duplex)],
         jo_object J [(''kind'', jo_str J ''video''), (''mid'', jo_str J (video_mid cfg)),
           (''ssrc'', jo_num J (video_ssrc cfg)), (''source'', jo_str J ''camera''),
           (''codec'', jo_str J ''VP8''), (''pt'', num8 (video_pt cfg)), (''rtx_pt'', num8 rtx_pt),
           (''duplex'', jo_str J duplex), (''simulcast'', jo_bool J False)]])])"

definition publish_intent ::
    "('j, 'g, 'c) bot_env \<Rightarrow> ('j, 'g, 'c) bot \<Rightarrow> (string + unit) \<times> ('j, 'g, 'c) bot" where
  "publish_intent E b = (
     let duplex = (if bc_mode (b_config b) = ''ptt'' then ''half'' else ''full'');
         payload = build_publish_intent_json (js (be_sig E)) (b_rtp_config b) duplex
     in case b_session b of
          None \<Rightarrow> (Inl ''no signaling session'', b)
        | Some session \<Rightarrow>
           (case request_routed (be_sig E) (we_op (wire (be_sig E)) OP_PUBLISH_TRACKS) payload session of
              (Inl e, session) \<Rightarrow> (Inl e, b\<lparr>b_session := Some session\<rparr>)
            | (Inr resp, session) \<Rightarrow>
               if pk_ok resp \<noteq> Some True
               then (Inl (''PUBLISH_TRACKS failed: '' @ jo_debug (js (be_sig E)) (pk_d resp)), b\<lparr>b_session := Some session\<rparr>)
               else (Inr (), b\<lparr>b_session := Some session\<rparr>)))"

text \<open>The spawned tasks start with their keys and counters; their loops are the task definitions of
  \<open>BotTasks\<close> and \<open>BotMachine\<close>.\<close>

definition start_publishing ::
    "('j, 'g, 'c) bot_env \<Rightarrow> ('j, 'g, 'c) bot \<Rightarrow> (string + unit) \<times> ('j, 'g, 'c) bot" where
  "start_publishing E b =
     (if b_status b \<noteq> MediaReady then
        (Inl (''start_publishing requires MediaReady, current='' @ show_status (b_status b)), b)
      else case b_media b of
        None \<Rightarrow> (Inl ''no media context'', b)
      | Some media \<Rightarrow>
         let group = \<lparr>tk_audio = Some \<lparr>pt_srtp = new_srtp_ctx (be_srtp E) (mc_pub_client_keys media),
                        pt_state = rtp_pub_new (b_rtp_config b)\<rparr>,
                      tk_video = Some \<lparr>pt_srtp = new_srtp_ctx (be_srtp E) (mc_pub_client_keys media),
                        pt_state = rtp_pub_new_with_keyframe_flag (b_rtp_config b) False\<rparr>,
                      tk_pub_recv = Some \<lparr>pr_srtp = new_srtp_ctx (be_srtp E) (mc_pub_server_keys media),
                        pr_pli_count = 0, pr_rtcp_count = 0, pr_decrypt_fail = 0\<rparr>,
                      tk_sub_recv = Some \<lparr>sr_srtp = new_srtp_ctx (be_srtp E) (mc_sub_server_keys media),
                        sr_ssrc_last = (\<lambda>_. None)\<rparr>,
                      tk_force_keyframe = False\<rparr>
         in (Inr (), b\<lparr>b_groups := b_groups b @ [group], b_attached := True, b_status := Publishing\<rparr>))"

section \<open>Network filter and layers\<close>

definition update_net_filter :: "nat \<Rightarrow> filter_config \<Rightarrow> ('j, 'g, 'c) bot \<Rightarrow> ('j, 'g, 'c) bot" where
  "update_net_filter now cfg b =
     b\<lparr>b_shared := (b_shared b)\<lparr>sh_filter := map_option (net_filter_update now cfg) (sh_filter (b_shared b))\<rparr>\<rparr>"

definition layer_targets :: "'j json_ops \<Rightarrow> string \<Rightarrow> u32 list \<Rightarrow> 'j list" where
  "layer_targets J layer ssrcs = map (\<lambda>ssrc. jo_object J [(''ssrc'', jo_num J ssrc), (''layer'', jo_str J layer)]) ssrcs"

definition bot_subscribe_layer ::
    "('j, 'g, 'c) bot_env \<Rightarrow> nat \<Rightarrow> string \<Rightarrow> u32 list \<Rightarrow> ('j, 'g, 'c) bot \<Rightarrow> (string + unit) \<times> ('j, 'g, 'c) bot" where
  "bot_subscribe_layer E now layer ssrcs b = (case b_session b of
       None \<Rightarrow> (Inl ''no session'', b)
     | Some session \<Rightarrow>
        let targets = layer_targets (js (be_sig E)) layer ssrcs;
            b = b\<lparr>b_shared := (b_shared b)\<lparr>sh_pending := Some \<lparr>pls_requested_layer = layer,
                  pls_request_time = now, pls_ts_before = None, pls_done = False\<rparr>\<rparr>\<rparr>
        in case subscribe_layer (be_sig E) targets session of
             (Inl e, session) \<Rightarrow> (Inl e, b\<lparr>b_session := Some session\<rparr>)
           | (Inr resp, session) \<Rightarrow> (Inr (), b\<lparr>b_session := Some session\<rparr>))"

section \<open>Floor control\<close>

abbreviation set_floor :: "(floor_state \<Rightarrow> floor_state) \<Rightarrow> ('j, 'g, 'c) bot \<Rightarrow> ('j, 'g, 'c) bot" where
  "set_floor f b \<equiv> b\<lparr>b_shared := (b_shared b)\<lparr>sh_floor := f (sh_floor (b_shared b))\<rparr>\<rparr>"

abbreviation observe :: "(observations \<Rightarrow> observations) \<Rightarrow> ('j, 'g, 'c) bot \<Rightarrow> ('j, 'g, 'c) bot" where
  "observe f b \<equiv> b\<lparr>b_shared := (b_shared b)\<lparr>sh_obs := f (sh_obs (b_shared b))\<rparr>\<rparr>"

text \<open>Whether a drained buffer holds a floor-taken message; the scan stops there and the rest of
  the buffer is dropped.\<close>

fun scan_ftkn :: "bytes list \<Rightarrow> bool option" where
  "scan_ftkn [] = Some False"
| "scan_ftkn (raw # rest) = do {
     msg \<leftarrow> mbcp_parse raw;
     case msg of
       Some m \<Rightarrow> if mm_subtype m = SUBTYPE_FTKN then Some True else scan_ftkn rest
     | None \<Rightarrow> scan_ftkn rest
   }"

text \<open>The loop of \<open>await_floor_taken\<close> with the number of rounds the deadline allows.\<close>

fun await_floor_taken ::
    "('j, 'g, 'c) bot_env \<Rightarrow> nat \<Rightarrow> ('j, 'g, 'c) bot \<Rightarrow> (bool \<times> ('j, 'g, 'c) bot) option" where
  "await_floor_taken E 0 b = Some (False, b)"
| "await_floor_taken E (Suc rounds) b = (case b_session b of
       None \<Rightarrow> Some (False, b)
     | Some session \<Rightarrow>
        let session = poll_events (be_sig E) session;
            (raws, session) = drain_floor_mbcp session;
            b = b\<lparr>b_session := Some session\<rparr>
        in do {
          taken \<leftarrow> scan_ftkn raws;
          if taken then Some (True, set_floor (\<lambda>f. f\<lparr>floor_idle := False\<rparr>) b)
          else await_floor_taken E rounds b
        })"

definition floor_request_ws ::
    "('j, 'g, 'c) bot_env \<Rightarrow> u64 \<Rightarrow> u8 \<Rightarrow> ('j, 'g, 'c) bot \<Rightarrow> ((string + bool) \<times> ('j, 'g, 'c) bot) option" where
  "floor_request_ws E unix_ms priority b = do {
     pkt \<leftarrow> build_freq (audio_ssrc (b_rtp_config b));
     case b_session b of
       None \<Rightarrow> Some (Inl ''no session'', b)
     | Some session \<Rightarrow>
        (case send_floor_mbcp (be_sig E) pkt session of
           (Inl e, session) \<Rightarrow> Some (Inl e, b\<lparr>b_session := Some session\<rparr>)
         | (Inr u, session) \<Rightarrow> do {
             (granted, b) \<leftarrow> await_floor_taken E (be_floor_rounds E) (b\<lparr>b_session := Some session\<rparr>);
             Some (Inr granted,
               observe (record_floor_grant unix_ms (bc_id (b_config b)) priority granted False) b)
           })
   }"

definition floor_release_ws ::
    "('j, 'g, 'c) bot_env \<Rightarrow> ('j, 'g, 'c) bot \<Rightarrow> ((string + unit) \<times> ('j, 'g, 'c) bot) option" where
  "floor_release_ws E b = do {
     pkt \<leftarrow> build_frel (audio_ssrc (b_rtp_config b));
     case b_session b of
       None \<Rightarrow> Some (Inl ''no session'', b)
     | Some session \<Rightarrow>
        (case send_floor_mbcp (be_sig E) pkt session of
           (r, session) \<Rightarrow> Some (r, b\<lparr>b_session := Some session\<rparr>))
   }"

definition send_mbcp ::
    "('j, 'g, 'c) bot_env \<Rightarrow> string option \<Rightarrow> bytes \<Rightarrow> ('j, 'g, 'c) bot \<Rightarrow> (string + unit) \<times> ('j, 'g, 'c) bot" where
  "send_mbcp E send_error pkt b = (case b_media b of
       None \<Rightarrow> (Inl ''no media context'', b)
     | Some media \<Rightarrow>
        let (encrypted, srtp) = encrypt_rtcp (be_srtp E) pkt (mc_pub_srtp media);
            b = b\<lparr>b_media := Some (media\<lparr>mc_pub_srtp := srtp\<rparr>)\<rparr>
        in case encrypted of
             None \<Rightarrow> (Inl ''SRTCP encrypt failed'', b)
           | Some e \<Rightarrow> (case send_error of
                 Some err \<Rightarrow> (Inl err, b)
               | None \<Rightarrow> (Inr (), b\<lparr>b_udp_out := b_udp_out b @ [(0, e)]\<rparr>)))"

definition send_mbcp_freq ::
    "('j, 'g, 'c) bot_env \<Rightarrow> string option \<Rightarrow> ('j, 'g, 'c) bot \<Rightarrow> ((string + unit) \<times> ('j, 'g, 'c) bot) option" where
  "send_mbcp_freq E send_error b = do {
     pkt \<leftarrow> build_freq (audio_ssrc (b_rtp_config b)); Some (send_mbcp E send_error pkt b) }"

definition send_mbcp_frel ::
    "('j, 'g, 'c) bot_env \<Rightarrow> string option \<Rightarrow> ('j, 'g, 'c) bot \<Rightarrow> ((string + unit) \<times> ('j, 'g, 'c) bot) option" where
  "send_mbcp_frel E send_error b = do {
     pkt \<leftarrow> build_frel (audio_ssrc (b_rtp_config b)); Some (send_mbcp E send_error pkt b) }"

section \<open>Events\<close>

text \<open>The tracks an update names: its action and the SSRCs of its tracks that have one.\<close>

definition get_str :: "'j json_ops \<Rightarrow> 'j \<Rightarrow> string \<Rightarrow> string option" where
  "get_str J d key = Option.bind (jo_get J d key) (jo_as_str J)"

definition update_track ::
    "'j json_ops \<Rightarrow> string \<Rightarrow> 'j \<Rightarrow> u32 set \<times> bool \<Rightarrow> u32 set \<times> bool" where
  "update_track J action track = (\<lambda>(ssrcs, changed).
     case Option.bind (jo_get J track ''ssrc'') (jo_as_u64 J) of
       None \<Rightarrow> (ssrcs, changed)
     | Some n \<Rightarrow>
        let ssrc = ucast n in
        if action = ''add'' then
          if ssrc \<notin> ssrcs then (insert ssrc ssrcs, True) else (ssrcs, changed)
        else if action = ''remove'' then
          if ssrc \<in> ssrcs then (ssrcs - {ssrc}, True) else (ssrcs, changed)
        else (ssrcs, changed))"

definition update_tracks :: "'j json_ops \<Rightarrow> 'j packet \<Rightarrow> u32 set \<times> bool \<Rightarrow> u32 set \<times> bool" where
  "update_tracks J evt s = (
     let action = str_or [] (get_str J (pk_d evt) ''action'')
     in case Option.bind (jo_get J (pk_d evt) ''tracks'') (jo_as_array J) of
          None \<Rightarrow> s
        | Some tracks \<Rightarrow> fold (update_track J action) tracks s)"

definition handle_floor_message :: "mbcp_message \<Rightarrow> floor_state \<times> observations \<Rightarrow> floor_state \<times> observations" where
  "handle_floor_message msg = (\<lambda>(fl, obs).
     if mm_subtype msg = SUBTYPE_FTKN then
       (fl\<lparr>floor_idle := False, speaker_just_changed := True, floor_just_released := False\<rparr>, obs)
     else if mm_subtype msg = SUBTYPE_FIDL then
       (fl\<lparr>floor_idle := True, floor_just_released := True\<rparr>, obs)
     else if mm_subtype msg = SUBTYPE_FRVK then (fl, record_floor_revoke obs)
     else (fl, obs))"

fun handle_floor_raws :: "bytes list \<Rightarrow> floor_state \<times> observations \<Rightarrow> (floor_state \<times> observations) option" where
  "handle_floor_raws [] s = Some s"
| "handle_floor_raws (raw # rest) s = do {
     msg \<leftarrow> mbcp_parse raw;
     handle_floor_raws rest (case msg of Some m \<Rightarrow> handle_floor_message m s | None \<Rightarrow> s)
   }"

definition handle_room_event :: "'j json_ops \<Rightarrow> 'j packet \<Rightarrow> observations \<Rightarrow> observations" where
  "handle_room_event J evt obs = (
     let action = str_or [] (get_str J (pk_d evt) ''action'')
     in if action = ''leave'' then
          (case get_str J (pk_d evt) ''user_id'' of Some uid \<Rightarrow> record_zombie_cleanup uid obs | None \<Rightarrow> obs)
        else obs)"

text \<open>The floor and room part of \<open>process_events\<close>.\<close>

definition process_floor_and_room ::
    "('j, 'g, 'c) bot_env \<Rightarrow> ('j, 'g, 'c) bot \<Rightarrow> ((string + unit) \<times> ('j, 'g, 'c) bot) option" where
  "process_floor_and_room E b = (case b_session b of
       None \<Rightarrow> Some (Inr (), b)
     | Some session \<Rightarrow>
        let (raws, session) = drain_floor_mbcp session in do {
          (fl, obs) \<leftarrow> handle_floor_raws raws (sh_floor (b_shared b), sh_obs (b_shared b));
          let (evts, session) = drain_all_events (we_op (wire (be_sig E)) OP_ROOM_EVENT) session;
          let obs = fold (handle_room_event (js (be_sig E))) evts obs;
          Some (Inr (), b\<lparr>b_session := Some session,
            b_shared := (b_shared b)\<lparr>sh_floor := fl, sh_obs := obs\<rparr>\<rparr>)
        })"

definition process_events ::
    "('j, 'g, 'c) bot_env \<Rightarrow> ('j, 'g, 'c) bot \<Rightarrow> ((string + unit) \<times> ('j, 'g, 'c) bot) option" where
  "process_events E b = (case b_session b of
       None \<Rightarrow> Some (Inr (), b)
     | Some session \<Rightarrow>
        let session = poll_events (be_sig E) session;
            (events, session) = drain_all_events (we_op (wire (be_sig E)) OP_TRACKS_UPDATE) session;
            (ssrcs, changed) = fold (update_tracks (js (be_sig E))) events (b_subscribe_ssrcs b, False);
            b = b\<lparr>b_session := Some session, b_subscribe_ssrcs := ssrcs\<rparr>
        in if changed then
             (case tracks_ready (be_sig E) session of
                (Inl e, session) \<Rightarrow> Some (Inl e, b\<lparr>b_session := Some session\<rparr>)
              | (Inr resp, session) \<Rightarrow>
                 process_floor_and_room E (set_floor (\<lambda>f. f\<lparr>ack_sent := True\<rparr>)
                   (observe mark_tracks_ack_sent (b\<lparr>b_session := Some session\<rparr>))))
           else process_floor_and_room E b)"

section \<open>Metrics and shutdown\<close>

definition bot_recv_snapshot :: "u32 list \<Rightarrow> ('j, 'g, 'c) bot \<Rightarrow> recv_snapshot" where
  "bot_recv_snapshot order b = metrics_store_snapshot order (sh_metrics (b_shared b))"

definition log_recv_metrics :: "u32 list \<Rightarrow> ('j, 'g, 'c) bot \<Rightarrow> string" where
  "log_recv_metrics order b = format_recv_summary (bc_id (b_config b)) (bot_recv_snapshot order b)"

definition stop_publishing :: "('j, 'g, 'c) bot \<Rightarrow> ('j, 'g, 'c) bot" where
  "stop_publishing b = (
     let b = (if b_attached b then b\<lparr>b_groups := butlast (b_groups b), b_attached := False\<rparr> else b)
     in if b_status b = Publishing then b\<lparr>b_status := MediaReady\<rparr> else b)"

definition bot_heartbeat ::
    "('j, 'g, 'c) bot_env \<Rightarrow> ('j, 'g, 'c) bot \<Rightarrow> (string + unit) \<times> ('j, 'g, 'c) bot" where
  "bot_heartbeat E b = (case b_session b of
       None \<Rightarrow> (Inr (), b)
     | Some session \<Rightarrow>
        (case heartbeat (be_sig E) session of (r, session) \<Rightarrow> (r, b\<lparr>b_session := Some session\<rparr>)))"

definition disconnect :: "('j, 'g, 'c) bot \<Rightarrow> ('j, 'g, 'c) bot" where
  "disconnect b = (
     let b = stop_publishing b;
         b = b\<lparr>b_session := map_option close (b_session b)\<rparr>
     in b\<lparr>b_status := Stopped\<rparr>)"

end
