(* ===== verification/BotMachine.thy ===== *)
theory BotMachine
  imports Bot
begin

text \<open>
  The bot as a machine: its commands and the iterations of its tasks in any order, with whatever
  datagrams, clock readings, send results and server answers the environment gives.  The lemmas
  give the invariant of every reachable state.
\<close>

section \<open>Iterations of the tasks of a bot\<close>

abbreviation group :: "nat \<Rightarrow> ('j, 'g, 'c) bot \<Rightarrow> 'c tasks" where
  "group i b \<equiv> b_groups b ! i"

definition audio_tick ::
    "('j, 'g, 'c) bot_env \<Rightarrow> nat \<Rightarrow> string option \<Rightarrow> nat \<Rightarrow> ('j, 'g, 'c) bot \<Rightarrow> ('j, 'g, 'c) bot option" where
  "audio_tick E now send_error i b = (case tk_audio (group i b) of
       None \<Rightarrow> Some b
     | Some t \<Rightarrow> do {
         (t', net, out) \<leftarrow> publish_tick (be_srtp E) (be_rng E) build_opus_packet now send_error
            (t, sh_filter (b_shared b));
         Some (b\<lparr>b_groups := (b_groups b)[i := (group i b)\<lparr>tk_audio := t'\<rparr>],
           b_shared := (b_shared b)\<lparr>sh_filter := net\<rparr>,
           b_udp_out := b_udp_out b @ (case out of None \<Rightarrow> [] | Some p \<Rightarrow> [p])\<rparr>)
       })"

definition video_tick ::
    "('j, 'g, 'c) bot_env \<Rightarrow> nat \<Rightarrow> string option \<Rightarrow> nat \<Rightarrow> ('j, 'g, 'c) bot \<Rightarrow> ('j, 'g, 'c) bot option" where
  "video_tick E now send_error i b = (case tk_video (group i b) of
       None \<Rightarrow> Some b
     | Some t \<Rightarrow> do {
         let t = t\<lparr>pt_state := (pt_state t)\<lparr>force_keyframe := tk_force_keyframe (group i b)\<rparr>\<rparr>;
         (t', net, out) \<leftarrow> publish_tick (be_srtp E) (be_rng E) build_vp8_packet now send_error
            (t, sh_filter (b_shared b));
         Some (b\<lparr>b_groups := (b_groups b)[i := (group i b)\<lparr>tk_video := t', tk_force_keyframe := False\<rparr>],
           b_shared := (b_shared b)\<lparr>sh_filter := net\<rparr>,
           b_udp_out := b_udp_out b @ (case out of None \<Rightarrow> [] | Some p \<Rightarrow> [p])\<rparr>)
       })"

definition pub_recv ::
    "('j, 'g, 'c) bot_env \<Rightarrow> recv_result \<Rightarrow> nat \<Rightarrow> ('j, 'g, 'c) bot \<Rightarrow> ('j, 'g, 'c) bot option" where
  "pub_recv E received i b = (case tk_pub_recv (group i b) of
       None \<Rightarrow> Some b
     | Some t \<Rightarrow> do {
         (t', force, obs) \<leftarrow> pub_recv_step (be_srtp E) (video_ssrc (b_rtp_config b)) received
            (t, tk_force_keyframe (group i b), sh_obs (b_shared b));
         Some (b\<lparr>b_groups := (b_groups b)[i := (group i b)\<lparr>tk_pub_recv := t', tk_force_keyframe := force\<rparr>],
           b_shared := (b_shared b)\<lparr>sh_obs := obs\<rparr>\<rparr>)
       })"

definition sub_recv ::
    "('j, 'g, 'c) bot_env \<Rightarrow> nat \<Rightarrow> recv_result \<Rightarrow> nat \<Rightarrow> ('j, 'g, 'c) bot \<Rightarrow> ('j, 'g, 'c) bot option" where
  "sub_recv E now received i b = (case tk_sub_recv (group i b) of
       None \<Rightarrow> Some b
     | Some t \<Rightarrow> do {
         (t', sh) \<leftarrow> sub_recv_step (be_srtp E) (be_first_of E) (bc_mode (b_config b)) now received (t, b_shared b);
         Some (b\<lparr>b_groups := (b_groups b)[i := (group i b)\<lparr>tk_sub_recv := t'\<rparr>], b_shared := sh\<rparr>)
       })"

section \<open>Steps\<close>

text \<open>One command or one iteration of a running task, under an environment \<open>E\<close> that may differ
  from step to step.\<close>

inductive bot_step :: "('j, 'g, 'c) bot \<Rightarrow> ('j, 'g, 'c) bot \<Rightarrow> bool" where
  Join: "connect_and_join E b = (r, b') \<Longrightarrow> bot_step b b'"
| JoinExisting: "join_existing_room E room_id b = (r, b') \<Longrightarrow> bot_step b b'"
| SetupMedia: "setup_media E b = Some (r, b') \<Longrightarrow> bot_step b b'"
| PublishIntent: "publish_intent E b = (r, b') \<Longrightarrow> bot_step b b'"
| StartPublishing: "start_publishing E b = (r, b') \<Longrightarrow> bot_step b b'"
| UpdateFilter: "update_net_filter now cfg b = b' \<Longrightarrow> bot_step b b'"
| SubscribeLayer: "bot_subscribe_layer E now layer ssrcs b = (r, b') \<Longrightarrow> bot_step b b'"
| FloorRequest: "floor_request_ws E unix_ms priority b = Some (g, b') \<Longrightarrow> bot_step b b'"
| FloorRelease: "floor_release_ws E b = Some (r, b') \<Longrightarrow> bot_step b b'"
| SendMbcp: "send_mbcp E send_error pkt b = (r, b') \<Longrightarrow> bot_step b b'"
| ProcessEvents: "process_events E b = Some (r, b') \<Longrightarrow> bot_step b b'"
| StopPublishing: "stop_publishing b = b' \<Longrightarrow> bot_step b b'"
| Heartbeat: "bot_heartbeat E b = (r, b') \<Longrightarrow> bot_step b b'"
| Disconnect: "disconnect b = b' \<Longrightarrow> bot_step b b'"
| AudioTick: "i < length (b_groups b) \<Longrightarrow> audio_tick E now send_error i b = Some b' \<Longrightarrow> bot_step b b'"
| VideoTick: "i < length (b_groups b) \<Longrightarrow> video_tick E now send_error i b = Some b' \<Longrightarrow> bot_step b b'"
| PubRecv: "i < length (b_groups b) \<Longrightarrow> pub_recv E received i b = Some b' \<Longrightarrow> bot_step b b'"
| SubRecv: "i < length (b_groups b) \<Longrightarrow> sub_recv E now received i b = Some b' \<Longrightarrow> bot_step b b'"

inductive bot_reachable :: "bot_config \<Rightarrow> ('j, 'g, 'c) bot \<Rightarrow> bool" for cfg :: bot_config where
  start: "bot_reachable cfg (bot_new cfg net)"
| step: "bot_reachable cfg b \<Longrightarrow> bot_step b b' \<Longrightarrow> bot_reachable cfg b'"

section \<open>The invariant\<close>

definition lifecycle_ok :: "('j, 'g, 'c) bot \<Rightarrow> bool" where
  "lifecycle_ok b \<longleftrightarrow> b_status b \<noteq> Connected \<and> b_status b \<noteq> Failed
     \<and> (b_status b = Created \<longrightarrow> b_session b = None \<and> b_media b = None \<and> b_groups b = [])
     \<and> (b_status b \<in> {Joined, MediaReady, Publishing} \<longrightarrow>
          b_user_id b \<noteq> None \<and> b_room_id b \<noteq> None \<and> (\<exists>s. b_session b = Some s \<and> s_server_config s \<noteq> None))
     \<and> (b_status b \<in> {MediaReady, Publishing} \<longrightarrow> b_media b \<noteq> None)
     \<and> (b_status b = Publishing \<longrightarrow> b_attached b)
     \<and> (b_attached b \<longrightarrow> b_groups b \<noteq> [])"

text \<open>What the readers leave behind: every stream counted is known as an audio or a video stream,
  and acknowledging is recorded in both places at once.\<close>

definition shared_ok :: "'g shared \<Rightarrow> bool" where
  "shared_ok sh \<longleftrightarrow> dom (sh_metrics sh) = ptt_audio_ssrcs (sh_obs sh) \<union> ptt_video_ssrcs (sh_obs sh)
     \<and> (ack_sent (sh_floor sh) \<longleftrightarrow> tracks_ack_sent (sh_obs sh))"

definition config_ok :: "bot_config \<Rightarrow> ('j, 'g, 'c) bot \<Rightarrow> bool" where
  "config_ok cfg b \<longleftrightarrow> b_config b = cfg
     \<and> b_rtp_config b = b_rtp_config (bot_new cfg None :: ('j, 'g, 'c) bot)
     \<and> (\<forall>g \<in> set (b_groups b). (\<forall>t. tk_audio g = Some t \<longrightarrow> config (pt_state t) = b_rtp_config b)
          \<and> (\<forall>t. tk_video g = Some t \<longrightarrow> config (pt_state t) = b_rtp_config b))"

definition bot_inv :: "bot_config \<Rightarrow> ('j, 'g, 'c) bot \<Rightarrow> bool" where
  "bot_inv cfg b \<longleftrightarrow> lifecycle_ok b \<and> shared_ok (b_shared b) \<and> config_ok cfg b"

section \<open>No task and no handler panics\<close>

lemma scan_ftkn_read:
  "scan_ftkn raws = Some (\<exists>raw \<in> set raws. \<exists>m. mbcp_read raw = Some m \<and> mm_subtype m = SUBTYPE_FTKN)"
  by (induction raws) (auto simp: panic_free split: option.splits)

lemma handle_floor_raws_read:
  "handle_floor_raws raws s = Some (fold handle_floor_message (List.map_filter mbcp_read raws) s)"
  by (induction raws arbitrary: s) (auto simp: panic_free List.map_filter_def split: option.splits)

lemma observe_first_video_effect:
  "\<exists>fl' obs'. observe_first_video mode pt p (fl, obs) = Some (fl', obs') \<and> ack_sent fl' = ack_sent fl
     \<and> ptt_audio_ssrcs obs' = ptt_audio_ssrcs obs \<and> ptt_video_ssrcs obs' = ptt_video_ssrcs obs
     \<and> tracks_ack_sent obs' = tracks_ack_sent obs"
proof -
  obtain k where "detect_vp8_keyframe p = Some k" using detect_vp8_keyframe_returns [of p] by blast
  then show ?thesis by (simp add: observe_first_video_def Let_def record_ptt_first_video_keyframe_def)
qed

lemma observe_layer_switch_effect:
  "\<exists>pls' obs'. observe_layer_switch fo now ts pt p prev (pls, obs) = Some (pls', obs')
     \<and> ptt_audio_ssrcs obs' = ptt_audio_ssrcs obs \<and> ptt_video_ssrcs obs' = ptt_video_ssrcs obs
     \<and> tracks_ack_sent obs' = tracks_ack_sent obs"
proof -
  obtain k where "detect_vp8_keyframe p = Some k" using detect_vp8_keyframe_returns [of p] by blast
  then show ?thesis
    by (simp add: observe_layer_switch_def Let_def record_layer_switch_def split: option.split)
qed

lemma observe_fields:
  "ptt_audio_ssrcs (observe_ssrc pt ssrc obs) = (if pt = 111 then insert ssrc (ptt_audio_ssrcs obs) else ptt_audio_ssrcs obs)"
  "ptt_video_ssrcs (observe_ssrc pt ssrc obs) = (if pt = 111 then ptt_video_ssrcs obs else insert ssrc (ptt_video_ssrcs obs))"
  "tracks_ack_sent (observe_ssrc pt ssrc obs) = tracks_ack_sent obs"
  "ptt_audio_ssrcs (observe_non_speaker mode fl obs) = ptt_audio_ssrcs obs"
  "ptt_video_ssrcs (observe_non_speaker mode fl obs) = ptt_video_ssrcs obs"
  "tracks_ack_sent (observe_non_speaker mode fl obs) = tracks_ack_sent obs"
  "ptt_audio_ssrcs (observe_silence mode fl pt n obs) = ptt_audio_ssrcs obs"
  "ptt_video_ssrcs (observe_silence mode fl pt n obs) = ptt_video_ssrcs obs"
  "tracks_ack_sent (observe_silence mode fl pt n obs) = tracks_ack_sent obs"
  "ptt_audio_ssrcs (observe_before_ack pt fl obs) = ptt_audio_ssrcs obs"
  "ptt_video_ssrcs (observe_before_ack pt fl obs) = ptt_video_ssrcs obs"
  "tracks_ack_sent (observe_before_ack pt fl obs) = tracks_ack_sent obs"
  "ptt_audio_ssrcs (observe_ts_gap mode now ssrc ts pt prev obs) = ptt_audio_ssrcs obs"
  "ptt_video_ssrcs (observe_ts_gap mode now ssrc ts pt prev obs) = ptt_video_ssrcs obs"
  "tracks_ack_sent (observe_ts_gap mode now ssrc ts pt prev obs) = tracks_ack_sent obs"
  by (simp_all add: observe_ssrc_def observe_non_speaker_def observe_silence_def observe_before_ack_def
    observe_ts_gap_def record_defs Let_def split: option.split)

lemma sub_rtp_keeps:
  assumes "shared_ok sh"
  shows "\<exists>prev' sh'. sub_rtp fo mode now p prev sh = Some (prev', sh') \<and> shared_ok sh' \<and> sh_filter sh' = sh_filter sh"
proof (cases "length p < 12")
  case True
  then show ?thesis using assms by (simp add: sub_rtp_def)
next
  case False
  obtain seq ts ssrc b1 where rd: "rd16 p 2 = Some seq" "rd32 p 4 = Some ts" "rd32 p 8 = Some ssrc" "rd p 1 = Some b1"
    using False by simp
  let ?pt = "b1 AND 0x7F"
  let ?obs = "observe_silence mode (sh_floor sh) ?pt (length p)
    (observe_non_speaker mode (sh_floor sh) (observe_ssrc ?pt ssrc (sh_obs sh)))"
  obtain fl obs1 where 1: "observe_first_video mode ?pt p (sh_floor sh, ?obs) = Some (fl, obs1)"
      "ack_sent fl = ack_sent (sh_floor sh)" "ptt_audio_ssrcs obs1 = ptt_audio_ssrcs ?obs"
      "ptt_video_ssrcs obs1 = ptt_video_ssrcs ?obs" "tracks_ack_sent obs1 = tracks_ack_sent ?obs"
    using observe_first_video_effect by blast
  let ?obs2 = "observe_ts_gap mode now ssrc ts ?pt prev (observe_before_ack ?pt fl obs1)"
  obtain pls obs3 where 2: "observe_layer_switch fo now ts ?pt p (prev(ssrc \<mapsto> (now, ts))) (sh_pending sh, ?obs2)
      = Some (pls, obs3)" "ptt_audio_ssrcs obs3 = ptt_audio_ssrcs ?obs2"
      "ptt_video_ssrcs obs3 = ptt_video_ssrcs ?obs2" "tracks_ack_sent obs3 = tracks_ack_sent ?obs2"
    using observe_layer_switch_effect by blast
  have "sub_rtp fo mode now p prev sh = Some (prev(ssrc \<mapsto> (now, ts)),
      sh\<lparr>sh_metrics := metrics_store_update now ssrc ?pt seq ts (sh_metrics sh), sh_floor := fl,
        sh_obs := obs3, sh_pending := pls\<rparr>)"
    using False by (simp add: sub_rtp_def rd Let_def 1(1) 2(1) del: rd_Some rd16_Some rd32_Some One_nat_def)
  then show ?thesis
    using assms by (auto simp: shared_ok_def metrics_store_update_def Let_def 1 2 observe_fields)
qed

lemma sub_recv_step_keeps:
  assumes "shared_ok sh"
  shows "\<exists>t' sh'. sub_recv_step S fo mode now r (t, sh) = Some (t', sh') \<and> shared_ok sh' \<and> sh_filter sh' = sh_filter sh"
proof (cases r)
  case (Datagram d)
  define buf where "buf = take 2048 d"
  show ?thesis
  proof (cases "length buf < 12")
    case True
    then show ?thesis using assms by (simp add: sub_recv_step_def Datagram buf_def [symmetric])
  next
    case False
    then have rd: "rd buf 0 = Some (buf ! 0)" "rd buf 1 = Some (buf ! 1)" by (auto simp: rd_def)
    let ?rtp = "is_rtp (buf ! 0) \<and> \<not> (72 \<le> buf ! 1 AND 0x7F \<and> buf ! 1 AND 0x7F \<le> 79)"
    obtain x srtp where x: "decrypt_rtp S buf (sr_srtp t) = (x, srtp)" by force
    obtain y srtp' where y: "decrypt_rtcp S buf (sr_srtp t) = (y, srtp')" by force
    show ?thesis
    proof (cases ?rtp)
      case True
      show ?thesis
      proof (cases x)
        case None
        then show ?thesis using False True assms
          by (simp add: sub_recv_step_def Datagram buf_def [symmetric] rd x Let_def)
      next
        case (Some p)
        obtain prev' sh' where "sub_rtp fo mode now p (sr_ssrc_last t) sh = Some (prev', sh')" "shared_ok sh'"
            "sh_filter sh' = sh_filter sh"
          using sub_rtp_keeps [OF assms] by blast
        then show ?thesis using False True
          by (simp add: sub_recv_step_def Datagram buf_def [symmetric] rd x Some Let_def)
      qed
    next
      case rtcp: False
      have "\<exists>t' sh'. sub_recv_step S fo mode now r (t, sh) = Some (t', sh') \<and>
          (sh' = sh \<or> (\<exists>srs. sh' = sh\<lparr>sh_obs := (sh_obs sh)\<lparr>sr_received := srs\<rparr>\<rparr>))"
        using False rtcp
        by (cases y) (auto simp: sub_recv_step_def Datagram buf_def [symmetric] rd y Let_def
            parse_rtcp_for_sr_def sub_rtcp.loop_frames subscriber_fold)
      then show ?thesis using assms by (auto simp: shared_ok_def)
    qed
  qed
qed (use assms in \<open>simp_all add: sub_recv_step_def\<close>)

lemma pub_recv_step_keeps:
  assumes "shared_ok sh"
  shows "\<exists>t' force' obs'. pub_recv_step S ssrc r (t, force, sh_obs sh) = Some (t', force', obs') \<and> shared_ok (sh\<lparr>sh_obs := obs'\<rparr>)"
  using assms
  by (cases r) (auto simp: pub_recv_step_def Let_def shared_ok_def parse_rtcp_compound_def pub_rtcp.loop_frames
    publisher_fold split: prod.splits option.splits)

lemma publish_tick_keeps:
  assumes "\<And>st. \<exists>p st'. build st = Some (p, st') \<and> config st' = config st"
  shows "\<exists>t' net' out. publish_tick S R build now e (t, net) = Some (t', net', out)
    \<and> (\<forall>u. t' = Some u \<longrightarrow> config (pt_state u) = config (pt_state t))"
proof -
  obtain p st' where b: "build (pt_state t) = Some (p, st')" "config st' = config (pt_state t)"
    using assms by blast
  obtain x srtp where x: "encrypt_rtp S p (pt_srtp t) = (x, srtp)" by force
  show ?thesis
    by (auto simp: publish_tick_def b x Let_def split: option.splits prod.splits filter_result.splits)
qed

section \<open>Every step keeps the invariant\<close>

lemma request_loop_keeps: "s_server_config (snd (request_loop E op s)) = s_server_config s"
  using request_reader.loop_result [of E op s] by (simp add: buffered_def same_identity_def)

lemma send_msg_keeps: "s_server_config (snd (send_msg E op pid d s)) = s_server_config s"
  by (simp add: send_msg_def split: sum.split prod.split)

lemma request_keeps: "request E op d s = (r, s') \<Longrightarrow> s_server_config s' = s_server_config s"
proof -
  obtain x s1 where x: "send_msg E op (s_pid s) d (s\<lparr>s_pid := s_pid s + 1\<rparr>) = (x, s1)" by force
  then have "s_server_config s1 = s_server_config s"
    using send_msg_keeps [of E op "s_pid s" d "s\<lparr>s_pid := s_pid s + 1\<rparr>"] by simp
  moreover assume "request E op d s = (r, s')"
  ultimately show ?thesis using request_loop_keeps [of E op s1]
    by (cases x) (simp_all add: request_def next_pid_def x)
qed

lemma session_keeps:
  "request_routed E op d s = (r, s') \<Longrightarrow> s_server_config s' = s_server_config s"
  "tracks_ready E s = (r, s') \<Longrightarrow> s_server_config s' = s_server_config s"
  "subscribe_layer E ts s = (r, s') \<Longrightarrow> s_server_config s' = s_server_config s"
  "heartbeat E s = (u, s') \<Longrightarrow> s_server_config s' = s_server_config s"
  "send_floor_mbcp E m s = (u, s') \<Longrightarrow> s_server_config s' = s_server_config s"
  "drain_all_events op s = (evts, s') \<Longrightarrow> s_server_config s' = s_server_config s"
  "drain_floor_mbcp s = (raws, s') \<Longrightarrow> s_server_config s' = s_server_config s"
  by (auto simp: request_routed_def tracks_ready_def subscribe_layer_def heartbeat_def send_floor_mbcp_def
    next_pid_def drain_all_events_def drain_floor_mbcp_def Let_def dest: request_keeps split: prod.splits sum.splits)

lemma poll_events_keeps [simp]: "s_server_config (poll_events E s) = s_server_config s"
  using poll_events_effect [of E s] by (simp add: buffered_def same_identity_def)

lemma do_join_config: "do_join E room_id s = Inr s' \<Longrightarrow> s_server_config s' \<noteq> None"
  by (auto simp: do_join_def Let_def split: prod.splits sum.splits if_splits)

lemma connect_config:
  "connect E c server port user room mode = Inr s \<Longrightarrow> s_server_config s \<noteq> None"
  "connect_to_room E c server port user room = Inr s \<Longrightarrow> s_server_config s \<noteq> None"
  by (auto simp: connect_def connect_to_room_def Let_def dest: do_join_config
    split: prod.splits sum.splits if_splits option.splits)

lemmas inv_defs = bot_inv_def lifecycle_ok_def config_ok_def

lemma inv_new: "bot_inv cfg (bot_new cfg net)"
  by (simp add: inv_defs shared_ok_def bot_new_def Let_def metrics_store_new_def observations_default_def
    floor_state_new_def)

lemma inv_joined: "bot_inv cfg b \<Longrightarrow> s_server_config s \<noteq> None \<Longrightarrow> bot_inv cfg (joined s b)"
  by (simp add: inv_defs joined_def)

lemma inv_connect:
  "bot_inv cfg b \<Longrightarrow> connect_and_join E b = (r, b') \<Longrightarrow> bot_inv cfg b'"
  "bot_inv cfg b \<Longrightarrow> join_existing_room E room_id b = (r, b') \<Longrightarrow> bot_inv cfg b'"
  by (auto simp: connect_and_join_def join_existing_room_def intro: inv_joined dest: connect_config
    split: sum.splits)

lemma inv_media: "bot_inv cfg b \<Longrightarrow> b_status b = Joined \<Longrightarrow> bot_inv cfg (b\<lparr>b_media := Some m, b_status := MediaReady\<rparr>)"
  by (simp add: inv_defs)

lemma inv_setup_media: "bot_inv cfg b \<Longrightarrow> setup_media E b = Some (r, b') \<Longrightarrow> bot_inv cfg b'"
  unfolding setup_media_def
  by (auto intro: inv_media split: if_split_asm option.split_asm sum.split_asm Option.bind_split_asm)

lemma inv_session:
  assumes "bot_inv cfg b" "b_session b = Some s" "s_server_config s' = s_server_config s"
  shows "bot_inv cfg (b\<lparr>b_session := Some s'\<rparr>)"
  using assms by (auto simp: inv_defs)

lemma inv_shared: "bot_inv cfg b \<Longrightarrow> shared_ok sh \<Longrightarrow> bot_inv cfg (b\<lparr>b_shared := sh\<rparr>)"
  by (simp add: inv_defs)

lemma inv_publish_intent: "bot_inv cfg b \<Longrightarrow> publish_intent E b = (r, b') \<Longrightarrow> bot_inv cfg b'"
  by (auto simp: publish_intent_def Let_def intro: inv_session dest: session_keeps
    split: option.splits prod.splits sum.splits if_splits)

lemma inv_start_publishing: "bot_inv cfg b \<Longrightarrow> start_publishing E b = (r, b') \<Longrightarrow> bot_inv cfg b'"
  by (auto simp: start_publishing_def Let_def inv_defs rtp_pub_new_def rtp_pub_new_with_keyframe_flag_def
    split: option.splits if_splits)

lemma shared_ok_updates:
  "shared_ok (sh\<lparr>sh_filter := f\<rparr>) = shared_ok sh"
  "shared_ok (sh\<lparr>sh_pending := p\<rparr>) = shared_ok sh"
  "shared_ok (sh\<lparr>sh_floor := (sh_floor sh)\<lparr>floor_idle := i\<rparr>\<rparr>) = shared_ok sh"
  "shared_ok (sh\<lparr>sh_obs := record_floor_grant t bid pr g q (sh_obs sh)\<rparr>) = shared_ok sh"
  by (simp_all add: shared_ok_def record_floor_grant_def)

lemma inv_filter: "bot_inv cfg b \<Longrightarrow> bot_inv cfg (update_net_filter now c b)"
  unfolding update_net_filter_def by (rule inv_shared) (simp_all add: shared_ok_updates bot_inv_def)

lemma inv_layer: "bot_inv cfg b \<Longrightarrow> bot_subscribe_layer E now layer ssrcs b = (r, b') \<Longrightarrow> bot_inv cfg b'"
proof (cases "b_session b")
  case (Some s)
  assume i: "bot_inv cfg b" and l: "bot_subscribe_layer E now layer ssrcs b = (r, b')"
  define b1 where "b1 = b\<lparr>b_shared := (b_shared b)\<lparr>sh_pending := Some \<lparr>pls_requested_layer = layer,
    pls_request_time = now, pls_ts_before = None, pls_done = False\<rparr>\<rparr>\<rparr>"
  obtain x s' where x: "subscribe_layer (be_sig E) (layer_targets (js (be_sig E)) layer ssrcs) s = (x, s')" by force
  have "bot_inv cfg b1" unfolding b1_def by (rule inv_shared) (use i in \<open>simp_all add: shared_ok_updates bot_inv_def\<close>)
  then have "bot_inv cfg (b1\<lparr>b_session := Some s'\<rparr>)"
    by (rule inv_session) (use Some session_keeps(3) [OF x] in \<open>simp_all add: b1_def\<close>)
  with l show ?thesis
    by (auto simp: bot_subscribe_layer_def Some Let_def x b1_def [symmetric] split: sum.splits)
qed (simp add: bot_subscribe_layer_def)

lemma inv_floor_idle: "bot_inv cfg b \<Longrightarrow> bot_inv cfg (set_floor (\<lambda>f. f\<lparr>floor_idle := i\<rparr>) b)"
  by (rule inv_shared) (simp_all add: shared_ok_updates bot_inv_def)

lemma inv_await: "bot_inv cfg b \<Longrightarrow> await_floor_taken E n b = Some (g, b') \<Longrightarrow> bot_inv cfg b'"
proof (induction n arbitrary: b)
  case (Suc n)
  show ?case
  proof (cases "b_session b")
    case (Some s)
    obtain raws s' where d: "drain_floor_mbcp (poll_events (be_sig E) s) = (raws, s')" by force
    have "bot_inv cfg (b\<lparr>b_session := Some s'\<rparr>)"
      using Suc.prems(1) Some by (rule inv_session) (simp add: session_keeps(7) [OF d])
    then show ?thesis using Suc.prems(2) Suc.IH inv_floor_idle [where i = False]
      by (fastforce simp: Some d Let_def scan_ftkn_read split: if_split_asm)
  qed (use Suc.prems in simp)
qed simp

lemma inv_floor_request: "bot_inv cfg b \<Longrightarrow> floor_request_ws E t p b = Some (g, b') \<Longrightarrow> bot_inv cfg b'"
proof (cases "b_session b")
  case (Some s)
  assume i: "bot_inv cfg b" and f: "floor_request_ws E t p b = Some (g, b')"
  obtain x s' where x: "send_floor_mbcp (be_sig E) (mbcp_wire SUBTYPE_FREQ (audio_ssrc (b_rtp_config b)) None) s = (x, s')"
    by force
  have i': "bot_inv cfg (b\<lparr>b_session := Some s'\<rparr>)" using i Some session_keeps(5) [OF x] by (rule inv_session)
  show ?thesis
  proof (cases x)
    case (Inl e)
    then show ?thesis using f i' by (simp add: floor_request_ws_def build_freq_def panic_free Some x [simplified])
  next
    case (Inr u)
    then show ?thesis using f inv_await [OF i']
      by (auto simp: floor_request_ws_def build_freq_def panic_free Some x [simplified] bind_eq_Some_conv
        intro!: inv_shared simp: shared_ok_updates) (simp add: bot_inv_def)
  qed
qed (simp add: floor_request_ws_def build_freq_def panic_free)

lemma inv_floor_release: "bot_inv cfg b \<Longrightarrow> floor_release_ws E b = Some (r, b') \<Longrightarrow> bot_inv cfg b'"
  by (auto simp: floor_release_ws_def build_frel_def panic_free intro: inv_session dest: session_keeps
    split: option.splits prod.splits)

lemma inv_media_update: "bot_inv cfg b \<Longrightarrow> b_media b = Some m \<Longrightarrow> bot_inv cfg (b\<lparr>b_media := Some m'\<rparr>)"
  by (auto simp: inv_defs)

lemma inv_udp [simp]: "bot_inv cfg (b\<lparr>b_udp_out := out\<rparr>) = bot_inv cfg b"
  by (simp add: inv_defs)

lemma inv_send_mbcp: "bot_inv cfg b \<Longrightarrow> send_mbcp E e p b = (r, b') \<Longrightarrow> bot_inv cfg b'"
proof (cases "b_media b")
  case (Some m)
  assume i: "bot_inv cfg b" and s: "send_mbcp E e p b = (r, b')"
  obtain x srtp where x: "encrypt_rtcp (be_srtp E) p (mc_pub_srtp m) = (x, srtp)" by force
  have "bot_inv cfg (b\<lparr>b_media := Some (m\<lparr>mc_pub_srtp := srtp\<rparr>)\<rparr>)" using i Some by (rule inv_media_update)
  then show ?thesis using s
    by (cases x; cases e) (auto simp: send_mbcp_def Some x Let_def)
qed (simp add: send_mbcp_def)

lemma handle_floor_message_keeps:
  "handle_floor_message m (fl, obs) = (fl', obs') \<Longrightarrow> ack_sent fl' = ack_sent fl
     \<and> ptt_audio_ssrcs obs' = ptt_audio_ssrcs obs \<and> ptt_video_ssrcs obs' = ptt_video_ssrcs obs
     \<and> tracks_ack_sent obs' = tracks_ack_sent obs"
  by (auto simp: handle_floor_message_def record_floor_revoke_def split: if_splits)

lemma handle_floor_messages_keep:
  "fold handle_floor_message ms (fl, obs) = (fl', obs') \<Longrightarrow> ack_sent fl' = ack_sent fl
     \<and> ptt_audio_ssrcs obs' = ptt_audio_ssrcs obs \<and> ptt_video_ssrcs obs' = ptt_video_ssrcs obs
     \<and> tracks_ack_sent obs' = tracks_ack_sent obs"
proof (induction ms arbitrary: fl obs)
  case (Cons m ms)
  obtain fl1 obs1 where 1: "handle_floor_message m (fl, obs) = (fl1, obs1)" by force
  then show ?case using Cons.IH [of fl1 obs1] Cons.prems handle_floor_message_keeps [OF 1] by simp
qed simp

lemma handle_room_events_keep:
  "ptt_audio_ssrcs (fold (handle_room_event J) evts obs) = ptt_audio_ssrcs obs"
  "ptt_video_ssrcs (fold (handle_room_event J) evts obs) = ptt_video_ssrcs obs"
  "tracks_ack_sent (fold (handle_room_event J) evts obs) = tracks_ack_sent obs"
  by (induction evts arbitrary: obs)
    (simp_all add: handle_room_event_def Let_def record_zombie_cleanup_def split: option.split)

lemma inv_floor_and_room: "bot_inv cfg b \<Longrightarrow> process_floor_and_room E b = Some (r, b') \<Longrightarrow> bot_inv cfg b'"
proof (cases "b_session b")
  case (Some s)
  assume i: "bot_inv cfg b" and p: "process_floor_and_room E b = Some (r, b')"
  obtain raws s1 where d: "drain_floor_mbcp s = (raws, s1)" by force
  obtain fl obs where h: "fold handle_floor_message (List.map_filter mbcp_read raws)
      (sh_floor (b_shared b), sh_obs (b_shared b)) = (fl, obs)" by force
  obtain evts s2 where a: "drain_all_events (we_op (wire (be_sig E)) OP_ROOM_EVENT) s1 = (evts, s2)" by force
  have b': "b' = b\<lparr>b_session := Some s2, b_shared := (b_shared b)\<lparr>sh_floor := fl,
      sh_obs := fold (handle_room_event (js (be_sig E))) evts obs\<rparr>\<rparr>"
    using p by (simp add: process_floor_and_room_def Some d h a handle_floor_raws_read Let_def)
  have "shared_ok ((b_shared b)\<lparr>sh_floor := fl, sh_obs := fold (handle_room_event (js (be_sig E))) evts obs\<rparr>)"
    using i handle_floor_messages_keep [OF h] by (simp add: bot_inv_def shared_ok_def handle_room_events_keep)
  moreover have "bot_inv cfg (b\<lparr>b_session := Some s2\<rparr>)"
    using i Some by (rule inv_session) (simp add: session_keeps(6) [OF a] session_keeps(7) [OF d])
  ultimately show ?thesis unfolding b' by (auto dest: inv_shared)
qed (simp add: process_floor_and_room_def)

lemma inv_process_events: "bot_inv cfg b \<Longrightarrow> process_events E b = Some (r, b') \<Longrightarrow> bot_inv cfg b'"
proof (cases "b_session b")
  case (Some s)
  assume i: "bot_inv cfg b" and p: "process_events E b = Some (r, b')"
  obtain evts s1 where d: "drain_all_events (we_op (wire (be_sig E)) OP_TRACKS_UPDATE) (poll_events (be_sig E) s) = (evts, s1)"
    by force
  obtain ssrcs changed where u: "fold (update_tracks (js (be_sig E))) evts (b_subscribe_ssrcs b, False) = (ssrcs, changed)"
    by force
  have upd: "bot_inv cfg (x\<lparr>b_subscribe_ssrcs := ssrcs\<rparr>) = bot_inv cfg x" for x by (simp add: inv_defs)
  have 1: "bot_inv cfg (b\<lparr>b_session := Some s1, b_subscribe_ssrcs := ssrcs\<rparr>)" (is "bot_inv cfg ?b1")
    unfolding upd using i Some by (rule inv_session) (simp add: session_keeps(6) [OF d])
  show ?thesis
  proof (cases changed)
    case False
    then show ?thesis using p inv_floor_and_room [OF 1] by (simp add: process_events_def Some d u Let_def)
  next
    case True
    obtain x s2 where t: "tracks_ready (be_sig E) s1 = (x, s2)" by force
    have 2: "bot_inv cfg (?b1\<lparr>b_session := Some s2\<rparr>)"
      using 1 by (rule inv_session) (use session_keeps(2) [OF t] in simp_all)
    then have "bot_inv cfg (set_floor (\<lambda>f. f\<lparr>ack_sent := True\<rparr>) (observe mark_tracks_ack_sent (?b1\<lparr>b_session := Some s2\<rparr>)))"
      by (simp add: inv_defs shared_ok_def mark_tracks_ack_sent_def)
    with 2 show ?thesis using True p inv_floor_and_room
      by (cases x) (auto simp: process_events_def Some d u t Let_def)
  qed
qed (simp add: process_events_def)

lemma inv_stop: "bot_inv cfg b \<Longrightarrow> bot_inv cfg (stop_publishing b)"
  by (auto simp: stop_publishing_def Let_def inv_defs dest: in_set_butlastD)

lemma inv_heartbeat: "bot_inv cfg b \<Longrightarrow> bot_heartbeat E b = (r, b') \<Longrightarrow> bot_inv cfg b'"
  by (auto simp: bot_heartbeat_def intro: inv_session dest: session_keeps split: option.splits prod.splits)

lemma inv_disconnect: "bot_inv cfg b \<Longrightarrow> bot_inv cfg (disconnect b)"
  using inv_stop [of cfg b] by (simp add: disconnect_def Let_def inv_defs)

lemma inv_group:
  assumes "bot_inv cfg b" "i < length (b_groups b)" "shared_ok sh"
    and "\<And>t. tk_audio g = Some t \<Longrightarrow> config (pt_state t) = b_rtp_config b"
    and "\<And>t. tk_video g = Some t \<Longrightarrow> config (pt_state t) = b_rtp_config b"
  shows "bot_inv cfg (b\<lparr>b_groups := (b_groups b)[i := g], b_shared := sh\<rparr>)"
proof -
  have "set ((b_groups b)[i := g]) \<subseteq> insert g (set (b_groups b))" by (rule set_update_subset_insert)
  then have "config_ok cfg (b\<lparr>b_groups := (b_groups b)[i := g], b_shared := sh\<rparr>)"
    using assms(1,4,5) unfolding bot_inv_def config_ok_def by fastforce
  moreover have "lifecycle_ok (b\<lparr>b_groups := (b_groups b)[i := g], b_shared := sh\<rparr>)"
    using assms(1,2) unfolding bot_inv_def lifecycle_ok_def by fastforce
  ultimately show ?thesis using assms(3) by (simp add: bot_inv_def)
qed

lemma group_config:
  assumes "bot_inv cfg b" "i < length (b_groups b)"
  shows "tk_audio (group i b) = Some t \<Longrightarrow> config (pt_state t) = b_rtp_config b"
    and "tk_video (group i b) = Some t \<Longrightarrow> config (pt_state t) = b_rtp_config b"
proof -
  have "config_ok cfg b" using assms(1) by (simp add: bot_inv_def)
  then have "\<forall>g \<in> set (b_groups b). (\<forall>t. tk_audio g = Some t \<longrightarrow> config (pt_state t) = b_rtp_config b)
      \<and> (\<forall>t. tk_video g = Some t \<longrightarrow> config (pt_state t) = b_rtp_config b)"
    unfolding config_ok_def by blast
  from bspec [OF this nth_mem [OF assms(2)]]
  show "tk_audio (group i b) = Some t \<Longrightarrow> config (pt_state t) = b_rtp_config b"
    and "tk_video (group i b) = Some t \<Longrightarrow> config (pt_state t) = b_rtp_config b" by blast+
qed

lemma builders: "\<exists>p st'. build_opus_packet st = Some (p, st') \<and> config st' = config st"
  "\<exists>p st'. build_vp8_packet st = Some (p, st') \<and> config st' = config st"
  by (simp_all add: panic_free opus_next_def vp8_next_def)

text \<open>An iteration of a running task returns and keeps the invariant.\<close>

lemma audio_tick_keeps:
  assumes "bot_inv cfg b" "i < length (b_groups b)"
  shows "\<exists>b'. audio_tick E now e i b = Some b' \<and> bot_inv cfg b'"
proof (cases "tk_audio (group i b)")
  case (Some t)
  obtain t' net out where t': "publish_tick (be_srtp E) (be_rng E) build_opus_packet now e (t, sh_filter (b_shared b))
      = Some (t', net, out)" "\<forall>u. t' = Some u \<longrightarrow> config (pt_state u) = config (pt_state t)"
    using publish_tick_keeps [OF builders(1)] by blast
  have "bot_inv cfg (b\<lparr>b_groups := (b_groups b)[i := (group i b)\<lparr>tk_audio := t'\<rparr>],
      b_shared := (b_shared b)\<lparr>sh_filter := net\<rparr>\<rparr>)"
    by (rule inv_group [OF assms])
      (use assms t'(2) group_config [OF assms] Some in \<open>auto simp: shared_ok_updates bot_inv_def\<close>)
  then show ?thesis by (simp add: audio_tick_def Some t'(1))
qed (use assms in \<open>simp add: audio_tick_def\<close>)

lemma video_tick_keeps:
  assumes "bot_inv cfg b" "i < length (b_groups b)"
  shows "\<exists>b'. video_tick E now e i b = Some b' \<and> bot_inv cfg b'"
proof (cases "tk_video (group i b)")
  case (Some t)
  let ?t = "t\<lparr>pt_state := (pt_state t)\<lparr>force_keyframe := tk_force_keyframe (group i b)\<rparr>\<rparr>"
  obtain t' net out where t': "publish_tick (be_srtp E) (be_rng E) build_vp8_packet now e (?t, sh_filter (b_shared b))
      = Some (t', net, out)" "\<forall>u. t' = Some u \<longrightarrow> config (pt_state u) = config (pt_state ?t)"
    using publish_tick_keeps [OF builders(2)] by blast
  have "bot_inv cfg (b\<lparr>b_groups := (b_groups b)[i := (group i b)\<lparr>tk_video := t', tk_force_keyframe := False\<rparr>],
      b_shared := (b_shared b)\<lparr>sh_filter := net\<rparr>\<rparr>)"
    by (rule inv_group [OF assms])
      (use assms t'(2) group_config [OF assms] Some in \<open>auto simp: shared_ok_updates bot_inv_def\<close>)
  then show ?thesis by (simp add: video_tick_def Some t'(1))
qed (use assms in \<open>simp add: video_tick_def\<close>)

lemma pub_recv_keeps:
  assumes "bot_inv cfg b" "i < length (b_groups b)"
  shows "\<exists>b'. pub_recv E r i b = Some b' \<and> bot_inv cfg b'"
proof (cases "tk_pub_recv (group i b)")
  case (Some t)
  have "shared_ok (b_shared b)" using assms by (simp add: bot_inv_def)
  from pub_recv_step_keeps [OF this] obtain t' force obs where
    t': "pub_recv_step (be_srtp E) (video_ssrc (b_rtp_config b)) r (t, tk_force_keyframe (group i b), sh_obs (b_shared b))
      = Some (t', force, obs)" "shared_ok ((b_shared b)\<lparr>sh_obs := obs\<rparr>)" by blast
  have "bot_inv cfg (b\<lparr>b_groups := (b_groups b)[i := (group i b)\<lparr>tk_pub_recv := t', tk_force_keyframe := force\<rparr>],
      b_shared := (b_shared b)\<lparr>sh_obs := obs\<rparr>\<rparr>)"
    by (rule inv_group [OF assms t'(2)]) (use group_config [OF assms] in auto)
  then show ?thesis by (simp add: pub_recv_def Some t'(1))
qed (use assms in \<open>simp add: pub_recv_def\<close>)

lemma sub_recv_keeps:
  assumes "bot_inv cfg b" "i < length (b_groups b)"
  shows "\<exists>b'. sub_recv E now r i b = Some b' \<and> bot_inv cfg b'"
proof (cases "tk_sub_recv (group i b)")
  case (Some t)
  have "shared_ok (b_shared b)" using assms by (simp add: bot_inv_def)
  from sub_recv_step_keeps [OF this] obtain t' sh where
    t': "sub_recv_step (be_srtp E) (be_first_of E) (bc_mode (b_config b)) now r (t, b_shared b) = Some (t', sh)"
      "shared_ok sh" by blast
  have "bot_inv cfg (b\<lparr>b_groups := (b_groups b)[i := (group i b)\<lparr>tk_sub_recv := t'\<rparr>], b_shared := sh\<rparr>)"
    by (rule inv_group [OF assms t'(2)]) (use group_config [OF assms] in auto)
  then show ?thesis by (simp add: sub_recv_def Some t'(1))
qed (use assms in \<open>simp add: sub_recv_def\<close>)

lemmas tick_keeps = audio_tick_keeps video_tick_keeps pub_recv_keeps sub_recv_keeps

lemma bot_step_inv: "bot_step b b' \<Longrightarrow> bot_inv cfg b \<Longrightarrow> bot_inv cfg b'"
proof (induction rule: bot_step.induct)
  case (AudioTick i b E now e b')
  then show ?case using audio_tick_keeps by (metis option.inject)
next
  case (VideoTick i b E now e b')
  then show ?case using video_tick_keeps by (metis option.inject)
next
  case (PubRecv i b E r b')
  then show ?case using pub_recv_keeps by (metis option.inject)
next
  case (SubRecv i b E now r b')
  then show ?case using sub_recv_keeps by (metis option.inject)
qed (blast intro: inv_connect inv_setup_media inv_publish_intent inv_start_publishing inv_filter inv_layer
  inv_floor_request inv_floor_release inv_send_mbcp inv_process_events inv_stop inv_heartbeat inv_disconnect)+

lemma bot_reachable_inv: "bot_reachable cfg b \<Longrightarrow> bot_inv cfg b"
  by (induction rule: bot_reachable.induct) (auto intro: inv_new bot_step_inv)

section \<open>A concrete environment for the witnesses\<close>

definition sample_srtp :: "bool srtp_ops" where
  "sample_srtp = \<lparr>so_context_new = (\<lambda>k s. Some True), so_encrypt_rtp = (\<lambda>c p. (Some p, c)),
     so_decrypt_rtp = (\<lambda>c p. (Some p, c)), so_encrypt_rtcp = (\<lambda>c p. (Some p, c)),
     so_decrypt_rtcp = (\<lambda>c p. (Some p, c))\<rparr>"

definition sample_media :: media_env where
  "sample_media = \<lparr>me_crypto = \<lparr>co_hmac_sha1 = (\<lambda>d k. replicate 20 7), co_crc32 = (\<lambda>d. 5)\<rparr>, me_ice_random = replicate 8 1,
     me_tid = replicate 12 1, me_tie_breaker = replicate 8 2, me_send_error = None,
     me_received = [Datagram (1 # 1 # replicate 18 0)], me_dtls = Inr (replicate 60 9)\<rparr>"

definition sample_bot_env :: "(sample_json, unit, bool) bot_env" where
  "sample_bot_env = \<lparr>be_sig = sample_sig, be_rng = \<lparr>gen_percent = (\<lambda>g. (Fin 50, g)), gen_symmetric = (\<lambda>n g. (0, g))\<rparr>, be_srtp = sample_srtp, be_connect = sample_server,
     be_parse_addr = Inr, be_pub_bind_error = None, be_sub_bind_error = None, be_pub_media = sample_media,
     be_sub_media = sample_media, be_floor_rounds = 50, be_first_of = (\<lambda>s. 0)\<rparr>"

definition sample_cfg :: bot_config where
  "sample_cfg = \<lparr>bc_id = ''alice'', bc_server = ''h'', bc_ws_port = 1974, bc_room_name = ''room'', bc_mode = ''ptt'', bc_profile = None\<rparr>"



lemma sample_media_keys: "\<exists>k. setup_media_pc sample_media u p l = Some (Inr k)"
  using build_binding_request_bytes [of "me_tid sample_media" "me_crypto sample_media" "me_tie_breaker sample_media" u
      "random_ice_string (me_ice_random sample_media)" p]
  by (simp add: setup_media_pc_def sample_media_def split_keying_material_def rd_slice_def is_stun_def from_be16_def Let_def)

abbreviation sample_joined :: "(sample_json, unit, bool) bot" where
  "sample_joined \<equiv> snd (connect_and_join sample_bot_env (bot_new sample_cfg None))"

lemma sample_joined_status: "b_status sample_joined = Joined" by code_simp

lemma sample_setup:
  assumes "b_status b = Joined" "b_session b = Some s" "s_server_config s = Some sc"
  shows "\<exists>b2. setup_media sample_bot_env b = Some (Inr (), b2) \<and> b_status b2 = MediaReady \<and> b_media b2 \<noteq> None
    \<and> b_groups b2 = b_groups b"
proof -
  obtain k where k: "setup_media_pc sample_media (pub_ufrag sc) (pub_pwd sc) (''pub:'' @ bc_id (b_config b)) = Some (Inr k)"
    using sample_media_keys by blast
  obtain k' where k': "setup_media_pc sample_media (sub_ufrag sc) (sub_pwd sc) (''sub:'' @ bc_id (b_config b)) = Some (Inr k')"
    using sample_media_keys by blast
  from k k' show ?thesis by (simp add: setup_media_def assms sample_bot_env_def)
qed

lemma sample_publishing: "\<exists>b :: (sample_json, unit, bool) bot. bot_reachable sample_cfg b \<and> b_status b = Publishing \<and> length (b_groups b) = 1"
proof -
  have r: "bot_reachable sample_cfg sample_joined"
    by (rule bot_reachable.step [OF bot_reachable.start bot_step.Join]) (rule prod.collapse [symmetric])
  from bot_reachable_inv [OF r] obtain s sc where s: "b_session sample_joined = Some s" "s_server_config s = Some sc"
    unfolding bot_inv_def lifecycle_ok_def sample_joined_status by auto
  have g: "b_groups sample_joined = []"
    by (simp add: connect_and_join_def bot_new_def joined_def Let_def split: sum.split)
  obtain b2 where b2: "setup_media sample_bot_env sample_joined = Some (Inr (), b2)" "b_status b2 = MediaReady"
      "b_media b2 \<noteq> None" "b_groups b2 = []"
    using sample_setup [OF sample_joined_status s] g by auto
  obtain b3 where b3: "start_publishing sample_bot_env b2 = (Inr (), b3)" "b_status b3 = Publishing" "length (b_groups b3) = 1"
    using b2 by (auto simp: start_publishing_def)
  have "bot_reachable sample_cfg b3"
    using bot_reachable.step [OF bot_reachable.step [OF r SetupMedia [OF b2(1)]] StartPublishing [OF b3(1)]] .
  with b3 show ?thesis by blast
qed


section \<open>Handlers return\<close>

lemma await_floor_taken_returns: "await_floor_taken E n b \<noteq> None"
  by (induction n arbitrary: b) (auto simp: scan_ftkn_read Let_def split: option.split prod.split)

lemma process_floor_and_room_returns: "\<exists>r b'. process_floor_and_room E b = Some (r, b')"
  by (auto simp: process_floor_and_room_def handle_floor_raws_read Let_def split: option.split prod.split)

lemma handlers_return:
  "floor_request_ws E ms p b \<noteq> None" "floor_release_ws E b \<noteq> None" "process_events E b \<noteq> None"
proof -
  show "floor_request_ws E ms p b \<noteq> None"
  proof (cases "b_session b")
    case (Some s)
    obtain r s' where r: "send_floor_mbcp (be_sig E) (mbcp_wire 0 (audio_ssrc (b_rtp_config b)) None) s = (r, s')"
      by force
    obtain g b' where "await_floor_taken E (be_floor_rounds E) (b\<lparr>b_session := Some s'\<rparr>) = Some (g, b')"
      using await_floor_taken_returns [of E "be_floor_rounds E" "b\<lparr>b_session := Some s'\<rparr>"] by auto
    then show ?thesis
      by (cases r) (simp_all add: floor_request_ws_def build_freq_def mbcp_build_wire Some r)
  qed (simp add: floor_request_ws_def build_freq_def mbcp_build_wire)
  show "floor_release_ws E b \<noteq> None"
    by (simp add: floor_release_ws_def build_frel_def mbcp_build_wire split: option.split prod.split)
  show "process_events E b \<noteq> None"
    by (simp add: process_events_def process_floor_and_room_returns Let_def split: option.split prod.split sum.split)
qed

text \<open>C1: Whatever commands and task iterations interleave, and whatever the network, the server and
  the clocks do: a bot that has joined keeps its user, room and session with a server configuration,
  one that is ready for media keeps its keys, one that publishes has its tasks attached, and the
  states Connected and Failed never occur; the SSRCs with receive metrics are exactly the SSRCs
  observed, and the acknowledgement is recorded in the floor state exactly when it is in the
  observations; the RTP configuration of every publishing task is the one derived from the bot's
  id.  In such a state no task iteration and no event or floor handler panics.\<close>

theorem bot_invariant:
  assumes "bot_reachable cfg b"
  shows "lifecycle_ok b \<and> shared_ok (b_shared b) \<and> config_ok cfg b
    \<and> (\<forall>i < length (b_groups b). \<forall>E now e r. audio_tick E now e i b \<noteq> None \<and> video_tick E now e i b \<noteq> None
         \<and> pub_recv E r i b \<noteq> None \<and> sub_recv E now r i b \<noteq> None)
    \<and> (\<forall>E. process_events E b \<noteq> None \<and> (\<forall>ms p. floor_request_ws E ms p b \<noteq> None) \<and> floor_release_ws E b \<noteq> None)"
proof -
  have inv: "bot_inv cfg b" by (rule bot_reachable_inv [OF assms])
  have "audio_tick E now e i b \<noteq> None \<and> video_tick E now e i b \<noteq> None
      \<and> pub_recv E r i b \<noteq> None \<and> sub_recv E now r i b \<noteq> None" if "i < length (b_groups b)" for i E now e r
    using tick_keeps [OF inv that] by (metis option.distinct(1))
  with inv show ?thesis by (simp add: bot_inv_def handlers_return)
qed

theorem bot_invariant_witness:
  "\<exists>b :: (sample_json, unit, bool) bot. bot_reachable sample_cfg b \<and> b_status b = Publishing \<and> b_attached b
    \<and> b_media b \<noteq> None \<and> b_user_id b \<noteq> None \<and> sub_recv sample_bot_env 0 (Datagram (replicate 40 128)) 0 b \<noteq> None"
proof -
  obtain b :: "(sample_json, unit, bool) bot" where
    b: "bot_reachable sample_cfg b" "b_status b = Publishing" "length (b_groups b) = 1"
    using sample_publishing by blast
  then show ?thesis using bot_invariant [OF b(1)] by (intro exI [of _ b]) (auto simp: lifecycle_ok_def)
qed

end
