(* ===== verification/BotEffects.thy ===== *)
theory BotEffects
  imports BotMachine Checkpoints
begin

text \<open>
  What the event handlers of a bot and its subscriber's reader leave behind, over whole batches of
  messages: the floor state after an event round, the streams subscribed after a batch of track
  updates, what a floor request takes for a grant, and what the layer 1 evaluators make of the
  observations the reader collects.
\<close>

section \<open>Floor messages and room events\<close>

abbreviation subtypes :: "mbcp_message list \<Rightarrow> u8 set" where
  "subtypes msgs \<equiv> mm_subtype ` set msgs"

text \<open>The subtype of the last floor-taken or floor-idle message.\<close>

definition last_turn :: "mbcp_message list \<Rightarrow> u8 option" where
  "last_turn msgs = find (\<lambda>t. t = SUBTYPE_FTKN \<or> t = SUBTYPE_FIDL) (rev (map mm_subtype msgs))"

definition after_messages :: "mbcp_message list \<Rightarrow> floor_state \<Rightarrow> floor_state" where
  "after_messages msgs fl = (let t = last_turn msgs in fl
     \<lparr>floor_idle := (if t = None then floor_idle fl else t = Some SUBTYPE_FIDL),
      speaker_just_changed := speaker_just_changed fl \<or> SUBTYPE_FTKN \<in> subtypes msgs,
      floor_just_released := (if t = None then floor_just_released fl else t = Some SUBTYPE_FIDL)\<rparr>)"

lemma last_turn_simps [simp]:
  "last_turn [] = None"
  "last_turn (msgs @ [m]) = (if mm_subtype m = SUBTYPE_FTKN \<or> mm_subtype m = SUBTYPE_FIDL then Some (mm_subtype m)
     else last_turn msgs)"
  by (simp_all add: last_turn_def)

lemma floor_fold:
  "fold handle_floor_message msgs (fl, obs) = (after_messages msgs fl,
     obs\<lparr>floor_revoke_received := floor_revoke_received obs \<or> SUBTYPE_FRVK \<in> subtypes msgs\<rparr>)"
proof (induction msgs rule: rev_induct)
  case (snoc m msgs)
  then show ?case
    by (auto simp: handle_floor_message_def after_messages_def Let_def record_floor_revoke_def)
qed (simp add: after_messages_def)

definition leavers :: "'j json_ops \<Rightarrow> 'j packet list \<Rightarrow> string list" where
  "leavers J evts = List.map_filter (\<lambda>evt. if get_str J (pk_d evt) ''action'' = Some ''leave''
     then get_str J (pk_d evt) ''user_id'' else None) evts"

lemma handle_room_event_leavers:
  "handle_room_event J e obs = obs\<lparr>zombie_cleanup_detected := zombie_cleanup_detected obs @ leavers J [e]\<rparr>"
proof -
  have "str_or [] x = ''leave'' \<longleftrightarrow> x = Some ''leave''" for x by (cases x) (auto simp: str_or_def)
  then show ?thesis
    by (simp add: handle_room_event_def leavers_def List.map_filter_def record_zombie_cleanup_def split: option.split)
qed

lemma room_fold:
  "fold (handle_room_event J) evts obs =
     obs\<lparr>zombie_cleanup_detected := zombie_cleanup_detected obs @ leavers J evts\<rparr>"
proof (induction evts arbitrary: obs)
  case (Cons e evts)
  have "leavers J (e # evts) = leavers J [e] @ leavers J evts" by (simp add: leavers_def List.map_filter_def)
  have "fold (handle_room_event J) (e # evts) obs = fold (handle_room_event J) evts (handle_room_event J e obs)" by simp
  also note Cons
  finally show ?case by (simp only: handle_room_event_leavers [of J e obs]) (simp add: \<open>leavers J (e # evts) = _\<close>)
qed (simp add: leavers_def List.map_filter_def)

text \<open>C9: One round of floor and room handling: the floor is idle, and just released, exactly when the
  last of the buffered floor-taken and floor-idle messages is a floor-idle one; a floor-taken message
  marks a change of speaker; a revocation is recorded; each participant who left is recorded in
  order; datagrams that are no MBCP message are skipped, the handled messages leave the buffers, and
  nothing else of the bot changes.\<close>

theorem floor_and_room_effect:
  assumes "b_session b = Some s"
  shows "process_floor_and_room E b = (let msgs = List.map_filter mbcp_read (s_floor_mbcp_buf s);
        room = we_op (wire (be_sig E)) OP_ROOM_EVENT; obs = sh_obs (b_shared b)
      in Some (Inr (), b
        \<lparr>b_session := Some (s\<lparr>s_floor_mbcp_buf := [], s_event_buf := filter (\<lambda>p. pk_op p \<noteq> room) (s_event_buf s)\<rparr>),
         b_shared := (b_shared b)\<lparr>sh_floor := after_messages msgs (sh_floor (b_shared b)),
           sh_obs := obs\<lparr>floor_revoke_received := floor_revoke_received obs \<or> SUBTYPE_FRVK \<in> subtypes msgs,
             zombie_cleanup_detected := zombie_cleanup_detected obs
               @ leavers (js (be_sig E)) (filter (\<lambda>p. pk_op p = room) (s_event_buf s))\<rparr>\<rparr>\<rparr>))"
  by (simp add: process_floor_and_room_def assms drain_floor_mbcp_def drain_all_events_def
    handle_floor_raws_read floor_fold room_fold Let_def)


text \<open>An idle message, a datagram that is no MBCP message, a revocation and a floor-taken message.\<close>

theorem floor_and_room_effect_witness:
  "let raws = [mbcp_wire SUBTYPE_FIDL 1 None, [7], mbcp_wire SUBTYPE_FRVK 1 None, mbcp_wire SUBTYPE_FTKN 1 None];
       b = sample_joined\<lparr>b_session := Some ((sample_session [])\<lparr>s_floor_mbcp_buf := raws\<rparr>)\<rparr>
   in \<exists>b'. process_floor_and_room sample_bot_env b = Some (Inr (), b')
     \<and> \<not> floor_idle (sh_floor (b_shared b')) \<and> speaker_just_changed (sh_floor (b_shared b'))
     \<and> floor_revoke_received (sh_obs (b_shared b'))"
proof -
  have "List.map_filter mbcp_read [mbcp_wire SUBTYPE_FIDL 1 None, [7], mbcp_wire SUBTYPE_FRVK 1 None, mbcp_wire SUBTYPE_FTKN 1 None]
      = [\<lparr>mm_subtype = SUBTYPE_FIDL, mm_ssrc = 1, mm_data = None\<rparr>, \<lparr>mm_subtype = SUBTYPE_FRVK, mm_ssrc = 1, mm_data = None\<rparr>,
         \<lparr>mm_subtype = SUBTYPE_FTKN, mm_ssrc = 1, mm_data = None\<rparr>]"
    by code_simp
  then show ?thesis
    using floor_and_room_effect [where E = sample_bot_env and b = "sample_joined\<lparr>b_session := Some ((sample_session [])
      \<lparr>s_floor_mbcp_buf := [mbcp_wire SUBTYPE_FIDL 1 None, [7], mbcp_wire SUBTYPE_FRVK 1 None, mbcp_wire SUBTYPE_FTKN 1 None]\<rparr>)\<rparr>"]
    by (simp add: after_messages_def last_turn_def Let_def)
qed

section \<open>Track updates\<close>

text \<open>The additions (\<open>True\<close>) and removals that a batch of updates asks for, in order.\<close>

definition track_ops :: "'j json_ops \<Rightarrow> 'j packet list \<Rightarrow> (bool \<times> u32) list" where
  "track_ops J evts = concat (map (\<lambda>evt.
     let ssrcs = (case Option.bind (jo_get J (pk_d evt) ''tracks'') (jo_as_array J) of
           None \<Rightarrow> []
         | Some tracks \<Rightarrow> List.map_filter (\<lambda>t. map_option ucast (Option.bind (jo_get J t ''ssrc'') (jo_as_u64 J))) tracks)
     in if get_str J (pk_d evt) ''action'' = Some ''add'' then map (Pair True) ssrcs
        else if get_str J (pk_d evt) ''action'' = Some ''remove'' then map (Pair False) ssrcs
        else []) evts)"

fun apply_op :: "bool \<times> u32 \<Rightarrow> u32 set \<Rightarrow> u32 set" where
  "apply_op (add, x) S = (if add then insert x S else S - {x})"

fun takes_effect :: "(bool \<times> u32) list \<Rightarrow> u32 set \<Rightarrow> bool" where
  "takes_effect [] S \<longleftrightarrow> False"
| "takes_effect (p # ops) S \<longleftrightarrow> (snd p \<in> S) \<noteq> fst p \<or> takes_effect ops (apply_op p S)"

lemma takes_effect_append:
  "takes_effect (xs @ ys) S \<longleftrightarrow> takes_effect xs S \<or> takes_effect ys (fold apply_op xs S)"
  by (induction xs arbitrary: S) auto

lemma update_track_fold:
  assumes "\<And>t. t \<in> set tracks \<Longrightarrow> f t = map_option ucast (Option.bind (jo_get J t ''ssrc'') (jo_as_u64 J))"
  shows "fold (update_track J ''add'') tracks (S, c) = (let ops = map (Pair True) (List.map_filter f tracks)
      in (fold apply_op ops S, c \<or> takes_effect ops S))"
    and "fold (update_track J ''remove'') tracks (S, c) = (let ops = map (Pair False) (List.map_filter f tracks)
      in (fold apply_op ops S, c \<or> takes_effect ops S))"
  using assms
  by (induction tracks arbitrary: S c)
    (auto simp: update_track_def List.map_filter_def Let_def insert_absorb split: option.split)

lemma update_track_other:
  "action \<noteq> ''add'' \<Longrightarrow> action \<noteq> ''remove'' \<Longrightarrow> fold (update_track J action) tracks s = s"
  by (induction tracks arbitrary: s) (auto simp: update_track_def split: option.split)

lemma update_tracks_ops:
  "fold (update_tracks J) evts (S, c) = (fold apply_op (track_ops J evts) S, c \<or> takes_effect (track_ops J evts) S)"
proof (induction evts arbitrary: S c)
  case (Cons e evts)
  have "str_or [] (get_str J d k) = a \<longleftrightarrow> get_str J d k = Some a" if "a \<noteq> []" for d k a
    using that by (cases "get_str J d k") (auto simp: str_or_def)
  then have "update_tracks J e (S, c) = (fold apply_op (track_ops J [e]) S, c \<or> takes_effect (track_ops J [e]) S)"
    by (cases "get_str J (pk_d e) ''action'' = Some ''add''"; cases "get_str J (pk_d e) ''action'' = Some ''remove''")
      (auto simp: update_tracks_def track_ops_def Let_def update_track_fold update_track_other str_or_def split: option.split)
  moreover have "track_ops J (e # evts) = track_ops J [e] @ track_ops J evts" by (simp add: track_ops_def)
  ultimately show ?case by (simp add: Cons takes_effect_append disj_assoc)
qed (simp add: track_ops_def)

lemma apply_ops_last:
  "x \<in> fold apply_op ops S \<longleftrightarrow> (case find (\<lambda>p. snd p = x) (rev ops) of Some p \<Rightarrow> fst p | None \<Rightarrow> x \<in> S)"
  by (induction ops rule: rev_induct) (auto split: option.split prod.split if_splits)

lemma process_floor_and_room_keeps:
  assumes "process_floor_and_room E b = Some (r, b')"
  shows "r = Inr () \<and> b_subscribe_ssrcs b' = b_subscribe_ssrcs b
    \<and> ack_sent (sh_floor (b_shared b')) = ack_sent (sh_floor (b_shared b))
    \<and> tracks_ack_sent (sh_obs (b_shared b')) = tracks_ack_sent (sh_obs (b_shared b))"
  using assms
  by (auto simp: process_floor_and_room_def drain_floor_mbcp_def drain_all_events_def handle_floor_raws_read
    floor_fold room_fold after_messages_def Let_def split: option.splits)

text \<open>C10: After an event round the subscribed streams are those whose last addition or removal in the
  batch of track updates is an addition, and the earlier ones the batch does not name.  The bot
  acknowledges (in the floor state and in the observations) exactly when some update took effect
  and the server answered; a round fails only after such an update, and then the floor and room
  events of the round are not handled.\<close>

theorem track_updates_effect:
  assumes "b_session b = Some s" "process_events E b = Some (r, b')"
  shows "let evts = s_event_buf (poll_events (be_sig E) s);
      ops = track_ops (js (be_sig E)) (filter (\<lambda>p. pk_op p = we_op (wire (be_sig E)) OP_TRACKS_UPDATE) evts);
      S = b_subscribe_ssrcs b; acked = (r = Inr () \<and> takes_effect ops S)
    in (\<forall>x. x \<in> b_subscribe_ssrcs b' \<longleftrightarrow> (case find (\<lambda>p. snd p = x) (rev ops) of Some p \<Rightarrow> fst p | None \<Rightarrow> x \<in> S))
      \<and> (ack_sent (sh_floor (b_shared b')) \<longleftrightarrow> ack_sent (sh_floor (b_shared b)) \<or> acked)
      \<and> (tracks_ack_sent (sh_obs (b_shared b')) \<longleftrightarrow> tracks_ack_sent (sh_obs (b_shared b)) \<or> acked)
      \<and> (r \<noteq> Inr () \<longrightarrow> takes_effect ops S \<and> b_shared b' = b_shared b)"
proof -
  define p where "p = poll_events (be_sig E) s"
  define ops where "ops = track_ops (js (be_sig E)) (filter (\<lambda>p. pk_op p = we_op (wire (be_sig E)) OP_TRACKS_UPDATE) (s_event_buf p))"
  define S where "S = b_subscribe_ssrcs b"
  note unfolded = process_events_def assms(1) Let_def drain_all_events_def p_def [symmetric] ops_def [symmetric]
    S_def [symmetric] update_tracks_ops
  have "b_subscribe_ssrcs b' = fold apply_op ops S
      \<and> (ack_sent (sh_floor (b_shared b')) \<longleftrightarrow> ack_sent (sh_floor (b_shared b)) \<or> r = Inr () \<and> takes_effect ops S)
      \<and> (tracks_ack_sent (sh_obs (b_shared b')) \<longleftrightarrow> tracks_ack_sent (sh_obs (b_shared b)) \<or> r = Inr () \<and> takes_effect ops S)
      \<and> (r \<noteq> Inr () \<longrightarrow> takes_effect ops S \<and> b_shared b' = b_shared b)"
  proof (cases "takes_effect ops S")
    case True
    obtain x s2 where x: "tracks_ready (be_sig E)
        (p\<lparr>s_event_buf := filter (\<lambda>p. pk_op p \<noteq> we_op (wire (be_sig E)) OP_TRACKS_UPDATE) (s_event_buf p)\<rparr>) = (x, s2)"
      by force
    show ?thesis
    proof (cases x)
      case (Inl e)
      with assms(2) True x show ?thesis by (auto simp: unfolded)
    next
      case (Inr resp)
      with assms(2) True x have "process_floor_and_room E (set_floor (\<lambda>f. f\<lparr>ack_sent := True\<rparr>)
          (observe mark_tracks_ack_sent (b\<lparr>b_subscribe_ssrcs := fold apply_op ops S, b_session := Some s2\<rparr>))) = Some (r, b')"
        by (simp add: unfolded)
      from process_floor_and_room_keeps [OF this] True show ?thesis by (simp add: mark_tracks_ack_sent_def)
    qed
  next
    case False
    with assms(2) have "process_floor_and_room E (b\<lparr>b_session := Some (p\<lparr>s_event_buf :=
          filter (\<lambda>p. pk_op p \<noteq> we_op (wire (be_sig E)) OP_TRACKS_UPDATE) (s_event_buf p)\<rparr>),
        b_subscribe_ssrcs := fold apply_op ops S\<rparr>) = Some (r, b')"
      by (simp add: unfolded)
    from process_floor_and_room_keeps [OF this] False show ?thesis by simp
  qed
  then show ?thesis
    unfolding Let_def p_def [symmetric] ops_def [symmetric] S_def [symmetric] by (simp add: apply_ops_last)
qed

definition sample_update :: "string \<Rightarrow> u64 list \<Rightarrow> sample_json packet" where
  "sample_update action ssrcs = \<lparr>pk_op = 130, pk_pid = 0, pk_ok = None, pk_d = SObj [(''action'', SStr action),
     (''tracks'', SArr (map (\<lambda>n. SObj [(''ssrc'', SNum n)]) ssrcs))]\<rparr>"

theorem track_updates_effect_witness:
  "\<exists>r b'. process_events sample_bot_env (sample_joined\<lparr>b_subscribe_ssrcs := {5, 6}, b_session := Some ((sample_session [])
        \<lparr>s_event_buf := [sample_update ''add'' [7, 8], sample_update ''remove'' [7, 6], sample_update ''mute'' [5]]\<rparr>)\<rparr>)
      = Some (r, b') \<and> b_subscribe_ssrcs b' = {5, 8}"
proof -
  let ?s = "(sample_session [])\<lparr>s_event_buf := [sample_update ''add'' [7, 8], sample_update ''remove'' [7, 6], sample_update ''mute'' [5]]\<rparr>"
  let ?b = "sample_joined\<lparr>b_subscribe_ssrcs := {5, 6}, b_session := Some ?s\<rparr>"
  obtain r b' where b': "process_events sample_bot_env ?b = Some (r, b')"
    using handlers_return(3) [of sample_bot_env ?b] by auto
  have "s_event_buf (poll_events sample_sig ?s) = s_event_buf ?s"
    using poll_events_effect [of sample_sig ?s] by (simp add: buffered_def sample_session_def sample_ws_def)
  moreover have "track_ops (js sample_sig) [sample_update ''add'' [7, 8], sample_update ''remove'' [7, 6], sample_update ''mute'' [5]]
      = [(True, 7), (True, 8), (False, 7), (False, 6)]"
    by (simp add: track_ops_def sample_update_def sample_sig_def sample_json_ops_def sample_get_def get_str_def
      List.map_filter_def)
  ultimately have "\<forall>x. x \<in> b_subscribe_ssrcs b' \<longleftrightarrow> x \<in> {5, 8}"
    using track_updates_effect [OF _ b', of ?s]
    by (auto simp: sample_bot_env_def sample_sig_def sample_wire_def sample_update_def Let_def split: if_splits)
  with b' show ?thesis by blast
qed

section \<open>Floor requests\<close>

text \<open>C13: A floor request is taken as granted by any floor-taken message in the buffer, whoever it
  names as the speaker and even if it arrived before the request: the first round of the wait grants,
  the grant is recorded for layer 1, and all buffered floor messages are gone without their effect
  on the floor state.\<close>

theorem floor_request_takes_any_message:
  assumes "b_session b = Some s" "raw \<in> set (s_floor_mbcp_buf s)"
    and "mbcp_read raw = Some m" "mm_subtype m = SUBTYPE_FTKN"
    and "fst (send_floor_mbcp (be_sig E) (mbcp_wire SUBTYPE_FREQ (audio_ssrc (b_rtp_config b)) None) s) = Inr ()"
    and "0 < be_floor_rounds E"
  shows "\<exists>b' s'. floor_request_ws E ms prio b = Some (Inr True, b')
    \<and> floor_grants (sh_obs (b_shared b')) = floor_grants (sh_obs (b_shared b))
        @ [\<lparr>fg_bot_id = bc_id (b_config b), fg_priority = prio, fg_granted = True, fg_queued = False, fg_timestamp_ms = ms\<rparr>]
    \<and> sh_floor (b_shared b') = (sh_floor (b_shared b))\<lparr>floor_idle := False\<rparr>
    \<and> b_session b' = Some s' \<and> s_floor_mbcp_buf s' = []"
proof -
  obtain s1 where s1: "send_floor_mbcp (be_sig E) (mbcp_wire 0 (audio_ssrc (b_rtp_config b)) None) s = (Inr (), s1)"
    using assms(5) by (cases "send_floor_mbcp (be_sig E) (mbcp_wire 0 (audio_ssrc (b_rtp_config b)) None) s") simp
  then have "s_floor_mbcp_buf s1 = s_floor_mbcp_buf s"
    by (auto simp: send_floor_mbcp_def next_pid_def split: prod.splits)
  then have "raw \<in> set (s_floor_mbcp_buf (poll_events (be_sig E) s1))"
    using poll_events_effect [of "be_sig E" s1] assms(2) by (simp add: buffered_def)
  then have "scan_ftkn (s_floor_mbcp_buf (poll_events (be_sig E) s1)) = Some True"
    using assms(3,4) by (auto simp: scan_ftkn_read)
  moreover obtain n where "be_floor_rounds E = Suc n" using assms(6) by (cases "be_floor_rounds E") auto
  ultimately show ?thesis
    by (simp add: floor_request_ws_def build_freq_def mbcp_build_wire assms(1) s1 drain_floor_mbcp_def
      record_floor_grant_def Let_def)
qed

text \<open>A message about another speaker, received before the request.\<close>

theorem floor_request_takes_any_message_witness:
  "\<exists>b' s'. floor_request_ws sample_bot_env 0 3 (sample_joined\<lparr>b_session := Some ((sample_session [])
        \<lparr>s_floor_mbcp_buf := [mbcp_wire SUBTYPE_FTKN 99 (Some ''someone else''), mbcp_wire SUBTYPE_FRVK 99 None]\<rparr>)\<rparr>)
      = Some (Inr True, b') \<and> b_session b' = Some s' \<and> s_floor_mbcp_buf s' = []"
proof -
  let ?raw = "mbcp_wire SUBTYPE_FTKN 99 (Some ''someone else'')"
  have "mbcp_read ?raw = Some (the (mbcp_read ?raw))" "mm_subtype (the (mbcp_read ?raw)) = SUBTYPE_FTKN"
    by code_simp+
  from floor_request_takes_any_message [OF _ _ this, where E = sample_bot_env and ms = 0 and prio = 3
      and b = "sample_joined\<lparr>b_session := Some ((sample_session [])
        \<lparr>s_floor_mbcp_buf := [?raw, mbcp_wire SUBTYPE_FRVK 99 None]\<rparr>)\<rparr>"
      and s = "(sample_session [])\<lparr>s_floor_mbcp_buf := [?raw, mbcp_wire SUBTYPE_FRVK 99 None]\<rparr>"]
  show ?thesis
    by (fastforce simp: send_floor_mbcp_def next_pid_def ws_send_def sample_bot_env_def sample_sig_def sample_wire_def
      sample_session_def sample_ws_def)
qed

section \<open>Layer switches as layer 1 sees them\<close>

lemma observe_first_video_keeps:
  "\<exists>fl' obs'. observe_first_video mode pt p (fl, obs) = Some (fl', obs')
     \<and> floor_just_released fl' = floor_just_released fl
     \<and> ptt_silence_frames_after_release obs' = ptt_silence_frames_after_release obs
     \<and> simulcast_layer_switches obs' = simulcast_layer_switches obs"
proof -
  obtain k where "detect_vp8_keyframe p = Some k" using detect_vp8_keyframe_returns [of p] by blast
  then show ?thesis by (simp add: observe_first_video_def Let_def record_ptt_first_video_keyframe_def)
qed

text \<open>C14: The receive loop files a packet's own timestamp before it looks for the timestamp before a
  layer switch.  When the map of last timestamps yields the packet's own entry first (always when
  it is the first stream received), the recorded switch has the packet's own timestamp both as the
  one before and the one after, and the timestamp continuity check fails for every session that
  contains it, whatever the server sent.\<close>

theorem layer_switch_own_timestamp:
  assumes "rd p 1 = Some b1" "b1 AND 0x7F \<noteq> 111" "rd32 p 4 = Some ts" "rd32 p 8 = Some ssrc" "12 \<le> length p"
    and "sh_pending sh = Some sw" "pls_ts_before sw = None" "\<not> pls_done sw" "pls_requested_layer sw \<noteq> ''pause''"
    and "fo (insert ssrc (dom prev)) = ssrc"
  shows "\<exists>prev' sh' ev. sub_rtp fo mode now p prev sh = Some (prev', sh')
    \<and> simulcast_layer_switches (sh_obs sh') = simulcast_layer_switches (sh_obs sh) @ [ev]
    \<and> ts_before ev = Some ts \<and> ts_after ev = Some ts
    \<and> (\<forall>bid all d. (bid, sh_obs sh') \<in> set all \<longrightarrow> outcome (eval_l1_19 all d) = Some (cd_id d, VFail))"
proof -
  obtain seq where seq: "rd16 p 2 = Some seq" using assms(5) by simp
  obtain k where k: "detect_vp8_keyframe p = Some k" using detect_vp8_keyframe_returns [of p] by blast
  define obs where "obs = observe_silence mode (sh_floor sh) (b1 AND 0x7F) (length p)
    (observe_non_speaker mode (sh_floor sh) (observe_ssrc (b1 AND 0x7F) ssrc (sh_obs sh)))"
  obtain fl obs1 where 1: "observe_first_video mode (b1 AND 0x7F) p (sh_floor sh, obs) = Some (fl, obs1)"
      "simulcast_layer_switches obs1 = simulcast_layer_switches obs"
    using observe_first_video_keeps by blast
  define obs2 where "obs2 = observe_ts_gap mode now ssrc ts (b1 AND 0x7F) prev (observe_before_ack (b1 AND 0x7F) fl obs1)"
  have sls: "simulcast_layer_switches obs2 = simulcast_layer_switches (sh_obs sh)"
    by (simp add: obs2_def obs_def 1(2) observe_ssrc_def observe_non_speaker_def observe_silence_def
      observe_before_ack_def observe_ts_gap_def record_defs Let_def split: option.split)
  define ev where "ev = \<lparr>requested_layer = pls_requested_layer sw, request_timestamp_ms = millis (now - pls_request_time sw),
    keyframe_after_ms = (if k then Some (millis (now - pls_request_time sw)) else None), ts_before = Some ts,
    ts_after = Some ts, packets_after = True\<rparr>"
  have ev: "requested_layer ev = pls_requested_layer sw" "ts_before ev = Some ts" "ts_after ev = Some ts"
    by (simp_all add: ev_def)
  have sw: "observe_layer_switch fo now ts (b1 AND 0x7F) p (prev(ssrc \<mapsto> (now, ts))) (sh_pending sh, obs2)
      = Some (Some (sw\<lparr>pls_ts_before := Some ts, pls_done := True\<rparr>), record_layer_switch ev obs2)"
    using assms(2,6-10) by (simp add: observe_layer_switch_def k Let_def ev_def)
  let ?sh = "sh\<lparr>sh_metrics := metrics_store_update now ssrc (b1 AND 0x7F) seq ts (sh_metrics sh), sh_floor := fl,
      sh_obs := record_layer_switch ev obs2, sh_pending := Some (sw\<lparr>pls_ts_before := Some ts, pls_done := True\<rparr>)\<rparr>"
  have "sub_rtp fo mode now p prev sh = Some (prev(ssrc \<mapsto> (now, ts)), ?sh)"
    using assms(5) by (simp add: sub_rtp_def assms(1,3,4) seq Let_def obs_def [symmetric] 1(1) obs2_def [symmetric] sw
      del: rd_Some rd16_Some rd32_Some One_nat_def)
  moreover have "outcome (eval_l1_19 all d) = Some (cd_id d, VFail)"
    if "(bid, record_layer_switch ev obs2) \<in> set all" for bid all d
  proof -
    have "ev \<in> active_set all"
      unfolding active_set_def using that assms(9) ev(1)
      by (auto simp: record_layer_switch_def intro!: bexI [OF _ that])
    then have "\<exists>s \<in> active_set all. ts_before s = Some ts \<and> ts_after s = Some ts" using ev(2,3) by blast
    then show ?thesis by (force simp: outcome_19 Let_def fails_if_def)
  qed
  ultimately show ?thesis
    by (intro exI [of _ "prev(ssrc \<mapsto> (now, ts))"] exI [of _ ?sh] exI [of _ ev] conjI)
      (simp_all add: record_layer_switch_def sls ev_def)
qed

theorem layer_switch_own_timestamp_witness:
  "\<exists>prev' sh'. sub_rtp (\<lambda>S. 5) ''conference'' 7 [128, 96, 0, 1, 0, 0, 0, 9, 0, 0, 0, 5] (\<lambda>_. None)
      ((b_shared sample_joined)\<lparr>sh_pending := Some \<lparr>pls_requested_layer = ''h'', pls_request_time = 3,
          pls_ts_before = None, pls_done = False\<rparr>\<rparr>) = Some (prev', sh')
    \<and> (\<forall>d. outcome (eval_l1_19 [(''alice'', sh_obs sh')] d) = Some (cd_id d, VFail))"
  using layer_switch_own_timestamp [of "[128, 96, 0, 1, 0, 0, 0, 9, 0, 0, 0, 5]" 96 9 5
      "(b_shared sample_joined)\<lparr>sh_pending := Some \<lparr>pls_requested_layer = ''h'', pls_request_time = 3,
          pls_ts_before = None, pls_done = False\<rparr>\<rparr>" _ "\<lambda>S. 5" "\<lambda>_. None" "''conference''" 7]
  by (fastforce simp: from_be32_def)

end
