(* ===== verification/FloorSession.thy ===== *)
theory FloorSession
  imports BotEffects
begin

text \<open>
  A bot over a whole session: its commands and the iterations of its tasks in any order, each labelled with
  what it means for the floor, and the count of silence frames that the session leaves for layer 1.
\<close>

section \<open>A session as a trace\<close>

text \<open>What a step has to do with the floor: a round of floor messages, a packet the subscriber's reader
  decrypted, or nothing.\<close>

datatype floor_event = Turn "mbcp_message list" | Heard bytes | Quiet

text \<open>The messages that \<open>process_events\<close> hands to \<open>handle_floor_message\<close>: those buffered after the track
  updates were acknowledged; a failed acknowledgement ends the round before them.\<close>

definition round_messages :: "('j, 'g, 'c) bot_env \<Rightarrow> ('j, 'g, 'c) bot \<Rightarrow> mbcp_message list" where
  "round_messages E b = (case b_session b of
       None \<Rightarrow> []
     | Some s \<Rightarrow>
        let (evts, s) = drain_all_events (we_op (wire (be_sig E)) OP_TRACKS_UPDATE) (poll_events (be_sig E) s);
            buffered = (\<lambda>s. List.map_filter mbcp_read (s_floor_mbcp_buf s))
        in if snd (fold (update_tracks (js (be_sig E))) evts (b_subscribe_ssrcs b, False))
           then (case tracks_ready (be_sig E) s of (Inl e, s) \<Rightarrow> [] | (Inr resp, s) \<Rightarrow> buffered s)
           else buffered s)"

text \<open>The RTP packet that an iteration of the subscriber's reader decrypts.\<close>

definition heard_packet :: "('j, 'g, 'c) bot_env \<Rightarrow> recv_result \<Rightarrow> 'c tasks \<Rightarrow> bytes option" where
  "heard_packet E received g = (case (tk_sub_recv g, received) of
       (Some t, Datagram d) \<Rightarrow>
         let buf = take 2048 d; pt = buf ! 1 AND 0x7F
         in if 12 \<le> length buf \<and> is_rtp (buf ! 0) \<and> \<not> (72 \<le> pt \<and> pt \<le> 79)
            then fst (decrypt_rtp (be_srtp E) buf (sr_srtp t)) else None
     | _ \<Rightarrow> None)"

definition event_of :: "bytes option \<Rightarrow> floor_event" where
  "event_of p = (case p of None \<Rightarrow> Quiet | Some p \<Rightarrow> Heard p)"

inductive floor_step :: "('j, 'g, 'c) bot \<Rightarrow> floor_event \<Rightarrow> ('j, 'g, 'c) bot \<Rightarrow> bool" where
  "connect_and_join E b = (r, b') \<Longrightarrow> floor_step b Quiet b'"
| "join_existing_room E room_id b = (r, b') \<Longrightarrow> floor_step b Quiet b'"
| "setup_media E b = Some (r, b') \<Longrightarrow> floor_step b Quiet b'"
| "publish_intent E b = (r, b') \<Longrightarrow> floor_step b Quiet b'"
| "start_publishing E b = (r, b') \<Longrightarrow> floor_step b Quiet b'"
| "update_net_filter now cfg b = b' \<Longrightarrow> floor_step b Quiet b'"
| "bot_subscribe_layer E now layer ssrcs b = (r, b') \<Longrightarrow> floor_step b Quiet b'"
| "floor_request_ws E unix_ms priority b = Some (g, b') \<Longrightarrow> floor_step b Quiet b'"
| "floor_release_ws E b = Some (r, b') \<Longrightarrow> floor_step b Quiet b'"
| "send_mbcp E send_error pkt b = (r, b') \<Longrightarrow> floor_step b Quiet b'"
| Round: "process_events E b = Some (r, b') \<Longrightarrow> floor_step b (Turn (round_messages E b)) b'"
| "stop_publishing b = b' \<Longrightarrow> floor_step b Quiet b'"
| "bot_heartbeat E b = (r, b') \<Longrightarrow> floor_step b Quiet b'"
| "disconnect b = b' \<Longrightarrow> floor_step b Quiet b'"
| "i < length (b_groups b) \<Longrightarrow> audio_tick E now send_error i b = Some b' \<Longrightarrow> floor_step b Quiet b'"
| "i < length (b_groups b) \<Longrightarrow> video_tick E now send_error i b = Some b' \<Longrightarrow> floor_step b Quiet b'"
| "i < length (b_groups b) \<Longrightarrow> pub_recv E received i b = Some b' \<Longrightarrow> floor_step b Quiet b'"
| Recv: "i < length (b_groups b) \<Longrightarrow> sub_recv E now received i b = Some b'
    \<Longrightarrow> floor_step b (event_of (heard_packet E received (group i b))) b'"

text \<open>Every step of a bot is one of these.\<close>

lemma bot_step_floor_step: "bot_step b b' \<Longrightarrow> \<exists>ev. floor_step b ev b'"
  by (induction rule: bot_step.induct) (blast intro: floor_step.intros)+

inductive floor_run :: "('j, 'g, 'c) bot \<Rightarrow> floor_event list \<Rightarrow> ('j, 'g, 'c) bot \<Rightarrow> bool" where
  Nil: "floor_run b [] b"
| Cons: "floor_step b ev b1 \<Longrightarrow> floor_run b1 evs b2 \<Longrightarrow> floor_run b (ev # evs) b2"

text \<open>The count of silence frames in a trace: those heard while the last of the floor-taken and floor-idle
  messages handled is a floor-idle one.\<close>

fun released_after :: "floor_event \<Rightarrow> bool \<Rightarrow> bool" where
  "released_after (Turn msgs) released = (case last_turn msgs of None \<Rightarrow> released | Some t \<Rightarrow> t = SUBTYPE_FIDL)"
| "released_after ev released = released"

definition is_silence :: "bytes \<Rightarrow> bool" where
  "is_silence p \<longleftrightarrow> 12 \<le> length p \<and> length p \<le> 15 \<and> p ! 1 AND 0x7F = 111"

fun silences :: "bool \<Rightarrow> floor_event list \<Rightarrow> nat" where
  "silences released [] = 0"
| "silences released (Heard p # evs) = (if released \<and> is_silence p then 1 else 0) + silences released evs"
| "silences released (ev # evs) = silences (released_after ev released) evs"

section \<open>What a step does to the count\<close>

abbreviation silence_count :: "('j, 'g, 'c) bot \<Rightarrow> u64" where
  "silence_count b \<equiv> ptt_silence_frames_after_release (sh_obs (b_shared b))"

abbreviation released :: "('j, 'g, 'c) bot \<Rightarrow> bool" where
  "released b \<equiv> floor_just_released (sh_floor (b_shared b))"

text \<open>A step that leaves the count, the flag and the configuration alone.\<close>

definition same_floor :: "('j, 'g, 'c) bot \<Rightarrow> ('j, 'g, 'c) bot \<Rightarrow> bool" where
  "same_floor b b' \<longleftrightarrow> silence_count b' = silence_count b \<and> released b' = released b \<and> b_config b' = b_config b"

lemma same_floor_refl [simp]: "same_floor b b"
  by (simp add: same_floor_def)

lemma same_floor_commands:
  "connect_and_join E b = (r, b') \<Longrightarrow> same_floor b b'" "join_existing_room E room_id b = (r, b') \<Longrightarrow> same_floor b b'"
  "publish_intent E b = (r, b') \<Longrightarrow> same_floor b b'" "start_publishing E b = (r, b') \<Longrightarrow> same_floor b b'"
  "bot_subscribe_layer E now layer ssrcs b = (r, b') \<Longrightarrow> same_floor b b'"
  "floor_release_ws E b = Some (q, b') \<Longrightarrow> same_floor b b'" "send_mbcp E send_error pkt b = (r, b') \<Longrightarrow> same_floor b b'"
  "bot_heartbeat E b = (r, b') \<Longrightarrow> same_floor b b'" "update_net_filter now cfg b = b' \<Longrightarrow> same_floor b b'"
  "stop_publishing b = b' \<Longrightarrow> same_floor b b'" "disconnect b = b' \<Longrightarrow> same_floor b b'"
  by (auto simp: same_floor_def connect_and_join_def join_existing_room_def joined_def publish_intent_def
    start_publishing_def update_net_filter_def bot_subscribe_layer_def floor_release_ws_def build_frel_def panic_free
    send_mbcp_def stop_publishing_def bot_heartbeat_def disconnect_def Let_def
    split: sum.splits option.splits prod.splits if_splits)

lemma same_floor_media: "setup_media E b = Some (r, b') \<Longrightarrow> same_floor b b'"
  unfolding setup_media_def
  by (auto simp: same_floor_def split: if_split_asm option.split_asm sum.split_asm Option.bind_split_asm)

lemma same_floor_trans: "same_floor a b \<Longrightarrow> same_floor b c \<Longrightarrow> same_floor a c"
  by (simp add: same_floor_def)

lemma same_floor_await: "await_floor_taken E n b = Some (g, b') \<Longrightarrow> same_floor b b'"
proof (induction n arbitrary: b)
  case (Suc n)
  show ?case
  proof (cases "b_session b")
    case (Some s)
    obtain raws s' where d: "drain_floor_mbcp (poll_events (be_sig E) s) = (raws, s')" by force
    show ?thesis using Suc.prems Suc.IH [of "b\<lparr>b_session := Some s'\<rparr>"]
      by (auto simp: Some d scan_ftkn_read same_floor_def Let_def split: if_split_asm)
  qed (use Suc.prems in simp)
qed simp

lemma same_floor_request: "floor_request_ws E ms p b = Some (g, b') \<Longrightarrow> same_floor b b'"
  by (auto simp: floor_request_ws_def build_freq_def panic_free same_floor_def record_floor_grant_def
    dest!: same_floor_await split: option.splits prod.splits sum.splits Option.bind_split_asm)

lemma same_floor_ticks:
  "audio_tick E now e i b = Some b' \<Longrightarrow> same_floor b b'" "video_tick E now e i b = Some b' \<Longrightarrow> same_floor b b'"
  by (auto simp: audio_tick_def video_tick_def same_floor_def Let_def split: option.splits prod.splits Option.bind_split_asm)

lemma parse_rtcp_compound_silence:
  "parse_rtcp_compound p ssrc force obs = Some (force', obs')
    \<Longrightarrow> ptt_silence_frames_after_release obs' = ptt_silence_frames_after_release obs"
  by (auto simp: parse_rtcp_compound_def pub_rtcp.loop_frames publisher_fold)

lemma same_floor_pub_recv: "pub_recv E received i b = Some b' \<Longrightarrow> same_floor b b'"
  by (cases received) (auto simp: pub_recv_def pub_recv_step_def same_floor_def Let_def
    dest!: parse_rtcp_compound_silence split: option.splits prod.splits if_splits Option.bind_split_asm)

text \<open>A packet is counted exactly when it is a silence frame and the floor was just released.\<close>

lemma sub_rtp_silence:
  "\<exists>prev' sh'. sub_rtp fo ''ptt'' now p prev sh = Some (prev', sh')
    \<and> floor_just_released (sh_floor sh') = floor_just_released (sh_floor sh)
    \<and> ptt_silence_frames_after_release (sh_obs sh') = ptt_silence_frames_after_release (sh_obs sh)
        + (if floor_just_released (sh_floor sh) \<and> is_silence p then 1 else 0)"
proof (cases "length p < 12")
  case True
  then show ?thesis by (simp add: sub_rtp_def is_silence_def)
next
  case False
  obtain seq ts ssrc b1 where rd: "rd16 p 2 = Some seq" "rd32 p 4 = Some ts" "rd32 p 8 = Some ssrc" "rd p 1 = Some b1"
      "b1 = p ! 1"
    using False by simp
  obtain k where k: "detect_vp8_keyframe p = Some k" using detect_vp8_keyframe_returns [of p] by blast
  define obs where "obs = observe_silence ''ptt'' (sh_floor sh) (b1 AND 0x7F) (length p)
    (observe_non_speaker ''ptt'' (sh_floor sh) (observe_ssrc (b1 AND 0x7F) ssrc (sh_obs sh)))"
  obtain fl obs1 where 1: "observe_first_video ''ptt'' (b1 AND 0x7F) p (sh_floor sh, obs) = Some (fl, obs1)"
      "floor_just_released fl = floor_just_released (sh_floor sh)"
      "ptt_silence_frames_after_release obs1 = ptt_silence_frames_after_release obs"
    using observe_first_video_keeps by blast
  define obs2 where "obs2 = observe_ts_gap ''ptt'' now ssrc ts (b1 AND 0x7F) prev (observe_before_ack (b1 AND 0x7F) fl obs1)"
  have len: "length p - 12 \<le> 3 \<longleftrightarrow> length p \<le> 15" using False by arith
  have c2: "ptt_silence_frames_after_release obs2
      = ptt_silence_frames_after_release (sh_obs sh) + (if floor_just_released (sh_floor sh) \<and> is_silence p then 1 else 0)"
    using False rd(5) by (simp add: obs2_def obs_def 1(3) observe_ssrc_def observe_non_speaker_def observe_silence_def
      observe_before_ack_def observe_ts_gap_def record_defs is_silence_def len Let_def split: option.split)
  have "\<exists>pls' obs'. observe_layer_switch fo now ts (b1 AND 0x7F) p (prev(ssrc \<mapsto> (now, ts))) (sh_pending sh, obs2) = Some (pls', obs')
      \<and> ptt_silence_frames_after_release obs' = ptt_silence_frames_after_release obs2"
    by (simp add: observe_layer_switch_def k Let_def record_layer_switch_def split: option.split)
  then obtain pls' obs' where 2: "observe_layer_switch fo now ts (b1 AND 0x7F) p (prev(ssrc \<mapsto> (now, ts))) (sh_pending sh, obs2)
      = Some (pls', obs')" "ptt_silence_frames_after_release obs' = ptt_silence_frames_after_release obs2" by blast
  show ?thesis
    using False
    by (simp add: sub_rtp_def rd(1-4) Let_def obs_def [symmetric] 1 obs2_def [symmetric] 2 c2
      del: rd_Some rd16_Some rd32_Some One_nat_def)
qed

lemma sub_recv_silence:
  assumes "bc_mode (b_config b) = ''ptt''" "sub_recv E now received i b = Some b'"
  shows "b_config b' = b_config b \<and> released b' = released b
    \<and> silence_count b' = silence_count b + of_nat (silences (released b) [event_of (heard_packet E received (group i b))])"
proof (cases "tk_sub_recv (group i b)")
  case None
  then show ?thesis using assms by (simp add: sub_recv_def heard_packet_def event_of_def)
next
  case (Some t)
  obtain t' sh where t': "sub_recv_step (be_srtp E) (be_first_of E) ''ptt'' now received (t, b_shared b) = Some (t', sh)"
    and b': "b' = b\<lparr>b_groups := (b_groups b)[i := (group i b)\<lparr>tk_sub_recv := t'\<rparr>], b_shared := sh\<rparr>"
    using assms by (auto simp: sub_recv_def Some split: Option.bind_split_asm)
  have "floor_just_released (sh_floor sh) = released b
    \<and> ptt_silence_frames_after_release (sh_obs sh)
        = silence_count b + of_nat (silences (released b) [event_of (heard_packet E received (group i b))])"
  proof (cases received)
    case (Datagram d)
    define buf where "buf = take 2048 d"
    show ?thesis
    proof (cases "length buf < 12")
      case True
      then show ?thesis using t'
        by (auto simp: sub_recv_step_def heard_packet_def event_of_def Some Datagram buf_def [symmetric] Let_def)
    next
      case False
      then have rd: "rd buf 0 = Some (buf ! 0)" "rd buf 1 = Some (buf ! 1)" by (auto simp: rd_def)
      obtain x srtp where x: "decrypt_rtp (be_srtp E) buf (sr_srtp t) = (x, srtp)" by force
      obtain y srtp' where y: "decrypt_rtcp (be_srtp E) buf (sr_srtp t) = (y, srtp')" by force
      note defs = sub_recv_step_def heard_packet_def event_of_def Some Datagram buf_def [symmetric] rd Let_def
      show ?thesis
      proof (cases "is_rtp (buf ! 0) \<and> \<not> (72 \<le> buf ! 1 AND 0x7F \<and> buf ! 1 AND 0x7F \<le> 79)")
        case True
        show ?thesis
        proof (cases x)
          case None
          then show ?thesis using False True t' by (auto simp: defs x)
        next
          case (Some p)
          obtain prev' sh' where "sub_rtp (be_first_of E) ''ptt'' now p (sr_ssrc_last t) (b_shared b) = Some (prev', sh')"
            "floor_just_released (sh_floor sh') = released b"
            "ptt_silence_frames_after_release (sh_obs sh') = silence_count b + (if released b \<and> is_silence p then 1 else 0)"
            using sub_rtp_silence by blast
          then show ?thesis using False True t' Some by (auto simp: defs x)
        qed
      next
        case rtcp: False
        then show ?thesis using False t'
          by (cases y) (auto simp: defs y parse_rtcp_for_sr_def sub_rtcp.loop_frames subscriber_fold)
      qed
    qed
  qed (use t' in \<open>auto simp: sub_recv_step_def heard_packet_def event_of_def Some\<close>)
  then show ?thesis by (simp add: b')
qed

lemma floor_and_room_silence:
  "process_floor_and_room E b = Some (r, b') \<Longrightarrow> b_config b' = b_config b \<and> silence_count b' = silence_count b
    \<and> released b' = (case b_session b of None \<Rightarrow> released b
        | Some s \<Rightarrow> released_after (Turn (List.map_filter mbcp_read (s_floor_mbcp_buf s))) (released b))"
  by (auto simp: process_floor_and_room_def drain_floor_mbcp_def drain_all_events_def handle_floor_raws_read floor_fold
    room_fold after_messages_def Let_def split: option.splits)

lemma process_events_silence:
  assumes "process_events E b = Some (r, b')"
  shows "b_config b' = b_config b \<and> silence_count b' = silence_count b
    \<and> released b' = released_after (Turn (round_messages E b)) (released b)"
proof (cases "b_session b")
  case (Some s)
  obtain evts s1 where d: "drain_all_events (we_op (wire (be_sig E)) OP_TRACKS_UPDATE) (poll_events (be_sig E) s) = (evts, s1)"
    by force
  obtain ssrcs changed where u: "fold (update_tracks (js (be_sig E))) evts (b_subscribe_ssrcs b, False) = (ssrcs, changed)"
    by force
  obtain x s2 where t: "tracks_ready (be_sig E) s1 = (x, s2)" by force
  note defs = process_events_def round_messages_def Some d u t Let_def
  show ?thesis
  proof (cases "changed \<and> (\<exists>e. x = Inl e)")
    case True
    then show ?thesis using assms by (auto simp: defs)
  next
    case False
    then show ?thesis using assms
      by (cases x; cases changed) (auto simp: defs mark_tracks_ack_sent_def dest!: floor_and_room_silence)
  qed
qed (use assms in \<open>simp add: process_events_def round_messages_def\<close>)

lemma floor_step_silence:
  assumes "floor_step b ev b'" "bc_mode (b_config b) = ''ptt''"
  shows "b_config b' = b_config b \<and> released b' = released_after ev (released b)
    \<and> silence_count b' = silence_count b + of_nat (silences (released b) [ev])"
proof -
  have quiet: ?thesis if "ev = Quiet" "same_floor b b'"
    using that by (simp add: same_floor_def)
  from assms(1) show ?thesis
  proof (cases rule: floor_step.cases)
    case (Round E r)
    then show ?thesis using process_events_silence by force
  next
    case (Recv i E now received)
    then show ?thesis using sub_recv_silence [OF assms(2) Recv(3)]
      by (cases "heard_packet E received (group i b)") (auto simp: event_of_def)
  qed (rule quiet, assumption, erule same_floor_commands same_floor_media same_floor_request same_floor_ticks
    same_floor_pub_recv)+
qed

lemma silences_Cons: "silences rel (ev # evs) = silences rel [ev] + silences (released_after ev rel) evs"
  by (cases ev) simp_all

lemma floor_run_silence:
  "floor_run b evs b' \<Longrightarrow> bc_mode (b_config b) = ''ptt''
    \<Longrightarrow> silence_count b' = silence_count b + of_nat (silences (released b) evs)"
proof (induction rule: floor_run.induct)
  case (Cons b ev b1 evs b2)
  from floor_step_silence [OF Cons(1,4)] Cons(3,4) show ?case
    by (simp add: silences_Cons [of _ ev evs] add.assoc)
qed simp

text \<open>C15: A silence frame heard after a release is counted, and nothing in a session resets the count, neither
  the next floor-taken message nor any command or task: along every run of a PTT bot the count grows by the
  number of silence frames heard while the last turn of the floor handled was a release, over all releases,
  modulo \<open>2\<^sup>6\<^sup>4\<close> (a message that a floor request takes from the buffer is no turn).  So the check for three silence frames passes exactly when there were three in the
  whole session; after a second correct release of three frames it fails.\<close>

theorem silence_frames_accumulate:
  assumes "floor_run b evs b'" "bc_mode (b_config b) = ''ptt''"
  shows "let n = silence_count b + of_nat (silences (released b) evs)
    in silence_count b' = n
      \<and> (\<forall>bid d. outcome (eval_l1_05 [(bid, sh_obs (b_shared b'))] d ''ptt'')
           = (if n = 0 then None else Some (cd_id d, if n = 3 then VPass else VFail)))"
  using floor_run_silence [OF assms] by (auto simp: outcome_05 fails_if_def Let_def)

text \<open>Two releases, each after a floor-taken message and each with its three frames.\<close>

definition sample_talk :: "(sample_json, unit, bool) bot" where
  "sample_talk = (
     let frame = (\<lambda>msg. WsBinary ([131, 3, 0] @ mbcp_wire msg 1 None));
         round = [frame SUBTYPE_FTKN, frame SUBTYPE_FIDL, WsTimer]
     in sample_joined
       \<lparr>b_session := Some ((sample_session [])\<lparr>s_ws := (sample_ws [])\<lparr>ws_in := round @ round\<rparr>\<rparr>),
        b_groups := [\<lparr>tk_audio = None, tk_video = None, tk_pub_recv = None,
          tk_sub_recv = Some \<lparr>sr_srtp = \<lparr>sc_inner = Some True\<rparr>, sr_ssrc_last = (\<lambda>_. None)\<rparr>, tk_force_keyframe = False\<rparr>]\<rparr>)"

abbreviation sample_silence :: bytes where
  "sample_silence \<equiv> [128, 111, 0, 1, 0, 0, 0, 9, 0, 0, 0, 5]"

definition sample_round :: "(sample_json, unit, bool) bot \<Rightarrow> (sample_json, unit, bool) bot" where
  "sample_round b = snd (the (process_events sample_bot_env b))"

definition sample_heard :: "(sample_json, unit, bool) bot \<Rightarrow> (sample_json, unit, bool) bot" where
  "sample_heard b = the (sub_recv sample_bot_env 0 (Datagram sample_silence) 0 b)"

text \<open>A bot that goes on to read what it receives.\<close>

definition sample_hears :: "(sample_json, unit, bool) bot \<Rightarrow> bool" where
  "sample_hears b \<longleftrightarrow> bc_mode (b_config b) = ''ptt'' \<and> (\<exists>g t. b_groups b = [g] \<and> tk_sub_recv g = Some t
     \<and> sc_inner (sr_srtp t) = Some True)"

lemma sample_heard_step:
  assumes "sample_hears b"
  shows "floor_step b (Heard sample_silence) (sample_heard b) \<and> sample_hears (sample_heard b)
    \<and> b_session (sample_heard b) = b_session b \<and> b_subscribe_ssrcs (sample_heard b) = b_subscribe_ssrcs b"
proof -
  obtain g t where g: "b_groups b = [g]" "tk_sub_recv g = Some t" "sc_inner (sr_srtp t) = Some True" "bc_mode (b_config b) = ''ptt''"
    using assms by (auto simp: sample_hears_def)
  obtain prev sh where sh: "sub_rtp (\<lambda>s. 0) ''ptt'' 0 sample_silence (sr_ssrc_last t) (b_shared b) = Some (prev, sh)"
    using sub_rtp_silence by blast
  have dec: "decrypt_rtp sample_srtp sample_silence (sr_srtp t) = (Some sample_silence, sr_srtp t)"
    using g(3) by (cases "sr_srtp t") (simp add: decrypt_rtp_def srtp_apply_def sample_srtp_def)
  have rd: "rd sample_silence 0 = Some 128" "rd sample_silence (Suc 0) = Some 111" "is_rtp 128" by (simp_all add: rd_def is_rtp_def)
  have "sub_recv sample_bot_env 0 (Datagram sample_silence) 0 b
      = Some (b\<lparr>b_groups := [g\<lparr>tk_sub_recv := Some (t\<lparr>sr_ssrc_last := prev\<rparr>)\<rparr>], b_shared := sh\<rparr>)"
    using dec sh by (simp add: sub_recv_def g sub_recv_step_def sample_bot_env_def rd Let_def del: rd_Some)
  moreover have "heard_packet sample_bot_env (Datagram sample_silence) g = Some sample_silence"
    using dec rd(3) by (simp add: heard_packet_def g(2) sample_bot_env_def Let_def)
  ultimately show ?thesis
    using Recv [of 0 b sample_bot_env 0 "Datagram sample_silence" "sample_heard b"] g
    by (simp add: sample_heard_def event_of_def sample_hears_def)
qed

lemma process_events_groups: "process_events E b = Some (r, b') \<Longrightarrow> b_groups b' = b_groups b"
  by (auto simp: process_events_def process_floor_and_room_def drain_floor_mbcp_def handle_floor_raws_read
    Let_def split: option.splits prod.splits sum.splits if_splits)

lemma sample_round_step:
  "floor_step b (Turn (round_messages sample_bot_env b)) (sample_round b) \<and> (sample_hears b \<longrightarrow> sample_hears (sample_round b))"
proof -
  obtain r b' where b': "process_events sample_bot_env b = Some (r, b')" using handlers_return(3) by fast
  from Round [OF b'] process_events_groups [OF b'] process_events_silence [OF b'] show ?thesis
    by (simp add: sample_round_def b' sample_hears_def)
qed

abbreviation heard_thrice :: "(sample_json, unit, bool) bot \<Rightarrow> (sample_json, unit, bool) bot" where
  "heard_thrice b \<equiv> sample_heard (sample_heard (sample_heard b))"

lemma heard_thrice_run:
  assumes "sample_hears b" "floor_run (heard_thrice b) evs b'"
  shows "floor_run b (replicate 3 (Heard sample_silence) @ evs) b'"
proof -
  have "sample_hears (sample_heard b)" "sample_hears (sample_heard (sample_heard b))"
    using assms(1) sample_heard_step by blast+
  with assms show ?thesis unfolding numeral_3_eq_3 replicate.simps append.simps
    by (intro floor_run.Cons [OF conjunct1 [OF sample_heard_step]])
qed

lemma sample_turns:
  "sample_hears sample_talk" "silence_count sample_talk = 0"
  "map mm_subtype (round_messages sample_bot_env sample_talk) = [SUBTYPE_FTKN, SUBTYPE_FIDL]"
  "map mm_subtype (round_messages sample_bot_env (heard_thrice (sample_round sample_talk))) = [SUBTYPE_FTKN, SUBTYPE_FIDL]"
proof -
  have "b_config sample_talk = b_config sample_joined" by (simp add: sample_talk_def Let_def)
  moreover have "bc_mode (b_config sample_joined) = ''ptt''" by code_simp
  ultimately show h: "sample_hears sample_talk"
    by (simp add: sample_hears_def) (simp add: sample_talk_def Let_def)
  show "silence_count sample_talk = 0"
    and "map mm_subtype (round_messages sample_bot_env sample_talk) = [SUBTYPE_FTKN, SUBTYPE_FIDL]"
    by code_simp+
  let ?b = "sample_round sample_talk"
  have "sample_hears ?b" using sample_round_step h by blast
  then have same: "b_session (heard_thrice ?b) = b_session ?b" "b_subscribe_ssrcs (heard_thrice ?b) = b_subscribe_ssrcs ?b"
    using sample_heard_step by metis+
  have "round_messages sample_bot_env (heard_thrice ?b) = round_messages sample_bot_env ?b"
    unfolding round_messages_def same by (rule refl)
  moreover have "map mm_subtype (round_messages sample_bot_env ?b) = [SUBTYPE_FTKN, SUBTYPE_FIDL]" by code_simp
  ultimately show "map mm_subtype (round_messages sample_bot_env (heard_thrice ?b)) = [SUBTYPE_FTKN, SUBTYPE_FIDL]"
    by simp
qed

theorem silence_frames_accumulate_witness:
  "\<exists>first second b'. floor_run sample_talk ([Turn first] @ replicate 3 (Heard sample_silence)
      @ [Turn second] @ replicate 3 (Heard sample_silence)) b'
    \<and> map mm_subtype first = [SUBTYPE_FTKN, SUBTYPE_FIDL] \<and> map mm_subtype second = [SUBTYPE_FTKN, SUBTYPE_FIDL]
    \<and> silence_count b' = 6
    \<and> (\<forall>bid d. outcome (eval_l1_05 [(bid, sh_obs (b_shared b'))] d ''ptt'') = Some (cd_id d, VFail))"
proof -
  let ?r1 = "heard_thrice (sample_round sample_talk)"
  let ?b = "heard_thrice (sample_round ?r1)"
  let ?first = "round_messages sample_bot_env sample_talk" and ?second = "round_messages sample_bot_env ?r1"
  let ?evs = "[Turn ?first] @ replicate 3 (Heard sample_silence) @ [Turn ?second] @ replicate 3 (Heard sample_silence)"
  have h: "sample_hears (sample_round sample_talk)" "sample_hears ?r1" "sample_hears (sample_round ?r1)"
    using sample_turns(1) sample_round_step sample_heard_step by blast+
  have "floor_run ?r1 (Turn ?second # replicate 3 (Heard sample_silence) @ []) ?b"
    by (rule floor_run.Cons [OF conjunct1 [OF sample_round_step] heard_thrice_run [OF h(3) floor_run.Nil]])
  from floor_run.Cons [OF conjunct1 [OF sample_round_step] heard_thrice_run [OF h(1) this]]
  have run: "floor_run sample_talk ?evs ?b" by (simp only: append_Cons append_Nil append_Nil2)
  have "last_turn ?first = Some SUBTYPE_FIDL" "last_turn ?second = Some SUBTYPE_FIDL"
    unfolding last_turn_def sample_turns by simp_all
  moreover have "is_silence sample_silence" by (simp add: is_silence_def)
  ultimately have "silences (released sample_talk) ?evs = 6" by (simp add: numeral_3_eq_3)
  moreover have "bc_mode (b_config sample_talk) = ''ptt''" using sample_turns(1) by (simp add: sample_hears_def)
  ultimately show ?thesis using silence_frames_accumulate [OF run] sample_turns(2-4) run
    by (intro exI [of _ ?first] exI [of _ ?second] exI [of _ ?b]) (simp add: Let_def)
qed

end
