(* ===== verification/Engine.thy ===== *)
theory Engine
  imports BotMachine Checkpoints "HOL-Library.Product_Lexorder"
begin

text \<open>
  The scenario model (\<open>oxlab-scenario/src/model.rs\<close>) and the engine that runs it
  (\<open>oxlab-scenario/src/engine.rs\<close>): bots created per participant, the actions in time order, waiting
  with heartbeats, and the judgement at the end.  A result \<open>None\<close> is a panic of the engine.  Time is
  in nanoseconds; the environment \<open>engine_env\<close> says what each call of a bot meets (\<open>ee_bot\<close>), how long it
  takes, and what the tasks of a bot did since it was last called (\<open>ee_tasks\<close>).
\<close>

section \<open>The scenario\<close>

datatype action_type = AllJoin | StartMedia | PttRequest | PttRelease | PttAlternate
  | NetworkTransition | KillBot | Wait

record action =
  at_sec :: f64
  action_type :: action_type
  actor :: "string option"
  actors :: "string list option"
  priority :: "u8 option"
  act_profile :: "string option"
  act_count :: "u32 option"
  interval_sec :: "f64 option"
  duration_sec :: "f64 option"

record participant_def =
  pd_id :: string
  pd_profile :: string
  pd_publish :: "string list"
  pd_subscribe :: "string list"
  pd_role :: "string option"

record scenario_meta =
  sm_name :: string
  sm_description :: string
  sm_server :: string
  sm_ws_port :: u16
  sm_room :: string
  sm_mode :: string
  sm_judgement :: "string option"
  sm_categories :: "string list"

record scenario =
  sn_meta :: scenario_meta
  sn_participants :: "participant_def list"
  sn_actions :: "action list"

definition scenario_default_server :: string where "scenario_default_server = ''127.0.0.1''"
definition scenario_default_ws_port :: u16 where "scenario_default_ws_port = 1974"
definition scenario_default_room :: string where "scenario_default_room = ''scenario-test''"
definition scenario_default_mode :: string where "scenario_default_mode = ''conference''"
definition scenario_default_profile :: string where "scenario_default_profile = ''pristine''"

text \<open>Reading the file and the TOML decoder are parameters.\<close>

definition scenario_load ::
    "('p \<Rightarrow> 'e + string) \<Rightarrow> (string \<Rightarrow> 'e + scenario) \<Rightarrow> 'p \<Rightarrow> 'e + scenario" where
  "scenario_load read_to_string from_toml path =
     (case read_to_string path of Inl e \<Rightarrow> Inl e | Inr content \<Rightarrow> from_toml content)"

section \<open>Durations\<close>

text \<open>\<open>Duration::from_secs_f64\<close> panics on what is negative, not finite or too large and rounds to the
  nearest nanosecond, ties to even; \<open>Instant + Duration\<close> panics past \<open>2\<^sup>6\<^sup>3\<close> seconds.\<close>

definition duration_from_secs :: "f64 \<Rightarrow> nat option" where
  "duration_from_secs x = (case x of
       Fin a \<Rightarrow> if a < 0 then None
         else let n = nat (round_even (a * 1000000000)) in if n < 2 ^ 64 * 1000000000 then Some n else None
     | _ \<Rightarrow> None)"

definition instant_add :: "nat \<Rightarrow> nat \<Rightarrow> nat option" where
  "instant_add now d = (if now + d < 2 ^ 63 * 1000000000 then Some (now + d) else None)"

section \<open>State and environment\<close>

record ('j, 'g, 'c) engine =
  eg_scenario :: scenario
  eg_bots :: "('j, 'g, 'c) bot list"
  eg_index :: "string \<Rightarrow> nat option"
  eg_errors :: "string list"
  eg_clock :: nat
  eg_calls :: nat

record ('j, 'g, 'c) engine_env =
  ee_bot :: "nat \<Rightarrow> ('j, 'g, 'c) bot_env"
  ee_tasks :: "nat \<Rightarrow> ('j, 'g, 'c) bot \<Rightarrow> ('j, 'g, 'c) bot"
  ee_busy :: "nat \<Rightarrow> nat"
  ee_unix_ms :: "nat \<Rightarrow> u64"
  ee_seed :: "nat \<Rightarrow> 'g"

definition engine_new :: "scenario \<Rightarrow> ('j, 'g, 'c) engine" where
  "engine_new sn = \<lparr>eg_scenario = sn, eg_bots = [], eg_index = (\<lambda>_. None), eg_errors = [],
     eg_clock = 0, eg_calls = 0\<rparr>"

abbreviation push_error :: "string \<Rightarrow> ('j, 'g, 'c) engine \<Rightarrow> ('j, 'g, 'c) engine" where
  "push_error e g \<equiv> g\<lparr>eg_errors := eg_errors g @ [e]\<rparr>"

abbreviation status_of :: "nat \<Rightarrow> ('j, 'g, 'c) engine \<Rightarrow> bot_status" where
  "status_of i g \<equiv> b_status (eg_bots g ! i)"

abbreviation id_of :: "nat \<Rightarrow> ('j, 'g, 'c) engine \<Rightarrow> string" where
  "id_of i g \<equiv> bc_id (b_config (eg_bots g ! i))"

text \<open>A call of the bot with index \<open>i\<close>.\<close>

definition on_bot ::
    "('j, 'g, 'c) engine_env \<Rightarrow> nat
     \<Rightarrow> (('j, 'g, 'c) bot_env \<Rightarrow> ('j, 'g, 'c) bot \<Rightarrow> ('r \<times> ('j, 'g, 'c) bot) option)
     \<Rightarrow> ('j, 'g, 'c) engine \<Rightarrow> ('r \<times> ('j, 'g, 'c) engine) option" where
  "on_bot E i f g = do {
     let k = eg_calls g;
     (r, b) \<leftarrow> f (ee_bot E k) (ee_tasks E k (eg_bots g ! i));
     Some (r, g\<lparr>eg_bots := (eg_bots g)[i := b], eg_calls := k + 1, eg_clock := eg_clock g + ee_busy E k\<rparr>)
   }"

section \<open>Creating the bots\<close>

definition profile_or_pristine :: "string \<Rightarrow> network_profile" where
  "profile_or_pristine name = (case profile_builtin name of Some p \<Rightarrow> p | None \<Rightarrow> profile_pristine)"

definition config_for :: "scenario_meta \<Rightarrow> participant_def \<Rightarrow> bot_config" where
  "config_for meta p = \<lparr>bc_id = pd_id p, bc_server = sm_server meta, bc_ws_port = sm_ws_port meta,
     bc_room_name = sm_room meta, bc_mode = sm_mode meta, bc_profile = Some (pd_profile p)\<rparr>"

definition create_bot ::
    "('j, 'g, 'c) engine_env \<Rightarrow> nat \<times> participant_def \<Rightarrow> ('j, 'g, 'c) engine \<Rightarrow> ('j, 'g, 'c) engine" where
  "create_bot E = (\<lambda>(i, p) g.
     let net_filter = net_filter_new (eg_clock g) (ee_seed E i) (np_conditions (profile_or_pristine (pd_profile p)))
     in g\<lparr>eg_index := (eg_index g)(pd_id p \<mapsto> i),
          eg_bots := eg_bots g @ [bot_new (config_for (sn_meta (eg_scenario g)) p) (Some net_filter)]\<rparr>)"

definition create_bots :: "('j, 'g, 'c) engine_env \<Rightarrow> ('j, 'g, 'c) engine \<Rightarrow> ('j, 'g, 'c) engine" where
  "create_bots E g = fold (create_bot E) (enumerate 0 (sn_participants (eg_scenario g))) g"

section \<open>Waiting\<close>

text \<open>A round of heartbeats and event handling; their errors are ignored.\<close>

definition heartbeat_bot :: "('j, 'g, 'c) engine_env \<Rightarrow> nat \<Rightarrow> ('j, 'g, 'c) engine \<Rightarrow> ('j, 'g, 'c) engine option" where
  "heartbeat_bot E i g = do {
     (r, g) \<leftarrow> (if status_of i g \<in> {Joined, MediaReady, Publishing}
       then on_bot E i (\<lambda>e b. Some (bot_heartbeat e b)) g else Some (Inr (), g));
     (r, g) \<leftarrow> (if status_of i g = Publishing then on_bot E i process_events g else Some (Inr (), g));
     Some g
   }"

text \<open>A \<open>for\<close> loop whose body changes the engine.\<close>

fun each :: "('a \<Rightarrow> 's \<Rightarrow> 's option) \<Rightarrow> 'a list \<Rightarrow> 's \<Rightarrow> 's option" where
  "each f [] g = Some g"
| "each f (x # xs) g = Option.bind (f x g) (each f xs)"

abbreviation bot_indices :: "('j, 'g, 'c) engine \<Rightarrow> nat list" where
  "bot_indices g \<equiv> [0..<length (eg_bots g)]"

lemma on_bot_clock: "on_bot E i f g = Some (r, g') \<Longrightarrow> eg_clock g \<le> eg_clock g'"
  by (auto simp: on_bot_def Let_def split: Option.bind_split_asm)

lemma each_mono:
  assumes "\<And>x g g'. f x g = Some g' \<Longrightarrow> (m g :: nat) \<le> m g'"
  shows "each f xs g = Some g' \<Longrightarrow> m g \<le> m g'"
proof (induction xs arbitrary: g)
  case (Cons x xs)
  then obtain g1 where "f x g = Some g1" "each f xs g1 = Some g'" by (auto split: Option.bind_split_asm)
  with Cons.IH assms show ?case by force
qed simp

lemma heartbeat_bot_clock: "heartbeat_bot E i g = Some g' \<Longrightarrow> eg_clock g \<le> eg_clock g'"
  by (auto simp: heartbeat_bot_def split: Option.bind_split_asm if_splits dest!: on_bot_clock)

lemma heartbeats_clock: "each (heartbeat_bot E) xs g = Some g' \<Longrightarrow> eg_clock g \<le> eg_clock g'"
  by (rule each_mono [where m = eg_clock, OF heartbeat_bot_clock])

function wait_loop_until :: "('j, 'g, 'c) engine_env \<Rightarrow> nat \<Rightarrow> ('j, 'g, 'c) engine \<Rightarrow> ('j, 'g, 'c) engine option" where
  "wait_loop_until E deadline g = (
     let remaining = deadline - eg_clock g
     in if remaining = 0 then Some g
        else
          let sleep_dur = min remaining 5000000000
          in case each (heartbeat_bot E) (bot_indices g) (g\<lparr>eg_clock := eg_clock g + sleep_dur\<rparr>) of
               None \<Rightarrow> None
             | Some g' \<Rightarrow> if deadline \<le> eg_clock g' then Some g' else wait_loop_until E deadline g')"
  by pat_completeness auto
termination
  by (relation "measure (\<lambda>(E, deadline, g). deadline - eg_clock g)") (auto dest!: heartbeats_clock)

declare wait_loop_until.simps [simp del]

definition wait_with_heartbeat ::
    "('j, 'g, 'c) engine_env \<Rightarrow> nat \<Rightarrow> ('j, 'g, 'c) engine \<Rightarrow> ('j, 'g, 'c) engine option" where
  "wait_with_heartbeat E duration g = do {
     deadline \<leftarrow> instant_add (eg_clock g) duration;
     wait_loop_until E deadline g
   }"

section \<open>The actions\<close>

text \<open>\<open>room\<close> is \<open>room_id\<close>, set when the first bot has joined.\<close>

fun all_join_loop ::
    "('j, 'g, 'c) engine_env \<Rightarrow> nat list \<Rightarrow> string option \<Rightarrow> ('j, 'g, 'c) engine \<Rightarrow> ('j, 'g, 'c) engine option" where
  "all_join_loop E [] room g = Some g"
| "all_join_loop E (i # is) room g = (
     let bot_id = id_of i g
     in if i = 0 then do {
          (r, g) \<leftarrow> on_bot E i (\<lambda>e b. Some (connect_and_join e b)) g;
          case r of
            Inr _ \<Rightarrow> all_join_loop E is (b_room_id (eg_bots g ! i)) g
          | Inl e \<Rightarrow> all_join_loop E is room (push_error (bot_id @ '': join failed: '' @ e) g)
        }
        else case room of
          None \<Rightarrow> all_join_loop E is room (push_error (bot_id @ '': no room_id'') g)
        | Some rid \<Rightarrow> do {
            (r, g) \<leftarrow> on_bot E i (\<lambda>e b. Some (join_existing_room e rid b)) g;
            case r of
              Inr _ \<Rightarrow> all_join_loop E is room g
            | Inl e \<Rightarrow> all_join_loop E is room (push_error (bot_id @ '': join failed: '' @ e) g)
          })"

definition action_all_join :: "('j, 'g, 'c) engine_env \<Rightarrow> ('j, 'g, 'c) engine \<Rightarrow> ('j, 'g, 'c) engine option" where
  "action_all_join E g = all_join_loop E (bot_indices g) None g"

definition start_media_bot :: "('j, 'g, 'c) engine_env \<Rightarrow> nat \<Rightarrow> ('j, 'g, 'c) engine \<Rightarrow> ('j, 'g, 'c) engine option" where
  "start_media_bot E i g = (
     let bot_id = id_of i g
     in if status_of i g \<noteq> Joined then Some g else do {
          (r, g) \<leftarrow> on_bot E i setup_media g;
          case r of Inl e \<Rightarrow> Some (push_error (bot_id @ '': media setup: '' @ e) g) | Inr _ \<Rightarrow> do {
          (r, g) \<leftarrow> on_bot E i (\<lambda>e b. Some (publish_intent e b)) g;
          case r of Inl e \<Rightarrow> Some (push_error (bot_id @ '': publish_intent: '' @ e) g) | Inr _ \<Rightarrow> do {
          (r, g) \<leftarrow> on_bot E i (\<lambda>e b. Some (start_publishing e b)) g;
          case r of Inl e \<Rightarrow> Some (push_error (bot_id @ '': start_publishing: '' @ e) g) | Inr _ \<Rightarrow> Some g }}})"

definition process_publishing :: "('j, 'g, 'c) engine_env \<Rightarrow> nat \<Rightarrow> ('j, 'g, 'c) engine \<Rightarrow> ('j, 'g, 'c) engine option" where
  "process_publishing E i g =
     (if status_of i g = Publishing then map_option snd (on_bot E i process_events g) else Some g)"

definition action_start_media :: "('j, 'g, 'c) engine_env \<Rightarrow> ('j, 'g, 'c) engine \<Rightarrow> ('j, 'g, 'c) engine option" where
  "action_start_media E g = do {
     g \<leftarrow> each (start_media_bot E) (bot_indices g) g;
     let g = g\<lparr>eg_clock := eg_clock g + 2000000000\<rparr>;
     each (process_publishing E) (bot_indices g) g
   }"

definition action_ptt_request ::
    "('j, 'g, 'c) engine_env \<Rightarrow> action \<Rightarrow> ('j, 'g, 'c) engine \<Rightarrow> ('j, 'g, 'c) engine option" where
  "action_ptt_request E a g = (case actor a of
       None \<Rightarrow> Some (push_error ''ptt_request: missing actor'' g)
     | Some who \<Rightarrow>
        let prio = (case priority a of Some p \<Rightarrow> p | None \<Rightarrow> 0)
        in case eg_index g who of
             None \<Rightarrow> Some g
           | Some i \<Rightarrow> do {
               (r, g) \<leftarrow> on_bot E i (\<lambda>e. floor_request_ws e (ee_unix_ms E (eg_calls g)) prio) g;
               case r of
                 Inr granted \<Rightarrow> Some g
               | Inl e \<Rightarrow> Some (push_error (who @ '': ptt_request: '' @ e) g)
             })"

definition action_ptt_release ::
    "('j, 'g, 'c) engine_env \<Rightarrow> action \<Rightarrow> ('j, 'g, 'c) engine \<Rightarrow> ('j, 'g, 'c) engine option" where
  "action_ptt_release E a g = (case actor a of
       None \<Rightarrow> Some (push_error ''ptt_release: missing actor'' g)
     | Some who \<Rightarrow> (case eg_index g who of
           None \<Rightarrow> Some g
         | Some i \<Rightarrow> do {
             (r, g) \<leftarrow> on_bot E i floor_release_ws g;
             case r of
               Inr _ \<Rightarrow> Some g
             | Inl e \<Rightarrow> Some (push_error (who @ '': ptt_release: '' @ e) g)
           }))"

text \<open>One turn of a speaker; an unknown one is skipped without the pause.\<close>

definition alternate_turn ::
    "('j, 'g, 'c) engine_env \<Rightarrow> nat \<Rightarrow> string \<Rightarrow> ('j, 'g, 'c) engine \<Rightarrow> ('j, 'g, 'c) engine option" where
  "alternate_turn E interval who g = (case eg_index g who of
       None \<Rightarrow> Some g
     | Some i \<Rightarrow> do {
         (r, g) \<leftarrow> on_bot E i (\<lambda>e. floor_request_ws e (ee_unix_ms E (eg_calls g)) 0) g;
         g \<leftarrow> (case r of
             Inr granted \<Rightarrow>
               if granted then do {
                 g \<leftarrow> wait_with_heartbeat E interval g;
                 map_option snd (on_bot E i floor_release_ws g)
               } else Some g
           | Inl e \<Rightarrow> Some g);
         Some (g\<lparr>eg_clock := eg_clock g + 500000000\<rparr>)
       })"

definition action_ptt_alternate ::
    "('j, 'g, 'c) engine_env \<Rightarrow> action \<Rightarrow> ('j, 'g, 'c) engine \<Rightarrow> ('j, 'g, 'c) engine option" where
  "action_ptt_alternate E a g = (
     let speakers = (case actors a of Some xs \<Rightarrow> xs | None \<Rightarrow> [])
     in if speakers = [] then Some (push_error ''ptt_alternate: missing actors'' g)
        else
        let n = unat (case act_count a of Some n \<Rightarrow> n | None \<Rightarrow> 1) in do {
          interval \<leftarrow> duration_from_secs (case interval_sec a of Some x \<Rightarrow> x | None \<Rightarrow> f_lit 3);
          each (alternate_turn E interval) (concat (replicate n speakers)) g
        })"

definition action_network_transition ::
    "('j, 'g, 'c) engine_env \<Rightarrow> action \<Rightarrow> ('j, 'g, 'c) engine \<Rightarrow> ('j, 'g, 'c) engine option" where
  "action_network_transition E a g = (case actor a of
       None \<Rightarrow> Some g
     | Some who \<Rightarrow> (case act_profile a of
           None \<Rightarrow> Some g
         | Some name \<Rightarrow>
            let conditions = np_conditions (profile_or_pristine name)
            in case eg_index g who of
                 None \<Rightarrow> Some g
               | Some i \<Rightarrow> map_option snd
                   (on_bot E i (\<lambda>e b. Some ((), update_net_filter (eg_clock g) conditions b)) g)))"

definition action_kill_bot ::
    "('j, 'g, 'c) engine_env \<Rightarrow> action \<Rightarrow> ('j, 'g, 'c) engine \<Rightarrow> ('j, 'g, 'c) engine option" where
  "action_kill_bot E a g = (case actor a of
       None \<Rightarrow> Some g
     | Some who \<Rightarrow> (case eg_index g who of
           None \<Rightarrow> Some g
         | Some i \<Rightarrow> map_option snd (on_bot E i (\<lambda>e b. Some ((), disconnect b)) g)))"

definition action_wait ::
    "('j, 'g, 'c) engine_env \<Rightarrow> action \<Rightarrow> ('j, 'g, 'c) engine \<Rightarrow> ('j, 'g, 'c) engine option" where
  "action_wait E a g = do {
     d \<leftarrow> duration_from_secs (case duration_sec a of Some x \<Rightarrow> x | None \<Rightarrow> f_lit 5);
     wait_with_heartbeat E d g
   }"

definition execute_action ::
    "('j, 'g, 'c) engine_env \<Rightarrow> action \<Rightarrow> ('j, 'g, 'c) engine \<Rightarrow> ('j, 'g, 'c) engine option" where
  "execute_action E a g = (case action_type a of
       AllJoin \<Rightarrow> action_all_join E g
     | StartMedia \<Rightarrow> action_start_media E g
     | PttRequest \<Rightarrow> action_ptt_request E a g
     | PttRelease \<Rightarrow> action_ptt_release E a g
     | PttAlternate \<Rightarrow> action_ptt_alternate E a g
     | NetworkTransition \<Rightarrow> action_network_transition E a g
     | KillBot \<Rightarrow> action_kill_bot E a g
     | Wait \<Rightarrow> action_wait E a g)"

section \<open>The timeline\<close>

text \<open>\<open>sort_by\<close> with \<open>partial_cmp\<close> and \<open>unwrap\<close>: stable, and a NaN that is compared panics; with two or
  more actions each is compared.\<close>

fun time_key :: "f64 \<Rightarrow> int \<times> rat" where
  "time_key (Fin a) = (0, a)"
| "time_key (Inf s) = (if s then - 1 else 1, 0)"
| "time_key NaN = (2, 0)"

definition schedule :: "action list \<Rightarrow> action list option" where
  "schedule actions =
     (if 2 \<le> length actions \<and> list_ex (\<lambda>a. at_sec a = NaN) actions then None
      else Some (sort_key (\<lambda>a. time_key (at_sec a)) actions))"

definition run_action ::
    "('j, 'g, 'c) engine_env \<Rightarrow> nat \<Rightarrow> action \<Rightarrow> ('j, 'g, 'c) engine \<Rightarrow> ('j, 'g, 'c) engine option" where
  "run_action E start a g = do {
     target \<leftarrow> duration_from_secs (at_sec a);
     let elapsed = eg_clock g - start;
     g \<leftarrow> (if elapsed < target then wait_with_heartbeat E (target - elapsed) g else Some g);
     execute_action E a g
   }"

definition run_timeline ::
    "('j, 'g, 'c) engine_env \<Rightarrow> ('j, 'g, 'c) engine \<Rightarrow> ('j, 'g, 'c) engine option" where
  "run_timeline E g = (
     let g = create_bots E g in do {
       actions \<leftarrow> schedule (sn_actions (eg_scenario g));
       let g = g\<lparr>eg_scenario := (eg_scenario g)\<lparr>sn_actions := []\<rparr>\<rparr>;
       each (run_action E (eg_clock g)) actions g
     })"

section \<open>Judging\<close>

text \<open>The hash orders (\<open>jd_order\<close>, one for each map iterated), the clock, the file system and the TOML and
  JSON readers are parameters.\<close>

record 'p judge_env =
  jd_fmt :: fmt_env
  jd_order :: "nat \<Rightarrow> string list \<Rightarrow> string list"
  jd_ssrcs :: "u32 set \<Rightarrow> u32 list"
  jd_metric_order :: "string list \<Rightarrow> string list"
  jd_timestamp :: string
  jd_to_lowercase :: "string \<Rightarrow> string"
  jd_load_thresholds :: "'p \<Rightarrow> string + regression_thresholds"
  jd_judgement_path :: "string \<Rightarrow> string \<Rightarrow> 'p"
  jd_load_baseline :: "'p \<Rightarrow> string + baseline_file"
  jd_path_join :: "'p \<Rightarrow> string \<Rightarrow> 'p"
  jd_baselines_dir :: 'p
  jd_create_dir_error :: "string option"
  jd_save_error :: "string option"

record ('j, 'g, 'c, 'p) scenario_result =
  sr_scenario_name :: string
  sr_recv_snapshots :: "(string \<times> recv_snapshot) list"
  sr_errors :: "string list"
  sr_report :: judge_report
  sr_bots :: "('j, 'g, 'c) bot list"
  sr_saved :: "('p \<times> baseline_file) option"

definition recv_input_of :: "recv_snapshot \<Rightarrow> recv_input" where
  "recv_input_of snap = \<lparr>ri_total_packets = total_packets snap, ri_total_lost = total_lost snap,
     ri_total_ooo = total_ooo snap,
     ri_streams = map (\<lambda>s. \<lparr>si_ssrc = sm_ssrc s, si_pt = sm_pt s, si_packets_received = packets_received s,
       si_packets_lost = packets_lost s, si_out_of_order = out_of_order s, si_jitter = jitter s\<rparr>) (streams snap)\<rparr>"

definition index_keys :: "scenario \<Rightarrow> string list" where
  "index_keys sn = remdups (map pd_id (sn_participants sn))"

definition collect_snapshots ::
    "'p judge_env \<Rightarrow> ('j, 'g, 'c) engine \<Rightarrow> (string \<times> recv_snapshot) list" where
  "collect_snapshots J g = List.map_filter (\<lambda>x. case eg_index g x of
       None \<Rightarrow> None
     | Some i \<Rightarrow> if status_of i g = Publishing
         then Some (x, bot_recv_snapshot (jd_ssrcs J (dom (sh_metrics (b_shared (eg_bots g ! i))))) (eg_bots g ! i))
         else None) (jd_order J 0 (index_keys (eg_scenario g)))"

definition collect_observations ::
    "'p judge_env \<Rightarrow> ('j, 'g, 'c) engine \<Rightarrow> (string \<times> observations) list" where
  "collect_observations J g = List.map_filter (\<lambda>x. map_option (\<lambda>i. (x, sh_obs (b_shared (eg_bots g ! i)))) (eg_index g x))
     (jd_order J 1 (index_keys (eg_scenario g)))"

definition judge_run :: "'p judge_env \<Rightarrow> ('j, 'g, 'c) engine \<Rightarrow> ('j, 'g, 'c, 'p) scenario_result" where
  "judge_run J g = (
     let meta = sn_meta (eg_scenario g);
         recv_snapshots = collect_snapshots J g;
         bot_observations = collect_observations J g;
         bots = map disconnect (eg_bots g);
         thresholds = (case sm_judgement meta of
             Some name \<Rightarrow> thresholds_resolve (jd_load_thresholds J) (jd_judgement_path J) name
           | None \<Rightarrow> thresholds_default);
         judge_inputs = List.map_filter (\<lambda>x. map_option (\<lambda>s. (x, recv_input_of s)) (map_of recv_snapshots x))
           (jd_order J 2 (map fst recv_snapshots));
         categories = List.map_filter (category_from_str_loose (jd_to_lowercase J)) (sm_categories meta);
         applicable_defs = (if categories = [] then REGISTRY else find_by_categories categories);
         profile_name = (case sn_participants (eg_scenario g) of p # _ \<Rightarrow> pd_profile p | [] \<Rightarrow> ''unknown'');
         layer1_checkpoints = evaluate (jd_fmt J) recv_snapshots bot_observations categories (sm_mode meta) profile_name;
         baseline = baseline_try_load (jd_load_baseline J) (jd_path_join J) (jd_baselines_dir J) (sm_name meta) profile_name;
         report = judge (jd_metric_order J) (jd_timestamp J) (sm_name meta) profile_name layer1_checkpoints
           (length applicable_defs) judge_inputs baseline thresholds (eg_errors g);
         should_update = (l1_verdict (jr_layer1 report) = VPass \<and> l2_overall (jr_layer2 report) \<noteq> Regressed);
         saved = (if should_update then
             let new_baseline = create_baseline report;
                 baseline_path = baseline_resolve_path (jd_path_join J) (jd_baselines_dir J) (sm_name meta) profile_name
             in if jd_create_dir_error J \<noteq> None then None
                else if jd_save_error J \<noteq> None then None
                else Some (baseline_path, new_baseline)
           else None)
     in \<lparr>sr_scenario_name = sm_name meta, sr_recv_snapshots = recv_snapshots, sr_errors = eg_errors g,
         sr_report = report, sr_bots = bots, sr_saved = saved\<rparr>)"

text \<open>The tasks work on until the observations are collected.\<close>

definition settle :: "('j, 'g, 'c) engine_env \<Rightarrow> ('j, 'g, 'c) engine \<Rightarrow> ('j, 'g, 'c) engine" where
  "settle E g = g\<lparr>eg_bots := map (ee_tasks E (eg_calls g)) (eg_bots g)\<rparr>"

definition engine_run ::
    "('j, 'g, 'c) engine_env \<Rightarrow> 'p judge_env \<Rightarrow> scenario \<Rightarrow> ('j, 'g, 'c, 'p) scenario_result option" where
  "engine_run E J sn = map_option (\<lambda>g. judge_run J (settle E g)) (run_timeline E (engine_new sn))"

section \<open>The schedule\<close>

lemma time_key_le: "a \<noteq> NaN \<Longrightarrow> b \<noteq> NaN \<Longrightarrow> time_key a \<le> time_key b \<longleftrightarrow> f_le a b"
  by (cases a; cases b) (auto simp: less_eq_prod_def)

lemma time_key_inj: "time_key a = time_key b \<longleftrightarrow> a = b"
  by (cases a; cases b) auto

text \<open>The schedule is the stable order of the times; a NaN that is compared panics.\<close>

lemma schedule_stable:
  "(schedule actions = None \<longleftrightarrow> 2 \<le> length actions \<and> (\<exists>a \<in> set actions. at_sec a = NaN))
   \<and> (\<forall>as. schedule actions = Some as \<longrightarrow> mset as = mset actions
        \<and> (\<forall>t. filter (\<lambda>a. at_sec a = t) as = filter (\<lambda>a. at_sec a = t) actions)
        \<and> sorted_wrt (\<lambda>a b. f_le (at_sec a) (at_sec b)) as)"
proof (intro conjI allI impI)
  show "schedule actions = None \<longleftrightarrow> 2 \<le> length actions \<and> (\<exists>a \<in> set actions. at_sec a = NaN)"
    by (auto simp: schedule_def list_ex_iff)
next
  fix as assume "schedule actions = Some as"
  then have as: "as = sort_key (\<lambda>a. time_key (at_sec a)) actions"
    and few: "length actions < 2 \<or> (\<forall>a \<in> set actions. at_sec a \<noteq> NaN)"
    by (auto simp: schedule_def list_ex_iff split: if_splits)
  show "mset as = mset actions" by (simp add: as)
  show "filter (\<lambda>a. at_sec a = t) as = filter (\<lambda>a. at_sec a = t) actions" for t
    using sort_key_stable [of "\<lambda>a. time_key (at_sec a)" "time_key t" actions] by (simp add: as time_key_inj)
  show "sorted_wrt (\<lambda>a b. f_le (at_sec a) (at_sec b)) as"
  proof (cases "length actions < 2")
    case True
    then obtain a where "actions = [] \<or> actions = [a]" by (cases actions; cases "tl actions") auto
    then show ?thesis by (auto simp: as)
  next
    case False
    have "sorted_wrt (\<lambda>a b. time_key (at_sec a) \<le> time_key (at_sec b)) as"
      using sorted_sort_key [of "\<lambda>a. time_key (at_sec a)" actions] by (simp add: as sorted_wrt_map)
    then show ?thesis
      by (rule sorted_wrt_mono_rel [rotated]) (use few False in \<open>auto simp: as time_key_le\<close>)
  qed
qed

section \<open>What the engine keeps\<close>

text \<open>Between the calls a bot's tasks do their iterations and nothing else.\<close>

inductive task_step :: "('j, 'g, 'c) bot \<Rightarrow> ('j, 'g, 'c) bot \<Rightarrow> bool" where
  audio: "i < length (b_groups b) \<Longrightarrow> audio_tick E now send_error i b = Some b' \<Longrightarrow> task_step b b'"
| video: "i < length (b_groups b) \<Longrightarrow> video_tick E now send_error i b = Some b' \<Longrightarrow> task_step b b'"
| pub: "i < length (b_groups b) \<Longrightarrow> pub_recv E received i b = Some b' \<Longrightarrow> task_step b b'"
| sub: "i < length (b_groups b) \<Longrightarrow> sub_recv E now received i b = Some b' \<Longrightarrow> task_step b b'"

lemma task_step_bot_step: "task_step b b' \<Longrightarrow> bot_step b b'"
  by (induction rule: task_step.induct) (auto intro: bot_step.intros)

text \<open>What the code relies on outside: the tasks are the bot's own, DTLS exports the 60 bytes of keying
  material it is asked for, and a transaction id has its 12 bytes.\<close>

definition media_ok :: "media_env \<Rightarrow> bool" where
  "media_ok M \<longleftrightarrow> length (me_tid M) = 12 \<and> (\<forall>mat. me_dtls M = Inr mat \<longrightarrow> length mat = 60)"

definition engine_env_ok :: "('j, 'g, 'c) engine_env \<Rightarrow> bool" where
  "engine_env_ok E \<longleftrightarrow> (\<forall>k. media_ok (be_pub_media (ee_bot E k)) \<and> media_ok (be_sub_media (ee_bot E k)))
     \<and> (\<forall>k b. task_step\<^sup>*\<^sup>* b (ee_tasks E k b))"

lemma media_ok_keys: "media_ok M \<Longrightarrow> \<exists>r. setup_media_pc M u p l = Some r"
  using build_binding_request_bytes [of "me_tid M" "me_crypto M" "me_tie_breaker M" u
      "random_ice_string (me_ice_random M)" p]
  by (auto simp: media_ok_def setup_media_pc_def split_keying_material_def split: option.split sum.split)

lemma setup_media_returns:
  assumes "media_ok (be_pub_media E)" "media_ok (be_sub_media E)"
  shows "\<exists>r b'. setup_media E b = Some (r, b')"
proof -
  have p: "setup_media_pc (be_pub_media E) u q l = Some (the (setup_media_pc (be_pub_media E) u q l))"
    and s: "setup_media_pc (be_sub_media E) u q l = Some (the (setup_media_pc (be_sub_media E) u q l))" for u q l
    using media_ok_keys [OF assms(1)] media_ok_keys [OF assms(2)] by (metis option.sel)+
  show ?thesis
    unfolding setup_media_def
    by (subst p, subst s) (simp split: option.split sum.split del: option.sel)
qed

definition engine_ok :: "bot_config list \<Rightarrow> (string \<Rightarrow> nat option) \<Rightarrow> ('j, 'g, 'c) engine \<Rightarrow> bool" where
  "engine_ok C X g \<longleftrightarrow> length (eg_bots g) = length C \<and> (\<forall>i < length C. bot_reachable (C ! i) (eg_bots g ! i))
     \<and> eg_index g = X \<and> (\<forall>x i. X x = Some i \<longrightarrow> i < length C)"

lemma engine_ok_updates [simp]:
  "engine_ok C X (g\<lparr>eg_errors := e\<rparr>) = engine_ok C X g"
  "engine_ok C X (g\<lparr>eg_clock := t\<rparr>) = engine_ok C X g"
  "engine_ok C X (g\<lparr>eg_scenario := s\<rparr>) = engine_ok C X g"
  by (simp_all add: engine_ok_def)

lemma tasks_reachable:
  assumes "engine_env_ok E" "bot_reachable cfg b"
  shows "bot_reachable cfg (ee_tasks E k b)"
proof -
  have "task_step\<^sup>*\<^sup>* b (ee_tasks E k b)" using assms(1) by (simp add: engine_env_ok_def)
  then show ?thesis
    by (induction rule: rtranclp_induct) (auto intro: assms(2) bot_reachable.step task_step_bot_step)
qed

definition safe_call :: "('j, 'g, 'c) engine_env
    \<Rightarrow> (('j, 'g, 'c) bot_env \<Rightarrow> ('j, 'g, 'c) bot \<Rightarrow> ('r \<times> ('j, 'g, 'c) bot) option) \<Rightarrow> bool" where
  "safe_call E f \<longleftrightarrow> (\<forall>k b. \<exists>r b'. f (ee_bot E k) b = Some (r, b') \<and> bot_step b b')"

lemma on_bot_ok:
  assumes "engine_env_ok E" "safe_call E f" "engine_ok C X g" "i < length C"
  shows "\<exists>r g'. on_bot E i f g = Some (r, g') \<and> engine_ok C X g'"
proof -
  let ?k = "eg_calls g" let ?b = "ee_tasks E ?k (eg_bots g ! i)"
  obtain r b' where b': "f (ee_bot E ?k) ?b = Some (r, b')" "bot_step ?b b'"
    using assms(2) unfolding safe_call_def by blast
  have "bot_reachable (C ! i) ?b" using assms by (auto simp: engine_ok_def intro: tasks_reachable)
  from bot_reachable.step [OF this b'(2)] have "bot_reachable (C ! i) b'" .
  then show ?thesis using assms(3,4) by (auto simp: on_bot_def b'(1) Let_def engine_ok_def nth_list_update)
qed

lemma safe_calls:
  "safe_call E (\<lambda>e b. Some (connect_and_join e b))" "safe_call E (\<lambda>e b. Some (join_existing_room e x b))"
  "safe_call E (\<lambda>e b. Some (publish_intent e b))" "safe_call E (\<lambda>e b. Some (start_publishing e b))"
  "safe_call E (\<lambda>e b. Some (bot_heartbeat e b))" "safe_call E process_events" "safe_call E floor_release_ws"
  "safe_call E (\<lambda>e. floor_request_ws e ms p)" "safe_call E (\<lambda>e b. Some ((), update_net_filter now c b))"
  "safe_call E (\<lambda>e b. Some ((), disconnect b))"
  unfolding safe_call_def
  using handlers_return bot_step.intros
  by (metis option.exhaust prod.exhaust)+

lemma safe_setup_media: "engine_env_ok E \<Longrightarrow> safe_call E setup_media"
  unfolding safe_call_def engine_env_ok_def using setup_media_returns SetupMedia by metis

text \<open>A computation that returns and keeps the engine in order, and one that may also panic.\<close>

definition fine :: "bot_config list \<Rightarrow> (string \<Rightarrow> nat option) \<Rightarrow> ('j, 'g, 'c) engine option \<Rightarrow> bool" where
  "fine C X r \<longleftrightarrow> (\<exists>g'. r = Some g' \<and> engine_ok C X g')"

definition fine_or_panic :: "bot_config list \<Rightarrow> (string \<Rightarrow> nat option) \<Rightarrow> ('j, 'g, 'c) engine option \<Rightarrow> bool" where
  "fine_or_panic C X r \<longleftrightarrow> r = None \<or> fine C X r"

lemma fine_Some [simp]: "fine C X (Some g) \<longleftrightarrow> engine_ok C X g"
  by (simp add: fine_def)

lemma each_fine:
  assumes "\<And>x g. x \<in> set xs \<Longrightarrow> engine_ok C X g \<Longrightarrow> fine C X (f x g)"
  shows "engine_ok C X g \<Longrightarrow> fine C X (each f xs g)"
  using assms
proof (induction xs arbitrary: g)
  case (Cons x xs)
  from Cons.prems(2) [of x g] Cons.prems(1) obtain g1 where "f x g = Some g1" "engine_ok C X g1"
    by (auto simp: fine_def)
  with Cons show ?case by simp
qed simp

lemma each_fine_or_panic:
  assumes "\<And>x g. engine_ok C X g \<Longrightarrow> fine_or_panic C X (f x g)"
  shows "engine_ok C X g \<Longrightarrow> fine_or_panic C X (each f xs g)"
proof (induction xs arbitrary: g)
  case (Cons x xs)
  show ?case
  proof (cases "f x g")
    case (Some g1)
    then have "engine_ok C X g1" using assms [OF Cons.prems, of x] by (simp add: fine_or_panic_def)
    with Some Cons.IH show ?thesis by simp
  qed (simp add: fine_or_panic_def)
qed (simp add: fine_or_panic_def)

lemma bot_indices_ok: "engine_ok C X g \<Longrightarrow> bot_indices g = [0..<length C]"
  by (simp add: engine_ok_def)

lemma index_ok: "engine_ok C X g \<Longrightarrow> eg_index g x = Some i \<Longrightarrow> i < length C"
  by (auto simp: engine_ok_def)

lemma heartbeat_bot_fine:
  assumes "engine_env_ok E" "i < length C" "engine_ok C X g"
  shows "fine C X (heartbeat_bot E i g)"
proof -
  obtain r g1 where 1: "on_bot E i (\<lambda>e b. Some (bot_heartbeat e b)) g = Some (r, g1)" "engine_ok C X g1"
    using on_bot_ok [OF assms(1) safe_calls(5) assms(3,2)] by blast
  have 2: "\<exists>r g'. on_bot E i process_events h = Some (r, g') \<and> engine_ok C X g'" if "engine_ok C X h" for h
    by (rule on_bot_ok [OF assms(1) safe_calls(6) that assms(2)])
  show ?thesis using 1 2 [OF 1(2)] 2 [OF assms(3)] assms(3) by (auto simp: heartbeat_bot_def)
qed

lemma heartbeats_fine:
  "engine_env_ok E \<Longrightarrow> engine_ok C X g \<Longrightarrow> fine C X (each (heartbeat_bot E) [0..<length C] g)"
  by (rule each_fine) (auto intro: heartbeat_bot_fine)

lemma wait_loop_fine:
  "engine_env_ok E \<Longrightarrow> engine_ok C X g \<Longrightarrow> fine C X (wait_loop_until E deadline g)"
proof (induction E deadline g rule: wait_loop_until.induct)
  case (1 E deadline g)
  let ?g = "g\<lparr>eg_clock := eg_clock g + min (deadline - eg_clock g) 5000000000\<rparr>"
  have "fine C X (each (heartbeat_bot E) (bot_indices g) ?g)"
    using heartbeats_fine [of E C X ?g] 1(2,3) bot_indices_ok [OF 1(3)] by simp
  then obtain g1 where g1: "each (heartbeat_bot E) (bot_indices g) ?g = Some g1" "engine_ok C X g1"
    by (auto simp: fine_def)
  show ?case
    by (subst wait_loop_until.simps) (use 1 g1 in \<open>auto simp: Let_def\<close>)
qed

lemma wait_fine:
  assumes "engine_env_ok E" "engine_ok C X g"
  shows "fine_or_panic C X (wait_with_heartbeat E d g)"
    and "wait_with_heartbeat E d g = None \<longleftrightarrow> instant_add (eg_clock g) d = None"
  using wait_loop_fine [OF assms] by (cases "instant_add (eg_clock g) d"; force simp: wait_with_heartbeat_def fine_or_panic_def fine_def)+

lemma all_join_fine:
  assumes "engine_env_ok E"
  shows "set xs \<subseteq> {..<length C} \<Longrightarrow> engine_ok C X g \<Longrightarrow> fine C X (all_join_loop E xs room g)"
proof (induction xs arbitrary: room g)
  case (Cons i xs)
  have i: "i < length C" using Cons.prems by simp
  obtain r g1 where 1: "on_bot E i (\<lambda>e b. Some (connect_and_join e b)) g = Some (r, g1)" "engine_ok C X g1"
    using on_bot_ok [OF assms safe_calls(1) Cons.prems(2) i] by blast
  have 2: "\<exists>r g1. on_bot E i (\<lambda>e b. Some (join_existing_room e rid b)) g = Some (r, g1) \<and> engine_ok C X g1" for rid
    by (rule on_bot_ok [OF assms safe_calls(2) Cons.prems(2) i])
  show ?case
  proof (cases "i = 0")
    case True
    then show ?thesis using 1 Cons by (cases r) (auto simp: Let_def)
  next
    case False
    show ?thesis
    proof (cases room)
      case (Some rid)
      from 2 [of rid] obtain r g1 where "on_bot E i (\<lambda>e b. Some (join_existing_room e rid b)) g = Some (r, g1)"
          "engine_ok C X g1" by blast
      then show ?thesis using False Some Cons by (cases r) (auto simp: Let_def)
    qed (use False Cons in \<open>simp add: Let_def\<close>)
  qed
qed simp

lemma start_media_bot_fine:
  assumes "engine_env_ok E" "i < length C" "engine_ok C X g"
  shows "fine C X (start_media_bot E i g)"
proof -
  obtain r1 g1 where 1: "on_bot E i setup_media g = Some (r1, g1)" "engine_ok C X g1"
    using on_bot_ok [OF assms(1) safe_setup_media [OF assms(1)] assms(3,2)] by blast
  obtain r2 g2 where 2: "on_bot E i (\<lambda>e b. Some (publish_intent e b)) g1 = Some (r2, g2)" "engine_ok C X g2"
    using on_bot_ok [OF assms(1) safe_calls(3) 1(2) assms(2)] by blast
  obtain r3 g3 where 3: "on_bot E i (\<lambda>e b. Some (start_publishing e b)) g2 = Some (r3, g3)" "engine_ok C X g3"
    using on_bot_ok [OF assms(1) safe_calls(4) 2(2) assms(2)] by blast
  show ?thesis
    using assms(3) 1(2) 2(2) 3(2) by (simp add: start_media_bot_def Let_def 1(1) 2(1) 3(1) split: sum.split)
qed

lemma on_bot_snd_fine:
  "engine_env_ok E \<Longrightarrow> safe_call E f \<Longrightarrow> engine_ok C X g \<Longrightarrow> i < length C \<Longrightarrow> fine C X (map_option snd (on_bot E i f g))"
  using on_bot_ok by (fastforce simp: fine_def)

lemma start_media_fine:
  assumes "engine_env_ok E" "engine_ok C X g"
  shows "fine C X (action_start_media E g)"
proof -
  have "fine C X (each (start_media_bot E) [0..<length C] g)"
    by (rule each_fine) (use assms in \<open>auto intro: start_media_bot_fine\<close>)
  then obtain g1 where g1: "each (start_media_bot E) [0..<length C] g = Some g1" "engine_ok C X g1"
    by (auto simp: fine_def)
  have "fine C X (each (process_publishing E) [0..<length C] (g1\<lparr>eg_clock := eg_clock g1 + 2000000000\<rparr>))"
    by (rule each_fine) (use assms g1 in \<open>auto simp: process_publishing_def intro: on_bot_snd_fine safe_calls\<close>)
  then show ?thesis
    using g1(1) bot_indices_ok [OF assms(2)] bot_indices_ok [OF g1(2)] by (simp add: action_start_media_def Let_def)
qed

lemma fine_imp: "fine C X r \<Longrightarrow> fine_or_panic C X r"
  by (simp add: fine_or_panic_def)

lemma alternate_turn_fine:
  assumes "engine_env_ok E" "engine_ok C X g"
  shows "fine_or_panic C X (alternate_turn E d who g)"
proof (cases "eg_index g who")
  case (Some i)
  have i: "i < length C" by (rule index_ok [OF assms(2) Some])
  obtain r g1 where 1: "on_bot E i (\<lambda>e. floor_request_ws e (ee_unix_ms E (eg_calls g)) 0) g = Some (r, g1)"
      "engine_ok C X g1"
    using on_bot_ok [OF assms(1) safe_calls(8) assms(2) i] by blast
  show ?thesis
  proof (cases "\<exists>granted. r = Inr granted \<and> granted \<and> wait_with_heartbeat E d g1 \<noteq> None")
    case True
    then obtain g2 where g2: "r = Inr True" "wait_with_heartbeat E d g1 = Some g2" "engine_ok C X g2"
      using wait_fine(1) [OF assms(1) 1(2), of d] by (auto simp: fine_or_panic_def fine_def)
    from on_bot_snd_fine [OF assms(1) safe_calls(7) g2(3) i] show ?thesis
      by (auto simp: alternate_turn_def Some 1(1) g2(1,2) fine_or_panic_def fine_def)
  next
    case False
    then show ?thesis using 1
      by (cases r) (auto simp: alternate_turn_def Some fine_or_panic_def)
  qed
qed (use assms in \<open>simp add: alternate_turn_def fine_or_panic_def\<close>)

lemma requests_fine:
  assumes "engine_env_ok E" "engine_ok C X g"
  shows "fine C X (action_ptt_request E a g)" "fine C X (action_ptt_release E a g)"
    "fine C X (action_network_transition E a g)" "fine C X (action_kill_bot E a g)"
proof -
  have 1: "\<exists>r g'. on_bot E i f g = Some (r, g') \<and> engine_ok C X g'" if "safe_call E f" "eg_index g x = Some i" for f i x
    by (rule on_bot_ok [OF assms(1) that(1) assms(2) index_ok [OF assms(2) that(2)]])
  show "fine C X (action_ptt_request E a g)"
  proof (cases "actor a")
    case (Some who)
    show ?thesis
    proof (cases "eg_index g who")
      case i: (Some i)
      obtain r g1 where "on_bot E i (\<lambda>e. floor_request_ws e (ee_unix_ms E (eg_calls g))
          (case priority a of Some p \<Rightarrow> p | None \<Rightarrow> 0)) g = Some (r, g1)" "engine_ok C X g1"
        using 1 [OF safe_calls(8) i] by blast
      then show ?thesis by (cases r) (auto simp: action_ptt_request_def Some i Let_def)
    qed (use Some assms in \<open>simp add: action_ptt_request_def\<close>)
  qed (use assms in \<open>simp add: action_ptt_request_def\<close>)
  show "fine C X (action_ptt_release E a g)"
  proof (cases "actor a")
    case (Some who)
    show ?thesis
    proof (cases "eg_index g who")
      case i: (Some i)
      obtain r g1 where "on_bot E i floor_release_ws g = Some (r, g1)" "engine_ok C X g1"
        using 1 [OF safe_calls(7) i] by blast
      then show ?thesis by (cases r) (auto simp: action_ptt_release_def Some i)
    qed (use Some assms in \<open>simp add: action_ptt_release_def\<close>)
  qed (use assms in \<open>simp add: action_ptt_release_def\<close>)
  show "fine C X (action_network_transition E a g)" "fine C X (action_kill_bot E a g)"
    using assms on_bot_snd_fine [OF assms(1) safe_calls(9) assms(2)] on_bot_snd_fine [OF assms(1) safe_calls(10) assms(2)]
      index_ok [OF assms(2)]
    by (simp_all add: action_network_transition_def action_kill_bot_def Let_def split: option.split)
qed

definition wait_duration :: "action \<Rightarrow> nat option" where
  "wait_duration a = duration_from_secs (case duration_sec a of Some x \<Rightarrow> x | None \<Rightarrow> f_lit 5)"

lemma execute_action_fine:
  assumes "engine_env_ok E" "engine_ok C X g"
  shows "fine_or_panic C X (execute_action E a g)"
    and "action_type a \<notin> {PttAlternate, Wait} \<Longrightarrow> execute_action E a g \<noteq> None"
proof -
  have "fine C X (all_join_loop E [0..<length C] None g)"
    by (rule all_join_fine [OF assms(1) _ assms(2)]) auto
  then have "fine C X (execute_action E a g)" if "action_type a \<notin> {PttAlternate, Wait}"
    using that assms requests_fine [OF assms] start_media_fine [OF assms]
    by (cases "action_type a") (auto simp: execute_action_def action_all_join_def bot_indices_ok)
  moreover have "fine_or_panic C X (action_ptt_alternate E a g)"
  proof -
    have "fine_or_panic C X (each (alternate_turn E d) xs g)" for d xs
      by (rule each_fine_or_panic [OF _ assms(2)]) (rule alternate_turn_fine [OF assms(1)])
    then show ?thesis using assms
      by (auto simp: action_ptt_alternate_def Let_def fine_or_panic_def split: Option.bind_split)
  qed
  moreover have "fine_or_panic C X (action_wait E a g)"
    using wait_fine(1) [OF assms] by (auto simp: action_wait_def fine_or_panic_def split: Option.bind_split)
  ultimately show "fine_or_panic C X (execute_action E a g)"
    and "action_type a \<notin> {PttAlternate, Wait} \<Longrightarrow> execute_action E a g \<noteq> None"
    by (cases "action_type a"; auto simp: execute_action_def fine_or_panic_def fine_def)+
qed

text \<open>C5: An action on an engine whose bots are in order returns and leaves them in order, whatever the
  server and the network answer and whichever fields of the action are missing; only the two
  actions that wait can panic, and a plain wait exactly when its duration is negative, not finite or
  reaches past the clock's range.\<close>

theorem action_returns:
  assumes "engine_env_ok E" "engine_ok C X g"
  shows "(execute_action E a g = None \<longrightarrow> action_type a = PttAlternate \<or> action_type a = Wait)
    \<and> (action_type a = Wait \<longrightarrow> (execute_action E a g = None
        \<longleftrightarrow> Option.bind (wait_duration a) (instant_add (eg_clock g)) = None))
    \<and> (\<forall>g'. execute_action E a g = Some g' \<longrightarrow> engine_ok C X g')"
proof (intro conjI impI allI)
  show "action_type a = PttAlternate \<or> action_type a = Wait" if "execute_action E a g = None"
    using execute_action_fine(2) [OF assms] that by blast
  show "execute_action E a g = None \<longleftrightarrow> Option.bind (wait_duration a) (instant_add (eg_clock g)) = None"
    if "action_type a = Wait"
    using that wait_fine(2) [OF assms]
    by (cases "wait_duration a") (simp_all add: execute_action_def action_wait_def wait_duration_def)
  show "engine_ok C X g'" if "execute_action E a g = Some g'" for g'
    using execute_action_fine(1) [OF assms, of a] that by (simp add: fine_or_panic_def)
qed

lemma run_action_fine:
  assumes "engine_env_ok E" "engine_ok C X g"
  shows "fine_or_panic C X (run_action E start a g)"
proof (cases "duration_from_secs (at_sec a)")
  case (Some target)
  let ?r = "if eg_clock g - start < target then wait_with_heartbeat E (target - (eg_clock g - start)) g else Some g"
  have "fine_or_panic C X ?r" using wait_fine(1) [OF assms] assms(2) by (auto simp: fine_or_panic_def)
  then show ?thesis
    using execute_action_fine(1) [OF assms(1)]
    by (cases ?r) (auto simp: run_action_def Some Let_def fine_or_panic_def split: if_splits)
qed (simp add: run_action_def fine_or_panic_def)

section \<open>A run\<close>

definition filter_for :: "('j, 'g, 'c) engine_env \<Rightarrow> nat \<Rightarrow> participant_def \<Rightarrow> 'g net_filter" where
  "filter_for E i p = net_filter_new 0 (ee_seed E i) (np_conditions (profile_or_pristine (pd_profile p)))"

text \<open>The index of the last participant with an id.\<close>

definition last_index :: "participant_def list \<Rightarrow> string \<Rightarrow> nat option" where
  "last_index ps x = (if x \<in> pd_id ` set ps then Some (Max {i. i < length ps \<and> pd_id (ps ! i) = x}) else None)"

lemma last_index_snoc: "last_index (ps @ [p]) = (last_index ps)(pd_id p \<mapsto> length ps)"
proof
  fix x
  show "last_index (ps @ [p]) x = ((last_index ps)(pd_id p \<mapsto> length ps)) x"
  proof (cases "pd_id p = x")
    case True
    then have "Max {i. i < length (ps @ [p]) \<and> pd_id ((ps @ [p]) ! i) = x} = length ps"
      by (intro Max_eqI) auto
    with True show ?thesis by (simp add: last_index_def)
  next
    case False
    then have "{i. i < length (ps @ [p]) \<and> pd_id ((ps @ [p]) ! i) = x} = {i. i < length ps \<and> pd_id (ps ! i) = x}"
      by (auto simp: nth_append less_Suc_eq split: if_splits)
    with False show ?thesis by (auto simp: last_index_def)
  qed
qed

lemma last_index_bound: "last_index ps x = Some i \<Longrightarrow> i < length ps \<and> pd_id (ps ! i) = x"
proof -
  assume i: "last_index ps x = Some i"
  have "finite {i. i < length ps \<and> pd_id (ps ! i) = x}" by simp
  moreover have "{i. i < length ps \<and> pd_id (ps ! i) = x} \<noteq> {}"
    using i by (auto simp: last_index_def in_set_conv_nth split: if_splits)
  ultimately have "Max {i. i < length ps \<and> pd_id (ps ! i) = x} \<in> {i. i < length ps \<and> pd_id (ps ! i) = x}"
    by (rule Max_in)
  then show ?thesis using i by (simp add: last_index_def split: if_splits)
qed

lemma create_bots_result:
  "create_bots E (engine_new sn) = (engine_new sn)\<lparr>eg_index := last_index (sn_participants sn),
     eg_bots := map (\<lambda>(i, p). bot_new (config_for (sn_meta sn) p) (Some (filter_for E i p)))
       (enumerate 0 (sn_participants sn))\<rparr>"
proof -
  have "fold (create_bot E) (enumerate 0 ps) (engine_new sn) = (engine_new sn)\<lparr>eg_index := last_index ps,
      eg_bots := map (\<lambda>(i, p). bot_new (config_for (sn_meta sn) p) (Some (filter_for E i p))) (enumerate 0 ps)\<rparr>" for ps
  proof (induction ps rule: rev_induct)
    case Nil
    have "last_index [] = (\<lambda>_. None)" by (simp add: last_index_def fun_eq_iff)
    then show ?case by (simp add: engine_new_def)
  next
    case (snoc p ps)
    have "fold (create_bot E) (enumerate 0 (ps @ [p])) (engine_new sn)
        = create_bot E (length ps, p) (fold (create_bot E) (enumerate 0 ps) (engine_new sn))"
      by (simp add: enumerate_append_eq)
    also note snoc
    also have "create_bot E (length ps, p) ((engine_new sn)\<lparr>eg_index := last_index ps,
          eg_bots := map (\<lambda>(i, p). bot_new (config_for (sn_meta sn) p) (Some (filter_for E i p))) (enumerate 0 ps)\<rparr>)
        = (engine_new sn)\<lparr>eg_index := (last_index ps)(pd_id p \<mapsto> length ps),
          eg_bots := map (\<lambda>(i, p). bot_new (config_for (sn_meta sn) p) (Some (filter_for E i p))) (enumerate 0 (ps @ [p]))\<rparr>"
      by (simp add: create_bot_def engine_new_def filter_for_def enumerate_append_eq Let_def)
    finally show ?case unfolding last_index_snoc .
  qed
  from this [of "sn_participants sn"] show ?thesis
    by (simp add: create_bots_def engine_new_def)
qed

lemma created_ok:
  "engine_ok (map (config_for (sn_meta sn)) (sn_participants sn)) (last_index (sn_participants sn))
     (create_bots E (engine_new sn))"
  by (auto simp: engine_ok_def create_bots_result nth_enumerate_eq bot_reachable.start dest: last_index_bound)

text \<open>C4: At the end of a timeline there is one bot for each participant, in a state that its own
  commands and tasks can reach from its creation with the configuration of the scenario and the
  participant, so it satisfies the bot invariant; an identifier stands for the last participant of
  that name.\<close>

theorem timeline_bots:
  fixes E :: "('j, 'g, 'c) engine_env"
  assumes "engine_env_ok E" "run_timeline E (engine_new sn) = Some g"
  shows "length (eg_bots g) = length (sn_participants sn)
    \<and> (\<forall>i < length (sn_participants sn).
         bot_reachable (config_for (sn_meta sn) (sn_participants sn ! i)) (eg_bots g ! i) \<and> lifecycle_ok (eg_bots g ! i))
    \<and> eg_index g = last_index (sn_participants sn)"
proof -
  let ?C = "map (config_for (sn_meta sn)) (sn_participants sn)" let ?X = "last_index (sn_participants sn)"
  let ?g = "create_bots E (engine_new sn) :: ('j, 'g, 'c) engine"
  let ?g0 = "?g\<lparr>eg_scenario := (eg_scenario ?g)\<lparr>sn_actions := []\<rparr>\<rparr>"
  obtain as where as: "each (run_action E (eg_clock ?g0)) as ?g0 = Some g"
    using assms(2) by (auto simp: run_timeline_def Let_def split: Option.bind_split_asm)
  have "engine_ok ?C ?X ?g0" using created_ok by simp
  then have "fine_or_panic ?C ?X (each (run_action E (eg_clock ?g0)) as ?g0)"
    by (rule each_fine_or_panic [OF run_action_fine [OF assms(1)], rotated])
  with as have ok: "engine_ok ?C ?X g" by (simp add: fine_or_panic_def)
  have "lifecycle_ok b" if "bot_reachable c b" for c and b :: "('j, 'g, 'c) bot"
    using bot_reachable_inv [OF that] by (simp add: bot_inv_def)
  with ok show ?thesis by (auto simp: engine_ok_def)
qed

lemma judge_verdicts:
  fixes report ho ts sc pr cps n ps baseline thr errors
  defines "report \<equiv> judge ho ts sc pr cps n ps baseline thr errors"
  shows "l1_verdict (jr_layer1 report) = VPass \<and> l2_overall (jr_layer2 report) \<noteq> Regressed \<longleftrightarrow> jr_overall report = VPass"
    and "errors \<noteq> [] \<Longrightarrow> jr_overall report = VFail"
    and "jr_scenario report = sc" "jr_profile report = pr"
proof -
  have v: "x = VPass \<longleftrightarrow> x \<noteq> VFail" for x by (cases x) auto
  show "l1_verdict (jr_layer1 report) = VPass \<and> l2_overall (jr_layer2 report) \<noteq> Regressed \<longleftrightarrow> jr_overall report = VPass"
    by (simp add: report_def judge_def Let_def v)
  show "errors \<noteq> [] \<Longrightarrow> jr_overall report = VFail"
    by (simp add: report_def judge_def judge_layer2_def Let_def)
qed (simp_all add: report_def judge_def Let_def)

lemma disconnected: "b_status (disconnect b) = Stopped \<and> \<not> b_attached (disconnect b)"
  by (simp add: disconnect_def stop_publishing_def Let_def)

text \<open>C17: A run saves a baseline exactly when its overall verdict is a pass and the file can be written;
  it is the baseline of the run's own report, under the scenario and the first participant's
  profile.  A run with an error never passes, and every bot ends up stopped with no tasks attached.\<close>

theorem baseline_saved_iff:
  assumes "engine_run E J sn = Some r"
  shows "(sr_saved r \<noteq> None \<longleftrightarrow> jr_overall (sr_report r) = VPass \<and> jd_create_dir_error J = None \<and> jd_save_error J = None)
    \<and> (\<forall>p b. sr_saved r = Some (p, b) \<longrightarrow> b = create_baseline (sr_report r)
         \<and> p = baseline_resolve_path (jd_path_join J) (jd_baselines_dir J) (jr_scenario (sr_report r)) (jr_profile (sr_report r)))
    \<and> (sr_errors r \<noteq> [] \<longrightarrow> jr_overall (sr_report r) = VFail \<and> sr_saved r = None)
    \<and> (\<forall>b \<in> set (sr_bots r). b_status b = Stopped \<and> \<not> b_attached b)"
proof -
  obtain g where r: "r = judge_run J g" using assms by (auto simp: engine_run_def)
  define meta where "meta = sn_meta (eg_scenario g)"
  obtain ho ts pr cps n ps baseline thr where report: "sr_report r = judge ho ts (sm_name meta) pr cps n ps baseline thr (eg_errors g)"
      "sr_errors r = eg_errors g" "sr_bots r = map disconnect (eg_bots g)"
      "sr_saved r = (if l1_verdict (jr_layer1 (sr_report r)) = VPass \<and> l2_overall (jr_layer2 (sr_report r)) \<noteq> Regressed
         then if jd_create_dir_error J \<noteq> None then None else if jd_save_error J \<noteq> None then None
           else Some (baseline_resolve_path (jd_path_join J) (jd_baselines_dir J) (sm_name meta) pr, create_baseline (sr_report r))
         else None)"
    unfolding r judge_run_def Let_def meta_def scenario_result.simps by blast
  show ?thesis
    unfolding report(4) using judge_verdicts [where ho = ho and ts = ts and sc = "sm_name meta" and pr = pr
        and cps = cps and n = n and ps = ps and baseline = baseline and thr = thr and errors = "eg_errors g"]
    by (auto simp: report(1-3) disconnected)
qed

section \<open>Concrete runs\<close>

definition sample_engine_env :: "(sample_json, unit, bool) engine_env" where
  "sample_engine_env = \<lparr>ee_bot = (\<lambda>k. sample_bot_env), ee_tasks = (\<lambda>k b. b), ee_busy = (\<lambda>k. 1000000),
     ee_unix_ms = (\<lambda>k. 0), ee_seed = (\<lambda>i. ())\<rparr>"

definition sample_action :: "f64 \<Rightarrow> action_type \<Rightarrow> action" where
  "sample_action t ty = \<lparr>at_sec = t, action_type = ty, actor = None, actors = None, priority = None,
     act_profile = None, act_count = None, interval_sec = None, duration_sec = None\<rparr>"

text \<open>Two participants of the same name, one action.\<close>

definition sample_scenario :: "action_type \<Rightarrow> scenario" where
  "sample_scenario ty = \<lparr>sn_meta = \<lparr>sm_name = ''s'', sm_description = [], sm_server = ''h'', sm_ws_port = 1974,
       sm_room = ''room'', sm_mode = ''ptt'', sm_judgement = None, sm_categories = []\<rparr>,
     sn_participants = map (\<lambda>profile. \<lparr>pd_id = ''alice'', pd_profile = profile, pd_publish = [], pd_subscribe = [],
       pd_role = None\<rparr>) [''field_lte'', ''unknown''],
     sn_actions = [sample_action (Fin 0) ty]\<rparr>"

lemma sample_engine_env_ok: "engine_env_ok sample_engine_env"
  by (simp add: engine_env_ok_def sample_engine_env_def sample_bot_env_def sample_media_def media_ok_def)

abbreviation sample_engine :: "action_type \<Rightarrow> (sample_json, unit, bool) engine" where
  "sample_engine ty \<equiv> create_bots sample_engine_env (engine_new (sample_scenario ty))"

lemma sample_runs:
  assumes "ty \<notin> {PttAlternate, Wait}"
  shows "\<exists>g. run_timeline sample_engine_env (engine_new (sample_scenario ty)) = Some g"
proof -
  let ?g = "(sample_engine ty)\<lparr>eg_scenario := (sample_scenario ty)\<lparr>sn_actions := []\<rparr>\<rparr>"
  have "engine_ok (map (config_for (sn_meta (sample_scenario ty))) (sn_participants (sample_scenario ty)))
      (last_index (sn_participants (sample_scenario ty))) ?g"
    using created_ok [of "sample_scenario ty" sample_engine_env] by simp
  from execute_action_fine(2) [OF sample_engine_env_ok this, of "sample_action (Fin 0) ty"]
  obtain g where "execute_action sample_engine_env (sample_action (Fin 0) ty) ?g = Some g"
    using assms by (auto simp: sample_action_def)
  moreover have "duration_from_secs (Fin 0) = Some 0" by (simp add: duration_from_secs_def round_even_def)
  moreover have "eg_scenario (sample_engine ty) = sample_scenario ty"
    by (simp add: create_bots_result) (simp add: engine_new_def)
  moreover have "sn_actions (sample_scenario ty) = [sample_action (Fin 0) ty]" by (simp add: sample_scenario_def)
  ultimately show ?thesis
    by (simp add: run_timeline_def schedule_def run_action_def Let_def sample_action_def)
qed

theorem action_returns_witness:
  "execute_action sample_engine_env (sample_action (Fin 0) PttRequest) (sample_engine Wait) \<noteq> None
   \<and> execute_action sample_engine_env (sample_action (Fin 0) Wait\<lparr>duration_sec := Some (Fin (- 1))\<rparr>) (sample_engine Wait) = None"
proof -
  have ok: "engine_ok (map (config_for (sn_meta (sample_scenario Wait))) (sn_participants (sample_scenario Wait)))
      (last_index (sn_participants (sample_scenario Wait))) (sample_engine Wait)"
    by (rule created_ok)
  show ?thesis
    using action_returns [OF sample_engine_env_ok ok, of "sample_action (Fin 0) PttRequest"]
      action_returns [OF sample_engine_env_ok ok, of "(sample_action (Fin 0) Wait)\<lparr>duration_sec := Some (Fin (- 1))\<rparr>"]
    by (auto simp: sample_action_def wait_duration_def duration_from_secs_def)
qed

theorem timeline_bots_witness:
  "\<exists>g. run_timeline sample_engine_env (engine_new (sample_scenario AllJoin)) = Some g
     \<and> length (eg_bots g) = 2 \<and> eg_index g ''alice'' = Some 1 \<and> lifecycle_ok (eg_bots g ! 0)"
proof -
  obtain g where g: "run_timeline sample_engine_env (engine_new (sample_scenario AllJoin)) = Some g"
    using sample_runs [of AllJoin] by blast
  have "last_index (sn_participants (sample_scenario AllJoin)) ''alice'' = Some 1"
  proof -
    have "Max {i. i < length (sn_participants (sample_scenario AllJoin))
        \<and> pd_id (sn_participants (sample_scenario AllJoin) ! i) = ''alice''} = 1"
      by (rule Max_eqI) (auto simp: sample_scenario_def)
    then show ?thesis by (simp add: last_index_def) (simp add: sample_scenario_def)
  qed
  with timeline_bots [OF sample_engine_env_ok g] g show ?thesis by (auto simp: sample_scenario_def)
qed

definition sample_judge_env :: "string judge_env" where
  "sample_judge_env = \<lparr>jd_fmt = sample_env, jd_order = (\<lambda>n xs. xs), jd_ssrcs = sorted_list_of_set,
     jd_metric_order = remdups, jd_timestamp = ''0s'', jd_to_lowercase = (\<lambda>s. s), jd_load_thresholds = (\<lambda>p. Inl []),
     jd_judgement_path = (@), jd_load_baseline = (\<lambda>p. Inl []), jd_path_join = (@), jd_baselines_dir = [],
     jd_create_dir_error = None, jd_save_error = None\<rparr>"

theorem baseline_saved_iff_witness:
  "\<exists>r. engine_run sample_engine_env sample_judge_env (sample_scenario PttRelease) = Some r
     \<and> (sr_saved r \<noteq> None \<longleftrightarrow> jr_overall (sr_report r) = VPass) \<and> (\<forall>b \<in> set (sr_bots r). b_status b = Stopped)"
proof -
  obtain r where r: "engine_run sample_engine_env sample_judge_env (sample_scenario PttRelease) = Some r"
    using sample_runs [of PttRelease] by (auto simp: engine_run_def)
  from baseline_saved_iff [OF this] r show ?thesis by (auto simp: sample_judge_env_def)
qed

end
