(* ===== verification/Timeline.thy ===== *)
theory Timeline
  imports Engine
begin

text \<open>
  What the run loop of the engine does with a scenario's actions: a log of the actions executed, with the
  clock at the start of each, and the order, the times and the panics of a whole timeline.
\<close>

section \<open>The clock\<close>

lemma wait_loop_clock: "wait_loop_until E deadline g = Some g' \<Longrightarrow> eg_clock g \<le> eg_clock g' \<and> deadline \<le> eg_clock g'"
proof (induction E deadline g rule: wait_loop_until.induct)
  case (1 E deadline g)
  let ?g = "g\<lparr>eg_clock := eg_clock g + min (deadline - eg_clock g) 5000000000\<rparr>"
  show ?case
  proof (cases "deadline - eg_clock g = 0")
    case True
    with 1(2) show ?thesis by (subst (asm) wait_loop_until.simps) (simp add: Let_def)
  next
    case False
    then obtain g1 where g1: "each (heartbeat_bot E) (bot_indices g) ?g = Some g1"
      and g': "if deadline \<le> eg_clock g1 then g' = g1 else wait_loop_until E deadline g1 = Some g'"
      using 1(2) by (subst (asm) (2) wait_loop_until.simps) (auto simp: Let_def split: option.splits if_splits)
    from heartbeats_clock [OF g1] have "eg_clock g \<le> eg_clock g1" by simp
    with g' 1(1) [OF refl False refl g1] show ?thesis by (auto split: if_splits)
  qed
qed

lemma wait_clock: "wait_with_heartbeat E d g = Some g' \<Longrightarrow> eg_clock g + d \<le> eg_clock g'"
  by (auto simp: wait_with_heartbeat_def instant_add_def dest: wait_loop_clock split: Option.bind_split_asm if_splits)

lemma all_join_clock: "all_join_loop E xs room g = Some g' \<Longrightarrow> eg_clock g \<le> eg_clock g'"
proof (induction xs arbitrary: room g)
  case (Cons i xs)
  then show ?case
    by (fastforce simp: Let_def dest!: on_bot_clock Cons.IH split: Option.bind_split_asm if_splits option.splits sum.splits)
qed simp

lemma start_media_clock: "start_media_bot E i g = Some g' \<Longrightarrow> eg_clock g \<le> eg_clock g'"
  by (auto simp: start_media_bot_def Let_def dest!: on_bot_clock split: Option.bind_split_asm if_splits sum.splits)

lemma process_publishing_clock: "process_publishing E i g = Some g' \<Longrightarrow> eg_clock g \<le> eg_clock g'"
  by (auto simp: process_publishing_def dest: on_bot_clock split: if_splits)

lemma alternate_turn_clock: "alternate_turn E d who g = Some g' \<Longrightarrow> eg_clock g \<le> eg_clock g'"
  by (fastforce simp: alternate_turn_def dest!: on_bot_clock wait_clock split: Option.bind_split_asm if_splits option.splits sum.splits)

lemma execute_action_clock:
  assumes "execute_action E a g = Some g'"
  shows "eg_clock g \<le> eg_clock g'"
proof -
  have each: "each (start_media_bot E) xs g = Some g1 \<Longrightarrow> eg_clock g \<le> eg_clock g1"
    "each (process_publishing E) xs g = Some g1 \<Longrightarrow> eg_clock g \<le> eg_clock g1"
    "each (alternate_turn E d) ys g = Some g1 \<Longrightarrow> eg_clock g \<le> eg_clock g1" for xs ys d g g1
    by (erule each_mono [where m = eg_clock, rotated],
      erule start_media_clock process_publishing_clock alternate_turn_clock)+
  show ?thesis
  proof (cases "action_type a")
    case StartMedia
    with assms obtain g1 where "each (start_media_bot E) (bot_indices g) g = Some g1"
      "each (process_publishing E) (bot_indices g1) (g1\<lparr>eg_clock := eg_clock g1 + 2000000000\<rparr>) = Some g'"
      by (auto simp: execute_action_def action_start_media_def Let_def split: Option.bind_split_asm)
    from each(1) [OF this(1)] each(2) [OF this(2)] show ?thesis by simp
  next
    case PttAlternate
    with assms show ?thesis
      by (auto simp: execute_action_def action_ptt_alternate_def Let_def dest: each(3) split: Option.bind_split_asm if_splits)
  next
    case Wait
    with assms show ?thesis
      by (auto simp: execute_action_def action_wait_def dest!: wait_clock split: Option.bind_split_asm)
  qed (use assms in \<open>auto simp: execute_action_def action_all_join_def action_ptt_request_def action_ptt_release_def
      action_network_transition_def action_kill_bot_def Let_def dest!: on_bot_clock all_join_clock
      split: Option.bind_split_asm option.splits sum.splits\<close>)
qed

section \<open>The log of a timeline\<close>

text \<open>From one state of the engine to another by executing the actions of a log, each logged with the clock at
  which it starts: the engine waits when the action's time, counted from the start of the timeline at clock
  0, is still to come.\<close>

inductive performs :: "('j, 'g, 'c) engine_env \<Rightarrow> ('j, 'g, 'c) engine \<Rightarrow> (nat \<times> action) list \<Rightarrow> ('j, 'g, 'c) engine \<Rightarrow> bool"
  for E where
  finished: "performs E g [] g"
| in_time: "duration_from_secs (at_sec a) = Some target \<Longrightarrow> eg_clock g < target
    \<Longrightarrow> wait_with_heartbeat E (target - eg_clock g) g = Some h \<Longrightarrow> execute_action E a h = Some g1
    \<Longrightarrow> performs E g1 acts g2 \<Longrightarrow> performs E g ((eg_clock h, a) # acts) g2"
| late: "duration_from_secs (at_sec a) = Some target \<Longrightarrow> target \<le> eg_clock g
    \<Longrightarrow> execute_action E a g = Some g1 \<Longrightarrow> performs E g1 acts g2 \<Longrightarrow> performs E g ((eg_clock g, a) # acts) g2"

inductive_cases performs_NilE: "performs E g [] g'"
inductive_cases performs_ConsE: "performs E g (x # acts) g'"

lemma performs_each: "performs E g acts g' \<Longrightarrow> each (run_action E 0) (map snd acts) g = Some g'"
  by (induction rule: performs.induct) (simp_all add: run_action_def Let_def)

lemma each_performs: "each (run_action E 0) as g = Some g' \<Longrightarrow> \<exists>acts. map snd acts = as \<and> performs E g acts g'"
proof (induction as arbitrary: g)
  case Nil
  then show ?case by (auto intro: performs.finished)
next
  case (Cons a as)
  then obtain g1 where g1: "run_action E 0 a g = Some g1" "each (run_action E 0) as g1 = Some g'"
    by (auto split: Option.bind_split_asm)
  from Cons.IH [OF g1(2)] obtain acts where acts: "map snd acts = as" "performs E g1 acts g'" by blast
  obtain target where target: "duration_from_secs (at_sec a) = Some target"
    using g1(1) by (auto simp: run_action_def split: Option.bind_split_asm)
  show ?case
  proof (cases "eg_clock g < target")
    case True
    with g1(1) target obtain h where "wait_with_heartbeat E (target - eg_clock g) g = Some h" "execute_action E a h = Some g1"
      by (auto simp: run_action_def Let_def split: Option.bind_split_asm)
    from performs.in_time [OF target True this acts(2)] acts(1) show ?thesis by force
  next
    case False
    with g1(1) target have "target \<le> eg_clock g" "execute_action E a g = Some g1"
      by (auto simp: run_action_def Let_def)
    from performs.late [OF target this acts(2)] acts(1) show ?thesis by force
  qed
qed

text \<open>No action before its time, and none before the one logged earlier.\<close>

lemma performs_times:
  "performs E g acts g' \<Longrightarrow> sorted (map fst acts) \<and> (\<forall>(t, a) \<in> set acts. eg_clock g \<le> t
     \<and> (\<exists>target. duration_from_secs (at_sec a) = Some target \<and> target \<le> t))"
proof (induction rule: performs.induct)
  case (in_time a target g h g1 acts g2)
  from wait_clock [OF in_time(3)] in_time(2) have "target \<le> eg_clock h" "eg_clock g \<le> eg_clock h" by simp_all
  with in_time(1,6) execute_action_clock [OF in_time(4)] show ?case by fastforce
next
  case (late a target g g1 acts g2)
  with execute_action_clock [OF late(3)] show ?case by fastforce
qed simp

section \<open>The timeline\<close>

text \<open>A list of actions in the order of their times, those of the same time in the order of the file.\<close>

definition in_time_order :: "action list \<Rightarrow> action list \<Rightarrow> bool" where
  "in_time_order actions as \<longleftrightarrow> mset as = mset actions \<and> sorted_wrt (\<lambda>a b. f_le (at_sec a) (at_sec b)) as
     \<and> (\<forall>t. filter (\<lambda>a. at_sec a = t) as = filter (\<lambda>a. at_sec a = t) actions)"

lemma in_time_order_key:
  assumes "in_time_order actions as"
  shows "schedule actions = Some as"
proof -
  note o = assms [unfolded in_time_order_def]
  have len: "length as = length actions" and set: "set as = set actions"
    using o by (metis size_mset, metis set_mset_mset)
  have le: "f_le (at_sec (as ! i)) (at_sec (as ! j))" if "i < j" "j < length as" for i j
    using o sorted_wrt_nth_less [OF _ that, of "\<lambda>a b. f_le (at_sec a) (at_sec b)"] by blast
  have num: "at_sec a \<noteq> NaN" if "2 \<le> length actions" "a \<in> set actions" for a
  proof -
    from that len set obtain i where i: "i < length as" "as ! i = a" by (metis in_set_conv_nth)
    with le [of 0 1] le [of 0 i] that(1) len show ?thesis
      by (cases "i = 0"; cases "at_sec (as ! 0)"; cases "at_sec a") auto
  qed
  have "sorted (map (\<lambda>a. time_key (at_sec a)) as)"
  proof (cases "length as < 2")
    case True
    then obtain a where "as = [] \<or> as = [a]" by (cases as; cases "tl as") auto
    then show ?thesis by auto
  next
    case False
    then have num: "at_sec a \<noteq> NaN" if "a \<in> set as" for a using num that len set by simp
    show ?thesis unfolding sorted_map
      by (rule sorted_wrt_mono_rel [of _ "\<lambda>a b. f_le (at_sec a) (at_sec b)"]) (use o in \<open>simp_all add: time_key_le num\<close>)
  qed
  moreover have "filter (\<lambda>b. time_key (at_sec a) = time_key (at_sec b)) as
      = filter (\<lambda>b. time_key (at_sec a) = time_key (at_sec b)) actions" for a
    using o by (simp add: time_key_inj eq_commute [of "at_sec a"])
  ultimately have "sort_key (\<lambda>a. time_key (at_sec a)) actions = as"
    using o by (intro properties_for_sort_key) auto
  with num show ?thesis by (auto simp: schedule_def list_ex_iff)
qed

lemma schedule_in_order: "schedule actions = Some as \<longleftrightarrow> in_time_order actions as"
proof
  assume "schedule actions = Some as"
  then show "in_time_order actions as" unfolding in_time_order_def using schedule_stable [of actions] by blast
qed (rule in_time_order_key)

abbreviation ready :: "('j, 'g, 'c) engine_env \<Rightarrow> scenario \<Rightarrow> ('j, 'g, 'c) engine" where
  "ready E sn \<equiv> (create_bots E (engine_new sn))\<lparr>eg_scenario := sn\<lparr>sn_actions := []\<rparr>\<rparr>"

lemma run_timeline_each:
  "run_timeline E (engine_new sn) = Option.bind (schedule (sn_actions sn)) (\<lambda>as. each (run_action E 0) as (ready E sn))"
proof -
  have "eg_scenario (create_bots E (engine_new sn)) = sn" "eg_clock (create_bots E (engine_new sn)) = 0"
    unfolding create_bots_result by (simp_all add: engine_new_def)
  then show ?thesis by (simp add: run_timeline_def Let_def)
qed

text \<open>C16: A timeline returns exactly when all of the scenario's actions are executed one after the other, none
  left out or repeated, in the order of their times and those of the same time in the order of the file; no
  action starts before its time or before an earlier one.  A time that is negative, infinite or not a
  number makes it panic, wherever the action stands in the file.\<close>

theorem timeline_order:
  "(run_timeline E (engine_new sn) = Some g \<longleftrightarrow> (\<exists>acts. performs E (ready E sn) acts g
      \<and> mset (map snd acts) = mset (sn_actions sn)
      \<and> sorted_wrt (\<lambda>a b. f_le (at_sec a) (at_sec b)) (map snd acts)
      \<and> (\<forall>t. filter (\<lambda>a. at_sec a = t) (map snd acts) = filter (\<lambda>a. at_sec a = t) (sn_actions sn))
      \<and> sorted (map fst acts)
      \<and> (\<forall>(t, a) \<in> set acts. \<exists>target. duration_from_secs (at_sec a) = Some target \<and> target \<le> t)))
   \<and> ((\<exists>a \<in> set (sn_actions sn). \<forall>q \<ge> 0. at_sec a \<noteq> Fin q) \<longrightarrow> run_timeline E (engine_new sn) = None)"
proof -
  let ?returns = "\<lambda>g. \<exists>acts. performs E (ready E sn) acts g \<and> in_time_order (sn_actions sn) (map snd acts)"
  have returns: "run_timeline E (engine_new sn) = Some g \<longleftrightarrow> ?returns g" for g
    unfolding run_timeline_each bind_eq_Some_conv schedule_in_order
    using performs_each each_performs by (metis (no_types, lifting))
  have "run_timeline E (engine_new sn) = None" if a: "a \<in> set (sn_actions sn)" "\<forall>q \<ge> 0. at_sec a \<noteq> Fin q" for a
  proof (rule ccontr)
    assume "run_timeline E (engine_new sn) \<noteq> None"
    then obtain acts g where acts: "performs E (ready E sn) acts g" "in_time_order (sn_actions sn) (map snd acts)"
      using returns by blast
    from acts(2) have "set (map snd acts) = set (sn_actions sn)" unfolding in_time_order_def by (metis set_mset_mset)
    with a(1) obtain t where "(t, a) \<in> set acts" by (metis (no_types, lifting) in_set_conv_nth length_map nth_map nth_mem prod.collapse)
    with performs_times [OF acts(1)] have "duration_from_secs (at_sec a) \<noteq> None" by auto
    with a(2) show False by (cases "at_sec a") (auto simp: duration_from_secs_def not_le split: if_splits)
  qed
  moreover have "run_timeline E (engine_new sn) = Some g \<longleftrightarrow> (\<exists>acts. performs E (ready E sn) acts g
      \<and> in_time_order (sn_actions sn) (map snd acts) \<and> sorted (map fst acts)
      \<and> (\<forall>(t, a) \<in> set acts. \<exists>target. duration_from_secs (at_sec a) = Some target \<and> target \<le> t))"
    unfolding returns using performs_times by fast
  ultimately show ?thesis unfolding in_time_order_def by blast
qed

text \<open>Two actions in the wrong order of the file, and one before the start.\<close>

definition sample_two :: scenario where
  "sample_two = (sample_scenario Wait)\<lparr>sn_actions := [sample_action (Fin 3) AllJoin, sample_action (Fin 0) KillBot]\<rparr>"

lemma sample_two_runs: "\<exists>g. run_timeline sample_engine_env (engine_new sample_two) = Some g"
proof -
  let ?g = "ready sample_engine_env sample_two"
  let ?C = "map (config_for (sn_meta sample_two)) (sn_participants sample_two)" and ?X = "last_index (sn_participants sample_two)"
  have ok: "engine_ok ?C ?X ?g" using created_ok [of sample_two sample_engine_env] by simp
  have clock: "eg_clock ?g = 0" unfolding create_bots_result by (simp add: engine_new_def)
  have "duration_from_secs (Fin 0) = Some 0" "duration_from_secs (Fin 3) = Some 3000000000"
    by (simp_all add: duration_from_secs_def round_even_def)
  moreover have "execute_action sample_engine_env (sample_action (Fin 0) KillBot) ?g = Some ?g"
    by (simp add: execute_action_def action_kill_bot_def sample_action_def)
  moreover obtain h where h: "wait_with_heartbeat sample_engine_env 3000000000 ?g = Some h" "engine_ok ?C ?X h"
    using wait_fine [OF sample_engine_env_ok ok, of 3000000000] clock by (auto simp: fine_or_panic_def fine_def instant_add_def)
  moreover obtain g where "execute_action sample_engine_env (sample_action (Fin 3) AllJoin) h = Some g"
    using execute_action_fine(2) [OF sample_engine_env_ok h(2), of "sample_action (Fin 3) AllJoin"] by (auto simp: sample_action_def)
  ultimately have "each (run_action sample_engine_env 0) [sample_action (Fin 0) KillBot, sample_action (Fin 3) AllJoin] ?g = Some g"
    using clock by (simp add: run_action_def Let_def sample_action_def)
  moreover have "schedule (sn_actions sample_two) = Some [sample_action (Fin 0) KillBot, sample_action (Fin 3) AllJoin]"
    by (simp add: sample_two_def schedule_def sample_action_def less_eq_prod_def)
  ultimately show ?thesis unfolding run_timeline_each by auto
qed

theorem timeline_order_witness:
  "\<exists>g t u. performs sample_engine_env (ready sample_engine_env sample_two)
      [(t, sample_action (Fin 0) KillBot), (u, sample_action (Fin 3) AllJoin)] g \<and> t \<le> u \<and> 3000000000 \<le> u
   \<and> run_timeline sample_engine_env (engine_new (sample_two\<lparr>sn_actions := [sample_action (Fin (- 1)) Wait]\<rparr>)) = None"
proof -
  obtain g where "run_timeline sample_engine_env (engine_new sample_two) = Some g" using sample_two_runs by blast
  then obtain acts where acts: "performs sample_engine_env (ready sample_engine_env sample_two) acts g"
    "mset (map snd acts) = mset (sn_actions sample_two)" "sorted_wrt (\<lambda>a b. f_le (at_sec a) (at_sec b)) (map snd acts)"
    "sorted (map fst acts)" "\<forall>(t, a) \<in> set acts. \<exists>target. duration_from_secs (at_sec a) = Some target \<and> target \<le> t"
    using timeline_order [of sample_engine_env sample_two g] by blast
  have "length acts = 2" using arg_cong [OF acts(2), of size] by (simp add: sample_two_def)
  then obtain t a u b where l: "acts = [(t, a), (u, b)]" by (auto simp: length_Suc_conv numeral_2_eq_2)
  have "a = sample_action (Fin 0) KillBot \<and> b = sample_action (Fin 3) AllJoin"
    using acts(2,3) by (auto simp: l sample_two_def add_eq_conv_ex sample_action_def)
  moreover have "duration_from_secs (Fin 3) = Some 3000000000" by (simp add: duration_from_secs_def round_even_def)
  moreover have "run_timeline sample_engine_env (engine_new (sample_two\<lparr>sn_actions := [sample_action (Fin (- 1)) Wait]\<rparr>)) = None"
    using timeline_order [of sample_engine_env "sample_two\<lparr>sn_actions := [sample_action (Fin (- 1)) Wait]\<rparr>"]
    by (auto simp: sample_action_def)
  ultimately show ?thesis using acts(1,4,5) by (auto simp: l sample_action_def)
qed

end
