(* ===== verification/Cap.thy ===== *)
theory Cap
  imports Bot
begin

text \<open>
  The capacity bots (\<open>oxlab-bot/src/cap.rs\<close>): a publisher, a subscriber and a conference bot that
  does both, with only what a load measurement needs.  The receiver counts packets and gaps from
  the plaintext header; in mode \<open>Full\<close> it also decrypts and measures the latency from the send
  time the publisher embeds.  A bot's loop is a fold over the branches its \<open>select!\<close> takes before
  the deadline; each branch runs to its end before the next.  The counters are atomics that only
  grow, here the ones a bot finds and leaves.
\<close>

section \<open>Data\<close>

datatype recv_mode = Count | Full

record cap_counters =
  tx_attempt :: u64
  tx_ok :: u64
  tx_bytes :: u64
  rx_packets :: u64
  rx_bytes :: u64
  rx_lost :: u64
  rx_decrypt_fail :: u64
  active_subs :: u64

definition cap_counters_new :: cap_counters where
  "cap_counters_new = \<lparr>tx_attempt = 0, tx_ok = 0, tx_bytes = 0, rx_packets = 0, rx_bytes = 0, rx_lost = 0,
     rx_decrypt_fail = 0, active_subs = 0\<rparr>"

definition rtp_config_for :: "string \<Rightarrow> rtp_config" where
  "rtp_config_for bot_id = (let h = simple_hash bot_id in
     rtp_config_default\<lparr>audio_ssrc := 0xA0000000 OR (h AND 0x00FFFFFF),
                        video_ssrc := 0xB0000000 OR (h AND 0x00FFFFFF)\<rparr>)"

section \<open>Sending\<close>

definition embed_send_ts :: "u64 \<Rightarrow> bytes \<Rightarrow> bytes" where
  "embed_send_ts now pkt = (let n = length pkt in if 8 \<le> n then take (n - 8) pkt @ le64 now else pkt)"

text \<open>What is sent, if anything; \<open>send_ok\<close> is whether the socket takes it.\<close>

definition send_rtp ::
    "'c srtp_ops \<Rightarrow> bool \<Rightarrow> bytes \<Rightarrow> 'c srtp_ctx \<times> cap_counters \<Rightarrow> bytes option \<times> 'c srtp_ctx \<times> cap_counters" where
  "send_rtp S send_ok pkt = (\<lambda>(srtp, counters).
     let counters = counters\<lparr>tx_attempt := tx_attempt counters + 1\<rparr>;
         (encrypted, srtp) = encrypt_rtp S pkt srtp
     in case encrypted of
          None \<Rightarrow> (None, srtp, counters)
        | Some enc \<Rightarrow>
           if send_ok then (Some enc, srtp, counters\<lparr>tx_ok := tx_ok counters + 1,
             tx_bytes := tx_bytes counters + of_nat (length enc)\<rparr>)
           else (None, srtp, counters))"

record consent_rng =
  cr_ice :: bytes
  cr_tid :: bytes
  cr_tie_breaker :: bytes

definition send_consent :: "crypto_ops \<Rightarrow> consent_rng \<Rightarrow> string \<Rightarrow> string \<Rightarrow> bytes option" where
  "send_consent C r ufrag pwd = build_binding_request C (cr_tid r) (cr_tie_breaker r) ufrag
     (random_ice_string (cr_ice r)) pwd"

section \<open>Receiving\<close>

definition handle_rtp ::
    "'c srtp_ops \<Rightarrow> recv_mode \<Rightarrow> u64 \<Rightarrow> bytes
     \<Rightarrow> 'c srtp_ctx \<times> (u32 \<Rightarrow> u16 option) \<times> cap_counters \<times> f64 list
     \<Rightarrow> bool \<times> 'c srtp_ctx \<times> (u32 \<Rightarrow> u16 option) \<times> cap_counters \<times> f64 list" where
  "handle_rtp S mode now pkt = (\<lambda>(srtp, last_seq, counters, local_lat).
     if length pkt < 12 \<or> \<not> is_rtp (pkt ! 0) then (False, srtp, last_seq, counters, local_lat)
     else let pt = pkt ! 1 AND 0x7F in
     if 72 \<le> pt \<and> pt \<le> 79 then (False, srtp, last_seq, counters, local_lat)
     else let
       seq = from_be16 (pkt ! 2) (pkt ! 3);
       ssrc = from_be32 (pkt ! 8) (pkt ! 9) (pkt ! 10) (pkt ! 11);
       counters = counters\<lparr>rx_packets := rx_packets counters + 1\<rparr>;
       counters = counters\<lparr>rx_bytes := rx_bytes counters + of_nat (length pkt)\<rparr>;
       counters = (case last_seq ssrc of
           Some prev \<Rightarrow>
             let expected = prev + 1; diff = sint (seq - expected) in
             if 0 < diff then counters\<lparr>rx_lost := rx_lost counters + of_int diff\<rparr> else counters
         | None \<Rightarrow> counters);
       last_seq = last_seq(ssrc \<mapsto> seq)
     in if mode = Full then
          (let (decrypted, srtp) = decrypt_rtp S pkt srtp in
           case decrypted of
             Some plain \<Rightarrow>
               let vpt = (if 1 < length plain then plain ! 1 AND 0x7F else 0);
                   local_lat = (if vpt \<noteq> 111 \<and> 8 \<le> length plain then
                       let n = length plain; send_us = from_le (drop (n - 8) plain) in
                       if 0 < send_us then
                         let lat = f_of_u64 (sat_sub now send_us) in
                         if f_gt lat (f_lit 0) \<and> f_lt lat (f_lit 10000000) then local_lat @ [lat] else local_lat
                       else local_lat
                     else local_lat)
               in (True, srtp, last_seq, counters, local_lat)
           | None \<Rightarrow> (True, srtp, last_seq, counters\<lparr>rx_decrypt_fail := rx_decrypt_fail counters + 1\<rparr>, local_lat))
        else (True, srtp, last_seq, counters, local_lat))"

section \<open>The loops' state\<close>

text \<open>The local variables of a sending and of a receiving bot, with the datagrams they hand to their
  sockets.\<close>

record 'c cap_tx =
  ct_srtp :: "'c srtp_ctx"
  ct_audio :: rtp_pub
  ct_video :: rtp_pub
  ct_out :: "bytes list"

record 'c cap_rx =
  cx_srtp :: "'c srtp_ctx"
  cx_last_seq :: "u32 \<Rightarrow> u16 option"
  cx_local_lat :: "f64 list"
  cx_seen_rtp :: bool
  cx_out :: "bytes list"

definition cap_tx_new :: "rtp_config \<Rightarrow> 'c srtp_ctx \<Rightarrow> bytes list \<Rightarrow> 'c cap_tx" where
  "cap_tx_new cfg srtp sent = \<lparr>ct_srtp = srtp, ct_audio = rtp_pub_new cfg, ct_video = rtp_pub_new cfg, ct_out = sent\<rparr>"

definition cap_rx_new :: "'c srtp_ctx \<Rightarrow> bytes list \<Rightarrow> 'c cap_rx" where
  "cap_rx_new srtp sent = \<lparr>cx_srtp = srtp, cx_last_seq = (\<lambda>_. None), cx_local_lat = [], cx_seen_rtp = False, cx_out = sent\<rparr>"

text \<open>What the bots of one measurement share.\<close>

record cap_shared =
  ch_counters :: cap_counters
  ch_latencies :: "f64 list"
  ch_ready :: u64

datatype cap_event =
    AudioTick bool
  | VideoTick u64 bool
  | FloorTick
  | ConsentTick consent_rng
  | PumpTick
  | SubRecv recv_result u64

definition option_list :: "'a option \<Rightarrow> 'a list" where
  "option_list x = (case x of None \<Rightarrow> [] | Some y \<Rightarrow> [y])"

definition cap_audio_tick :: "'c srtp_ops \<Rightarrow> bool \<Rightarrow> 'c cap_tx \<times> cap_counters \<Rightarrow> ('c cap_tx \<times> cap_counters) option" where
  "cap_audio_tick S send_ok = (\<lambda>(t, counters). do {
     (pkt, st) \<leftarrow> build_opus_packet (ct_audio t);
     let (sent, srtp, counters) = send_rtp S send_ok pkt (ct_srtp t, counters);
     Some (t\<lparr>ct_audio := st, ct_srtp := srtp, ct_out := ct_out t @ option_list sent\<rparr>, counters)
   })"

definition cap_video_tick ::
    "'c srtp_ops \<Rightarrow> u64 \<Rightarrow> bool \<Rightarrow> 'c cap_tx \<times> cap_counters \<Rightarrow> ('c cap_tx \<times> cap_counters) option" where
  "cap_video_tick S now send_ok = (\<lambda>(t, counters). do {
     (pkt, st) \<leftarrow> build_vp8_packet (ct_video t);
     let pkt = embed_send_ts now pkt;
     let (sent, srtp, counters) = send_rtp S send_ok pkt (ct_srtp t, counters);
     Some (t\<lparr>ct_video := st, ct_srtp := srtp, ct_out := ct_out t @ option_list sent\<rparr>, counters)
   })"

definition sub_datagram ::
    "'c srtp_ops \<Rightarrow> recv_mode \<Rightarrow> u64 \<Rightarrow> bytes \<Rightarrow> 'c cap_rx \<times> cap_counters \<Rightarrow> 'c cap_rx \<times> cap_counters" where
  "sub_datagram S mode now d = (\<lambda>(x, counters).
     let (got, srtp, last_seq, counters, lat) =
           handle_rtp S mode now (take 2048 d) (cx_srtp x, cx_last_seq x, counters, cx_local_lat x);
         x = x\<lparr>cx_srtp := srtp, cx_last_seq := last_seq, cx_local_lat := lat\<rparr>
     in if got \<and> \<not> cx_seen_rtp x
        then (x\<lparr>cx_seen_rtp := True\<rparr>, counters\<lparr>active_subs := active_subs counters + 1\<rparr>)
        else (x, counters))"

definition pump_tracks :: "'j sig_env \<Rightarrow> 'j session \<Rightarrow> 'j session" where
  "pump_tracks E session = (
     let session = poll_events E session;
         (events, session) = drain_all_events (we_op (wire E) OP_TRACKS_UPDATE) session
     in if events \<noteq> [] then snd (tracks_ready E session) else session)"

section \<open>Setup\<close>

record ('j, 'c) cap_env =
  ce_sig :: "'j sig_env"
  ce_srtp :: "'c srtp_ops"
  ce_crypto :: crypto_ops
  ce_connect :: "string \<Rightarrow> string + ws"
  ce_parse_addr :: "string \<Rightarrow> string + string"
  ce_pub_bind_error :: "string option"
  ce_sub_bind_error :: "string option"
  ce_pub_media :: media_env
  ce_sub_media :: media_env
  ce_sem_error :: "string option"
  ce_setup_elapsed :: bool

text \<open>The pieces the setups are made of: the session with its media configuration and server
  address, and the two peer connections.\<close>

definition cap_addr ::
    "('j, 'c) cap_env \<Rightarrow> string + 'j session \<Rightarrow> string + ('j session \<times> server_config \<times> string)" where
  "cap_addr E conn = (case conn of
       Inl e \<Rightarrow> Inl e
     | Inr session \<Rightarrow> (case s_server_config session of
         None \<Rightarrow> Inl ''no server_config''
       | Some sc \<Rightarrow> (case ce_parse_addr E (server_ip sc @ '':'' @ show_word (server_port sc)) of
           Inl e \<Rightarrow> Inl e
         | Inr addr \<Rightarrow> Inr (session, sc, addr))))"

definition cap_pub_pc ::
    "('j, 'c) cap_env \<Rightarrow> string \<Rightarrow> server_config \<Rightarrow> (string + 'c srtp_ctx) option" where
  "cap_pub_pc E bot_id sc = (case ce_pub_bind_error E of
       Some e \<Rightarrow> Some (Inl e)
     | None \<Rightarrow> do {
         r \<leftarrow> setup_media_pc (ce_pub_media E) (pub_ufrag sc) (pub_pwd sc) (''pub:'' @ bot_id);
         Some (case r of Inl e \<Rightarrow> Inl e
           | Inr k \<Rightarrow> Inr (srtp_install (ce_srtp E) (client_key k) (client_salt k) srtp_new))
       })"

definition cap_sub_pc ::
    "('j, 'c) cap_env \<Rightarrow> string \<Rightarrow> server_config \<Rightarrow> (string + 'c srtp_ctx) option" where
  "cap_sub_pc E bot_id sc = (case ce_sub_bind_error E of
       Some e \<Rightarrow> Some (Inl e)
     | None \<Rightarrow> do {
         r \<leftarrow> setup_media_pc (ce_sub_media E) (sub_ufrag sc) (sub_pwd sc) (''sub:'' @ bot_id);
         Some (case r of Inl e \<Rightarrow> Inl e
           | Inr k \<Rightarrow> Inr (srtp_install (ce_srtp E) (server_key k) (server_salt k) srtp_new))
       })"

definition with_permit ::
    "('j, 'c) cap_env \<Rightarrow> string \<Rightarrow> (string + 'a) option \<Rightarrow> (string + 'a) option" where
  "with_permit E timeout_message setup = (case ce_sem_error E of
       Some e \<Rightarrow> Some (Inl (''sem: '' @ e))
     | None \<Rightarrow> if ce_setup_elapsed E then Some (Inl timeout_message) else setup)"

section \<open>The subscriber\<close>

text \<open>A receive error ends the loop; the rest of the events does not happen.\<close>

fun sub_loop ::
    "('j, 'c) cap_env \<Rightarrow> recv_mode \<Rightarrow> server_config \<Rightarrow> cap_event list \<Rightarrow> 'j session \<times> 'c cap_rx \<times> cap_counters
     \<Rightarrow> ('j session \<times> 'c cap_rx \<times> cap_counters) option" where
  "sub_loop E mode sc [] st = Some st"
| "sub_loop E mode sc (e # es) (session, x, counters) = (case e of
       SubRecv (Datagram d) now \<Rightarrow>
         let (x, counters) = sub_datagram (ce_srtp E) mode now d (x, counters)
         in sub_loop E mode sc es (session, x, counters)
     | SubRecv _ now \<Rightarrow> Some (session, x, counters)
     | ConsentTick r \<Rightarrow> do {
         req \<leftarrow> send_consent (ce_crypto E) r (sub_ufrag sc) (sub_pwd sc);
         sub_loop E mode sc es (session, x\<lparr>cx_out := cx_out x @ [req]\<rparr>, counters)
       }
     | PumpTick \<Rightarrow> sub_loop E mode sc es (pump_tracks (ce_sig E) session, x, counters)
     | _ \<Rightarrow> sub_loop E mode sc es (session, x, counters))"

definition subscriber_setup ::
    "('j, 'c) cap_env \<Rightarrow> string \<Rightarrow> string \<Rightarrow> u16 \<Rightarrow> string
     \<Rightarrow> (string + ('j session \<times> server_config \<times> 'c srtp_ctx)) option" where
  "subscriber_setup E bot_id server ws_port room_id = with_permit E (''[cap-sub:'' @ bot_id @ ''] setup timeout'')
     (case cap_addr E (connect_to_room (ce_sig E) (ce_connect E) server ws_port bot_id room_id) of
        Inl e \<Rightarrow> Some (Inl e)
      | Inr (session, sc, addr) \<Rightarrow> do {
          sub \<leftarrow> cap_sub_pc E bot_id sc;
          Some (case sub of Inl e \<Rightarrow> Inl e | Inr srtp \<Rightarrow> Inr (session, sc, srtp))
        })"

text \<open>\<open>Ok(())\<close> carries the bot's last local state, which the code drops.\<close>

definition run_subscriber ::
    "('j, 'c) cap_env \<Rightarrow> string \<Rightarrow> string \<Rightarrow> u16 \<Rightarrow> string \<Rightarrow> recv_mode \<Rightarrow> cap_event list \<Rightarrow> cap_shared
     \<Rightarrow> ((string + ('j session \<times> 'c cap_rx)) \<times> cap_shared) option" where
  "run_subscriber E bot_id server ws_port room_id mode events sh = do {
     setup \<leftarrow> subscriber_setup E bot_id server ws_port room_id;
     case setup of
       Inl e \<Rightarrow> Some (Inl e, sh)
     | Inr (session, sc, srtp) \<Rightarrow> do {
         let sh = sh\<lparr>ch_ready := ch_ready sh + 1\<rparr>;
         (session, x, counters) \<leftarrow> sub_loop E mode sc events (session, cap_rx_new srtp [], ch_counters sh);
         Some (Inr (close session, x),
           sh\<lparr>ch_counters := counters, ch_latencies := ch_latencies sh @ cx_local_lat x\<rparr>)
       }
   }"

section \<open>The publisher\<close>

text \<open>The wait for the trigger: the branches taken before it fires.\<close>

fun pub_wait ::
    "('j, 'c) cap_env \<Rightarrow> server_config \<Rightarrow> cap_event list \<Rightarrow> 'j session \<times> bytes list \<Rightarrow> ('j session \<times> bytes list) option" where
  "pub_wait E sc [] st = Some st"
| "pub_wait E sc (e # es) (session, out) = (case e of
       ConsentTick r \<Rightarrow> do {
         req \<leftarrow> send_consent (ce_crypto E) r (pub_ufrag sc) (pub_pwd sc);
         pub_wait E sc es (session, out @ [req])
       }
     | PumpTick \<Rightarrow> pub_wait E sc es (poll_events (ce_sig E) session, out)
     | _ \<Rightarrow> pub_wait E sc es (session, out))"

text \<open>One branch of the sending loop; the floor branch is enabled in PTT only.\<close>

definition pub_floor_tick :: "('j, 'c) cap_env \<Rightarrow> string \<Rightarrow> string \<Rightarrow> 'j session \<Rightarrow> 'j session" where
  "pub_floor_tick E duplex room_id session =
     (if duplex = ''half'' then snd (send_floor_mbcp (ce_sig E) (build_native_freq 10 room_id) session) else session)"

definition pub_pump :: "('j, 'c) cap_env \<Rightarrow> 'j session \<Rightarrow> 'j session" where
  "pub_pump E session = (
     let session = poll_events (ce_sig E) session;
         (raws, session) = drain_floor_mbcp session;
         (events, session) = drain_all_events (we_op (wire (ce_sig E)) OP_TRACKS_UPDATE) session
     in session)"

fun pub_loop ::
    "('j, 'c) cap_env \<Rightarrow> string \<Rightarrow> string \<Rightarrow> cap_event list \<Rightarrow> 'j session \<times> 'c cap_tx \<times> cap_counters
     \<Rightarrow> ('j session \<times> 'c cap_tx \<times> cap_counters) option" where
  "pub_loop E duplex room_id [] st = Some st"
| "pub_loop E duplex room_id (e # es) (session, t, counters) = (case e of
       AudioTick send_ok \<Rightarrow> do {
         (t, counters) \<leftarrow> cap_audio_tick (ce_srtp E) send_ok (t, counters);
         pub_loop E duplex room_id es (session, t, counters)
       }
     | VideoTick now send_ok \<Rightarrow> do {
         (t, counters) \<leftarrow> cap_video_tick (ce_srtp E) now send_ok (t, counters);
         pub_loop E duplex room_id es (session, t, counters)
       }
     | FloorTick \<Rightarrow> pub_loop E duplex room_id es (pub_floor_tick E duplex room_id session, t, counters)
     | PumpTick \<Rightarrow> pub_loop E duplex room_id es (pub_pump E session, t, counters)
     | _ \<Rightarrow> pub_loop E duplex room_id es (session, t, counters))"

definition run_publisher ::
    "('j, 'c) cap_env \<Rightarrow> string \<Rightarrow> string \<Rightarrow> u16 \<Rightarrow> string \<Rightarrow> string \<Rightarrow> cap_event list \<Rightarrow> cap_event list \<Rightarrow> cap_shared
     \<Rightarrow> ((string + ('j session \<times> 'c cap_tx)) \<times> cap_shared) option" where
  "run_publisher E bot_id server ws_port room_id duplex waiting events sh =
     (case cap_addr E (connect_with_room_id (ce_sig E) (ce_connect E) server ws_port bot_id room_id) of
        Inl e \<Rightarrow> Some (Inl e, sh)
      | Inr (session, sc, addr) \<Rightarrow> do {
          pc \<leftarrow> cap_pub_pc E bot_id sc;
          case pc of
            Inl e \<Rightarrow> Some (Inl e, sh)
          | Inr srtp \<Rightarrow> do {
              let rcfg = rtp_config_for bot_id;
              (session, sent) \<leftarrow> pub_wait E sc waiting (session, []);
              case request_routed (ce_sig E) (we_op (wire (ce_sig E)) OP_PUBLISH_TRACKS)
                     (build_publish_intent_json (js (ce_sig E)) rcfg duplex) session of
                (Inl e, session) \<Rightarrow> Some (Inl e, sh)
              | (Inr resp, session) \<Rightarrow> do {
                  (session, t, counters) \<leftarrow> pub_loop E duplex room_id events
                    (session, cap_tx_new rcfg srtp sent, ch_counters sh);
                  Some (Inr (close session, t), sh\<lparr>ch_counters := counters\<rparr>)
                }
            }
        })"

section \<open>The conference bot\<close>

datatype wait_step = ConsentStep consent_rng consent_rng | PumpStep

fun conf_wait ::
    "('j, 'c) cap_env \<Rightarrow> server_config \<Rightarrow> wait_step list \<Rightarrow> 'j session \<times> bytes list \<times> bytes list
     \<Rightarrow> ('j session \<times> bytes list \<times> bytes list) option" where
  "conf_wait E sc [] st = Some st"
| "conf_wait E sc (ConsentStep r r' # es) (session, pub_out, sub_out) = do {
     req \<leftarrow> send_consent (ce_crypto E) r (pub_ufrag sc) (pub_pwd sc);
     req' \<leftarrow> send_consent (ce_crypto E) r' (sub_ufrag sc) (sub_pwd sc);
     conf_wait E sc es (session, pub_out @ [req], sub_out @ [req'])
   }"
| "conf_wait E sc (PumpStep # es) (session, pub_out, sub_out) =
     conf_wait E sc es (poll_events (ce_sig E) session, pub_out, sub_out)"

text \<open>Here a receive error is ignored.\<close>

fun conf_loop ::
    "('j, 'c) cap_env \<Rightarrow> recv_mode \<Rightarrow> server_config \<Rightarrow> cap_event list \<Rightarrow> 'j session \<times> 'c cap_tx \<times> 'c cap_rx \<times> cap_counters
     \<Rightarrow> ('j session \<times> 'c cap_tx \<times> 'c cap_rx \<times> cap_counters) option" where
  "conf_loop E mode sc [] st = Some st"
| "conf_loop E mode sc (e # es) (session, t, x, counters) = (case e of
       AudioTick send_ok \<Rightarrow> do {
         (t, counters) \<leftarrow> cap_audio_tick (ce_srtp E) send_ok (t, counters);
         conf_loop E mode sc es (session, t, x, counters)
       }
     | VideoTick now send_ok \<Rightarrow> do {
         (t, counters) \<leftarrow> cap_video_tick (ce_srtp E) now send_ok (t, counters);
         conf_loop E mode sc es (session, t, x, counters)
       }
     | SubRecv (Datagram d) now \<Rightarrow>
         let (x, counters) = sub_datagram (ce_srtp E) mode now d (x, counters)
         in conf_loop E mode sc es (session, t, x, counters)
     | ConsentTick r \<Rightarrow> do {
         req \<leftarrow> send_consent (ce_crypto E) r (sub_ufrag sc) (sub_pwd sc);
         conf_loop E mode sc es (session, t, x\<lparr>cx_out := cx_out x @ [req]\<rparr>, counters)
       }
     | PumpTick \<Rightarrow> conf_loop E mode sc es (pump_tracks (ce_sig E) session, t, x, counters)
     | _ \<Rightarrow> conf_loop E mode sc es (session, t, x, counters))"

definition conf_setup ::
    "('j, 'c) cap_env \<Rightarrow> string \<Rightarrow> string \<Rightarrow> u16 \<Rightarrow> string \<Rightarrow> bool
     \<Rightarrow> (string + ('j session \<times> server_config \<times> 'c srtp_ctx \<times> 'c srtp_ctx)) option" where
  "conf_setup E bot_id server ws_port room_id is_creator = with_permit E (''[cap-conf:'' @ bot_id @ ''] setup timeout'')
     (case cap_addr E (if is_creator
             then connect_with_room_id (ce_sig E) (ce_connect E) server ws_port bot_id room_id
             else connect_to_room (ce_sig E) (ce_connect E) server ws_port bot_id room_id) of
        Inl e \<Rightarrow> Some (Inl e)
      | Inr (session, sc, addr) \<Rightarrow> do {
          pc \<leftarrow> cap_pub_pc E bot_id sc;
          case pc of
            Inl e \<Rightarrow> Some (Inl e)
          | Inr pub_srtp \<Rightarrow> do {
              sub \<leftarrow> cap_sub_pc E bot_id sc;
              Some (case sub of Inl e \<Rightarrow> Inl e | Inr sub_srtp \<Rightarrow> Inr (session, sc, pub_srtp, sub_srtp))
            }
        })"

definition run_conf_bot ::
    "('j, 'c) cap_env \<Rightarrow> string \<Rightarrow> string \<Rightarrow> u16 \<Rightarrow> string \<Rightarrow> bool \<Rightarrow> recv_mode \<Rightarrow> wait_step list \<Rightarrow> cap_event list
     \<Rightarrow> cap_shared \<Rightarrow> ((string + ('j session \<times> 'c cap_tx \<times> 'c cap_rx)) \<times> cap_shared) option" where
  "run_conf_bot E bot_id server ws_port room_id is_creator mode waiting events sh = do {
     setup \<leftarrow> conf_setup E bot_id server ws_port room_id is_creator;
     case setup of
       Inl e \<Rightarrow> Some (Inl e, sh)
     | Inr (session, sc, pub_srtp, sub_srtp) \<Rightarrow> do {
         let sh = sh\<lparr>ch_ready := ch_ready sh + 1\<rparr>;
         (session, pub_out, sub_out) \<leftarrow> conf_wait E sc waiting (session, [], []);
         let rcfg = rtp_config_for bot_id;
         case request_routed (ce_sig E) (we_op (wire (ce_sig E)) OP_PUBLISH_TRACKS)
                (build_publish_intent_json (js (ce_sig E)) rcfg ''full'') session of
           (Inl e, session) \<Rightarrow> Some (Inl e, sh)
         | (Inr resp, session) \<Rightarrow> do {
             (session, t, x, counters) \<leftarrow> conf_loop E mode sc events
               (session, cap_tx_new rcfg pub_srtp pub_out, cap_rx_new sub_srtp sub_out, ch_counters sh);
             Some (Inr (close session, t, x),
               sh\<lparr>ch_counters := counters, ch_latencies := ch_latencies sh @ cx_local_lat x\<rparr>)
           }
       }
   }"

end
