(* ===== verification/CapEffects.thy ===== *)
theory CapEffects
  imports Cap BotMachine
begin

text \<open>
  What the capacity bots measure: the effect of a received datagram in both modes, the agreement of
  the header-only counters with the metrics of a bot that decrypts everything, the latency round
  trip, and the outcome of a whole subscriber and of a sending loop.
\<close>

section \<open>One datagram\<close>

definition is_fanout :: "bytes \<Rightarrow> bool" where
  "is_fanout pkt \<longleftrightarrow> 12 \<le> length pkt \<and> is_rtp (pkt ! 0) \<and> \<not> (72 \<le> pkt ! 1 AND 0x7F \<and> pkt ! 1 AND 0x7F \<le> 79)"

definition pkt_seq :: "bytes \<Rightarrow> u16" where
  "pkt_seq pkt = from_be16 (pkt ! 2) (pkt ! 3)"

definition pkt_ssrc :: "bytes \<Rightarrow> u32" where
  "pkt_ssrc pkt = from_be32 (pkt ! 8) (pkt ! 9) (pkt ! 10) (pkt ! 11)"

definition lost_before :: "(u32 \<Rightarrow> u16 option) \<Rightarrow> bytes \<Rightarrow> u64" where
  "lost_before ls pkt = (case ls (pkt_ssrc pkt) of None \<Rightarrow> 0
     | Some prev \<Rightarrow> if 0 < seq_step prev (pkt_seq pkt) then of_int (seq_step prev (pkt_seq pkt)) else 0)"

definition counted :: "(u32 \<Rightarrow> u16 option) \<Rightarrow> bytes \<Rightarrow> cap_counters \<Rightarrow> cap_counters" where
  "counted ls pkt c = c\<lparr>rx_packets := rx_packets c + 1, rx_bytes := rx_bytes c + of_nat (length pkt),
     rx_lost := rx_lost c + lost_before ls pkt\<rparr>"

definition measured :: "u64 \<Rightarrow> bytes \<Rightarrow> f64 list" where
  "measured now plain = (
     let sent = from_le (drop (length plain - 8) plain); lat = f_of_u64 (sat_sub now sent) in
     if (if 1 < length plain then plain ! 1 AND 0x7F else 0) \<noteq> 111 \<and> 8 \<le> length plain \<and> 0 < sent
       \<and> f_lt (Fin 0) lat \<and> f_lt lat (f_lit 10000000) then [lat] else [])"

lemma handle_rtp_other: "\<not> is_fanout pkt \<Longrightarrow> handle_rtp S mode now pkt st = (False, st)"
  by (auto simp: handle_rtp_def is_fanout_def split: prod.split)

lemma handle_rtp_Count:
  "is_fanout pkt \<Longrightarrow> handle_rtp S Count now pkt (srtp, ls, c, lat)
     = (True, srtp, ls(pkt_ssrc pkt \<mapsto> pkt_seq pkt), counted ls pkt c, lat)"
  by (auto simp: handle_rtp_def is_fanout_def counted_def lost_before_def pkt_seq_def pkt_ssrc_def seq_step_def Let_def
    split: option.split)

lemma handle_rtp_Full:
  "is_fanout pkt \<Longrightarrow> handle_rtp S Full now pkt (srtp, ls, c, lat) = (case decrypt_rtp S pkt srtp of
      (Some plain, srtp') \<Rightarrow> (True, srtp', ls(pkt_ssrc pkt \<mapsto> pkt_seq pkt), counted ls pkt c, lat @ measured now plain)
    | (None, srtp') \<Rightarrow> (True, srtp', ls(pkt_ssrc pkt \<mapsto> pkt_seq pkt),
        (counted ls pkt c)\<lparr>rx_decrypt_fail := rx_decrypt_fail c + 1\<rparr>, lat))"
  by (auto simp: handle_rtp_def is_fanout_def counted_def lost_before_def pkt_seq_def pkt_ssrc_def seq_step_def Let_def
    measured_def split: option.split prod.split)

text \<open>A datagram read by a receiver, in each mode.\<close>


lemma sub_datagram_Count:
  "sub_datagram S Count now d (x, c) = (let p = take 2048 d in
     if is_fanout p then (x\<lparr>cx_last_seq := (cx_last_seq x)(pkt_ssrc p \<mapsto> pkt_seq p), cx_seen_rtp := True\<rparr>,
       (counted (cx_last_seq x) p c)\<lparr>active_subs := active_subs c + (if cx_seen_rtp x then 0 else 1)\<rparr>)
     else (x, c))"
  by (cases "is_fanout (take 2048 d)")
    (simp_all add: sub_datagram_def handle_rtp_Count handle_rtp_other Let_def counted_def)

lemma sub_datagram_Full:
  "sub_datagram S Full now d (x, c) = (let p = take 2048 d; (r, srtp) = decrypt_rtp S p (cx_srtp x) in
     if is_fanout p then (x\<lparr>cx_srtp := srtp, cx_last_seq := (cx_last_seq x)(pkt_ssrc p \<mapsto> pkt_seq p), cx_seen_rtp := True,
         cx_local_lat := cx_local_lat x @ (case r of Some plain \<Rightarrow> measured now plain | None \<Rightarrow> [])\<rparr>,
       (counted (cx_last_seq x) p c)\<lparr>rx_decrypt_fail := rx_decrypt_fail c + (if r = None then 1 else 0),
         active_subs := active_subs c + (if cx_seen_rtp x then 0 else 1)\<rparr>)
     else (x, c))"
  by (cases "is_fanout (take 2048 d)")
    (auto simp: sub_datagram_def handle_rtp_Full handle_rtp_other Let_def counted_def split: option.splits prod.splits)

section \<open>The mode only adds measurements\<close>

definition reception :: "'c cap_rx \<times> cap_counters
    \<Rightarrow> (u32 \<Rightarrow> u16 option) \<times> bool \<times> bytes list \<times> cap_counters" where
  "reception s = (cx_last_seq (fst s), cx_seen_rtp (fst s), cx_out (fst s), (snd s)\<lparr>rx_decrypt_fail := 0\<rparr>)"

lemma sub_datagram_modes:
  assumes "reception s = reception s'"
  shows "reception (sub_datagram S Count now d s) = reception (sub_datagram S Full now d s')"
proof -
  obtain x c x' c' where s: "s = (x, c)" "s' = (x', c')" by (cases s; cases s')
  obtain r srtp where r: "decrypt_rtp S (take 2048 d) (cx_srtp x') = (r, srtp)" by force
  from assms have "cx_last_seq x = cx_last_seq x'" "cx_seen_rtp x = cx_seen_rtp x'" "cx_out x = cx_out x'"
      "c\<lparr>rx_decrypt_fail := 0\<rparr> = c'\<lparr>rx_decrypt_fail := 0\<rparr>" by (simp_all add: reception_def s)
  then show ?thesis
    by (cases c; cases c') (simp add: s sub_datagram_Count sub_datagram_Full r Let_def reception_def counted_def)
qed

lemma sub_loop_modes:
  "reception (x, c) = reception (x', c') \<Longrightarrow>
     map_option (\<lambda>(session, x, c). (session, reception (x, c))) (sub_loop E Count sc es (session, x, c))
   = map_option (\<lambda>(session, x, c). (session, reception (x, c))) (sub_loop E Full sc es (session, x', c'))"
proof (induction es arbitrary: session x c x' c')
  case (Cons e es)
  show ?case
  proof (cases e)
    case (ConsentTick r)
    have "reception (x\<lparr>cx_out := cx_out x @ [req]\<rparr>, c) = reception (x'\<lparr>cx_out := cx_out x' @ [req]\<rparr>, c')" for req
      using Cons.prems by (simp add: reception_def)
    from Cons.IH [OF this] show ?thesis
      by (cases "send_consent (ce_crypto E) r (sub_ufrag sc) (sub_pwd sc)") (simp_all add: ConsentTick)
  next
    case (SubRecv received now)
    show ?thesis
    proof (cases received)
      case (Datagram d)
      obtain x1 c1 x1' c1' where 1: "sub_datagram (ce_srtp E) Count now d (x, c) = (x1, c1)"
          "sub_datagram (ce_srtp E) Full now d (x', c') = (x1', c1')" by force
      with sub_datagram_modes [OF Cons.prems, of "ce_srtp E" now d]
      have "reception (x1, c1) = reception (x1', c1')" by simp
      from Cons.IH [OF this] show ?thesis by (simp add: SubRecv Datagram 1)
    qed (use Cons.prems in \<open>simp_all add: SubRecv reception_def\<close>)
  qed (use Cons in simp_all)
qed simp

lemma sub_loop_Count:
  "pred_option (\<lambda>(_, x', c'). cx_local_lat x' = cx_local_lat x \<and> rx_decrypt_fail c' = rx_decrypt_fail c)
     (sub_loop E Count sc es (session, x, c))"
proof (induction es arbitrary: session x c)
  case (Cons e es)
  show ?case
  proof (cases e)
    case (ConsentTick r)
    then show ?thesis using Cons.IH [where x = "x\<lparr>cx_out := cx_out x @ [req]\<rparr>" for req]
      by (cases "send_consent (ce_crypto E) r (sub_ufrag sc) (sub_pwd sc)") (force simp: ConsentTick)+
  next
    case (SubRecv received now)
    show ?thesis
    proof (cases received)
      case (Datagram d)
      obtain x1 c1 where 1: "sub_datagram (ce_srtp E) Count now d (x, c) = (x1, c1)" by force
      then have "cx_local_lat x1 = cx_local_lat x \<and> rx_decrypt_fail c1 = rx_decrypt_fail c"
        by (auto simp: sub_datagram_Count counted_def Let_def split: if_splits)
      with Cons.IH [where session = session and x = x1 and c = c1] show ?thesis by (simp add: SubRecv Datagram 1)
    qed (simp_all add: SubRecv)
  qed (use Cons.IH in simp_all)
qed simp

text \<open>What a run of a subscriber leaves, without its measurements.\<close>

definition unmeasured ::
    "(string + ('j session \<times> 'c cap_rx)) \<times> cap_shared
     \<Rightarrow> (string + ('j session \<times> (u32 \<Rightarrow> u16 option) \<times> bool \<times> bytes list)) \<times> u64 \<times> cap_counters" where
  "unmeasured = (\<lambda>(r, sh). (map_sum id (\<lambda>(session, x). (session, cx_last_seq x, cx_seen_rtp x, cx_out x)) r,
     ch_ready sh, (ch_counters sh)\<lparr>rx_decrypt_fail := 0\<rparr>))"

text \<open>The receive mode changes only what is measured: a subscriber that only counts and one that
  decrypts everything, in the same events, end with the same result and session, the same sequence
  state and sent datagrams and the same counters apart from the decryption failures; the counting one
  adds no latency and no decryption failure.\<close>

theorem mode_only_measures:
  "map_option unmeasured (run_subscriber E bot_id server ws_port room_id Count events sh)
     = map_option unmeasured (run_subscriber E bot_id server ws_port room_id Full events sh)
   \<and> pred_option (\<lambda>(_, sh'). ch_latencies sh' = ch_latencies sh
        \<and> rx_decrypt_fail (ch_counters sh') = rx_decrypt_fail (ch_counters sh))
     (run_subscriber E bot_id server ws_port room_id Count events sh)"
proof (cases "subscriber_setup E bot_id server ws_port room_id")
  case (Some su)
  show ?thesis
  proof (cases su)
    case (Inr st)
    obtain session sc srtp where st: "st = (session, sc, srtp)" by (cases st)
    let ?x = "cap_rx_new srtp []" and ?c = "ch_counters sh"
    have m: "map_option (\<lambda>(session, x, c). (session, reception (x, c))) (sub_loop E Count sc events (session, ?x, ?c))
        = map_option (\<lambda>(session, x, c). (session, reception (x, c))) (sub_loop E Full sc events (session, ?x, ?c))"
      by (rule sub_loop_modes) simp
    have p: "pred_option (\<lambda>(_, x', c'). cx_local_lat x' = [] \<and> rx_decrypt_fail c' = rx_decrypt_fail ?c)
        (sub_loop E Count sc events (session, ?x, ?c))"
      using sub_loop_Count [of ?x ?c] by (simp add: cap_rx_new_def)
    show ?thesis
      using m p
      by (cases "sub_loop E Count sc events (session, ?x, ?c)"; cases "sub_loop E Full sc events (session, ?x, ?c)")
        (auto simp: run_subscriber_def Some Inr st unmeasured_def reception_def)
  qed (simp add: run_subscriber_def Some)
qed (simp add: run_subscriber_def)

section \<open>Counting headers against decrypting everything\<close>









lemma take_12_nth: "take 12 p = take 12 d \<Longrightarrow> i < 12 \<Longrightarrow> p ! i = d ! i"
  by (metis nth_take)






text \<open>Three packets of one stream with one missing, under a cipher that leaves packets as they are.\<close>

definition plain_srtp :: "unit srtp_ops" where
  "plain_srtp = \<lparr>so_context_new = (\<lambda>_ _. Some ()), so_encrypt_rtp = (\<lambda>c p. (Some p, c)), so_decrypt_rtp = (\<lambda>c p. (Some p, c)),
     so_encrypt_rtcp = (\<lambda>c p. (Some p, c)), so_decrypt_rtcp = (\<lambda>c p. (Some p, c))\<rparr>"



section \<open>Latency\<close>

lemma from_le_step:
  "push_bit 8 (drop_bit (k + 8) w) OR ucast (ucast (drop_bit k w) :: u8) = drop_bit k w" for w :: u64
  by (rule bit_word_eqI) (auto simp: bit_simps)

lemma from_le_le64 [simp, byte_simps]: "from_le (le64 w) = w"
proof -
  have "drop_bit 64 w = 0" by (rule bit_word_eqI) (simp add: bit_simps)
  then show ?thesis
    using from_le_step [of 56 w] from_le_step [of 48 w] from_le_step [of 40 w] from_le_step [of 32 w]
      from_le_step [of 24 w] from_le_step [of 16 w] from_le_step [of 8 w] from_le_step [of 0 w]
    by (simp add: le64_def)
qed

text \<open>What one end encrypts the other decrypts, with the header in the clear.\<close>

definition srtp_in_step :: "'c srtp_ops \<Rightarrow> 'c srtp_ctx \<Rightarrow> 'c srtp_ctx \<Rightarrow> bool" where
  "srtp_in_step S tx rx \<longleftrightarrow> (\<forall>p dgram tx'. encrypt_rtp S p tx = (Some dgram, tx') \<longrightarrow> 12 \<le> length p \<longrightarrow>
     (\<exists>rx'. decrypt_rtp S dgram rx = (Some p, rx')) \<and> 12 \<le> length dgram \<and> take 12 dgram = take 12 p)"

lemma length_vp8_wire: "20 \<le> length (vp8_wire st)"
  by (simp add: vp8_wire_def Let_def)

lemma embed_vp8:
  fixes now st
  defines "p \<equiv> embed_send_ts now (vp8_wire st)"
  shows "20 \<le> length p" "take 12 p = take 12 (vp8_wire st)" "from_le (drop (length p - 8) p) = now"
  using length_vp8_wire [of st] by (simp_all add: p_def embed_send_ts_def Let_def)

lemma vp8_wire_fields:
  "vp8_wire st ! 0 = 0x90" "vp8_wire st ! 1 AND 0x7F = video_pt (config st) AND 0x7F"
  "pkt_seq (vp8_wire st) = video_seq st" "pkt_ssrc (vp8_wire st) = video_ssrc (config st)"
proof -
  have "(x OR 0x80) AND 0x7F = x AND 0x7F" for x :: u8 by (simp add: bit.conj_disj_distrib2)
  then show "vp8_wire st ! 1 AND 0x7F = video_pt (config st) AND 0x7F"
    by (simp add: vp8_wire_def Let_def del: One_nat_def)
  show "vp8_wire st ! 0 = 0x90" "pkt_seq (vp8_wire st) = video_seq st" "pkt_ssrc (vp8_wire st) = video_ssrc (config st)"
    by (simp_all add: vp8_wire_def Let_def rtp_header_def pkt_seq_def pkt_ssrc_def be16_def be32_def byte_simps)
qed

text \<open>The payload types the receiver takes for video.\<close>

definition video_type :: "u8 \<Rightarrow> bool" where
  "video_type pt \<longleftrightarrow> pt AND 0x7F \<noteq> 111 \<and> \<not> (72 \<le> pt AND 0x7F \<and> pt AND 0x7F \<le> 79)"

text \<open>C23: The latency round trip: a video packet built, stamped and sent at one end and received at the
  other, less than ten seconds later by the receiver's clock, is counted under the sender's SSRC and
  sequence number and adds exactly the time between the two clock readings, in microseconds, to the
  receiver's latencies; the sender counts one attempt and one success.\<close>

theorem latency_measured:
  assumes "cap_video_tick S sent True (t, c) = Some (t', c')" "ct_out t' = ct_out t @ [dgram]"
    and "srtp_in_step S (ct_srtp t) srtp" "video_type (video_pt (config (ct_video t)))"
    and "0 < sent" "sent < now" "now - sent < 10000000"
  shows "\<exists>srtp'. handle_rtp S Full now dgram (srtp, ls, rc, lat) = (True, srtp',
      ls(video_ssrc (config (ct_video t)) \<mapsto> video_seq (ct_video t)), counted ls dgram rc,
      lat @ [Fin (of_nat (unat (now - sent)))])
    \<and> tx_attempt c' = tx_attempt c + 1 \<and> tx_ok c' = tx_ok c + 1 \<and> ct_video t' = vp8_next (ct_video t)"
proof -
  let ?w = "vp8_wire (ct_video t)"
  define p where "p = embed_send_ts sent ?w"
  note emb = embed_vp8 [where now = sent and st = "ct_video t", folded p_def]
  obtain r tx' where enc: "encrypt_rtp S p (ct_srtp t) = (r, tx')" by force
  have "r = Some dgram \<and> tx_attempt c' = tx_attempt c + 1 \<and> tx_ok c' = tx_ok c + 1 \<and> ct_video t' = vp8_next (ct_video t)"
    using assms(1,2) by (cases "r = None")
      (auto simp: cap_video_tick_def build_vp8_wire p_def [symmetric] send_rtp_def enc option_list_def Let_def)
  then have r: "r = Some dgram" and tx: "tx_attempt c' = tx_attempt c + 1" "tx_ok c' = tx_ok c + 1"
      "ct_video t' = vp8_next (ct_video t)" by simp_all
  obtain srtp' where dec: "decrypt_rtp S dgram srtp = (Some p, srtp')" "12 \<le> length dgram" "take 12 dgram = take 12 p"
    using assms(3) enc r emb(1) unfolding srtp_in_step_def by force
  have nth: "dgram ! i = ?w ! i" "p ! i = ?w ! i" if "i < 12" for i
    using take_12_nth [OF _ that] dec(3) emb(2) by metis+
  have h: "dgram ! 0 = 0x90" "dgram ! 1 AND 0x7F = video_pt (config (ct_video t)) AND 0x7F"
      "p ! 1 AND 0x7F = video_pt (config (ct_video t)) AND 0x7F"
      "pkt_seq dgram = video_seq (ct_video t)" "pkt_ssrc dgram = video_ssrc (config (ct_video t))"
    using vp8_wire_fields [of "ct_video t"] by (simp_all add: nth pkt_seq_def pkt_ssrc_def del: One_nat_def)
  have "is_rtp 0x90" by (simp add: is_rtp_def)
  then have "is_fanout dgram"
    using assms(4) dec(2) by (simp add: is_fanout_def h video_type_def del: One_nat_def)
  moreover have "measured now p = [Fin (of_nat (unat (now - sent)))]"
  proof -
    define k where "k = unat (now - sent)"
    have k: "0 < k" "k < 10000000"
      using assms(6,7) by (auto simp: k_def word_less_nat_alt unat_gt_0)
    then have lat: "f_of_u64 (now - sent) = Fin (of_nat k)"
      using rnd_small_int [of "int k"] by (simp only: f_of_u64_def f_of_nat_def k_def [symmetric]) simp
    have lim: "(of_nat k :: rat) < 10000000" using k(2) of_nat_less_iff [of k 10000000, where 'a = rat] by simp
    have "sat_sub now sent = now - sent" using assms(6) by (auto simp: sat_sub_def)
    moreover have "rnd 10000000 = Fin 10000000" using rnd_small_int [of 10000000] by simp
    ultimately show ?thesis
      using assms(4,5) emb(1) k(1) lim
      by (simp add: measured_def emb(3) h(3) video_type_def lat Let_def k_def [symmetric] del: One_nat_def)
  qed
  ultimately show ?thesis using tx by (auto simp: handle_rtp_Full dec(1) h)
qed

theorem latency_measured_witness:
  "\<exists>t' dgram srtp'. cap_video_tick plain_srtp 5 True (cap_tx_new (rtp_config_for ''a'') \<lparr>sc_inner = Some ()\<rparr> [], cap_counters_new)
      = Some (t', cap_counters_new\<lparr>tx_attempt := 1, tx_ok := 1, tx_bytes := of_nat (length dgram)\<rparr>)
    \<and> handle_rtp plain_srtp Full 12 dgram (\<lparr>sc_inner = Some ()\<rparr>, (\<lambda>_. None), cap_counters_new, [])
      = (True, srtp', [video_ssrc (rtp_config_for ''a'') \<mapsto> 0], counted (\<lambda>_. None) dgram cap_counters_new, [Fin 7])"
proof -
  let ?t = "cap_tx_new (rtp_config_for ''a'') \<lparr>sc_inner = Some ()\<rparr> []"
  let ?d = "embed_send_ts 5 (vp8_wire (ct_video ?t))"
  let ?c = "cap_counters_new\<lparr>tx_attempt := 1, tx_ok := 1, tx_bytes := of_nat (length ?d)\<rparr>"
  have t: "cap_video_tick plain_srtp 5 True (?t, cap_counters_new)
      = Some (?t\<lparr>ct_video := vp8_next (ct_video ?t), ct_out := [?d]\<rparr>, ?c)"
    by (simp add: cap_video_tick_def build_vp8_wire send_rtp_def encrypt_rtp_def srtp_apply_def plain_srtp_def
      option_list_def cap_tx_new_def cap_counters_new_def)
  moreover have "srtp_in_step plain_srtp \<lparr>sc_inner = Some ()\<rparr> \<lparr>sc_inner = Some ()\<rparr>"
    by (auto simp: srtp_in_step_def encrypt_rtp_def decrypt_rtp_def srtp_apply_def plain_srtp_def)
  moreover have "video_type (video_pt (config (ct_video ?t)))"
    by (simp add: cap_tx_new_def rtp_pub_new_def rtp_config_for_def rtp_config_default_def video_type_def Let_def)
  ultimately obtain srtp' where "handle_rtp plain_srtp Full 12 ?d (\<lparr>sc_inner = Some ()\<rparr>, (\<lambda>_. None), cap_counters_new, [])
      = (True, srtp', [video_ssrc (rtp_config_for ''a'') \<mapsto> 0], counted (\<lambda>_. None) ?d cap_counters_new, [Fin 7])"
    using latency_measured [OF t, of ?d "\<lparr>sc_inner = Some ()\<rparr>" 12 "\<lambda>_. None" cap_counters_new "[]"]
    by (auto simp: cap_tx_new_def rtp_pub_new_def)
  with t show ?thesis by blast
qed

section \<open>A whole run\<close>

text \<open>The datagrams a subscriber reads: those before the first receive error.\<close>

fun received :: "cap_event list \<Rightarrow> bytes list" where
  "received [] = []"
| "received (SubRecv (Datagram d) now # es) = take 2048 d # received es"
| "received (SubRecv _ now # es) = []"
| "received (e # es) = received es"

definition sane_latency :: "f64 \<Rightarrow> bool" where
  "sane_latency l \<longleftrightarrow> f_lt (Fin 0) l \<and> f_lt l (f_lit 10000000)"

lemma measured_sane: "list_all sane_latency (measured now p)"
  by (simp add: measured_def sane_latency_def Let_def)

text \<open>What a list of datagrams adds to a receiver.\<close>

definition reads :: "bytes list \<Rightarrow> 'c cap_rx \<times> cap_counters \<Rightarrow> 'c cap_rx \<times> cap_counters \<Rightarrow> bool" where
  "reads ds s s' \<longleftrightarrow> (case (s, s') of ((x, c), (x', c')) \<Rightarrow> let rtp = filter is_fanout ds in
     cx_seen_rtp x' = (cx_seen_rtp x \<or> rtp \<noteq> [])
     \<and> dom (cx_last_seq x') = dom (cx_last_seq x) \<union> pkt_ssrc ` set rtp
     \<and> rx_packets c' = rx_packets c + of_nat (length rtp)
     \<and> rx_bytes c' = rx_bytes c + of_nat (sum_list (map length rtp))
     \<and> active_subs c' = active_subs c + (if cx_seen_rtp x' \<and> \<not> cx_seen_rtp x then 1 else 0)
     \<and> (\<exists>l. cx_local_lat x' = cx_local_lat x @ l \<and> list_all sane_latency l))"

lemma reads_Nil: "cx_seen_rtp x' = cx_seen_rtp x \<Longrightarrow> cx_last_seq x' = cx_last_seq x \<Longrightarrow> cx_local_lat x' = cx_local_lat x
    \<Longrightarrow> reads [] (x, c) (x', c)"
  by (simp add: reads_def)

lemma reads_append: "reads ds s s' \<Longrightarrow> reads es s' s'' \<Longrightarrow> reads (ds @ es) s s''"
  by (cases s; cases s'; cases s'') (auto simp: reads_def Let_def split: if_splits)

lemma reads_datagram: "reads [take 2048 d] (x, c) (sub_datagram S mode now d (x, c))"
  using measured_sane [of now]
  by (cases mode) (auto simp: reads_def sub_datagram_Count sub_datagram_Full counted_def Let_def split: option.splits prod.splits)

lemma send_consent_returns: "length (cr_tid r) = 12 \<Longrightarrow> \<exists>req. send_consent C r ufrag pwd = Some req"
  by (simp add: send_consent_def build_binding_request_bytes)

definition consents_ok :: "cap_event list \<Rightarrow> bool" where
  "consents_ok es \<longleftrightarrow> (\<forall>r. ConsentTick r \<in> set es \<longrightarrow> length (cr_tid r) = 12)"

lemma sub_loop_reads:
  "consents_ok es \<Longrightarrow> \<exists>session' x' c'. sub_loop E mode sc es (session, x, c) = Some (session', x', c')
     \<and> reads (received es) (x, c) (x', c')"
proof (induction es arbitrary: session x c)
  case (Cons e es)
  then have ok: "consents_ok es" by (simp add: consents_ok_def)
  show ?case
  proof (cases e)
    case (ConsentTick r)
    then have "length (cr_tid r) = 12" using Cons.prems by (simp add: consents_ok_def)
    then obtain req where req: "send_consent (ce_crypto E) r (sub_ufrag sc) (sub_pwd sc) = Some req"
      using send_consent_returns by blast
    from Cons.IH [OF ok, of session "x\<lparr>cx_out := cx_out x @ [req]\<rparr>" c] show ?thesis
      by (auto simp: ConsentTick req reads_def)
  next
    case (SubRecv res now)
    show ?thesis
    proof (cases res)
      case (Datagram d)
      obtain x1 c1 where 1: "sub_datagram (ce_srtp E) mode now d (x, c) = (x1, c1)" by force
      obtain session' x' c' where "sub_loop E mode sc es (session, x1, c1) = Some (session', x', c')"
          "reads (received es) (x1, c1) (x', c')"
        using Cons.IH [OF ok] by blast
      moreover have "reads [take 2048 d] (x, c) (x1, c1)" using reads_datagram [of d x c "ce_srtp E" mode now] by (simp add: 1)
      ultimately show ?thesis using reads_append [of "[take 2048 d]"] by (auto simp: SubRecv Datagram 1)
    qed (simp_all add: SubRecv reads_Nil)
  qed (use Cons.IH [OF ok] in simp_all)
qed (simp add: reads_Nil)

text \<open>C20: The outcome of a capacity subscriber: when its setup fails it leaves the shared state alone
  and is not counted as ready.  Otherwise it is counted as ready once and, for every sequence of
  events, ends with a closed session, having counted exactly the RTP datagrams it received before
  the first receive error and their bytes, being counted as active once if there was one and
  not at all if there was none, and having added only latencies between zero and ten seconds.\<close>

theorem subscriber_outcome:
  assumes "subscriber_setup E bot_id server ws_port room_id = Some r" "consents_ok events"
  shows "case r of
      Inl e \<Rightarrow> run_subscriber E bot_id server ws_port room_id mode events sh = Some (Inl e, sh)
    | Inr st \<Rightarrow> \<exists>session x sh'. run_subscriber E bot_id server ws_port room_id mode events sh = Some (Inr (session, x), sh')
        \<and> ws_close_sent (s_ws session) \<and> ch_ready sh' = ch_ready sh + 1
        \<and> (let rtp = filter is_fanout (received events); c = ch_counters sh; c' = ch_counters sh' in
             rx_packets c' = rx_packets c + of_nat (length rtp)
           \<and> rx_bytes c' = rx_bytes c + of_nat (sum_list (map length rtp))
           \<and> active_subs c' = active_subs c + (if rtp \<noteq> [] then 1 else 0)
           \<and> dom (cx_last_seq x) = pkt_ssrc ` set rtp)
        \<and> (\<exists>l. ch_latencies sh' = ch_latencies sh @ l \<and> list_all sane_latency l)"
proof (cases r)
  case (Inl e)
  then show ?thesis using assms(1) by (simp add: run_subscriber_def)
next
  case (Inr st)
  obtain session sc srtp where st: "st = (session, sc, srtp)" by (cases st)
  obtain session' x' c' where loop: "sub_loop E mode sc events (session, cap_rx_new srtp [], ch_counters sh)
        = Some (session', x', c')" and rd: "reads (received events) (cap_rx_new srtp [], ch_counters sh) (x', c')"
    using sub_loop_reads [OF assms(2)] by blast
  have "run_subscriber E bot_id server ws_port room_id mode events sh = Some (Inr (close session', x'),
      sh\<lparr>ch_ready := ch_ready sh + 1, ch_counters := c', ch_latencies := ch_latencies sh @ cx_local_lat x'\<rparr>)"
    using assms(1) by (simp add: run_subscriber_def Inr st loop)
  then show ?thesis using rd
    by (auto simp: Inr close_def reads_def cap_rx_new_def Let_def)
qed

definition sample_join_server :: "string \<Rightarrow> string + ws" where
  "sample_join_server url = Inr (sample_ws [[1, 0, 0], [4, 0, 0, 1], [130, 2, 0], [6, 1, 1, 2]])"

definition sample_cap_env :: "(sample_json, bool) cap_env" where
  "sample_cap_env = \<lparr>ce_sig = sample_sig, ce_srtp = sample_srtp, ce_crypto = me_crypto sample_media,
     ce_connect = sample_join_server, ce_parse_addr = Inr, ce_pub_bind_error = None, ce_sub_bind_error = None,
     ce_pub_media = sample_media, ce_sub_media = sample_media, ce_sem_error = None, ce_setup_elapsed = False\<rparr>"

definition sample_events :: "cap_event list" where
  "sample_events = [SubRecv (Datagram [128, 111, 0, 1, 0, 0, 0, 9, 0, 0, 0, 5]) 3,
     ConsentTick \<lparr>cr_ice = [1, 2, 3, 4], cr_tid = replicate 12 1, cr_tie_breaker = replicate 8 2\<rparr>, PumpTick,
     SubRecv (Datagram [1, 1]) 4, SubRecv (RecvError ''refused'') 5,
     SubRecv (Datagram [128, 111, 0, 2, 0, 0, 0, 9, 0, 0, 0, 5]) 6]"

lemma sample_joins_setup:
  assumes "case connect_to_room sample_sig sample_join_server ''h'' 1974 nm room of
      Inl e \<Rightarrow> False | Inr s \<Rightarrow> (case s_server_config s of None \<Rightarrow> False | Some sc \<Rightarrow> True)"
  shows "\<exists>st. subscriber_setup sample_cap_env nm ''h'' 1974 room = Some (Inr st)"
proof -
  obtain s sc where "connect_to_room sample_sig sample_join_server ''h'' 1974 nm room = Inr s"
      "s_server_config s = Some sc"
    using assms by (auto split: sum.splits option.splits)
  moreover obtain k where "setup_media_pc sample_media (sub_ufrag sc) (sub_pwd sc) (''sub:'' @ nm) = Some (Inr k)"
    using sample_media_keys by blast
  ultimately show ?thesis
    by (simp add: subscriber_setup_def sample_cap_env_def with_permit_def cap_addr_def cap_sub_pc_def)
qed

lemma sample_subscriber_setup: "\<exists>st. subscriber_setup sample_cap_env ''s'' ''h'' 1974 ''r1'' = Some (Inr st)"
  by (rule sample_joins_setup) code_simp

theorem subscriber_outcome_witness:
  "\<exists>session x sh'. run_subscriber sample_cap_env ''s'' ''h'' 1974 ''r1'' Full sample_events
      \<lparr>ch_counters = cap_counters_new, ch_latencies = [], ch_ready = 0\<rparr> = Some (Inr (session, x), sh')
    \<and> ch_ready sh' = 1 \<and> rx_packets (ch_counters sh') = 1 \<and> rx_bytes (ch_counters sh') = 12
    \<and> active_subs (ch_counters sh') = 1"
proof -
  obtain st where "subscriber_setup sample_cap_env ''s'' ''h'' 1974 ''r1'' = Some (Inr st)"
    using sample_subscriber_setup by blast
  moreover have "consents_ok sample_events" by (auto simp: consents_ok_def sample_events_def)
  moreover have "filter is_fanout (received sample_events) = [[128, 111, 0, 1, 0, 0, 0, 9, 0, 0, 0, 5]]"
    by (simp add: sample_events_def is_fanout_def is_rtp_def)
  ultimately show ?thesis
    using subscriber_outcome [of sample_cap_env "''s''" "''h''" 1974 "''r1''" "Inr st" sample_events Full
        "\<lparr>ch_counters = cap_counters_new, ch_latencies = [], ch_ready = 0\<rparr>"]
    by (fastforce simp: cap_counters_new_def Let_def)
qed

section \<open>The sending loop\<close>

definition is_tick :: "cap_event \<Rightarrow> bool" where
  "is_tick e = (case e of AudioTick ok \<Rightarrow> True | VideoTick now ok \<Rightarrow> True | _ \<Rightarrow> False)"

definition sends :: "nat \<Rightarrow> 'c cap_tx \<times> cap_counters \<Rightarrow> 'c cap_tx \<times> cap_counters \<Rightarrow> bool" where
  "sends n s s' \<longleftrightarrow> (case (s, s') of ((t, c), (t', c')) \<Rightarrow> \<exists>sent.
     ct_out t' = ct_out t @ sent \<and> length sent \<le> n
     \<and> c' = c\<lparr>tx_attempt := tx_attempt c + of_nat n, tx_ok := tx_ok c + of_nat (length sent),
         tx_bytes := tx_bytes c + of_nat (sum_list (map length sent))\<rparr>
     \<and> audio_seq (ct_audio t') + video_seq (ct_video t') = audio_seq (ct_audio t) + video_seq (ct_video t) + of_nat n)"

lemma sends_0: "sends 0 s s"
  by (cases s) (simp add: sends_def)

lemma sends_add: "sends m s s' \<Longrightarrow> sends n s' s'' \<Longrightarrow> sends (m + n) s s''"
proof -
  assume 1: "sends m s s'" and 2: "sends n s' s''"
  obtain t c t' c' t'' c'' where s: "s = (t, c)" "s' = (t', c')" "s'' = (t'', c'')" by (cases s; cases s'; cases s'')
  obtain a b where "ct_out t' = ct_out t @ a" "ct_out t'' = ct_out t' @ b" "length a \<le> m" "length b \<le> n"
      "c' = c\<lparr>tx_attempt := tx_attempt c + of_nat m, tx_ok := tx_ok c + of_nat (length a),
         tx_bytes := tx_bytes c + of_nat (sum_list (map length a))\<rparr>"
      "c'' = c'\<lparr>tx_attempt := tx_attempt c' + of_nat n, tx_ok := tx_ok c' + of_nat (length b),
         tx_bytes := tx_bytes c' + of_nat (sum_list (map length b))\<rparr>"
      "audio_seq (ct_audio t') + video_seq (ct_video t') = audio_seq (ct_audio t) + video_seq (ct_video t) + of_nat m"
      "audio_seq (ct_audio t'') + video_seq (ct_video t'') = audio_seq (ct_audio t') + video_seq (ct_video t') + of_nat n"
    using 1 2 by (auto simp: sends_def s)
  then show ?thesis
    unfolding sends_def s by (auto intro!: exI [of _ "a @ b"] simp: algebra_simps)
qed

lemma send_rtp_effect:
  "\<exists>sent srtp'. send_rtp S ok pkt (srtp, c) = (sent, srtp', c\<lparr>tx_attempt := tx_attempt c + 1,
     tx_ok := tx_ok c + of_nat (length (option_list sent)),
     tx_bytes := tx_bytes c + of_nat (sum_list (map length (option_list sent)))\<rparr>)
   \<and> length (option_list sent) \<le> 1"
proof -
  obtain r srtp' where "encrypt_rtp S pkt srtp = (r, srtp')" by force
  then show ?thesis by (cases r; cases ok) (simp_all add: send_rtp_def option_list_def)
qed

lemma audio_tick_sends: "\<exists>t' c'. cap_audio_tick S ok (t, c) = Some (t', c') \<and> sends 1 (t, c) (t', c')"
proof -
  obtain sent srtp' where "send_rtp S ok (opus_wire (ct_audio t)) (ct_srtp t, c) = (sent, srtp',
      c\<lparr>tx_attempt := tx_attempt c + 1, tx_ok := tx_ok c + of_nat (length (option_list sent)),
        tx_bytes := tx_bytes c + of_nat (sum_list (map length (option_list sent)))\<rparr>)" "length (option_list sent) \<le> 1"
    using send_rtp_effect by blast
  then show ?thesis by (simp add: cap_audio_tick_def build_opus_wire sends_def opus_next_def)
qed

lemma video_tick_sends: "\<exists>t' c'. cap_video_tick S now ok (t, c) = Some (t', c') \<and> sends 1 (t, c) (t', c')"
proof -
  obtain sent srtp' where "send_rtp S ok (embed_send_ts now (vp8_wire (ct_video t))) (ct_srtp t, c) = (sent, srtp',
      c\<lparr>tx_attempt := tx_attempt c + 1, tx_ok := tx_ok c + of_nat (length (option_list sent)),
        tx_bytes := tx_bytes c + of_nat (sum_list (map length (option_list sent)))\<rparr>)" "length (option_list sent) \<le> 1"
    using send_rtp_effect by blast
  then show ?thesis by (simp add: cap_video_tick_def build_vp8_wire sends_def vp8_next_def)
qed

text \<open>The sending loop of a capacity publisher never panics, and its counters account for it: one
  attempt for each media tick, one success and its bytes for each datagram handed to the socket, of which there
  are at most as many; the receive counters stay, and every tick consumes one sequence number
  whether or not its packet could be sent, so that a receiver sees the failed ones as lost.\<close>

theorem publisher_accounts:
  "\<exists>session' t' c' sent. pub_loop E duplex room_id es (session, t, c) = Some (session', t', c')
    \<and> ct_out t' = ct_out t @ sent \<and> length sent \<le> length (filter is_tick es)
    \<and> c' = c\<lparr>tx_attempt := tx_attempt c + of_nat (length (filter is_tick es)), tx_ok := tx_ok c + of_nat (length sent),
        tx_bytes := tx_bytes c + of_nat (sum_list (map length sent))\<rparr>
    \<and> audio_seq (ct_audio t') + video_seq (ct_video t')
      = audio_seq (ct_audio t) + video_seq (ct_video t) + of_nat (length (filter is_tick es))"
proof -
  have "\<exists>session' t' c'. pub_loop E duplex room_id es (session, t, c) = Some (session', t', c')
      \<and> sends (length (filter is_tick es)) (t, c) (t', c')"
  proof (induction es arbitrary: session t c)
    case (Cons e es)
    have step: ?case if "sends (if is_tick e then 1 else 0) (t, c) (t1, c1)"
      and "pub_loop E duplex room_id (e # es) (session, t, c) = pub_loop E duplex room_id es (session1, t1, c1)"
      for session1 t1 c1
      using Cons.IH [of session1 t1 c1] sends_add [OF that(1)] that(2) by (cases "is_tick e") fastforce+
    show ?case
    proof (cases e)
      case (AudioTick ok)
      obtain t1 c1 where "cap_audio_tick (ce_srtp E) ok (t, c) = Some (t1, c1)" "sends 1 (t, c) (t1, c1)"
        using audio_tick_sends by blast
      then show ?thesis by (intro step) (simp_all add: AudioTick is_tick_def)
    next
      case (VideoTick now ok)
      obtain t1 c1 where "cap_video_tick (ce_srtp E) now ok (t, c) = Some (t1, c1)" "sends 1 (t, c) (t1, c1)"
        using video_tick_sends by blast
      then show ?thesis by (intro step) (simp_all add: VideoTick is_tick_def)
    qed (rule step; simp add: is_tick_def sends_0)+
  qed (simp add: sends_0)
  then show ?thesis by (fastforce simp: sends_def)
qed

end
