(* ===== verification/Capacity.thy ===== *)
theory Capacity
  imports CapEffects
begin

text \<open>
  The capacity measurements (\<open>oxlab-cli/src/capacity.rs\<close>, \<open>distributed.rs\<close>): the resource
  sampler, one measurement with its row, the sweep and its CSV file, the worker of a distributed
  measurement with its report, the split of the bots over the workers and the coordinator's totals.
  The processes of a sample, the measured time, the file system, \<open>serde_json\<close> and the spawning of
  processes are parameters; \<open>usize\<close> is 64 bits wide and wraps as in a release build.  The bots of
  a measurement are run one after the other on the counters they share, which they only add to; a
  bot can panic in its setup only, before it counts anything.
\<close>

section \<open>Single precision\<close>

text \<open>The CPU shares are \<open>f32\<close>: doubles that single precision represents.  Adding rounds to 24 bits.\<close>

definition round32_pos :: "rat \<Rightarrow> rat" where
  "round32_pos x = (let e = max (ilog2 x - 23) (- 149) in of_int (round_even (x / 2 powi e)) * 2 powi e)"

definition rnd32 :: "rat \<Rightarrow> f64" where
  "rnd32 x =
     (if x = 0 then Fin 0
      else if 0 < x then (if round32_pos x < 2 ^ 128 then Fin (round32_pos x) else Inf False)
      else (if round32_pos (- x) < 2 ^ 128 then Fin (- round32_pos (- x)) else Inf True))"

fun f32_add :: "f64 \<Rightarrow> f64 \<Rightarrow> f64" where
  "f32_add (Fin a) (Fin b) = rnd32 (a + b)"
| "f32_add a b = f_add a b"

section \<open>Resources\<close>

record res_stats =
  self_cpu_avg :: f64
  self_mem_mb :: f64
  sfu_cpu_avg :: f64
  sfu_mem_mb :: f64
  cores :: u64

definition res_stats_default :: res_stats where
  "res_stats_default = \<lparr>self_cpu_avg = Fin 0, self_mem_mb = Fin 0, sfu_cpu_avg = Fin 0, sfu_mem_mb = Fin 0, cores = 0\<rparr>"

record proc =
  pr_name :: string
  pr_cpu :: f64
  pr_mem :: u64

text \<open>One sample: the bot's own process, if it is found, and all processes.\<close>

record sample =
  sp_self :: "proc option"
  sp_all :: "proc list"

fun contains_str :: "string \<Rightarrow> string \<Rightarrow> bool" where
  "contains_str [] pat = (pat = [])"
| "contains_str (c # s) pat = (take (length pat) (c # s) = pat \<or> contains_str s pat)"

record sampler =
  sm_self_cpu :: "f64 list"
  sm_self_peak :: u64
  sm_sfu_cpu :: "f64 list"
  sm_sfu_peak :: u64

definition take_sample :: "sample \<Rightarrow> sampler \<Rightarrow> sampler" where
  "take_sample sp s = (
     let s = (case sp_self sp of
           Some p \<Rightarrow> s\<lparr>sm_self_cpu := sm_self_cpu s @ [pr_cpu p], sm_self_peak := max (sm_self_peak s) (pr_mem p)\<rparr>
         | None \<Rightarrow> s);
         sfu = filter (\<lambda>p. contains_str (pr_name p) ''oxsfud'') (sp_all sp);
         c = fold (\<lambda>p c. f32_add c (pr_cpu p)) sfu (Fin 0);
         m = fold (\<lambda>p m. m + pr_mem p) sfu 0
     in s\<lparr>sm_sfu_cpu := sm_sfu_cpu s @ [c], sm_sfu_peak := max (sm_sfu_peak s) m\<rparr>)"

definition f_sum :: "f64 list \<Rightarrow> f64" where
  "f_sum xs = fold (\<lambda>x acc. f_add acc x) xs (Fin 0)"

definition cpu_avg :: "f64 list \<Rightarrow> f64" where
  "cpu_avg v = (if v = [] then Fin 0 else f_div (f_sum v) (f_of_nat (length v)))"

definition sample_resources :: "u64 \<Rightarrow> sample list \<Rightarrow> res_stats" where
  "sample_resources n_cores samples = (
     let s = fold take_sample samples \<lparr>sm_self_cpu = [], sm_self_peak = 0, sm_sfu_cpu = [], sm_sfu_peak = 0\<rparr>
     in \<lparr>self_cpu_avg = cpu_avg (sm_self_cpu s),
         self_mem_mb = f_div (f_of_u64 (sm_self_peak s)) (f_lit 1000000),
         sfu_cpu_avg = cpu_avg (sm_sfu_cpu s),
         sfu_mem_mb = f_div (f_of_u64 (sm_sfu_peak s)) (f_lit 1000000),
         cores = n_cores\<rparr>)"

section \<open>One row\<close>

record row =
  rw_n :: u64
  rw_active :: u64
  rw_in_pps :: f64
  rw_out_pps :: f64
  rw_out_mbps :: f64
  rw_loss_pct :: f64
  rw_lat_avg :: f64
  rw_lat_p95 :: f64
  rw_lat_max :: f64
  rw_self_cpu :: f64
  rw_self_mem_mb :: f64
  rw_sfu_cpu :: f64
  rw_sfu_mem_mb :: f64
  rw_healthy :: bool

text \<open>\<open>sort_by\<close> is stable; a NaN, which no latency is, would compare as equal to everything.\<close>

fun insert_lat :: "f64 \<Rightarrow> f64 list \<Rightarrow> f64 list" where
  "insert_lat x [] = [x]"
| "insert_lat x (y # ys) = (if f_lt x y then x # y # ys else y # insert_lat x ys)"

definition sort_lats :: "f64 list \<Rightarrow> f64 list" where
  "sort_lats xs = fold insert_lat xs []"

definition lat_stats :: "f64 list \<Rightarrow> f64 \<times> f64 \<times> f64" where
  "lat_stats lats = (if lats = [] then (Fin 0, Fin 0, Fin 0)
     else let avg = f_div (f_sum lats) (f_of_nat (length lats));
              p95_idx = min (f_to_nat (2 ^ 64 - 1) (f_mul (f_of_nat (length lats)) (f_lit (95 / 100)))) (length lats - 1)
          in (avg, lats ! p95_idx, last lats))"

definition loss_pct :: "u64 \<Rightarrow> u64 \<Rightarrow> f64" where
  "loss_pct out_pkts lost = (if 0 < out_pkts + lost
     then f_mul (f_div (f_of_u64 lost) (f_of_u64 (out_pkts + lost))) (f_lit 100) else Fin 0)"

definition out_mbps_of :: "u64 \<Rightarrow> f64 \<Rightarrow> f64" where
  "out_mbps_of bytes elapsed = f_div (f_mul (f_of_u64 bytes) (f_lit 8)) (f_mul elapsed (f_lit 1000000))"

definition subs_ok :: "u64 \<Rightarrow> u64 \<Rightarrow> bool" where
  "subs_ok n active \<longleftrightarrow> n = 0 \<or> active * 10 \<ge> n * 9"

definition cpu_headroom :: "res_stats \<Rightarrow> bool" where
  "cpu_headroom res = f_lt (self_cpu_avg res) (f_mul (f_of_u64 (cores res)) (f_lit 90))"

text \<open>The aggregation that \<open>run_one\<close> and \<open>run_one_conf\<close> spell out in the same way, from the counters of
  the publishers and of the subscribers.\<close>

definition row_of :: "u64 \<Rightarrow> cap_counters \<Rightarrow> cap_counters \<Rightarrow> f64 list \<Rightarrow> nat \<Rightarrow> res_stats \<Rightarrow> row" where
  "row_of n pubc subc lats elapsed_ns res = (
     let elapsed = as_secs_f64 elapsed_ns;
         (lat_avg, lat_p95, lat_max) = lat_stats (sort_lats lats);
         tx_healthy = (tx_attempt pubc = 0 \<or> tx_ok pubc * 100 \<ge> tx_attempt pubc * 99)
     in \<lparr>rw_n = n, rw_active = active_subs subc,
         rw_in_pps = f_div (f_of_u64 (tx_ok pubc)) elapsed,
         rw_out_pps = f_div (f_of_u64 (rx_packets subc)) elapsed,
         rw_out_mbps = out_mbps_of (rx_bytes subc) elapsed,
         rw_loss_pct = loss_pct (rx_packets subc) (rx_lost subc),
         rw_lat_avg = lat_avg, rw_lat_p95 = lat_p95, rw_lat_max = lat_max,
         rw_self_cpu = self_cpu_avg res, rw_self_mem_mb = self_mem_mb res,
         rw_sfu_cpu = sfu_cpu_avg res, rw_sfu_mem_mb = sfu_mem_mb res,
         rw_healthy = (tx_healthy \<and> cpu_headroom res \<and> subs_ok n (active_subs subc))\<rparr>)"

section \<open>A measurement\<close>

definition cap_shared_new :: cap_shared where
  "cap_shared_new = \<lparr>ch_counters = cap_counters_new, ch_latencies = [], ch_ready = 0\<rparr>"

definition recv_mode_of :: "nat \<Rightarrow> nat \<Rightarrow> recv_mode" where
  "recv_mode_of full_count i = (if i < full_count then Full else Count)"

text \<open>The wait for the subscribers, in seconds, and the time each of them runs from the end of its setup;
  they bound the events of the bots.  The runner polls the number of ready subscribers until all are or the
  deadline is reached; \<open>None\<close> is a runner that still waits.\<close>

definition ready_cap :: "nat \<Rightarrow> nat" where
  "ready_cap n = 20 + n div 15"

definition run_window :: "nat \<Rightarrow> nat \<Rightarrow> nat" where
  "run_window n duration_secs = ready_cap n + duration_secs + 2"

fun ready_sync :: "u64 \<Rightarrow> nat \<Rightarrow> (nat \<times> u64) list \<Rightarrow> u64 option" where
  "ready_sync n deadline [] = None"
| "ready_sync n deadline ((now, r) # polls) = (if n \<le> r \<or> deadline \<le> now then Some r else ready_sync n deadline polls)"

text \<open>What a joined task leaves: \<open>let _ = h.await\<close> ignores errors and panics.\<close>

definition joined_task :: "('r \<times> cap_shared) option \<Rightarrow> cap_shared \<Rightarrow> cap_shared" where
  "joined_task r sh = (case r of Some (_, sh') \<Rightarrow> sh' | None \<Rightarrow> sh)"

text \<open>What a measurement runs on: the environments and events of its bots, the time measured, in
  nanoseconds, and the samples taken meanwhile.\<close>

record ('j, 'c) measurement =
  ms_pub :: "('j, 'c) cap_env \<times> cap_event list \<times> cap_event list"
  ms_subs :: "nat \<Rightarrow> ('j, 'c) cap_env \<times> cap_event list"
  ms_conf :: "nat \<Rightarrow> ('j, 'c) cap_env \<times> wait_step list \<times> cap_event list"
  ms_elapsed :: nat
  ms_cores :: u64
  ms_samples :: "sample list"

definition run_subscribers ::
    "string \<Rightarrow> u16 \<Rightarrow> string \<Rightarrow> string \<Rightarrow> nat \<Rightarrow> (nat \<Rightarrow> ('j, 'c) cap_env \<times> cap_event list) \<Rightarrow> nat list \<Rightarrow> cap_shared" where
  "run_subscribers server ws_port room_id prefix full_count subs is =
     fold (\<lambda>i sh. joined_task (run_subscriber (fst (subs i)) (prefix @ show_nat i) server ws_port room_id
         (recv_mode_of full_count i) (snd (subs i)) sh) sh) is cap_shared_new"

definition run_one ::
    "string \<Rightarrow> u16 \<Rightarrow> string \<Rightarrow> string \<Rightarrow> nat \<Rightarrow> nat \<Rightarrow> u64 \<Rightarrow> ('j, 'c) measurement \<Rightarrow> row" where
  "run_one server ws_port mode duplex n full_count ts M = (
     let room_id = ''cap-'' @ mode @ ''-'' @ show_nat n @ ''-'' @ show_word ts;
         (pub_env, waiting, pub_events) = ms_pub M;
         pub = joined_task (run_publisher pub_env (''cap-pub-'' @ show_nat n) server ws_port room_id duplex
                 waiting pub_events cap_shared_new) cap_shared_new;
         subs = run_subscribers server ws_port room_id (''cap-sub-'' @ show_nat n @ ''-'') full_count (ms_subs M) [0..<n];
         res = sample_resources (ms_cores M) (ms_samples M)
     in row_of (of_nat n) (ch_counters pub) (ch_counters subs) (ch_latencies subs) (ms_elapsed M) res)"

text \<open>The creator comes first, also when \<open>n\<close> is zero, and decrypts whatever \<open>full_count\<close> is.\<close>

definition run_one_conf ::
    "string \<Rightarrow> u16 \<Rightarrow> nat \<Rightarrow> nat \<Rightarrow> u64 \<Rightarrow> ('j, 'c) measurement \<Rightarrow> row" where
  "run_one_conf server ws_port n full_count ts M = (
     let room_id = ''cap-conf-'' @ show_nat n @ ''-'' @ show_word ts;
         all = fold (\<lambda>i sh. let (env, waiting, events) = ms_conf M i in
             joined_task (run_conf_bot env (''cap-conf-'' @ show_nat n @ ''-'' @ show_nat i) server ws_port room_id
               (i = 0) (if i = 0 then Full else recv_mode_of full_count i) waiting events sh) sh)
           (0 # [1..<n]) cap_shared_new;
         res = sample_resources (ms_cores M) (ms_samples M)
     in row_of (of_nat n) (ch_counters all) (ch_counters all) (ch_latencies all) (ms_elapsed M) res)"

section \<open>The sweep\<close>

definition yes_no :: "bool \<Rightarrow> string" where
  "yes_no b = (if b then ''y'' else ''n'')"

definition csv_header :: string where
  "csv_header = ''mode,n,active,in_pps,out_pps,out_mbps,loss_pct,lat_avg_us,lat_p95_us,lat_max_us,''
     @ ''bot_cpu_pct,bot_mem_mb,sfu_cpu_pct,sfu_mem_mb,bot_healthy'' @ [CHR 10]"

definition csv_line :: "string \<Rightarrow> row \<Rightarrow> string" where
  "csv_line mode r = join '','' [mode, show_word (rw_n r), show_word (rw_active r), show_fixed 1 (rw_in_pps r),
     show_fixed 1 (rw_out_pps r), show_fixed 4 (rw_out_mbps r), show_fixed 4 (rw_loss_pct r),
     show_fixed 0 (rw_lat_avg r), show_fixed 0 (rw_lat_p95 r), show_fixed 0 (rw_lat_max r),
     show_fixed 1 (rw_self_cpu r), show_fixed 1 (rw_self_mem_mb r), show_fixed 1 (rw_sfu_cpu r),
     show_fixed 1 (rw_sfu_mem_mb r), yes_no (rw_healthy r)] @ [CHR 10]"

text \<open>The path and content written; creating the directory or writing the file may fail.\<close>

definition write_csv ::
    "string option \<Rightarrow> string option \<Rightarrow> string \<Rightarrow> u64 \<Rightarrow> row list \<Rightarrow> string + (string \<times> string)" where
  "write_csv dir_error write_error mode ts rows = (case dir_error of
       Some e \<Rightarrow> Inl e
     | None \<Rightarrow>
        let path = ''reports/cap_'' @ mode @ ''_'' @ show_word ts @ ''.csv'';
            out = csv_header @ concat (map (csv_line mode) rows)
        in case write_error of Some e \<Rightarrow> Inl e | None \<Rightarrow> Inr (path, out))"

definition run_capacity ::
    "string \<Rightarrow> u16 \<Rightarrow> string \<Rightarrow> nat list \<Rightarrow> nat \<Rightarrow> u64 \<Rightarrow> (nat \<Rightarrow> ('j, 'c) measurement)
     \<Rightarrow> string option \<Rightarrow> string option \<Rightarrow> row list \<times> (string + (string \<times> string))" where
  "run_capacity server ws_port mode sweep full_count ts Ms dir_error write_error = (
     let duplex = (if mode = ''ptt'' then ''half'' else ''full'');
         rows = map (\<lambda>(k, n). if mode = ''conf'' then run_one_conf server ws_port n full_count ts (Ms k)
                  else run_one server ws_port mode duplex n full_count ts (Ms k)) (List.enumerate 0 sweep)
     in (rows, write_csv dir_error write_error mode ts rows))"

section \<open>The distributed worker\<close>

record worker_report =
  wr_setup :: u64
  wr_active :: u64
  wr_rx_packets :: u64
  wr_rx_lost :: u64
  wr_rx_bytes :: u64

definition wait_until :: "u64 \<Rightarrow> u64 \<Rightarrow> u64" where
  "wait_until now target_ms = (if target_ms > now then target_ms - now else 0)"

definition worker_run_window :: "u64 \<Rightarrow> u64 \<Rightarrow> u64 \<Rightarrow> u64" where
  "worker_run_window now start_at_ms duration_secs = (
     let wait_secs = sat_sub start_at_ms now div 1000 in wait_secs + duration_secs + 15)"

definition report_of :: "cap_shared \<Rightarrow> cap_shared \<Rightarrow> worker_report" where
  "report_of before after = \<lparr>wr_setup = ch_ready after, wr_active = active_subs (ch_counters after),
     wr_rx_packets = sat_sub (rx_packets (ch_counters after)) (rx_packets (ch_counters before)),
     wr_rx_lost = sat_sub (rx_lost (ch_counters after)) (rx_lost (ch_counters before)),
     wr_rx_bytes = sat_sub (rx_bytes (ch_counters after)) (rx_bytes (ch_counters before))\<rparr>"

text \<open>Each bot's events before the start time and within the measured window; then the bots are
  aborted.\<close>

definition run_cap_worker ::
    "string \<Rightarrow> u16 \<Rightarrow> string \<Rightarrow> nat \<Rightarrow> nat \<Rightarrow> nat \<Rightarrow> (nat \<Rightarrow> ('j, 'c) cap_env \<times> cap_event list \<times> cap_event list)
     \<Rightarrow> worker_report" where
  "run_cap_worker server ws_port room_id count full_count wid subs = (
     let prefix = ''w'' @ show_nat wid @ ''-sub-'';
         before = run_subscribers server ws_port room_id prefix full_count
           (\<lambda>i. (fst (subs i), fst (snd (subs i)))) [0..<count];
         after = run_subscribers server ws_port room_id prefix full_count
           (\<lambda>i. (fst (subs i), fst (snd (subs i)) @ snd (snd (subs i)))) [0..<count]
     in report_of before after)"

section \<open>The coordinator\<close>

definition per_worker :: "u64 \<Rightarrow> u64 \<Rightarrow> u64" where
  "per_worker total_subs workers = (let d = max workers 1 in total_subs div d + (if total_subs mod d > 0 then 1 else 0))"

definition setup_grace_ms :: "u64 \<Rightarrow> u64" where
  "setup_grace_ms total_subs = 8000 + total_subs * 20"

definition worker_count :: "u64 \<Rightarrow> u64 \<Rightarrow> u64 \<Rightarrow> u64" where
  "worker_count total_subs workers w =
     (if w = workers - 1 then total_subs - per_worker total_subs workers * (workers - 1) else per_worker total_subs workers)"

text \<open>The workers spawned: number, bots and decrypting bots.\<close>

definition worker_jobs :: "u64 \<Rightarrow> u64 \<Rightarrow> u64 \<Rightarrow> (u64 \<times> u64 \<times> u64) list" where
  "worker_jobs total_subs workers full_count =
     map (\<lambda>w. (w, worker_count total_subs workers w, if w = 0 then full_count else 0))
       (filter (\<lambda>w. worker_count total_subs workers w \<noteq> 0) (map of_nat [0..<unat workers]))"

definition worker_args ::
    "string \<Rightarrow> u16 \<Rightarrow> string \<Rightarrow> u64 \<Rightarrow> u64 \<Rightarrow> u64 \<times> u64 \<times> u64 \<Rightarrow> string list" where
  "worker_args server ws_port room_id duration_secs start_at_ms = (\<lambda>(w, cnt, full).
     [''cap-worker'', ''--server'', server, ''--port'', show_word ws_port, ''--room'', room_id,
      ''--count'', show_word cnt, ''--full'', show_word full, ''--duration'', show_word duration_secs,
      ''--start-at-ms'', show_word start_at_ms, ''--wid'', show_word w])"

text \<open>\<open>s.lines().last().unwrap_or("")\<close>.\<close>

fun after_newline :: "string \<Rightarrow> string \<Rightarrow> string" where
  "after_newline acc [] = acc"
| "after_newline acc (c # s) = (if c = CHR 10 then after_newline [] s else after_newline (acc @ [c]) s)"

definition last_line :: "string \<Rightarrow> string" where
  "last_line s = (
     let t = (if s \<noteq> [] \<and> last s = CHR 10 then butlast s else s); l = after_newline [] t
     in if l \<noteq> [] \<and> last l = CHR 13 \<and> t \<noteq> s then butlast l else l)"

record totals =
  to_setup :: u64
  to_active :: u64
  to_rx :: u64
  to_lost :: u64
  to_bytes :: u64

definition add_report :: "worker_report \<Rightarrow> totals \<Rightarrow> totals" where
  "add_report r t = \<lparr>to_setup = to_setup t + wr_setup r, to_active = to_active t + wr_active r,
     to_rx = to_rx t + wr_rx_packets r, to_lost = to_lost t + wr_rx_lost r, to_bytes = to_bytes t + wr_rx_bytes r\<rparr>"

text \<open>The output of each child, or the error of waiting for it; \<open>parse\<close> is \<open>serde_json::from_str\<close>.\<close>

definition collect_reports :: "(string \<Rightarrow> worker_report option) \<Rightarrow> (string + string) list \<Rightarrow> totals" where
  "collect_reports parse children = fold (\<lambda>child t. case child of
       Inl e \<Rightarrow> t
     | Inr out \<Rightarrow> (case parse (last_line out) of None \<Rightarrow> t | Some r \<Rightarrow> add_report r t))
     children \<lparr>to_setup = 0, to_active = 0, to_rx = 0, to_lost = 0, to_bytes = 0\<rparr>"

record dist_result =
  dr_totals :: totals
  dr_in_pps :: f64
  dr_out_pps :: f64
  dr_out_mbps :: f64
  dr_loss_pct :: f64
  dr_healthy :: bool

text \<open>The coordinator ends early when it cannot find its own executable; a worker that cannot be
  spawned is left out.  \<open>output\<close> is what a spawned worker yields.\<close>

definition run_distributed ::
    "string \<Rightarrow> u16 \<Rightarrow> u64 \<Rightarrow> u64 \<Rightarrow> u64 \<Rightarrow> u64 \<Rightarrow> u64 \<Rightarrow> u64 \<Rightarrow> ('j, 'c) measurement \<Rightarrow> string option
     \<Rightarrow> (string list \<Rightarrow> string option) \<Rightarrow> (string list \<Rightarrow> string + string) \<Rightarrow> (string \<Rightarrow> worker_report option)
     \<Rightarrow> dist_result option" where
  "run_distributed server ws_port total_subs workers duration_secs full_count ts now M exe_error spawn_error output parse = (
     let room_id = ''cap-dist-'' @ show_word total_subs @ ''-'' @ show_word ts;
         start_at_ms = now + setup_grace_ms total_subs;
         (pub_env, waiting, pub_events) = ms_pub M
     in case exe_error of
          Some e \<Rightarrow> None
        | None \<Rightarrow>
           let pub = joined_task (run_publisher pub_env ''dist-pub'' server ws_port room_id ''full''
                 waiting pub_events cap_shared_new) cap_shared_new;
               args = map (worker_args server ws_port room_id duration_secs start_at_ms)
                 (worker_jobs total_subs workers full_count);
               children = filter (\<lambda>a. spawn_error a = None) args;
               t = collect_reports parse (map output children);
               res = sample_resources (ms_cores M) (ms_samples M);
               elapsed = as_secs_f64 (ms_elapsed M)
           in Some \<lparr>dr_totals = t,
                dr_in_pps = f_div (f_of_u64 (tx_ok (ch_counters pub))) elapsed,
                dr_out_pps = f_div (f_of_u64 (to_rx t)) elapsed,
                dr_out_mbps = out_mbps_of (to_bytes t) elapsed,
                dr_loss_pct = loss_pct (to_rx t) (to_lost t),
                dr_healthy = (subs_ok total_subs (to_active t) \<and> cpu_headroom res)\<rparr>)"

end
