(* ===== verification/CapacityLaws.thy ===== *)
theory CapacityLaws
  imports Capacity
begin

text \<open>
  What the capacity measurements report: the counters that the subscribers of a measurement leave
  together, the order of the latency statistics, a row, the split of the bots over the workers and
  the window of a worker's report.
\<close>

section \<open>The subscribers of a measurement together\<close>

definition rtp_of :: "cap_event list \<Rightarrow> bytes list" where
  "rtp_of events = filter is_fanout (received events)"

definition set_up :: "string \<Rightarrow> u16 \<Rightarrow> string \<Rightarrow> ('j, 'c) cap_env \<Rightarrow> string \<Rightarrow> bool" where
  "set_up server ws_port room_id E bot_id \<longleftrightarrow> (\<exists>st. subscriber_setup E bot_id server ws_port room_id = Some (Inr st))"

lemma run_subscriber_counts:
  assumes "consents_ok events"
  shows "joined_task (run_subscriber E bot_id server ws_port room_id mode events sh) sh = sh'' \<Longrightarrow>
    (if set_up server ws_port room_id E bot_id
     then ch_ready sh'' = ch_ready sh + 1
       \<and> rx_packets (ch_counters sh'') = rx_packets (ch_counters sh) + of_nat (length (rtp_of events))
       \<and> active_subs (ch_counters sh'') = active_subs (ch_counters sh) + (if rtp_of events \<noteq> [] then 1 else 0)
       \<and> (\<exists>l. ch_latencies sh'' = ch_latencies sh @ l \<and> list_all sane_latency l)
     else sh'' = sh)"
proof -
  assume j: "joined_task (run_subscriber E bot_id server ws_port room_id mode events sh) sh = sh''"
  show ?thesis
  proof (cases "subscriber_setup E bot_id server ws_port room_id")
    case None
    then show ?thesis using j by (simp add: run_subscriber_def joined_task_def set_up_def)
  next
    case (Some r)
    show ?thesis
    proof (cases r)
      case (Inl e)
      then show ?thesis using Some j by (simp add: run_subscriber_def joined_task_def set_up_def)
    next
      case (Inr st)
      obtain session sc srtp where st: "st = (session, sc, srtp)" by (cases st)
      obtain session' x' c' where l: "sub_loop E mode sc events (session, cap_rx_new srtp [], ch_counters sh) = Some (session', x', c')"
          "reads (received events) (cap_rx_new srtp [], ch_counters sh) (x', c')"
        using sub_loop_reads [OF assms] by blast
      then have "sh'' = sh\<lparr>ch_ready := ch_ready sh + 1, ch_counters := c', ch_latencies := ch_latencies sh @ cx_local_lat x'\<rparr>"
        using j by (simp add: run_subscriber_def Some Inr st joined_task_def)
      with l(2) show ?thesis by (auto simp: Some Inr st set_up_def reads_def cap_rx_new_def rtp_of_def Let_def)
    qed
  qed
qed

lemma run_subscribers_counts:
  fixes server ws_port room_id prefix full_count
  assumes "\<forall>i \<in> set is. consents_ok (snd (subs i))"
  defines "good \<equiv> filter (\<lambda>i. set_up server ws_port room_id (fst (subs i)) (prefix @ show_nat i)) is"
  defines "sh \<equiv> run_subscribers server ws_port room_id prefix full_count subs is"
  shows "ch_ready sh = of_nat (length good)"
    and "rx_packets (ch_counters sh) = of_nat (\<Sum>i \<leftarrow> good. length (rtp_of (snd (subs i))))"
    and "active_subs (ch_counters sh) = of_nat (length (filter (\<lambda>i. rtp_of (snd (subs i)) \<noteq> []) good))"
    and "list_all sane_latency (ch_latencies sh)"
proof -
  have "ch_ready sh = of_nat (length good)
    \<and> rx_packets (ch_counters sh) = of_nat (\<Sum>i \<leftarrow> good. length (rtp_of (snd (subs i))))
    \<and> active_subs (ch_counters sh) = of_nat (length (filter (\<lambda>i. rtp_of (snd (subs i)) \<noteq> []) good))
    \<and> list_all sane_latency (ch_latencies sh)"
    using assms(1) unfolding good_def sh_def
  proof (induction "is" rule: rev_induct)
    case Nil
    then show ?case by (simp add: run_subscribers_def cap_shared_new_def cap_counters_new_def)
  next
    case (snoc i "is")
    let ?sh = "run_subscribers server ws_port room_id prefix full_count subs is"
    let ?sh' = "run_subscribers server ws_port room_id prefix full_count subs (is @ [i])"
    have "joined_task (run_subscriber (fst (subs i)) (prefix @ show_nat i) server ws_port room_id
        (recv_mode_of full_count i) (snd (subs i)) ?sh) ?sh = ?sh'"
      by (simp add: run_subscribers_def)
    from run_subscriber_counts [OF _ this] snoc show ?case
      by (auto simp: ac_simps split: if_splits)
  qed
  then show "ch_ready sh = of_nat (length good)"
    "rx_packets (ch_counters sh) = of_nat (\<Sum>i \<leftarrow> good. length (rtp_of (snd (subs i))))"
    "active_subs (ch_counters sh) = of_nat (length (filter (\<lambda>i. rtp_of (snd (subs i)) \<noteq> []) good))"
    "list_all sane_latency (ch_latencies sh)" by blast+
qed

section \<open>Latency statistics\<close>

lemma set_insert_lat [simp]: "set (insert_lat x ys) = insert x (set ys)"
  by (induction ys) auto

lemma set_sort_lats [simp]: "set (sort_lats xs) = set xs"
proof -
  have "set (fold insert_lat xs acc) = set xs \<union> set acc" for acc
    by (induction xs arbitrary: acc) auto
  then show ?thesis by (simp add: sort_lats_def)
qed

lemma sane_Fin: "sane_latency l \<Longrightarrow> \<exists>q. l = Fin q \<and> 0 < q"
  using rnd_small_int [of 10000000] by (cases l) (auto simp: sane_latency_def split: if_splits)

definition fin_sorted :: "f64 list \<Rightarrow> bool" where
  "fin_sorted xs \<longleftrightarrow> list_all sane_latency xs \<and> sorted_wrt f_le xs"

lemma insert_lat_sorted: "sane_latency x \<Longrightarrow> fin_sorted ys \<Longrightarrow> fin_sorted (insert_lat x ys)"
proof (induction ys)
  case (Cons y ys)
  have fin: "\<exists>q. z = Fin q" if "z \<in> insert x (insert y (set ys))" for z
    using that Cons.prems sane_Fin by (auto simp: fin_sorted_def list_all_iff)
  obtain a b where ab: "x = Fin a" "y = Fin b" using fin by blast
  have ys: "fin_sorted ys" using Cons.prems by (simp add: fin_sorted_def)
  show ?case
  proof (cases "a < b")
    case True
    then have "f_le x z" if "z \<in> insert y (set ys)" for z
      using that fin [of z] Cons.prems(2) ab by (auto simp: fin_sorted_def)
    then show ?thesis using True Cons.prems ab by (simp add: fin_sorted_def)
  next
    case False
    then show ?thesis using Cons.IH [OF Cons.prems(1) ys] Cons.prems ab by (auto simp: fin_sorted_def)
  qed
qed (simp add: fin_sorted_def)

lemma sort_lats_sorted: "list_all sane_latency xs \<Longrightarrow> fin_sorted (sort_lats xs)"
proof -
  have "list_all sane_latency xs \<Longrightarrow> fin_sorted acc \<Longrightarrow> fin_sorted (fold insert_lat xs acc)" for acc
    by (induction xs arbitrary: acc) (simp_all add: insert_lat_sorted)
  then show "list_all sane_latency xs \<Longrightarrow> ?thesis" by (simp add: sort_lats_def fin_sorted_def)
qed

lemma f_le_refl_fin: "sane_latency l \<Longrightarrow> f_le l l"
  using sane_Fin by fastforce

lemma lat_stats_order:
  assumes "list_all sane_latency xs" "xs \<noteq> []" "lat_stats (sort_lats xs) = (a, p, m)"
  shows "p \<in> set xs \<and> m \<in> set xs \<and> f_le p m \<and> (\<forall>l \<in> set xs. f_le l m)"
proof -
  let ?s = "sort_lats xs"
  have set: "set ?s = set xs" by simp
  then have ne: "?s \<noteq> []" using assms(2) by (metis set_empty)
  have srt: "sorted_wrt f_le ?s" and sane: "list_all sane_latency ?s"
    using sort_lats_sorted [OF assms(1)] by (simp_all add: fin_sorted_def)
  define k where "k = min (f_to_nat (2 ^ 64 - 1) (f_mul (f_of_nat (length ?s)) (f_lit (95 / 100)))) (length ?s - 1)"
  have k: "k < length ?s" "p = ?s ! k" "m = last ?s"
    using assms(3) ne unfolding lat_stats_def k_def Let_def by (auto simp: min_less_iff_disj)
  have le: "f_le (?s ! i) m" if "i < length ?s" for i
  proof (cases "i = length ?s - 1")
    case True
    then show ?thesis using k(3) ne that sane f_le_refl_fin by (simp add: last_conv_nth list_all_length)
  next
    case False
    with that show ?thesis using sorted_wrt_nth_less [OF srt, of i "length ?s - 1"] k(3) ne
      by (simp add: last_conv_nth)
  qed
  have "f_le l m" if "l \<in> set xs" for l using that le by (metis in_set_conv_nth set)
  moreover have "p \<in> set xs" "m \<in> set xs" using nth_mem [OF k(1)] last_in_set [OF ne] unfolding k(2,3) set by simp_all
  ultimately show ?thesis by blast
qed

lemma sort_lats_p95_le_max:
  assumes "list_all sane_latency xs" "lat_stats (sort_lats xs) = (a, p, m)"
  shows "f_le p m"
proof (cases "xs = []")
  case True
  then show ?thesis using assms(2) by (auto simp: sort_lats_def lat_stats_def)
next
  case False
  then show ?thesis using lat_stats_order [OF assms(1) False assms(2)] by blast
qed

section \<open>A measured row\<close>

text \<open>The integer test of the source is the test of nine tenths when no product wraps.\<close>

lemma subs_ok_nine_tenths:
  assumes "subs_ok (of_nat n) (of_nat k)" "k \<le> n" "n * 10 < 2 ^ 64"
  shows "9 * n \<le> 10 * k"
proof (cases "n = 0")
  case False
  have u: "unat (of_nat n :: u64) = n" "unat (of_nat (n * 9) :: u64) = n * 9" "unat (of_nat (k * 10) :: u64) = k * 10"
    using assms(2,3) by (intro unat_of_nat_eq; simp)+
  with False have "(of_nat n :: u64) \<noteq> 0" by (metis unat_0)
  then have "(of_nat (n * 9) :: u64) \<le> of_nat (k * 10)" using assms(1) by (simp add: subs_ok_def)
  then show ?thesis unfolding word_le_nat_alt u by simp
qed simp

text \<open>C22: A row of a broadcast or PTT measurement reports what its bots saw: the active count is the
  number of subscribers whose setup succeeded and that received an RTP datagram, the outgoing rate
  is the number of RTP datagrams all of them received over the time measured, a row is healthy
  only when at least nine tenths of the subscribers were active, and the 95th percentile of the
  latencies never exceeds their maximum.\<close>

theorem measured_row:
  assumes "\<forall>i < n. consents_ok (snd (ms_subs M i))" "n * 10 < 2 ^ 64"
  shows "let room_id = ''cap-'' @ mode @ ''-'' @ show_nat n @ ''-'' @ show_word ts;
      prefix = ''cap-sub-'' @ show_nat n @ ''-'';
      rtp = (\<lambda>i. rtp_of (snd (ms_subs M i)));
      good = filter (\<lambda>i. set_up server ws_port room_id (fst (ms_subs M i)) (prefix @ show_nat i)) [0..<n];
      active = filter (\<lambda>i. rtp i \<noteq> []) good;
      r = run_one server ws_port mode duplex n full_count ts M
    in unat (rw_active r) = length active \<and> length active \<le> n
      \<and> rw_out_pps r = f_div (f_of_u64 (of_nat (\<Sum>i \<leftarrow> good. length (rtp i)))) (as_secs_f64 (ms_elapsed M))
      \<and> (rw_healthy r \<longrightarrow> 9 * n \<le> 10 * length active)
      \<and> f_le (rw_lat_p95 r) (rw_lat_max r)"
proof -
  let ?room = "''cap-'' @ mode @ ''-'' @ show_nat n @ ''-'' @ show_word ts"
    and ?prefix = "''cap-sub-'' @ show_nat n @ ''-''"
  define S where "S = run_subscribers server ws_port ?room ?prefix full_count (ms_subs M) [0..<n]"
  define good where "good = filter (\<lambda>i. set_up server ws_port ?room (fst (ms_subs M i)) (?prefix @ show_nat i)) [0..<n]"
  define active where "active = filter (\<lambda>i. rtp_of (snd (ms_subs M i)) \<noteq> []) good"
  obtain pubc where r: "run_one server ws_port mode duplex n full_count ts M
      = row_of (of_nat n) pubc (ch_counters S) (ch_latencies S) (ms_elapsed M) (sample_resources (ms_cores M) (ms_samples M))"
  proof -
    obtain e w ev where "ms_pub M = (e, w, ev)" by (cases "ms_pub M")
    then show thesis by (intro that) (unfold run_one_def Let_def S_def, simp only: prod.case)
  qed
  note c = run_subscribers_counts [of "[0..<n]" "ms_subs M" server ws_port ?room ?prefix full_count, folded good_def S_def]
  have sh: "rx_packets (ch_counters S) = of_nat (\<Sum>i \<leftarrow> good. length (rtp_of (snd (ms_subs M i))))"
      "active_subs (ch_counters S) = of_nat (length active)" "list_all sane_latency (ch_latencies S)"
    using c assms(1) unfolding active_def by auto
  have le: "length active \<le> n"
  proof -
    have "length active \<le> length good" by (simp only: active_def length_filter_le)
    also have "\<dots> \<le> length [0..<n]" by (simp only: good_def length_filter_le)
    finally show ?thesis by simp
  qed
  have u: "unat (of_nat (length active) :: u64) = length active" using le assms(2) by (intro unat_of_nat_eq) simp
  note h = subs_ok_nine_tenths [OF _ le assms(2)]
  obtain a p m where st: "lat_stats (sort_lats (ch_latencies S)) = (a, p, m)" by (metis prod_cases3)
  note lat = sort_lats_p95_le_max [OF sh(3) st]
  show ?thesis
    unfolding Let_def good_def [symmetric] active_def [symmetric] r row_of_def st prod.case
    using le h lat by (simp add: sh u)
qed

definition sample_measurement :: "(sample_json, bool) measurement" where
  "sample_measurement = \<lparr>ms_pub = (sample_cap_env, [], []), ms_subs = (\<lambda>i. (sample_cap_env, if i = 0 then sample_events else [])),
     ms_conf = (\<lambda>i. (sample_cap_env, [], [])), ms_elapsed = 1000000000, ms_cores = 4, ms_samples = []\<rparr>"

lemma sample_measurement_set_up:
  "set_up ''h'' 1974 (''cap-'' @ ''ptt'' @ ''-'' @ show_nat 2 @ ''-'' @ show_word (7 :: u64)) sample_cap_env ((''cap-sub-'' @ show_nat 2 @ ''-'') @ show_nat 0)"
  "set_up ''h'' 1974 (''cap-'' @ ''ptt'' @ ''-'' @ show_nat 2 @ ''-'' @ show_word (7 :: u64)) sample_cap_env ((''cap-sub-'' @ show_nat 2 @ ''-'') @ show_nat 1)"
  unfolding set_up_def by (rule sample_joins_setup; code_simp)+

text \<open>Two subscribers, of which one receives a packet: half of them is not enough.\<close>

theorem measured_row_witness:
  "let r = run_one ''h'' 1974 ''ptt'' ''half'' 2 1 7 sample_measurement
    in unat (rw_active r) = 1 \<and> \<not> rw_healthy r \<and> rw_out_pps r = f_div (f_of_u64 1) (as_secs_f64 1000000000)"
proof -
  have e: "rtp_of sample_events = [[128, 111, 0, 1, 0, 0, 0, 9, 0, 0, 0, 5]]" "rtp_of [] = []"
    by (simp_all add: rtp_of_def sample_events_def is_fanout_def is_rtp_def)
  have two: "[0..<2] = [0, 1 :: nat]" by (simp add: numeral_2_eq_2)
  have good: "filter (\<lambda>i. set_up ''h'' 1974 (''cap-'' @ ''ptt'' @ ''-'' @ show_nat 2 @ ''-'' @ show_word (7 :: u64)) (fst (ms_subs sample_measurement i))
      ((''cap-sub-'' @ show_nat 2 @ ''-'') @ show_nat i)) [0..<2] = [0, 1]"
    unfolding two sample_measurement_def measurement.select_convs fst_conv filter.simps
    using sample_measurement_set_up by (simp only: if_True)
  have "\<forall>i < 2. consents_ok (snd (ms_subs sample_measurement i))"
    by (auto simp: consents_ok_def sample_measurement_def sample_events_def)
  from measured_row [OF this, where server = "''h''" and ws_port = 1974 and mode = "''ptt''" and ts = 7 and duplex = "''half''" and full_count = 1]
  show ?thesis
    unfolding Let_def good by (simp add: sample_measurement_def e)
qed

text \<open>The wait for the subscribers ends at the first poll that finds all of them ready or the deadline
  passed.\<close>

lemma ready_sync_first:
  assumes "\<exists>(now, r) \<in> set polls. n \<le> r \<or> deadline \<le> now"
  shows "\<exists>early now r late. polls = early @ (now, r) # late \<and> ready_sync n deadline polls = Some r
    \<and> (n \<le> r \<or> deadline \<le> now) \<and> (\<forall>(now', r') \<in> set early. r' < n \<and> now' < deadline)"
  using assms
proof (induction polls)
  case (Cons q polls)
  obtain now r where q: "q = (now, r)" by force
  show ?case
  proof (cases "n \<le> r \<or> deadline \<le> now")
    case True
    then show ?thesis by (intro exI [of _ "[]"] exI [of _ now] exI [of _ r] exI [of _ polls]) (simp add: q)
  next
    case False
    with Cons.prems have "\<exists>(now, r) \<in> set polls. n \<le> r \<or> deadline \<le> now" by (auto simp: q)
    from Cons.IH [OF this] obtain early now' r' late where
      "polls = early @ (now', r') # late" "ready_sync n deadline polls = Some r'" "n \<le> r' \<or> deadline \<le> now'"
      "\<forall>(now', r') \<in> set early. r' < n \<and> now' < deadline" by blast
    with False show ?thesis
      by (intro exI [of _ "q # early"] exI [of _ now'] exI [of _ r'] exI [of _ late]) (auto simp: q not_le)
  qed
qed simp

section \<open>The split over the workers\<close>

lemma unat_per_worker:
  assumes "0 < unat workers" "unat n + unat workers < 2 ^ 64"
  shows "unat (per_worker n workers) = (unat n + unat workers - 1) div unat workers"
proof -
  let ?t = "unat n" and ?w = "unat workers"
  have m: "max workers 1 = workers"
    using assms(1) by (auto simp: max_def word_le_nat_alt word_unat_eq_iff)
  have pos: "n mod workers > 0 \<longleftrightarrow> ?t mod ?w > 0" by (simp add: word_less_nat_alt unat_mod)
  have "(?t + ?w - 1) div ?w = ?t div ?w + (if ?t mod ?w > 0 then 1 else 0)"
  proof -
    have t: "?t = ?w * (?t div ?w) + ?t mod ?w" by simp
    have d: "(?w * q + r) div ?w = q" if "r < ?w" for q r using that by simp
    show ?thesis
    proof (cases "?t mod ?w = 0")
      case True
      then have "?t + ?w - 1 = ?w * (?t div ?w) + (?w - 1)" using t assms(1) by linarith
      with True assms(1) d [of "?w - 1" "?t div ?w"] show ?thesis by simp
    next
      case False
      have "?t mod ?w < ?w" using assms(1) by simp
      moreover have "?w * (?t div ?w + 1) = ?w * (?t div ?w) + ?w" by simp
      ultimately have "?t + ?w - 1 = ?w * (?t div ?w + 1) + (?t mod ?w - 1)" "?t mod ?w - 1 < ?w"
        using t False by linarith+
      with False d [of "?t mod ?w - 1" "?t div ?w + 1"] show ?thesis by simp
    qed
  qed
  moreover have s: "Suc (?t div ?w) < 18446744073709551616"
  proof -
    have "Suc (?t div ?w) \<le> ?t + ?w" using div_le_dividend [of ?t ?w] assms(1) by linarith
    also have "\<dots> < 2 ^ 64" by (rule assms(2))
    finally show ?thesis by simp
  qed
  moreover have "?t div ?w < 18446744073709551616" using s by linarith
  ultimately show ?thesis
    using assms pos by (auto simp: per_worker_def m Let_def unat_div unat_word_ariths)
qed

lemma unat_worker_count:
  fixes n workers :: u64
  assumes "0 < unat workers" "unat n + unat workers < 2 ^ 64" "k < unat workers"
  defines "p \<equiv> (unat n + unat workers - 1) div unat workers"
  shows "unat (worker_count n workers (of_nat k)) =
    (if k < unat workers - 1 then p
     else if p * (unat workers - 1) \<le> unat n then unat n - p * (unat workers - 1)
     else 2 ^ 64 - (p * (unat workers - 1) - unat n))"
proof -
  let ?t = "unat n" and ?w = "unat workers"
  have p: "unat (per_worker n workers) = p" using unat_per_worker [OF assms(1,2)] by (simp add: p_def)
  have one: "unat (workers - 1) = ?w - 1"
    using assms(1) by (subst unat_sub) (simp_all add: word_le_nat_alt)
  have "p * ?w \<le> ?t + ?w - 1" by (simp add: p_def div_times_less_eq_dividend)
  moreover have "p * (?w - 1) \<le> p * ?w" by simp
  ultimately have b: "p * (?w - 1) < 2 ^ 64" using assms(2) by linarith
  have prod: "unat (per_worker n workers * (workers - 1)) = p * (?w - 1)"
    using b by (simp add: unat_word_ariths p one)
  have kw: "unat (of_nat k :: u64) = k" using assms(2,3) by (intro unat_of_nat_eq) simp
  then have "(of_nat k = workers - 1) = (k = ?w - 1)" using one by (metis word_unat_eq_iff)
  with assms(3) have k: "(of_nat k = workers - 1) = (\<not> k < ?w - 1)" by linarith
  have "unat (n - per_worker n workers * (workers - 1)) = (if p * (?w - 1) \<le> ?t then ?t - p * (?w - 1)
      else 2 ^ 64 - (p * (?w - 1) - ?t))"
    using unat_sub_if' [of n "per_worker n workers * (workers - 1)"] b
    by (auto simp: prod add.commute [of "unat n"])
  then show ?thesis by (simp add: worker_count_def k p)
qed

lemma worker_jobs_exact:
  fixes n workers :: u64
  assumes "0 < unat workers" "unat n + unat workers < 2 ^ 64"
  defines "p \<equiv> (unat n + unat workers - 1) div unat workers"
  assumes fits: "p * (unat workers - 1) \<le> unat n"
  shows "\<forall>(w, count, full) \<in> set (worker_jobs n workers full_count). 0 < unat count \<and> unat count \<le> p" (is ?shares)
    and "(\<Sum>(w, count, full) \<leftarrow> worker_jobs n workers full_count. unat count) = unat n" (is ?total)
proof -
  let ?w = "unat workers"
  obtain v where v: "?w = Suc v" using assms(1) by (cases ?w) auto
  let ?c = "\<lambda>k. if k < v then p else unat n - p * v"
  have c: "unat (worker_count n workers (of_nat k)) = ?c k" if "k < ?w" for k
    using unat_worker_count [OF assms(1,2) that, folded p_def] fits by (simp add: v)
  have "unat n + ?w - 1 = p * ?w + (unat n + ?w - 1) mod ?w" by (simp add: p_def)
  moreover have "(unat n + ?w - 1) mod ?w < ?w" using assms(1) by simp
  ultimately have "unat n \<le> p * ?w" using assms(1) by linarith
  then have last: "unat n - p * v \<le> p" by (simp add: v)
  show ?shares using last c by (auto simp: worker_jobs_def unat_gt_0 split: if_splits)
  have "(\<Sum>(w, count, full) \<leftarrow> worker_jobs n workers full_count. unat count)
      = (\<Sum>w \<leftarrow> filter (\<lambda>w. worker_count n workers w \<noteq> 0) (map of_nat [0..<?w]). unat (worker_count n workers w))"
    by (simp add: worker_jobs_def o_def)
  also have "\<dots> = (\<Sum>w \<leftarrow> map of_nat [0..<?w]. unat (worker_count n workers w))"
    by (rule sum_list_map_filter) simp
  also have "\<dots> = (\<Sum>k \<leftarrow> [0..<?w]. ?c k)"
    unfolding map_map o_def by (rule arg_cong [where f = sum_list], rule map_cong) (use c in auto)
  also have "\<dots> = (\<Sum>k \<leftarrow> [0..<v]. p) + (unat n - p * v)"
  proof -
    have m: "map ?c [0..<v] = map (\<lambda>k. p) [0..<v]" by simp
    show ?thesis unfolding v upt_Suc_append [OF le0] map_append sum_list_append m by simp
  qed
  also have "\<dots> = unat n" using fits by (simp add: v sum_list_triv mult.commute)
  finally show ?total .
qed

lemma worker_jobs_wraps:
  fixes n workers :: u64
  assumes "0 < unat workers" "unat n + unat workers < 2 ^ 64"
  defines "p \<equiv> (unat n + unat workers - 1) div unat workers"
  assumes over: "unat n < p * (unat workers - 1)"
  shows "\<exists>full. (workers - 1, of_nat (2 ^ 64 - (p * (unat workers - 1) - unat n)), full) \<in> set (worker_jobs n workers full_count)"
proof -
  let ?w = "unat workers" and ?wrapped = "2 ^ 64 - (p * (unat workers - 1) - unat n)"
  obtain v where v: "?w = Suc v" using assms(1) by (cases ?w) auto
  have "of_nat ?w = workers" by simp
  then have vw: "of_nat v = workers - 1" unfolding v by (simp add: algebra_simps flip: eq_diff_eq)
  have u: "unat (worker_count n workers (of_nat v)) = ?wrapped"
    using unat_worker_count [OF assms(1,2), of v, folded p_def] over by (simp add: v)
  have "p * ?w \<le> unat n + ?w - 1" by (simp add: p_def div_times_less_eq_dividend)
  then have "p * v - unat n < 2 ^ 64" using assms(2) v by simp
  then have "unat (worker_count n workers (of_nat v)) \<noteq> 0" unfolding u by (simp add: v)
  then have ne: "worker_count n workers (workers - 1) \<noteq> 0" unfolding vw by auto
  have count: "worker_count n workers (workers - 1) = of_nat ?wrapped" unfolding u [symmetric] vw by simp
  have "workers - 1 \<in> set (map of_nat [0..<?w])" unfolding set_map vw [symmetric] by (auto simp: v)
  with ne have "(workers - 1, of_nat ?wrapped, if workers - 1 = 0 then full_count else 0)
      \<in> set (worker_jobs n workers full_count)"
    unfolding worker_jobs_def count [symmetric] set_map set_filter by (intro image_eqI [where x = "workers - 1"]) simp_all
  then show ?thesis ..
qed

text \<open>C21: The split of the bots over the workers.  When one share for every worker but the last does not
  exceed the total, the workers spawned get between one bot and a full share each and together exactly the
  total.  Otherwise the subtraction for the last worker wraps, and that worker is told to run
  \<open>2\<^sup>6\<^sup>4\<close> minus the excess bots.\<close>

theorem worker_split:
  fixes n workers :: u64
  assumes "0 < unat workers" "unat n + unat workers < 2 ^ 64"
  shows "let p = (unat n + unat workers - 1) div unat workers; excess = p * (unat workers - 1) - unat n;
      jobs = worker_jobs n workers full_count
    in if excess = 0 then (\<forall>(w, count, full) \<in> set jobs. 0 < unat count \<and> unat count \<le> p)
         \<and> (\<Sum>(w, count, full) \<leftarrow> jobs. unat count) = unat n
       else \<exists>full. (workers - 1, of_nat (2 ^ 64 - excess), full) \<in> set jobs"
proof (cases "(unat n + unat workers - 1) div unat workers * (unat workers - 1) \<le> unat n")
  case True
  then show ?thesis using worker_jobs_exact [OF assms True, of full_count] by (simp only: Let_def diff_is_0_eq if_True)
next
  case False
  then have "\<exists>full. (workers - 1, of_nat (2 ^ 64 - ((unat n + unat workers - 1) div unat workers * (unat workers - 1) - unat n)), full)
      \<in> set (worker_jobs n workers full_count)"
    by (intro worker_jobs_wraps [OF assms]) simp
  with False show ?thesis by (simp only: Let_def diff_is_0_eq if_False)
qed

theorem worker_split_witness:
  "(\<Sum>(w, count, full) \<leftarrow> worker_jobs 10 4 3. unat count) = 10
   \<and> (\<exists>full. (3, 18446744073709551615, full) \<in> set (worker_jobs 5 4 3))"
  using worker_split [of 4 10 3] worker_split [of 4 5 3] by (simp add: Let_def)

section \<open>The worker's report\<close>

lemma received_append: "\<exists>es'. received (es @ fs) = received es @ received es'"
proof (induction es rule: received.induct)
  case 1
  then show ?case by auto
qed (auto intro: exI [of _ "[]"])

text \<open>What a worker's subscriber receives within the measured window.\<close>

definition window_rtp :: "cap_event list \<Rightarrow> cap_event list \<Rightarrow> bytes list" where
  "window_rtp early window = filter is_fanout (drop (length (received early)) (received (early @ window)))"

lemma rtp_of_window: "rtp_of (early @ window) = rtp_of early @ window_rtp early window"
  using received_append [of early window] by (auto simp: rtp_of_def window_rtp_def)

text \<open>C24: The report of a worker is about its window: the packets it reports are the RTP datagrams that its
  subscribers whose setup succeeded received between the common start time and the end, not those
  before it, while setup and activity count the whole run.\<close>

theorem worker_reports_window:
  assumes "\<forall>i < count. consents_ok (fst (snd (subs i)) @ snd (snd (subs i)))"
    and "(\<Sum>i \<leftarrow> [0..<count]. length (rtp_of (fst (snd (subs i)) @ snd (snd (subs i))))) < 2 ^ 64"
  shows "let prefix = ''w'' @ show_nat wid @ ''-sub-'';
      good = filter (\<lambda>i. set_up server ws_port room_id (fst (subs i)) (prefix @ show_nat i)) [0..<count];
      r = run_cap_worker server ws_port room_id count full_count wid subs
    in unat (wr_rx_packets r) = (\<Sum>i \<leftarrow> good. length (window_rtp (fst (snd (subs i))) (snd (snd (subs i)))))
      \<and> wr_setup r = of_nat (length good)
      \<and> wr_active r = of_nat (length (filter (\<lambda>i. rtp_of (fst (snd (subs i)) @ snd (snd (subs i))) \<noteq> []) good))"
proof -
  let ?prefix = "''w'' @ show_nat wid @ ''-sub-''"
  define good where "good = filter (\<lambda>i. set_up server ws_port room_id (fst (subs i)) (?prefix @ show_nat i)) [0..<count]"
  define early where "early = (\<lambda>i. rtp_of (fst (snd (subs i))))"
  define all where "all = (\<lambda>i. rtp_of (fst (snd (subs i)) @ snd (snd (subs i))))"
  define B where "B = run_subscribers server ws_port room_id ?prefix full_count (\<lambda>i. (fst (subs i), fst (snd (subs i)))) [0..<count]"
  define A where "A = run_subscribers server ws_port room_id ?prefix full_count
      (\<lambda>i. (fst (subs i), fst (snd (subs i)) @ snd (snd (subs i)))) [0..<count]"
  have ok: "\<forall>i \<in> set [0..<count]. consents_ok (fst (snd (subs i)))"
      "\<forall>i \<in> set [0..<count]. consents_ok (fst (snd (subs i)) @ snd (snd (subs i)))"
    using assms(1) by (auto simp: consents_ok_def)
  note b = run_subscribers_counts [of "[0..<count]" "\<lambda>i. (fst (subs i), fst (snd (subs i)))" server ws_port room_id ?prefix full_count,
      simplified fst_conv snd_conv, OF ok(1), folded good_def B_def]
  note a = run_subscribers_counts [of "[0..<count]" "\<lambda>i. (fst (subs i), fst (snd (subs i)) @ snd (snd (subs i)))" server ws_port room_id
      ?prefix full_count, simplified fst_conv snd_conv, OF ok(2), folded good_def A_def]
  have len: "(\<Sum>i \<leftarrow> good. length (all i)) = (\<Sum>i \<leftarrow> good. length (early i))
      + (\<Sum>i \<leftarrow> good. length (window_rtp (fst (snd (subs i))) (snd (snd (subs i)))))"
    by (simp add: all_def early_def rtp_of_window sum_list_addf)
  have "(\<Sum>i \<leftarrow> good. length (all i)) \<le> (\<Sum>i \<leftarrow> [0..<count]. length (all i))"
    unfolding good_def by (rule sum_list_filter_le_nat)
  then have lim: "(\<Sum>i \<leftarrow> good. length (all i)) < 2 ^ 64" using assms(2) by (simp add: all_def)
  have sat: "unat (sat_sub (of_nat (x + y)) (of_nat x) :: u64) = y" if "x + y < 2 ^ 64" for x y :: nat
  proof -
    have u: "unat (of_nat (x + y) :: u64) = x + y" "unat (of_nat x :: u64) = x"
      using that by (intro unat_of_nat_eq; simp)+
    then have "(of_nat x :: u64) \<le> of_nat (x + y)" by (simp only: word_le_nat_alt)
    then show ?thesis by (simp only: sat_sub_def if_True unat_sub u)
  qed
  have "run_cap_worker server ws_port room_id count full_count wid subs = report_of B A"
    by (simp only: run_cap_worker_def Let_def A_def B_def)
  moreover have "unat (wr_rx_packets (report_of B A))
      = (\<Sum>i \<leftarrow> good. length (window_rtp (fst (snd (subs i))) (snd (snd (subs i)))))"
    using sat [of "\<Sum>i \<leftarrow> good. length (early i)"] lim a(2) b(2) len
    by (simp add: report_of_def all_def early_def)
  ultimately show ?thesis
    unfolding Let_def good_def [symmetric] by (simp add: report_of_def a(1,3))
qed

definition sample_worker_subs :: "nat \<Rightarrow> (sample_json, bool) cap_env \<times> cap_event list \<times> cap_event list" where
  "sample_worker_subs i = (sample_cap_env, [PumpTick], sample_events)"

lemma sample_workers_set_up:
  "set_up ''h'' 1974 ''r1'' sample_cap_env ((''w'' @ show_nat 0 @ ''-sub-'') @ show_nat 0)"
  "set_up ''h'' 1974 ''r1'' sample_cap_env ((''w'' @ show_nat 0 @ ''-sub-'') @ show_nat 1)"
  unfolding set_up_def by (rule sample_joins_setup; code_simp)+

theorem worker_reports_window_witness:
  "let r = run_cap_worker ''h'' 1974 ''r1'' 2 1 0 sample_worker_subs
    in unat (wr_rx_packets r) = 2 \<and> wr_setup r = 2 \<and> wr_active r = 2"
proof -
  have e: "rtp_of [PumpTick] = []" "window_rtp [PumpTick] sample_events = [[128, 111, 0, 1, 0, 0, 0, 9, 0, 0, 0, 5]]"
      "rtp_of (PumpTick # sample_events) = [[128, 111, 0, 1, 0, 0, 0, 9, 0, 0, 0, 5]]"
    by (simp_all add: rtp_of_def window_rtp_def sample_events_def is_fanout_def is_rtp_def)
  have two: "[0..<2] = [0, 1 :: nat]" by (simp add: numeral_2_eq_2)
  have good: "filter (\<lambda>i. set_up ''h'' 1974 ''r1'' (fst (sample_worker_subs i)) ((''w'' @ show_nat 0 @ ''-sub-'') @ show_nat i)) [0..<2] = [0, 1]"
    unfolding two using sample_workers_set_up by (simp only: filter.simps sample_worker_subs_def fst_conv if_True)
  have "\<forall>i < 2. consents_ok (fst (snd (sample_worker_subs i)) @ snd (snd (sample_worker_subs i)))"
    by (auto simp: consents_ok_def sample_worker_subs_def sample_events_def)
  from worker_reports_window [OF this, where server = "''h''" and ws_port = 1974 and room_id = "''r1''" and wid = 0 and full_count = 1] show ?thesis
    unfolding Let_def good by (simp add: two sample_worker_subs_def e)
qed

end
