(* ===== verification/Cli.thy ===== *)
theory Cli
  imports Engine CapacityLaws
begin

text \<open>
  The command line (\<open>oxlab-cli/src/main.rs\<close>, \<open>oxlab-scenario/src/lib.rs\<close>): reading the sweep, the
  \<open>run\<close> command, which drives its bots without a scenario, and the dispatch of the commands with the
  exit code of the process.  Parsing the arguments, the file system and the clocks are parameters; the
  state of \<open>run\<close> is the engine's (bots, clock, errors logged), with no scenario and no index.
\<close>

section \<open>The sweep\<close>

text \<open>The characters \<open>str::trim\<close> removes, encoded: those with the Unicode property \<open>White_Space\<close>.\<close>

definition white_space :: "string list" where
  "white_space = map utf8 ([[9], [10], [11], [12], [13], [32], [0xC2, 0x85], [0xC2, 0xA0], [0xE1, 0x9A, 0x80]]
     @ map (\<lambda>b. [0xE2, 0x80, b]) ([0x80..<0x8B] @ [0xA8, 0xA9, 0xAF])
     @ [[0xE2, 0x81, 0x9F], [0xE3, 0x80, 0x80]])"

lemma drop_less: "w \<noteq> [] \<Longrightarrow> take (length w) s = w \<Longrightarrow> length s - length w < length s"
  by (cases s) auto

function trim_by :: "string list \<Rightarrow> string \<Rightarrow> string" where
  "trim_by ws s = (case find (\<lambda>w. w \<noteq> [] \<and> take (length w) s = w) ws of
     None \<Rightarrow> s
   | Some w \<Rightarrow> trim_by ws (drop (length w) s))"
  by pat_completeness auto
termination
  by (relation "measure (\<lambda>(ws, s). length s)") (auto simp: find_Some_iff intro: drop_less)

declare trim_by.simps [simp del]

definition trim :: "string \<Rightarrow> string" where
  "trim s = rev (trim_by (map rev white_space) (rev (trim_by white_space s)))"

text \<open>\<open>str::parse::<usize>\<close>: an optional plus sign and decimal digits, below \<open>2\<^sup>6\<^sup>4\<close>.\<close>

definition is_digit :: "char \<Rightarrow> bool" where
  "is_digit c \<longleftrightarrow> of_char c \<in> {48..57 :: nat}"

fun parse_digits :: "nat \<Rightarrow> string \<Rightarrow> nat option" where
  "parse_digits acc [] = Some acc"
| "parse_digits acc (c # s) =
     (if is_digit c \<and> acc * 10 + (of_char c - 48) < 2 ^ 64 then parse_digits (acc * 10 + (of_char c - 48)) s
      else None)"

definition parse_usize :: "string \<Rightarrow> nat option" where
  "parse_usize s = (case s of
       [] \<Rightarrow> None
     | c # r \<Rightarrow> if c = CHR ''+'' then (if r = [] then None else parse_digits 0 r) else parse_digits 0 s)"

fun split_on :: "char \<Rightarrow> string \<Rightarrow> string list" where
  "split_on d [] = [[]]"
| "split_on d (c # s) =
     (if c = d then [] # split_on d s else case split_on d s of p # ps \<Rightarrow> (c # p) # ps | [] \<Rightarrow> [[c]])"

definition sweep_vec :: "string \<Rightarrow> nat list" where
  "sweep_vec sweep = List.map_filter (\<lambda>s. parse_usize (trim s)) (split_on CHR '','' sweep)"

section \<open>The \<open>run\<close> command\<close>

record run_args =
  ra_server :: string
  ra_port :: u16
  ra_room :: string
  ra_mode :: string
  ra_bots :: nat
  ra_profile :: "string option"
  ra_hold :: nat
  ra_media :: bool

definition run_profile :: "run_args \<Rightarrow> network_profile" where
  "run_profile a = (case ra_profile a of Some name \<Rightarrow> profile_or_pristine name | None \<Rightarrow> profile_pristine)"

definition run_bot_id :: "nat \<Rightarrow> string" where
  "run_bot_id i = ''bot_'' @ show_nat (i + 1)"

definition run_config :: "run_args \<Rightarrow> nat \<Rightarrow> bot_config" where
  "run_config a i = \<lparr>bc_id = run_bot_id i, bc_server = ra_server a, bc_ws_port = ra_port a,
     bc_room_name = ra_room a, bc_mode = ra_mode a, bc_profile = ra_profile a\<rparr>"

definition run_bot :: "('j, 'g, 'c) engine_env \<Rightarrow> run_args \<Rightarrow> nat \<Rightarrow> ('j, 'g, 'c) engine \<Rightarrow> ('j, 'g, 'c) bot" where
  "run_bot E a i g = bot_new (run_config a i)
     (Some (net_filter_new (eg_clock g) (ee_seed E i) (np_conditions (run_profile a))))"

definition no_scenario :: scenario where
  "no_scenario = \<lparr>sn_meta = \<lparr>sm_name = [], sm_description = [], sm_server = [], sm_ws_port = 0, sm_room = [],
     sm_mode = [], sm_judgement = None, sm_categories = []\<rparr>, sn_participants = [], sn_actions = []\<rparr>"

definition log_error :: "string \<Rightarrow> string \<Rightarrow> string \<Rightarrow> ('j, 'g, 'c) engine \<Rightarrow> ('j, 'g, 'c) engine" where
  "log_error bot_id what e g = push_error (''['' @ bot_id @ ''] '' @ what @ '': '' @ e) g"

text \<open>The call made on a bot that is not in the list yet.\<close>

definition called :: "('j, 'g, 'c) engine_env \<Rightarrow> ('j, 'g, 'c) engine \<Rightarrow> ('j, 'g, 'c) engine" where
  "called E g = g\<lparr>eg_calls := eg_calls g + 1, eg_clock := eg_clock g + ee_busy E (eg_calls g)\<rparr>"

abbreviation push_bot :: "('j, 'g, 'c) bot \<Rightarrow> ('j, 'g, 'c) engine \<Rightarrow> ('j, 'g, 'c) engine" where
  "push_bot b g \<equiv> g\<lparr>eg_bots := eg_bots g @ [b]\<rparr>"

text \<open>Creating and joining: \<open>Inl\<close> is the return of the command when the first bot fails, \<open>None\<close> the panic
  of \<open>expect\<close>.\<close>

fun join_loop ::
    "('j, 'g, 'c) engine_env \<Rightarrow> run_args \<Rightarrow> nat list \<Rightarrow> string option \<Rightarrow> ('j, 'g, 'c) engine
     \<Rightarrow> (string + ('j, 'g, 'c) engine) option" where
  "join_loop E a [] room g = Some (Inr g)"
| "join_loop E a (i # is) room g = (
     let bot = run_bot E a i g
     in if i = 0 then
          (case connect_and_join (ee_bot E (eg_calls g)) bot of
             (Inl e, bot) \<Rightarrow> Some (Inl (''['' @ run_bot_id i @ ''] failed to connect: '' @ e))
           | (Inr _, bot) \<Rightarrow> join_loop E a is (b_room_id bot) (push_bot bot (called E g)))
        else case room of
          None \<Rightarrow> None
        | Some rid \<Rightarrow>
           (case join_existing_room (ee_bot E (eg_calls g)) rid bot of
              (Inl e, bot) \<Rightarrow> join_loop E a is room (log_error (run_bot_id i) ''failed to join'' e (called E g))
            | (Inr _, bot) \<Rightarrow> join_loop E a is room (push_bot bot (called E g))))"

definition media_bot :: "('j, 'g, 'c) engine_env \<Rightarrow> nat \<Rightarrow> ('j, 'g, 'c) engine \<Rightarrow> ('j, 'g, 'c) engine option" where
  "media_bot E i g = (
     let bot_id = id_of i g
     in if status_of i g \<noteq> Joined then Some g else do {
          (r, g) \<leftarrow> on_bot E i setup_media g;
          case r of Inl e \<Rightarrow> Some (log_error bot_id ''media setup failed'' e g) | Inr _ \<Rightarrow> do {
          (r, g) \<leftarrow> on_bot E i (\<lambda>e b. Some (publish_intent e b)) g;
          case r of Inl e \<Rightarrow> Some (log_error bot_id ''publish_intent failed'' e g) | Inr _ \<Rightarrow> do {
          (r, g) \<leftarrow> on_bot E i (\<lambda>e b. Some (start_publishing e b)) g;
          case r of Inl e \<Rightarrow> Some (log_error bot_id ''start_publishing failed'' e g) | Inr _ \<Rightarrow> Some g }}})"

definition events_bot :: "('j, 'g, 'c) engine_env \<Rightarrow> nat \<Rightarrow> ('j, 'g, 'c) engine \<Rightarrow> ('j, 'g, 'c) engine option" where
  "events_bot E i g = (if status_of i g = Publishing then do {
       (r, g) \<leftarrow> on_bot E i process_events g;
       case r of Inl e \<Rightarrow> Some (log_error (id_of i g) ''process_events failed'' e g) | Inr _ \<Rightarrow> Some g }
     else Some g)"


text \<open>One speaker of the round robin: three seconds of talk when the floor is granted, and a pause
  before the next one; a bot that does not publish is skipped without the pause.\<close>

definition ptt_turn :: "('j, 'g, 'c) engine_env \<Rightarrow> nat \<Rightarrow> ('j, 'g, 'c) engine \<Rightarrow> ('j, 'g, 'c) engine option" where
  "ptt_turn E i g = (if status_of i g \<noteq> Publishing then Some g else do {
     let bot_id = id_of i g;
     (r, g) \<leftarrow> on_bot E i (\<lambda>e. floor_request_ws e (ee_unix_ms E (eg_calls g)) 0) g;
     let (granted, g) = (case r of Inr granted \<Rightarrow> (granted, g)
         | Inl e \<Rightarrow> (False, log_error bot_id ''floor_request_ws failed'' e g));
     g \<leftarrow> (if granted then do {
         (r, g) \<leftarrow> on_bot E i floor_release_ws (g\<lparr>eg_clock := eg_clock g + 3000000000\<rparr>);
         case r of Inl e \<Rightarrow> Some (log_error bot_id ''floor_release_ws failed'' e g) | Inr _ \<Rightarrow> Some g }
       else Some g);
     Some (if i + 1 < length (eg_bots g) then g\<lparr>eg_clock := eg_clock g + 1000000000\<rparr> else g)
   })"

definition ptt_phase :: "('j, 'g, 'c) engine_env \<Rightarrow> ('j, 'g, 'c) engine \<Rightarrow> ('j, 'g, 'c) engine option" where
  "ptt_phase E g = each (ptt_turn E) (bot_indices g) g"

definition hold_bot :: "('j, 'g, 'c) engine_env \<Rightarrow> nat \<Rightarrow> ('j, 'g, 'c) engine \<Rightarrow> ('j, 'g, 'c) engine option" where
  "hold_bot E i g = do {
     (r, g) \<leftarrow> (if status_of i g \<in> {Joined, MediaReady, Publishing}
       then on_bot E i (\<lambda>e b. Some (bot_heartbeat e b)) g else Some (Inr (), g));
     let g = (case r of Inl e \<Rightarrow> log_error (id_of i g) ''heartbeat failed'' e g | Inr _ \<Rightarrow> g);
     events_bot E i g
   }"

lemma events_bot_clock: "events_bot E i g = Some g' \<Longrightarrow> eg_clock g \<le> eg_clock g'"
  by (auto simp: events_bot_def log_error_def split: Option.bind_split_asm if_splits sum.splits dest!: on_bot_clock)

lemma hold_bot_clock: "hold_bot E i g = Some g' \<Longrightarrow> eg_clock g \<le> eg_clock g'"
  by (auto simp: hold_bot_def log_error_def Let_def split: Option.bind_split_asm if_splits sum.splits
      dest!: on_bot_clock events_bot_clock)

lemma holds_clock: "each (hold_bot E) xs g = Some g' \<Longrightarrow> eg_clock g \<le> eg_clock g'"
  by (rule each_mono [where m = eg_clock, OF hold_bot_clock])

text \<open>The loop sleeps five seconds before it looks at the deadline.\<close>

function hold_loop :: "('j, 'g, 'c) engine_env \<Rightarrow> nat \<Rightarrow> ('j, 'g, 'c) engine \<Rightarrow> ('j, 'g, 'c) engine option" where
  "hold_loop E deadline g = (
     let g = g\<lparr>eg_clock := eg_clock g + 5000000000\<rparr>
     in if deadline \<le> eg_clock g then Some g
        else case each (hold_bot E) (bot_indices g) g of
          None \<Rightarrow> None
        | Some g' \<Rightarrow> hold_loop E deadline g')"
  by pat_completeness auto
termination
  by (relation "measure (\<lambda>(E, deadline, g). deadline - eg_clock g)") (auto dest!: holds_clock)

declare hold_loop.simps [simp del]

definition hold_phase :: "('j, 'g, 'c) engine_env \<Rightarrow> nat \<Rightarrow> ('j, 'g, 'c) engine \<Rightarrow> ('j, 'g, 'c) engine option" where
  "hold_phase E hold_secs g = (if 0 < hold_secs then do {
       deadline \<leftarrow> instant_add (eg_clock g) (hold_secs * 1000000000);
       hold_loop E deadline g }
     else Some g)"

text \<open>What a completed run prints and leaves.\<close>

record ('j, 'g, 'c) run_report =
  rr_joined :: nat
  rr_publishing :: "nat option"
  rr_metrics :: "string list"
  rr_errors :: "string list"
  rr_bots :: "('j, 'g, 'c) bot list"
  rr_clock :: nat

definition count_status :: "bot_status \<Rightarrow> ('j, 'g, 'c) engine \<Rightarrow> nat" where
  "count_status st g = length (filter (\<lambda>b. b_status b = st) (eg_bots g))"

definition final_metrics :: "(u32 set \<Rightarrow> u32 list) \<Rightarrow> ('j, 'g, 'c) engine \<Rightarrow> string list" where
  "final_metrics order g = map (\<lambda>b. log_recv_metrics (order (dom (sh_metrics (b_shared b)))) b) (eg_bots g)"

text \<open>Everything before the hold: the bots joined, those publishing when media is on, and the state.\<close>

definition run_started ::
    "('j, 'g, 'c) engine_env \<Rightarrow> run_args \<Rightarrow> (string + nat \<times> nat option \<times> ('j, 'g, 'c) engine) option" where
  "run_started E a = do {
     r \<leftarrow> join_loop E a [0..<ra_bots a] None (engine_new no_scenario);
     case r of
       Inl e \<Rightarrow> Some (Inl e)
     | Inr g \<Rightarrow>
        let n_joined = count_status Joined g
        in if ra_media a then do {
             g \<leftarrow> each (media_bot E) (bot_indices g) g;
             let publishing = count_status Publishing g;
             g \<leftarrow> each (events_bot E) (bot_indices g) (g\<lparr>eg_clock := eg_clock g + 2000000000\<rparr>);
             g \<leftarrow> (if ra_mode a = ''ptt'' then each (ptt_turn E) (bot_indices g) g else Some g);
             Some (Inr (n_joined, Some publishing, g)) }
           else Some (Inr (n_joined, None, g))
   }"

definition cmd_run ::
    "('j, 'g, 'c) engine_env \<Rightarrow> (u32 set \<Rightarrow> u32 list) \<Rightarrow> run_args \<Rightarrow> (string + ('j, 'g, 'c) run_report) option" where
  "cmd_run E order a = do {
     r \<leftarrow> run_started E a;
     case r of
       Inl e \<Rightarrow> Some (Inl e)
     | Inr (n_joined, publishing, g) \<Rightarrow> do {
         g \<leftarrow> hold_phase E (ra_hold a) g;
         let g = settle E g;
         Some (Inr \<lparr>rr_joined = n_joined, rr_publishing = publishing,
           rr_metrics = (if ra_media a then final_metrics order g else []),
           rr_errors = eg_errors g, rr_bots = map disconnect (eg_bots g), rr_clock = eg_clock g\<rparr>) }
   }"

section \<open>The commands\<close>

text \<open>\<open>oxlab_scenario::run\<close>: an error of loading, or the engine's result; \<open>None\<close> is a panic.\<close>

definition scenario_run ::
    "(string \<Rightarrow> string + scenario) \<Rightarrow> ('j, 'g, 'c) engine_env \<Rightarrow> 'p judge_env \<Rightarrow> string
     \<Rightarrow> (string + ('j, 'g, 'c, 'p) scenario_result) option" where
  "scenario_run load E J path = (case load path of
       Inl e \<Rightarrow> Some (Inl e)
     | Inr sn \<Rightarrow> map_option Inr (engine_run E J sn))"

record cap_args =
  ca_server :: string
  ca_port :: u16
  ca_mode :: string
  ca_sweep :: string
  ca_duration :: nat
  ca_full :: nat

record dist_args =
  da_server :: string
  da_port :: u16
  da_total :: u64
  da_workers :: u64
  da_duration :: u64
  da_full :: u64

record worker_cmd_args =
  wa_server :: string
  wa_port :: u16
  wa_room :: string
  wa_count :: nat
  wa_full :: nat
  wa_duration :: u64
  wa_start_at_ms :: u64
  wa_wid :: nat

text \<open>What the arguments are when neither the command line nor the environment gives them.\<close>

definition run_defaults :: run_args where
  "run_defaults = \<lparr>ra_server = ''127.0.0.1'', ra_port = 1974, ra_room = ''oxlab-test'', ra_mode = ''conference'',
     ra_bots = 3, ra_profile = None, ra_hold = 10, ra_media = False\<rparr>"

definition cap_defaults :: cap_args where
  "cap_defaults = \<lparr>ca_server = ''127.0.0.1'', ca_port = 1974, ca_mode = ''broadcast'',
     ca_sweep = ''50,100,200,500,1000'', ca_duration = 30, ca_full = 3\<rparr>"

definition dist_defaults :: dist_args where
  "dist_defaults = \<lparr>da_server = ''127.0.0.1'', da_port = 1974, da_total = 500, da_workers = 4, da_duration = 30,
     da_full = 3\<rparr>"

datatype command =
    Scenario string
  | Run run_args
  | Cap cap_args
  | CapDist dist_args
  | CapWorker worker_cmd_args

text \<open>How a process ends: what the command leaves, or a panic.\<close>

datatype ('j, 'g, 'c, 'p) outcome =
    ScenarioRan "('j, 'g, 'c, 'p) scenario_result"
  | ScenarioFailed string
  | RunEnded "string + ('j, 'g, 'c) run_report"
  | SweepInvalid string
  | CapEnded "row list \<times> (string + string \<times> string)"
  | DistEnded "dist_result option"
  | WorkerEnded worker_report
  | Panicked

fun exit_code :: "('j, 'g, 'c, 'p) outcome \<Rightarrow> nat" where
  "exit_code (ScenarioRan r) = (if jr_overall (sr_report r) = VPass then 0 else 1)"
| "exit_code (ScenarioFailed e) = 2"
| "exit_code (SweepInvalid s) = 2"
| "exit_code Panicked = 101"
| "exit_code (RunEnded r) = 0"
| "exit_code (CapEnded r) = 0"
| "exit_code (DistEnded r) = 0"
| "exit_code (WorkerEnded r) = 0"

text \<open>What the commands run on: the measurements of a duration, the children of a coordinator and the
  bots of a worker, started at a time, beside the environments of the engine.\<close>

record ('j, 'g, 'c, 'p) cli_env =
  ce_load :: "string \<Rightarrow> string + scenario"
  ce_engine :: "('j, 'g, 'c) engine_env"
  ce_judge :: "'p judge_env"
  ce_since_epoch :: "nat \<Rightarrow> nat option"
  ce_measure :: "nat \<Rightarrow> nat \<Rightarrow> ('j, 'c) measurement"
  ce_dir_error :: "string option"
  ce_write_error :: "string option"
  ce_exe_error :: "string option"
  ce_spawn_error :: "string list \<Rightarrow> string option"
  ce_output :: "string list \<Rightarrow> string + string"
  ce_parse :: "string \<Rightarrow> worker_report option"
  ce_worker :: "u64 \<Rightarrow> u64 \<Rightarrow> nat \<Rightarrow> ('j, 'c) cap_env \<times> cap_event list \<times> cap_event list"

text \<open>The reading \<open>k\<close> of the system clock, in milliseconds; one before the epoch counts as zero.\<close>

definition unix_ms :: "('j, 'g, 'c, 'p) cli_env \<Rightarrow> nat \<Rightarrow> u64" where
  "unix_ms C k = (case ce_since_epoch C k of Some ms \<Rightarrow> of_nat ms | None \<Rightarrow> 0)"

definition main_command :: "('j, 'g, 'c, 'p) cli_env \<Rightarrow> command \<Rightarrow> ('j, 'g, 'c, 'p) outcome" where
  "main_command C cmd = (case cmd of
       Scenario path \<Rightarrow> (case scenario_run (ce_load C) (ce_engine C) (ce_judge C) path of
           None \<Rightarrow> Panicked | Some (Inl e) \<Rightarrow> ScenarioFailed e | Some (Inr r) \<Rightarrow> ScenarioRan r)
     | Run a \<Rightarrow> (case cmd_run (ce_engine C) (jd_ssrcs (ce_judge C)) a of
           None \<Rightarrow> Panicked | Some r \<Rightarrow> RunEnded r)
     | Cap a \<Rightarrow>
        let sweep = sweep_vec (ca_sweep a)
        in if sweep = [] then SweepInvalid (ca_sweep a)
           else CapEnded (run_capacity (ca_server a) (ca_port a) (ca_mode a) sweep (ca_full a) (unix_ms C 0)
             (ce_measure C (ca_duration a)) (ce_dir_error C) (ce_write_error C))
     | CapDist a \<Rightarrow> DistEnded (run_distributed (da_server a) (da_port a) (da_total a) (da_workers a) (da_duration a)
           (da_full a) (unix_ms C 0) (unix_ms C 1) (ce_measure C (unat (da_duration a)) 0) (ce_exe_error C)
           (ce_spawn_error C) (ce_output C) (ce_parse C))
     | CapWorker a \<Rightarrow> WorkerEnded (run_cap_worker (wa_server a) (wa_port a) (wa_room a) (wa_count a) (wa_full a)
           (wa_wid a) (ce_worker C (wa_duration a) (wa_start_at_ms a))))"

end
