(* ===== verification/CliLaws.thy ===== *)
theory CliLaws
  imports Cli
begin

text \<open>
  What the command line promises: how a sweep is read, how a run ends and in which state it leaves
  its bots, how long it holds them, and the exit codes.
\<close>

section \<open>Reading the sweep\<close>

text \<open>No white space character is the beginning or the end of another.\<close>

lemma white_space_codes:
  "map (map of_char) white_space = [[9], [10], [11], [12], [13], [32], [194, 133], [194, 160], [225, 154, 128],
    [226, 128, 128], [226, 128, 129], [226, 128, 130], [226, 128, 131], [226, 128, 132], [226, 128, 133], [226, 128, 134],
    [226, 128, 135], [226, 128, 136], [226, 128, 137], [226, 128, 138], [226, 128, 168], [226, 128, 169], [226, 128, 175],
    [226, 129, 159], [227, 128, 128 :: nat]]"
  unfolding white_space_def by (simp add: upt_conv_Cons utf8_def)

lemma list_all_codes: "list_all P (map (map of_char) white_space :: nat list list) \<longleftrightarrow> (\<forall>w \<in> set white_space. P (map of_char w))"
  by (simp add: list_all_iff)

lemma map_of_char_eq [simp]: "map (of_char :: char \<Rightarrow> nat) v = map of_char w \<longleftrightarrow> v = w"
  by (simp add: inj_map_eq_map inj_of_char)

lemma white_space_prefix:
  "v \<in> set white_space \<Longrightarrow> w \<in> set white_space \<Longrightarrow> take (length v) w = v \<Longrightarrow> v = w"
proof -
  have "list_all (\<lambda>v. list_all (\<lambda>w. take (length v) w = v \<longrightarrow> v = w) (map (map of_char) white_space))
      (map (map of_char) white_space :: nat list list)"
    unfolding white_space_codes by simp
  then show "v \<in> set white_space \<Longrightarrow> w \<in> set white_space \<Longrightarrow> take (length v) w = v \<Longrightarrow> v = w"
    by (auto simp: list_all_codes take_map)
qed

lemma white_space_suffix:
  "v \<in> set white_space \<Longrightarrow> w \<in> set white_space \<Longrightarrow> take (length v) (rev w) = rev v \<Longrightarrow> v = w"
proof -
  have "list_all (\<lambda>v. list_all (\<lambda>w. take (length v) (rev w) = rev v \<longrightarrow> v = w) (map (map of_char) white_space))
      (map (map of_char) white_space :: nat list list)"
    unfolding white_space_codes by simp
  then show "v \<in> set white_space \<Longrightarrow> w \<in> set white_space \<Longrightarrow> take (length v) (rev w) = rev v \<Longrightarrow> v = w"
    by (auto simp: list_all_codes take_map) (metis map_of_char_eq rev_map take_map)
qed

lemma white_space_chars:
  assumes "w \<in> set white_space"
  shows "w \<noteq> []" and "c \<in> set w \<Longrightarrow> \<not> is_digit c" and "c \<in> set w \<Longrightarrow> c \<noteq> CHR '',''"
proof -
  have "list_all (\<lambda>w. w \<noteq> [] \<and> list_all (\<lambda>c. (c < 48 \<or> 57 < c) \<and> c \<noteq> 44) w) (map (map of_char) white_space :: nat list list)"
    unfolding white_space_codes by simp
  from list_all_codes [THEN iffD1, OF this] assms have w: "map (of_char :: char \<Rightarrow> nat) w \<noteq> [] \<and> list_all (\<lambda>c. (c < 48 \<or> 57 < c) \<and> c \<noteq> 44) (map of_char w :: nat list)"
    by (rule bspec)
  then show "w \<noteq> []" by blast
  assume "c \<in> set w"
  with w have c: "((of_char c :: nat) < 48 \<or> 57 < (of_char c :: nat)) \<and> (of_char c :: nat) \<noteq> 44"
    by (simp add: list_all_iff)
  then show "\<not> is_digit c" unfolding is_digit_def atLeastAtMost_iff by linarith
  have "of_char (CHR '','') = (44 :: nat)" by simp
  then show "c \<noteq> CHR '',''" using conjunct2 [OF c] by metis
qed

lemma find_unique: "x \<in> set xs \<Longrightarrow> P x \<Longrightarrow> (\<And>y. y \<in> set xs \<Longrightarrow> P y \<Longrightarrow> y = x) \<Longrightarrow> find P xs = Some x"
proof (induction xs)
  case (Cons z xs)
  show ?case
  proof (cases "P z")
    case True
    with Cons.prems(3) [of z] show ?thesis by simp
  next
    case False
    with Cons.prems(1,2) have "x \<in> set xs" by auto
    with Cons False show ?thesis by (metis find.simps(2) list.set_intros(2))
  qed
qed simp

lemma trim_by_concat:
  assumes "\<And>v w. v \<in> set ws \<Longrightarrow> w \<in> set ws \<Longrightarrow> take (length v) w = v \<Longrightarrow> v = w" "[] \<notin> set ws"
    and "\<forall>w \<in> set ws. take (length w) s \<noteq> w"
  shows "set ls \<subseteq> set ws \<Longrightarrow> trim_by ws (concat ls @ s) = s"
proof (induction ls)
  case Nil
  have "find (\<lambda>w. w \<noteq> [] \<and> take (length w) s = w) ws = None" using assms(3) by (auto simp: find_None_iff)
  then show ?case by (simp add: trim_by.simps)
next
  case (Cons l ls)
  let ?s = "l @ concat ls @ s"
  let ?P = "\<lambda>w. w \<noteq> [] \<and> take (length w) ?s = w"
  have "l \<in> set ws" using Cons.prems by simp
  have "w = l" if "w \<in> set ws" "?P w" for w
  proof (cases "length w \<le> length l")
    case True
    then have "take (length w) l = w" using that by simp
    then show ?thesis using assms(1) that \<open>l \<in> set ws\<close> by blast
  next
    case False
    then have "take (length l) w = l" using that
      by (metis append_eq_conv_conj append_take_drop_id nat_le_linear take_all_iff take_append take_take min.absorb1)
    then show ?thesis using assms(1) that \<open>l \<in> set ws\<close> by metis
  qed
  moreover have "?P l" using assms(2) \<open>l \<in> set ws\<close> by auto
  ultimately have "find ?P ws = Some l" using \<open>l \<in> set ws\<close> by (intro find_unique) auto
  then show ?case using Cons by (subst trim_by.simps) simp
qed

lemma trim_spaces:
  assumes "set ls \<subseteq> set white_space" "set rs \<subseteq> set white_space" "s \<noteq> []" "\<forall>c \<in> set s. is_digit c"
  shows "trim (concat ls @ s @ concat rs) = s"
proof -
  have head: "take (length w) (s @ x) \<noteq> w" and last: "take (length w) (rev s) \<noteq> rev w" if w: "w \<in> set white_space" for w x
  proof -
    obtain a t where t: "s = a # t" using assms(3) by (cases s) auto
    obtain b u where u: "w = b # u" using white_space_chars(1) [OF w] by (cases w) auto
    show "take (length w) (s @ x) \<noteq> w" using white_space_chars(2) [OF w, of b] assms(4) by (auto simp: t u)
    have "hd (rev s) \<in> set s" "hd (rev w) \<in> set w" 
      using hd_in_set [of "rev s"] hd_in_set [of "rev w"] t u by simp_all
    then have "hd (rev s) \<noteq> hd (rev w)" using white_space_chars(2) [OF w] assms(4) by metis
    moreover have "hd (take (length w) (rev s)) = hd (rev s)" using t u by (cases "rev s") auto
    ultimately show "take (length w) (rev s) \<noteq> rev w" by metis
  qed
  have 1: "trim_by white_space (concat ls @ s @ concat rs) = s @ concat rs"
    by (rule trim_by_concat) (use white_space_prefix white_space_chars(1) head assms(1) in auto)
  have "rev (s @ concat rs) = concat (map rev (rev rs)) @ rev s" by (simp add: rev_concat rev_map)
  also have "trim_by (map rev white_space) \<dots> = rev s"
  proof (rule trim_by_concat)
    show "v = w" if "v \<in> set (map rev white_space)" "w \<in> set (map rev white_space)" "take (length v) w = v" for v w
      using that white_space_suffix by auto
  qed (use white_space_chars(1) last assms(2) in auto)
  finally show ?thesis by (simp add: trim_def 1)
qed

lemma digit_char_of: "d < 10 \<Longrightarrow> of_char (digit_char d) = (48 + d :: nat)"
  by (simp add: digit_char_def)

lemma show_nat_digits: "show_nat n \<noteq> [] \<and> (\<forall>c \<in> set (show_nat n). is_digit c)"
proof (induction n rule: show_nat.induct)
  case (1 n)
  have d: "is_digit (digit_char d)" if "d < 10" for d
    using digit_char_of [OF that] that by (simp add: is_digit_def)
  show ?case using 1 d by (subst (1 2) show_nat.simps) auto
qed

lemma parse_digits_append: "parse_digits a (s @ t) = Option.bind (parse_digits a s) (\<lambda>b. parse_digits b t)"
  by (induction s arbitrary: a) auto

lemma parse_digits_show: "n < 2 ^ 64 \<Longrightarrow> parse_digits 0 (show_nat n) = Some n"
proof (induction n rule: show_nat.induct)
  case (1 n)
  have d: "is_digit (digit_char d)" if "d < 10" for d
    using digit_char_of [OF that] that by (simp add: is_digit_def)
  show ?case
  proof (cases "n < 10")
    case True
    then show ?thesis by (subst show_nat.simps) (simp add: d digit_char_of)
  next
    case False
    have "n div 10 < 2 ^ 64" using 1(2) by linarith
    with 1 False have "parse_digits 0 (show_nat (n div 10)) = Some (n div 10)" by simp
    moreover have "n div 10 * 10 + n mod 10 = n" by simp
    ultimately show ?thesis using False 1(2) d [of "n mod 10"] digit_char_of [of "n mod 10"]
      by (subst show_nat.simps) (simp add: parse_digits_append)
  qed
qed

lemma parse_show: "n < 2 ^ 64 \<Longrightarrow> parse_usize (show_nat n) = Some n"
  using show_nat_digits [of n] parse_digits_show [of n]
  by (cases "show_nat n") (auto simp: parse_usize_def is_digit_def)

lemma split_on_free: "d \<notin> set s \<Longrightarrow> split_on d s = [s]"
  by (induction s) auto

lemma split_on_append: "d \<notin> set s \<Longrightarrow> split_on d (s @ d # t) = s # split_on d t"
  by (induction s) auto

lemma split_on_join: "xs \<noteq> [] \<Longrightarrow> \<forall>x \<in> set xs. CHR '','' \<notin> set x \<Longrightarrow> split_on CHR '','' (join '','' xs) = xs"
  by (induction "'',''" xs rule: join.induct) (auto simp: split_on_free split_on_append)

lemma map_filter_map: "(\<And>x. x \<in> set xs \<Longrightarrow> f (g x) = h x) \<Longrightarrow> List.map_filter f (map g xs) = List.map_filter h xs"
  by (induction xs) (auto simp: map_filter_simps split: option.split)

text \<open>C25: A list of numbers separated by commas, each with any white space around it, is read as these
  numbers, in order; an entry that is no number is left out and does not stop the others.\<close>

theorem sweep_numbers:
  assumes "\<forall>x \<in> set xs. case x of
      Inr (ls, n, rs) \<Rightarrow> set ls \<subseteq> set white_space \<and> set rs \<subseteq> set white_space \<and> n < 2 ^ 64
    | Inl e \<Rightarrow> CHR '','' \<notin> set e \<and> parse_usize (trim e) = None"
  shows "sweep_vec (join '','' (map (\<lambda>x. case x of Inr (ls, n, rs) \<Rightarrow> concat ls @ show_nat n @ concat rs | Inl e \<Rightarrow> e) xs))
    = List.map_filter (\<lambda>x. case x of Inr (ls, n, rs) \<Rightarrow> Some n | Inl e \<Rightarrow> None) xs"
proof -
  let ?show = "\<lambda>x. case x of Inr (ls, n, rs) \<Rightarrow> concat ls @ show_nat n @ concat rs | Inl e \<Rightarrow> e"
  let ?n = "\<lambda>x. case x of Inr (ls, n, rs) \<Rightarrow> Some n | Inl e \<Rightarrow> None"
  have entry: "parse_usize (trim (?show x)) = ?n x \<and> CHR '','' \<notin> set (?show x)" if "x \<in> set xs" for x
  proof (cases x)
    case (Inr y)
    obtain ls n rs where y: "y = (ls, n, rs)" by (cases y)
    with bspec [OF assms that] Inr have ok: "set ls \<subseteq> set white_space" "set rs \<subseteq> set white_space" "n < 2 ^ 64" by simp_all
    have "\<not> is_digit CHR '',''" by (simp add: is_digit_def)
    then show ?thesis
      using ok show_nat_digits [of n] white_space_chars(3) by (auto simp: Inr y trim_spaces parse_show)
  qed (use assms that in auto)
  have empty: "sweep_vec [] = []" by code_simp
  have "sweep_vec (join '','' ys) = List.map_filter (\<lambda>s. parse_usize (trim s)) ys"
    if "\<forall>y \<in> set ys. CHR '','' \<notin> set y" for ys
    using that split_on_join [of ys] empty by (cases "ys = []") (simp_all add: sweep_vec_def map_filter_simps)
  from this [of "map ?show xs"] show ?thesis using entry by (simp add: map_filter_map)
qed

theorem sweep_numbers_witness: "sweep_vec '' 50,,100 '' = [50, 100]"
proof -
  have "find (\<lambda>w. w \<noteq> [] \<and> take (length w) [] = w) ws = None" for ws :: "string list"
    by (auto simp: find_None_iff)
  then have x: "parse_usize (trim []) = None" by (simp add: trim_def trim_by.simps parse_usize_def)
  have w: "'' '' \<in> set white_space" by (simp add: white_space_def utf8_def) code_simp
  have "sweep_vec (join '','' ['' '' @ show_nat 50, [], show_nat 100 @ '' '']) = [50, 100]"
    using sweep_numbers [of "[Inr (['' ''], 50, []), Inl [], Inr ([], 100, ['' ''])]"] x w
    by (simp add: map_filter_simps)
  moreover have "show_nat 50 = ''50''" "show_nat 100 = ''100''" by code_simp+
  ultimately show ?thesis by simp
qed

section \<open>The run\<close>

text \<open>The state of a run: the bots of the indices \<open>is\<close>, each in a reachable state of its configuration.\<close>

abbreviation run_ok :: "run_args \<Rightarrow> nat list \<Rightarrow> ('j, 'g, 'c) engine \<Rightarrow> bool" where
  "run_ok a is g \<equiv> engine_ok (map (run_config a) is) (\<lambda>_. None) g"

lemma run_ok_push:
  assumes "run_ok a is g" "bot_reachable (run_config a i) b"
  shows "run_ok a (is @ [i]) (push_bot b (called E g))"
  using assms by (auto simp: engine_ok_def called_def nth_append less_Suc_eq)

lemma joined_bot:
  "connect_and_join E b = (Inr u, b') \<Longrightarrow> b_status b' = Joined \<and> b_room_id b' \<noteq> None"
  "join_existing_room E rid b = (Inr u, b') \<Longrightarrow> b_status b' = Joined \<and> b_room_id b' \<noteq> None"
  by (auto simp: connect_and_join_def join_existing_room_def joined_def split: sum.splits)

text \<open>The bots left out are those with an error.\<close>

lemma join_loop_ok:
  assumes "run_ok a ds g" "\<forall>b \<in> set (eg_bots g). b_status b = Joined" "0 \<notin> set is" "room \<noteq> None"
  shows "\<exists>ks g'. join_loop E a is room g = Some (Inr g') \<and> subseq ks is \<and> run_ok a (ds @ ks) g'
    \<and> (\<forall>b \<in> set (eg_bots g'). b_status b = Joined)
    \<and> length (eg_errors g') + length ks = length (eg_errors g) + length is"
  using assms
proof (induction "is" arbitrary: ds g)
  case (Cons i "is")
  obtain rid where rid: "room = Some rid" using Cons.prems(4) by auto
  let ?b = "run_bot E a i g"
  obtain r b' where b': "join_existing_room (ee_bot E (eg_calls g)) rid ?b = (r, b')" by (cases "join_existing_room (ee_bot E (eg_calls g)) rid ?b")
  have reach: "bot_reachable (run_config a i) b'"
    by (rule bot_reachable.step [OF _ bot_step.JoinExisting [OF b']]) (simp add: run_bot_def bot_reachable.start)
  show ?case
  proof (cases r)
    case (Inl e)
    let ?g = "log_error (run_bot_id i) ''failed to join'' e (called E g)"
    have "run_ok a ds ?g" using Cons.prems(1) by (simp add: log_error_def called_def engine_ok_def)
    from Cons.IH [OF this] Cons.prems obtain ks g' where "join_loop E a is room ?g = Some (Inr g')" "subseq ks is"
        "run_ok a (ds @ ks) g'" "\<forall>b \<in> set (eg_bots g'). b_status b = Joined"
        "length (eg_errors g') + length ks = length (eg_errors g) + 1 + length is"
      by (auto simp: log_error_def called_def)
    then show ?thesis using Cons.prems(3) b' by (intro exI [where x = ks] exI [where x = g']) (simp add: Inl rid list_emb_Cons)
  next
    case (Inr u)
    let ?g = "push_bot b' (called E g)"
    have "run_ok a (ds @ [i]) ?g" using Cons.prems(1) reach by (rule run_ok_push)
    moreover have "\<forall>b \<in> set (eg_bots ?g). b_status b = Joined"
      using Cons.prems(2) joined_bot(2) [OF b' [unfolded Inr]] by (auto simp: called_def)
    ultimately obtain ks g' where "join_loop E a is room ?g = Some (Inr g')" "subseq ks is"
        "run_ok a ((ds @ [i]) @ ks) g'" "\<forall>b \<in> set (eg_bots g'). b_status b = Joined"
        "length (eg_errors g') + length ks = length (eg_errors g) + length is"
      using Cons.IH [of "ds @ [i]" ?g] Cons.prems(3,4) by (auto simp: called_def)
    then show ?thesis using Cons.prems(3) b'
      by (intro exI [where x = "i # ks"] exI [where x = g']) (simp add: Inr rid)
  qed
qed (auto intro: exI [where x = "[]"])

lemma log_error_ok [simp]:
  "engine_ok C X (log_error i w e g) = engine_ok C X g" "length (eg_errors (log_error i w e g)) = length (eg_errors g) + 1"
  "eg_clock (log_error i w e g) = eg_clock g"
  by (simp_all add: log_error_def)

lemma events_bot_fine:
  assumes "engine_env_ok E" "i < length C" "engine_ok C X g"
  shows "fine C X (events_bot E i g)"
proof -
  obtain r g' where "on_bot E i process_events g = Some (r, g')" "engine_ok C X g'"
    using on_bot_ok [OF assms(1) safe_calls(6) assms(3,2)] by blast
  then show ?thesis using assms(3) by (auto simp: events_bot_def split: sum.split)
qed

lemma media_bot_fine:
  assumes "engine_env_ok E" "i < length C" "engine_ok C X g"
  shows "fine C X (media_bot E i g)"
proof -
  obtain r1 g1 where 1: "on_bot E i setup_media g = Some (r1, g1)" "engine_ok C X g1"
    using on_bot_ok [OF assms(1) safe_setup_media [OF assms(1)] assms(3,2)] by blast
  obtain r2 g2 where 2: "on_bot E i (\<lambda>e b. Some (publish_intent e b)) g1 = Some (r2, g2)" "engine_ok C X g2"
    using on_bot_ok [OF assms(1) safe_calls(3) 1(2) assms(2)] by blast
  obtain r3 g3 where 3: "on_bot E i (\<lambda>e b. Some (start_publishing e b)) g2 = Some (r3, g3)" "engine_ok C X g3"
    using on_bot_ok [OF assms(1) safe_calls(4) 2(2) assms(2)] by blast
  show ?thesis
    using assms(3) 1(2) 2(2) 3(2) by (simp add: media_bot_def Let_def 1(1) 2(1) 3(1) split: sum.split)
qed

lemma ptt_turn_fine:
  assumes "engine_env_ok E" "i < length C" "engine_ok C X g"
  shows "fine C X (ptt_turn E i g)"
proof -
  obtain r g1 where 1: "on_bot E i (\<lambda>e. floor_request_ws e (ee_unix_ms E (eg_calls g)) 0) g = Some (r, g1)" "engine_ok C X g1"
    using on_bot_ok [OF assms(1) safe_calls(8) assms(3,2)] by blast
  have "engine_ok C X (g1\<lparr>eg_clock := eg_clock g1 + 3000000000\<rparr>)" using 1(2) by simp
  then obtain r2 g2 where 2: "on_bot E i floor_release_ws (g1\<lparr>eg_clock := eg_clock g1 + 3000000000\<rparr>) = Some (r2, g2)"
      "engine_ok C X g2"
    using on_bot_ok [OF assms(1) safe_calls(7) _ assms(2)] by blast
  show ?thesis using 1 2 assms(3)
    by (cases r; cases r2) (auto simp: ptt_turn_def Let_def)
qed

lemma hold_bot_fine:
  assumes "engine_env_ok E" "i < length C" "engine_ok C X g"
  shows "fine C X (hold_bot E i g)"
proof -
  obtain r g1 where 1: "on_bot E i (\<lambda>e b. Some (bot_heartbeat e b)) g = Some (r, g1)" "engine_ok C X g1"
    using on_bot_ok [OF assms(1) safe_calls(5) assms(3,2)] by blast
  show ?thesis
    using 1 assms(3) events_bot_fine [OF assms(1,2), of X]
    by (cases r) (simp_all add: hold_bot_def Let_def)
qed

lemma hold_loop_fine:
  "engine_env_ok E \<Longrightarrow> engine_ok C X g \<Longrightarrow> fine C X (hold_loop E deadline g)"
proof (induction E deadline g rule: hold_loop.induct)
  case (1 E deadline g)
  let ?g = "g\<lparr>eg_clock := eg_clock g + 5000000000\<rparr>"
  have ok: "engine_ok C X ?g" using 1(3) by simp
  have "fine C X (each (hold_bot E) [0..<length C] ?g)"
    by (rule each_fine [OF _ ok]) (use 1(2) in \<open>auto intro: hold_bot_fine\<close>)
  then obtain g1 where g1: "each (hold_bot E) (bot_indices ?g) ?g = Some g1" "engine_ok C X g1"
    using bot_indices_ok [OF ok] by (auto simp: fine_def)
  show ?case
    by (subst hold_loop.simps) (use 1 g1 ok in \<open>auto simp: Let_def\<close>)
qed

text \<open>No phase takes a logged error back.\<close>

lemma on_bot_errors: "on_bot E i f g = Some (r, g') \<Longrightarrow> eg_errors g' = eg_errors g"
  by (auto simp: on_bot_def Let_def split: Option.bind_split_asm)

lemma errors_kept:
  "events_bot E i g = Some g' \<Longrightarrow> length (eg_errors g) \<le> length (eg_errors g')"
  "media_bot E i g = Some g' \<Longrightarrow> length (eg_errors g) \<le> length (eg_errors g')"
  "ptt_turn E i g = Some g' \<Longrightarrow> length (eg_errors g) \<le> length (eg_errors g')"
  by (auto simp: events_bot_def media_bot_def ptt_turn_def Let_def
      split: Option.bind_split_asm sum.splits if_splits prod.splits dest!: on_bot_errors)

lemma hold_bot_errors: "hold_bot E i g = Some g' \<Longrightarrow> length (eg_errors g) \<le> length (eg_errors g')"
  by (auto simp: hold_bot_def Let_def
      split: Option.bind_split_asm sum.splits if_splits prod.splits dest!: on_bot_errors errors_kept(1))

lemma hold_loop_errors: "hold_loop E deadline g = Some g' \<Longrightarrow> length (eg_errors g) \<le> length (eg_errors g')"
proof (induction E deadline g rule: hold_loop.induct)
  case (1 E deadline g)
  show ?case
    using 1(2) 1(1) [OF refl] each_mono [where m = "\<lambda>g. length (eg_errors g)", OF hold_bot_errors]
    by (subst (asm) hold_loop.simps) (force simp: Let_def split: if_splits option.splits)
qed

lemmas phase_errors = each_mono [where m = "\<lambda>g. length (eg_errors g)"]

lemma phase_keeps:
  assumes "\<And>i g. i < length C \<Longrightarrow> engine_ok C X g \<Longrightarrow> fine C X (f i g)"
    and "\<And>i g g'. f i g = Some g' \<Longrightarrow> length (eg_errors g) \<le> length (eg_errors g')" "engine_ok C X g"
  shows "\<exists>g'. each f (bot_indices g) g = Some g' \<and> engine_ok C X g' \<and> length (eg_errors g) \<le> length (eg_errors g')"
proof -
  have "fine C X (each f [0..<length C] g)" by (rule each_fine) (use assms in auto)
  then obtain g' where g': "each f (bot_indices g) g = Some g'" "engine_ok C X g'"
    using bot_indices_ok [OF assms(3)] by (auto simp: fine_def)
  moreover have "length (eg_errors g) \<le> length (eg_errors g')"
    by (rule phase_errors [OF _ g'(1)]) (rule assms(2))
  ultimately show ?thesis by blast
qed

lemma phases_keep:
  assumes "engine_env_ok E" "engine_ok C X g"
  shows "\<exists>g'. each (media_bot E) (bot_indices g) g = Some g' \<and> engine_ok C X g' \<and> length (eg_errors g) \<le> length (eg_errors g')"
    and "\<exists>g'. each (events_bot E) (bot_indices g) g = Some g' \<and> engine_ok C X g' \<and> length (eg_errors g) \<le> length (eg_errors g')"
    and "\<exists>g'. each (ptt_turn E) (bot_indices g) g = Some g' \<and> engine_ok C X g' \<and> length (eg_errors g) \<le> length (eg_errors g')"
  by (rule phase_keeps [OF _ _ assms(2)];
      (rule media_bot_fine [OF assms(1)] events_bot_fine [OF assms(1)] ptt_turn_fine [OF assms(1)] | erule errors_kept); assumption)+

text \<open>The state before the hold: the first bot has joined, every bot left out has logged an error.\<close>

definition run_state :: "run_args \<Rightarrow> nat list \<Rightarrow> ('j, 'g, 'c) engine \<Rightarrow> bool" where
  "run_state a is g \<longleftrightarrow> run_ok a is g \<and> subseq is [0..<ra_bots a] \<and> (0 < ra_bots a \<longrightarrow> is \<noteq> [] \<and> hd is = 0)
     \<and> ra_bots a \<le> length is + length (eg_errors g)"

lemma run_state_mono:
  "run_state a is g \<Longrightarrow> run_ok a is g' \<Longrightarrow> length (eg_errors g) \<le> length (eg_errors g') \<Longrightarrow> run_state a is g'"
  by (auto simp: run_state_def)

definition first_error :: "('j, 'g, 'c) engine_env \<Rightarrow> run_args \<Rightarrow> string option" where
  "first_error E a = (if ra_bots a = 0 then None else
     case fst (connect_and_join (ee_bot E 0) (run_bot E a 0 (engine_new no_scenario :: ('j, 'g, 'c) engine))) of
       Inl e \<Rightarrow> Some e | Inr _ \<Rightarrow> None)"

lemma join_all:
  fixes E :: "('j, 'g, 'c) engine_env"
  shows "(\<exists>e. first_error E a = Some e \<and>
       join_loop E a [0..<ra_bots a] None (engine_new no_scenario) = Some (Inl (''[bot_1] failed to connect: '' @ e)))
   \<or> (\<exists>is g. first_error E a = None \<and> join_loop E a [0..<ra_bots a] None (engine_new no_scenario) = Some (Inr g)
       \<and> run_state a is g \<and> count_status Joined g = length is)"
proof (cases "ra_bots a")
  case 0
  then show ?thesis by (auto simp: first_error_def run_state_def engine_ok_def engine_new_def count_status_def)
next
  case (Suc m)
  let ?g = "engine_new no_scenario :: ('j, 'g, 'c) engine"
  let ?b = "run_bot E a 0 ?g"
  have ups: "[0..<ra_bots a] = 0 # [1..<ra_bots a]" using Suc by (simp add: upt_conv_Cons)
  obtain r b where b: "connect_and_join (ee_bot E 0) ?b = (r, b)" by (cases "connect_and_join (ee_bot E 0) ?b")
  have calls: "eg_calls ?g = 0" by (simp add: engine_new_def)
  show ?thesis
  proof (cases r)
    case (Inl e)
    have "run_bot_id 0 = ''bot_1''" by code_simp
    then have "join_loop E a [0..<ra_bots a] None ?g = Some (Inl (''[bot_1] failed to connect: '' @ e))"
      unfolding ups using b by (simp add: calls Inl)
    then show ?thesis using b by (simp add: first_error_def Inl Suc del: upt_Suc)
  next
    case (Inr u)
    let ?g1 = "push_bot b (called E ?g)"
    have "bot_reachable (run_config a 0) b"
      by (rule bot_reachable.step [OF _ bot_step.Join [OF b]]) (simp add: run_bot_def bot_reachable.start)
    then have 1: "run_ok a [0] ?g1" using run_ok_push [of a "[]" ?g 0 b E] by (simp add: engine_ok_def engine_new_def)
    have st: "b_status b = Joined" "b_room_id b \<noteq> None" using joined_bot(1) [OF b [unfolded Inr]] by auto
    have "\<forall>b \<in> set (eg_bots ?g1). b_status b = Joined" using st by (simp add: called_def engine_new_def)
    from join_loop_ok [OF 1 this _ st(2), of "[1..<ra_bots a]" E] obtain ks g' where
      g': "join_loop E a [1..<ra_bots a] (b_room_id b) ?g1 = Some (Inr g')" "subseq ks [1..<ra_bots a]"
        "run_ok a (0 # ks) g'" "\<forall>b \<in> set (eg_bots g'). b_status b = Joined"
        "length (eg_errors g') + length ks = ra_bots a - 1"
      by (auto simp: called_def engine_new_def)
    have "0 < ra_bots a" using Suc by simp
    then have "run_state a (0 # ks) g'" unfolding run_state_def ups using g' by simp
    moreover have "count_status Joined g' = length (0 # ks)"
      using g'(3,4) by (auto simp: count_status_def engine_ok_def filter_id_conv)
    moreover have "join_loop E a [0..<ra_bots a] None ?g = Some (Inr g')"
      unfolding ups using g'(1) b by (simp add: calls Inr)
    moreover have "first_error E a = None" using b Inr by (simp add: first_error_def)
    ultimately show ?thesis by blast
  qed
qed

lemma run_started_ok:
  fixes E :: "('j, 'g, 'c) engine_env"
  assumes "engine_env_ok E"
  shows "(\<exists>e. first_error E a = Some e \<and> run_started E a = Some (Inl (''[bot_1] failed to connect: '' @ e)))
   \<or> (\<exists>is p g. first_error E a = None \<and> run_started E a = Some (Inr (length is, p, g)) \<and> run_state a is g)"
  using join_all [of E a]
proof
  assume "\<exists>is g. first_error E a = None \<and> join_loop E a [0..<ra_bots a] None (engine_new no_scenario) = Some (Inr g)
      \<and> run_state a is g \<and> count_status Joined g = length is"
  then obtain "is" g where g: "first_error E a = None"
      "join_loop E a [0..<ra_bots a] None (engine_new no_scenario) = Some (Inr g)"
      "run_state a is g" "count_status Joined g = length is" by blast
  let ?C = "map (run_config a) is" let ?X = "\<lambda>_ :: string. None :: nat option"
  have ok: "engine_ok ?C ?X g" using g(3) by (simp add: run_state_def)
  obtain g1 where g1: "each (media_bot E) (bot_indices g) g = Some g1" "engine_ok ?C ?X g1"
      "length (eg_errors g) \<le> length (eg_errors g1)"
    using phases_keep(1) [OF assms ok] by blast
  let ?g1 = "g1\<lparr>eg_clock := eg_clock g1 + 2000000000\<rparr>"
  have ok1: "engine_ok ?C ?X ?g1" using g1(2) by simp
  obtain g2 where g2: "each (events_bot E) (bot_indices ?g1) ?g1 = Some g2" "engine_ok ?C ?X g2"
      "length (eg_errors ?g1) \<le> length (eg_errors g2)"
    using phases_keep(2) [OF assms ok1] by blast
  obtain g3 where g3: "each (ptt_turn E) (bot_indices g2) g2 = Some g3" "engine_ok ?C ?X g3"
      "length (eg_errors g2) \<le> length (eg_errors g3)"
    using phases_keep(3) [OF assms g2(2)] by blast
  have "run_state a is g2" "run_state a is g3"
    using run_state_mono [OF g(3) g2(2)] run_state_mono [OF g(3) g3(2)] g1(3) g2(3) g3(3) by simp_all
  then show ?thesis using g g1(1) g2(1) g3(1) by (auto simp: run_started_def Let_def)
qed (auto simp: run_started_def)

lemma hold_phase_result:
  assumes "engine_env_ok E" "engine_ok C X g"
  shows "hold_phase E h g = None \<longleftrightarrow> 0 < h \<and> instant_add (eg_clock g) (h * 1000000000) = None"
    and "hold_phase E h g = Some g' \<Longrightarrow> engine_ok C X g'"
    and "hold_phase E h g = Some g' \<Longrightarrow> length (eg_errors g) \<le> length (eg_errors g')"
proof -
  have "\<exists>g'. hold_loop E d g = Some g' \<and> engine_ok C X g' \<and> length (eg_errors g) \<le> length (eg_errors g')" for d
    using hold_loop_fine [OF assms, of d] hold_loop_errors [of E d g] by (auto simp: fine_def)
  then obtain res where res: "hold_loop E d g = Some (res d)" "engine_ok C X (res d)"
      "length (eg_errors g) \<le> length (eg_errors (res d))" for d by metis
  show "hold_phase E h g = None \<longleftrightarrow> 0 < h \<and> instant_add (eg_clock g) (h * 1000000000) = None"
    and "hold_phase E h g = Some g' \<Longrightarrow> engine_ok C X g'"
    and "hold_phase E h g = Some g' \<Longrightarrow> length (eg_errors g) \<le> length (eg_errors g')"
    using assms(2) res
    by (auto simp: hold_phase_def split: bind_split bind_split_asm if_splits)
qed

text \<open>C18: A run with a working environment comes to its end unless the time to hold overflows the clock,
  and has one of two results.  When the first bot cannot join, the run ends there with that error and
  no other bot is tried.  Otherwise the first bot takes part, every bot left out has an error of its
  own, all others are counted as joined, and at the end each of them is stopped with no tasks attached
  after commands and iterations of its own.\<close>

theorem run_outcome:
  fixes E :: "('j, 'g, 'c) engine_env"
  assumes "engine_env_ok E"
  shows "case cmd_run E order a of
      None \<Rightarrow> \<exists>n p g. run_started E a = Some (Inr (n, p, g)) \<and> 0 < ra_hold a
        \<and> instant_add (eg_clock g) (ra_hold a * 1000000000) = None
    | Some (Inl e) \<Rightarrow> 0 < ra_bots a \<and> (\<exists>e'. e = ''[bot_1] failed to connect: '' @ e' \<and>
        fst (connect_and_join (ee_bot E 0) (run_bot E a 0 (engine_new no_scenario))) = Inl e')
    | Some (Inr r) \<Rightarrow> \<exists>is. subseq is [0..<ra_bots a] \<and> (0 < ra_bots a \<longrightarrow> is \<noteq> [] \<and> hd is = 0)
        \<and> ra_bots a \<le> length is + length (rr_errors r) \<and> rr_joined r = length is
        \<and> length (rr_bots r) = length is
        \<and> (\<forall>k < length is. bot_reachable (run_config a (is ! k)) (rr_bots r ! k)
            \<and> b_status (rr_bots r ! k) = Stopped \<and> \<not> b_attached (rr_bots r ! k))"
  using run_started_ok [OF assms, of a]
proof (elim disjE exE conjE)
  fix e assume "first_error E a = Some e" "run_started E a = Some (Inl (''[bot_1] failed to connect: '' @ e))"
  moreover from this obtain u where "0 < ra_bots a"
      "connect_and_join (ee_bot E 0) (run_bot E a 0 (engine_new no_scenario)) = (Inl e, u)"
    by (cases "connect_and_join (ee_bot E 0) (run_bot E a 0 (engine_new no_scenario))")
       (auto simp: first_error_def split: if_splits sum.splits)
  ultimately show ?thesis by (simp add: cmd_run_def)
next
  fix "is" p and g :: "('j, 'g, 'c) engine"
  assume g: "run_started E a = Some (Inr (length is, p, g))" "run_state a is g"
  have ok: "engine_ok (map (run_config a) is) (\<lambda>_. None) g" using g(2) by (simp add: run_state_def)
  show ?thesis
  proof (cases "hold_phase E (ra_hold a) g")
    case None
    then have "cmd_run E order a = None" using g(1) by (simp add: cmd_run_def)
    moreover have "0 < ra_hold a \<and> instant_add (eg_clock g) (ra_hold a * 1000000000) = None"
      using hold_phase_result(1) [OF assms ok, of "ra_hold a"] None by simp
    ultimately show ?thesis using g(1) by simp
  next
    case (Some g1)
    from hold_phase_result(2,3) [OF assms ok Some]
    have "run_ok a is g1" "length (eg_errors g) \<le> length (eg_errors g1)" by simp_all
    with g(2) have g1: "run_state a is g1" by (rule run_state_mono)
    have stop: "bot_reachable c (disconnect (ee_tasks E k b))" if "bot_reachable c b" for c k and b :: "('j, 'g, 'c) bot"
      by (rule bot_reachable.step [OF tasks_reachable [OF assms that] bot_step.Disconnect]) simp
    let ?bots = "map (\<lambda>b. disconnect (ee_tasks E (eg_calls g1) b)) (eg_bots g1)"
    obtain r where r: "cmd_run E order a = Some (Inr r)" "rr_joined r = length is" "rr_errors r = eg_errors g1"
        "rr_bots r = ?bots"
      using g(1) Some by (simp add: cmd_run_def Let_def settle_def o_def)
    have len: "length (eg_bots g1) = length is" using g1 by (simp add: run_state_def engine_ok_def)
    have bots: "bot_reachable (run_config a (is ! k)) (?bots ! k) \<and> b_status (?bots ! k) = Stopped \<and> \<not> b_attached (?bots ! k)"
      if "k < length is" for k
      using g1 that stop disconnected len by (simp add: run_state_def engine_ok_def)
    have "subseq is [0..<ra_bots a] \<and> (0 < ra_bots a \<longrightarrow> is \<noteq> [] \<and> hd is = 0)
        \<and> ra_bots a \<le> length is + length (rr_errors r)"
      using g1 by (simp add: run_state_def r(3))
    then show ?thesis using bots len r by auto
  qed
qed

section \<open>The hold\<close>

lemma on_bot_idle: "ee_busy E = (\<lambda>_. 0) \<Longrightarrow> on_bot E i f g = Some (r, g') \<Longrightarrow> eg_clock g' = eg_clock g"
  by (auto simp: on_bot_def Let_def split: Option.bind_split_asm)

lemma events_bot_idle:
  assumes "ee_busy E = (\<lambda>_. 0)" "events_bot E i g = Some g'"
  shows "eg_clock g' = eg_clock g"
  using assms(2) by (auto simp: events_bot_def split: Option.bind_split_asm if_splits sum.splits dest!: on_bot_idle [OF assms(1)])

lemma hold_bot_idle:
  assumes "ee_busy E = (\<lambda>_. 0)" "hold_bot E i g = Some g'"
  shows "eg_clock g' = eg_clock g"
  using assms(2) by (auto simp: hold_bot_def Let_def split: Option.bind_split_asm if_splits sum.splits
      dest!: on_bot_idle [OF assms(1)] events_bot_idle [OF assms(1)])

lemma holds_idle: "ee_busy E = (\<lambda>_. 0) \<Longrightarrow> each (hold_bot E) xs g = Some g' \<Longrightarrow> eg_clock g' = eg_clock g"
  by (induction xs arbitrary: g) (auto split: Option.bind_split_asm dest: hold_bot_idle)

lemma hold_loop_idle:
  "ee_busy E = (\<lambda>_. 0) \<Longrightarrow> hold_loop E deadline g = Some g' \<Longrightarrow> eg_clock g < deadline \<Longrightarrow>
    eg_clock g' = eg_clock g + 5000000000 * ((deadline - eg_clock g + 4999999999) div 5000000000)"
proof (induction E deadline g rule: hold_loop.induct)
  case (1 E deadline g)
  let ?g = "g\<lparr>eg_clock := eg_clock g + 5000000000\<rparr>"
  show ?case
  proof (cases "deadline \<le> eg_clock g + 5000000000")
    case True
    then have "g' = ?g" using 1(3) by (subst (asm) hold_loop.simps) simp
    moreover have "(deadline - eg_clock g + 4999999999) div 5000000000 = 1"
      by (rule div_nat_eqI) (use True 1(4) in auto)
    ultimately show ?thesis by simp
  next
    case False
    then obtain g1 where g1: "each (hold_bot E) (bot_indices ?g) ?g = Some g1" "hold_loop E deadline g1 = Some g'"
      using 1(3) by (subst (asm) hold_loop.simps) (auto simp: Let_def split: option.splits)
    have c: "eg_clock g1 = eg_clock g + 5000000000" using holds_idle [OF 1(2) g1(1)] by simp
    define x where "x = deadline - eg_clock g1 + 4999999999"
    have "deadline - eg_clock g + 4999999999 = x + 5000000000" unfolding x_def using False c by linarith
    moreover have "(x + 5000000000) div 5000000000 = x div 5000000000 + 1" by simp
    moreover have "eg_clock g' = eg_clock g1 + 5000000000 * (x div 5000000000)"
      unfolding x_def by (rule 1(1) [OF refl _ g1(1) 1(2) g1(2)]) (use False c in simp_all)
    ultimately show ?thesis using c by simp
  qed
qed

text \<open>The bots are held for the time asked for, rounded up to the next multiple of five seconds, plus
  what their calls take: with calls that take no time exactly that, and never less.\<close>

theorem hold_rounds_up:
  assumes "hold_phase E hold_secs g = Some g'"
  shows "eg_clock g + hold_secs * 1000000000 \<le> eg_clock g'
    \<and> (ee_busy E = (\<lambda>_. 0) \<longrightarrow> eg_clock g' = eg_clock g + (hold_secs + 4) div 5 * 5000000000)"
proof (cases "hold_secs = 0")
  case False
  then have h: "hold_loop E (eg_clock g + hold_secs * 1000000000) g = Some g'"
    using assms by (auto simp: hold_phase_def instant_add_def split: if_splits)
  have "deadline \<le> eg_clock g'" if "hold_loop E deadline g = Some g'" for deadline
    using that
  proof (induction E deadline g rule: hold_loop.induct)
    case (1 E deadline g)
    show ?case using 1(2) 1(1) [OF refl]
      by (subst (asm) hold_loop.simps) (auto simp: Let_def split: if_splits option.splits)
  qed
  moreover have "(hold_secs * 1000000000 + 4999999999) div 5000000000 = (hold_secs + 4) div 5"
  proof -
    have "(hold_secs * 1000000000 + 4999999999) div 5000000000 = (hold_secs * 1000000000 + 4999999999) div 1000000000 div 5"
      by (simp add: div_mult2_eq [symmetric])
    also have "(hold_secs * 1000000000 + 4999999999) div 1000000000 = hold_secs + 4" by simp
    finally show ?thesis .
  qed
  ultimately show ?thesis using h hold_loop_idle [OF _ h] False by (simp add: mult.commute)
qed (use assms in \<open>simp add: hold_phase_def\<close>)

section \<open>Concrete runs\<close>

definition sample_run_args :: run_args where
  "sample_run_args = \<lparr>ra_server = ''h'', ra_port = 1974, ra_room = ''room'', ra_mode = ''ptt'', ra_bots = 1,
     ra_profile = Some ''field_lte'', ra_hold = 0, ra_media = False\<rparr>"

lemma sample_connects: "\<not> isl (connect sample_sig sample_server ''h'' 1974 ''bot_1'' ''room'' ''ptt'')"
  by code_simp

theorem run_outcome_witness:
  "\<exists>r. cmd_run sample_engine_env sorted_list_of_set sample_run_args = Some (Inr r) \<and> rr_joined r = 1 \<and> length (rr_bots r) = 1"
proof -
  have "run_bot_id 0 = ''bot_1''" by code_simp
  then have first: "\<not> isl (fst (connect_and_join (ee_bot sample_engine_env 0)
      (run_bot sample_engine_env sample_run_args 0 (engine_new no_scenario))))"
    using sample_connects
    by (auto simp: connect_and_join_def run_bot_def bot_new_def run_config_def sample_run_args_def
        sample_engine_env_def sample_bot_env_def Let_def split: sum.split)
  have bots: "ra_bots sample_run_args = 1" and hold: "ra_hold sample_run_args = 0" by (simp_all add: sample_run_args_def)
  show ?thesis
    using run_outcome [OF sample_engine_env_ok, where order = sorted_list_of_set and a = sample_run_args] first
    by (auto simp: bots hold split: option.splits sum.splits) (auto simp: le_Suc_eq dest!: list_emb_length)
qed

theorem hold_rounds_up_witness:
  "\<exists>g. hold_phase (sample_engine_env\<lparr>ee_busy := \<lambda>_. 0\<rparr>) 12 (engine_new no_scenario) = Some g \<and> eg_clock g = 15000000000"
proof -
  let ?E = "sample_engine_env\<lparr>ee_busy := \<lambda>_. 0\<rparr>"
  have "engine_env_ok ?E" using sample_engine_env_ok by (simp add: engine_env_ok_def)
  moreover have "engine_ok [] (\<lambda>_. None) (engine_new no_scenario :: (sample_json, unit, bool) engine)"
    by (simp add: engine_ok_def engine_new_def)
  moreover have c: "eg_clock (engine_new no_scenario :: (sample_json, unit, bool) engine) = 0" by (simp add: engine_new_def)
  ultimately obtain g where g: "hold_phase ?E 12 (engine_new no_scenario) = Some g"
    using hold_phase_result(1) [of ?E "[]" "\<lambda>_. None" "engine_new no_scenario" 12] by (auto simp: instant_add_def)
  from hold_rounds_up [OF g] g show ?thesis by (simp add: c)
qed

section \<open>Exit codes\<close>

text \<open>A scenario's process succeeds exactly when the file loads and the run returns with an overall pass,
  and then the run has logged no error; every other command that returns succeeds, except a capacity
  measurement without a number in its sweep.\<close>

lemma scenario_exit:
  "exit_code (main_command C (Scenario path)) = 0 \<longleftrightarrow> (\<exists>sn r. ce_load C path = Inr sn
     \<and> engine_run (ce_engine C) (ce_judge C) sn = Some r \<and> jr_overall (sr_report r) = VPass \<and> sr_errors r = [])"
proof -
  have "sr_errors r = []" if r: "engine_run E J sn = Some r" "jr_overall (sr_report r) = VPass" for E J sn and r :: "('a, 'b, 'c, 'd) scenario_result"
  proof -
    obtain g where g: "r = judge_run J g" using r(1) by (auto simp: engine_run_def)
    have "sr_errors r = eg_errors g" by (simp add: g judge_run_def Let_def)
    moreover have "eg_errors g \<noteq> [] \<Longrightarrow> jr_overall (sr_report r) = VFail"
      by (simp add: g judge_run_def Let_def judge_verdicts(2))
    ultimately show ?thesis using r(2) by auto
  qed
  then show ?thesis
    by (fastforce simp: main_command_def scenario_run_def split: sum.splits option.splits if_splits)
qed

lemma other_exits:
  "exit_code (main_command C (Cap a)) = (if sweep_vec (ca_sweep a) = [] then 2 else 0)"
  "exit_code (main_command C (CapDist d)) = 0" "exit_code (main_command C (CapWorker w)) = 0"
  "exit_code (main_command C (Run u)) = (if cmd_run (ce_engine C) (jd_ssrcs (ce_judge C)) u = None then 101 else 0)"
  by (auto simp: main_command_def Let_def split: option.split)

end
