(* ===== verification/Reports.thy ===== *)
theory Reports
  imports Judge Capacity
begin

text \<open>
  What the program prints: the reports of the judge (\<open>print_summary\<close> in \<open>oxlab-judge/src/lib.rs\<close>) and the
  tables of the capacity runner (\<open>print_row\<close>, \<open>print_table\<close> in \<open>capacity.rs\<close>, the end of \<open>distributed.rs\<close>),
  as the lists of the lines written; and the files of the judge over parameters for file system and
  \<open>serde_json\<close>.
\<close>

section \<open>Formatting\<close>

definition c_to :: string where "c_to = utf8 [0xE2, 0x86, 0x92]"
definition c_times :: string where "c_times = utf8 [0xC3, 0x97]"
definition c_micro :: string where "c_micro = utf8 [0xC2, 0xB5]"
definition c_check :: string where "c_check = utf8 [0xE2, 0x9C, 0x93]"
definition c_cross :: string where "c_cross = utf8 [0xE2, 0x9C, 0x97]"
definition c_up :: string where "c_up = utf8 [0xE2, 0x96, 0xB2]"
definition c_dash :: string where "c_dash = utf8 [0xE2, 0x94, 0x80]"
definition c_delta :: string where "c_delta = utf8 [0xCE, 0x94]"
definition c_bar :: string where "c_bar = utf8 [0xE2, 0x95, 0x90]"
definition c_wall :: string where "c_wall = utf8 [0xE2, 0x95, 0x91]"

definition bars :: "nat \<Rightarrow> string" where
  "bars n = concat (replicate n c_bar)"

definition box_top :: "nat \<Rightarrow> string" where
  "box_top n = utf8 [0xE2, 0x95, 0x94] @ bars n @ utf8 [0xE2, 0x95, 0x97]"

definition box_bottom :: "nat \<Rightarrow> string" where
  "box_bottom n = utf8 [0xE2, 0x95, 0x9A] @ bars n @ utf8 [0xE2, 0x95, 0x9D]"

text \<open>A width counts characters, so not the continuation bytes of UTF-8.\<close>

definition char_width :: "string \<Rightarrow> nat" where
  "char_width s = length (filter (\<lambda>c. \<not> (128 \<le> (of_char c :: nat) \<and> (of_char c :: nat) < 192)) s)"

definition pad_right :: "nat \<Rightarrow> string \<Rightarrow> string" where
  "pad_right w s = s @ replicate (w - char_width s) CHR '' ''"

definition pad_left :: "nat \<Rightarrow> string \<Rightarrow> string" where
  "pad_left w s = replicate (w - char_width s) CHR '' '' @ s"

text \<open>\<open>{:+.k}\<close>\<close>

definition show_signed :: "nat \<Rightarrow> f64 \<Rightarrow> string" where
  "show_signed k x = (case x of
       NaN \<Rightarrow> show_fixed k x
     | _ \<Rightarrow> if take 1 (show_fixed k x) = ''-'' then show_fixed k x else ''+'' @ show_fixed k x)"

section \<open>The judge\<close>

definition layer1_lines :: "layer1_result \<Rightarrow> string list" where
  "layer1_lines r = (let icon = (if l1_verdict r = VPass then c_check else c_cross)
     in (''  Layer 1 ['' @ icon @ ''] '' @ show_verdict (l1_verdict r) @ '': '' @ show_nat (l1_passed r) @ ''/''
          @ show_nat (l1_passed r + l1_failed r) @ '' passed, '' @ show_nat (l1_failed r) @ '' failed, ''
          @ show_nat (l1_skipped r) @ '' skipped'') #
        concat (map (\<lambda>cp. if cr_verdict cp = VFail then
            [''    '' @ c_cross @ '' '' @ cr_id cp @ '' ['' @ show_category (cr_category cp) @ ''] '' @ cr_name cp,
             ''      expected: '' @ cr_expected cp,
             ''      actual:   '' @ cr_actual cp]
          else []) (l1_checkpoints r)))"

definition layer2_lines :: "layer2_result \<Rightarrow> string list" where
  "layer2_lines r = (let icon = (case l2_overall r of Regressed \<Rightarrow> c_cross | Improved \<Rightarrow> c_up | _ \<Rightarrow> c_dash)
     in (''  Layer 2 ['' @ icon @ ''] '' @ show_regression_verdict (l2_overall r)) #
        concat (map (\<lambda>p. let m = l2_metrics p in
          (''    ['' @ l2_id p @ ''] '' @ show_regression_verdict (l2_verdict p) @ '' | rx='' @ show_word (pm_total_packets m)
             @ '' lost='' @ show_word (pm_total_lost m) @ '' loss='' @ show_fixed 2 (pm_loss_rate_percent m)
             @ ''% jitter='' @ show_fixed 0 (pm_max_jitter m) @ '' ooo='' @ show_word (pm_total_ooo m)) #
          concat (map (\<lambda>rm. if rm_verdict rm = Regressed then
              [''      '' @ c_cross @ '' '' @ rm_name rm @ '' current='' @ show_fixed 2 (rm_current rm)
                 @ '' baseline='' @ show_fixed 2 (case rm_baseline rm of Some b \<Rightarrow> b | None \<Rightarrow> Fin 0)
                 @ '' '' @ c_delta @ ''='' @ show_signed 2 (case rm_delta rm of Some d \<Rightarrow> d | None \<Rightarrow> Fin 0)
                 @ '' (threshold='' @ show_fixed 2 (rm_threshold rm) @ '')'']
            else []) (l2_regression p)))
          (l2_participants r)))"

definition report_lines :: "judge_report \<Rightarrow> string list" where
  "report_lines r = (let icon = (if jr_overall r = VPass then c_check else c_cross)
     in [[], bars 3 @ '' VERDICT: '' @ icon @ '' '' @ show_verdict (jr_overall r) @ '' '' @ bars 3,
         ''  scenario: '' @ jr_scenario r, ''  profile: '' @ jr_profile r, ''  summary: '' @ jr_summary r, []]
        @ layer1_lines (jr_layer1 r) @ [[]] @ layer2_lines (jr_layer2 r)
        @ (if jr_errors r = [] then []
           else [[], ''  errors: '' @ show_nat (length (jr_errors r))] @ map (\<lambda>e. ''    '' @ c_to @ '' '' @ e) (jr_errors r)))"

definition report_to_json :: "(judge_report \<Rightarrow> string + string) \<Rightarrow> judge_report \<Rightarrow> string" where
  "report_to_json to_string_pretty r = (case to_string_pretty r of Inr json \<Rightarrow> json | Inl e \<Rightarrow> [])"

definition baseline_load ::
    "('p \<Rightarrow> string + string) \<Rightarrow> (string \<Rightarrow> string + baseline_file) \<Rightarrow> 'p \<Rightarrow> string + baseline_file" where
  "baseline_load read_to_string from_str path = (case read_to_string path of
       Inl e \<Rightarrow> Inl e | Inr content \<Rightarrow> from_str content)"

definition baseline_save ::
    "(baseline_file \<Rightarrow> string + string) \<Rightarrow> ('p \<Rightarrow> string \<Rightarrow> string option) \<Rightarrow> baseline_file \<Rightarrow> 'p \<Rightarrow> string option" where
  "baseline_save to_string_pretty write b path = (case to_string_pretty b of
       Inl e \<Rightarrow> Some e | Inr json \<Rightarrow> write path json)"

text \<open>A judged layer 1 is reported in one line and three for every failure; a report names as many
  failures as it counts.\<close>

lemma layer1_lines_length:
  "length (layer1_lines (judge_layer1 cps skipped)) = 1 + 3 * l1_failed (judge_layer1 cps skipped)"
proof -
  have "length (concat (map (\<lambda>cp. if cr_verdict cp = VFail then [f cp, g cp, h cp] else []) cps))
      = 3 * length (filter (\<lambda>cp. cr_verdict cp = VFail) cps)" for f g h :: "checkpoint_result \<Rightarrow> string"
    by (induction cps) auto
  then show ?thesis by (simp add: layer1_lines_def judge_layer1_def Let_def)
qed

section \<open>The capacity runner\<close>

definition healthy_mark :: "bool \<Rightarrow> string" where
  "healthy_mark b = (if b then ''y'' else ''n'')"

definition print_row :: "string \<Rightarrow> row \<Rightarrow> string" where
  "print_row mode r = ''['' @ mode @ ''] N='' @ pad_right 5 (show_word (rw_n r)) @ '' active='' @ show_word (rw_active r)
     @ ''/'' @ show_word (rw_n r) @ '' in_pps='' @ pad_right 6 (show_fixed 0 (rw_in_pps r))
     @ '' out_pps='' @ pad_right 9 (show_fixed 0 (rw_out_pps r)) @ '' out_mbps='' @ pad_right 7 (show_fixed 2 (rw_out_mbps r))
     @ '' loss='' @ pad_right 6 (show_fixed 3 (rw_loss_pct r)) @ ''% lat(a/p95/max '' @ c_micro @ ''s)=''
     @ show_fixed 0 (rw_lat_avg r) @ ''/'' @ show_fixed 0 (rw_lat_p95 r) @ ''/'' @ show_fixed 0 (rw_lat_max r)
     @ '' bot_cpu='' @ show_fixed 0 (rw_self_cpu r) @ ''% sfu_cpu='' @ show_fixed 0 (rw_sfu_cpu r)
     @ ''% sfu_mem='' @ show_fixed 0 (rw_sfu_mem_mb r) @ ''MB healthy='' @ healthy_mark (rw_healthy r)"

definition table_row :: "row \<Rightarrow> string" where
  "table_row r = ''  '' @ pad_right 6 (show_word (rw_n r))
     @ '' '' @ pad_left 9 (show_word (rw_active r) @ ''/'' @ show_word (rw_n r))
     @ '' '' @ pad_left 10 (show_fixed 0 (rw_out_pps r)) @ '' '' @ pad_left 9 (show_fixed 2 (rw_out_mbps r))
     @ '' '' @ pad_left 7 (show_fixed 3 (rw_loss_pct r)) @ '' '' @ pad_left 8 (show_fixed 0 (rw_lat_p95 r))
     @ '' '' @ pad_left 7 (show_fixed 0 (rw_self_cpu r)) @ ''% '' @ pad_left 7 (show_fixed 0 (rw_sfu_cpu r))
     @ ''% '' @ pad_left 8 (show_fixed 0 (rw_sfu_mem_mb r)) @ ''M ''
     @ pad_left 8 (if rw_healthy r then ''y'' else ''n '' @ utf8 [0xE2, 0x86, 0x90, 0xED, 0x8F, 0x90, 0xEA, 0xB8, 0xB0])"

definition print_table :: "string \<Rightarrow> row list \<Rightarrow> string list" where
  "print_table mode rows =
     [[], box_top 80,
      c_wall @ ''  CAPACITY '' @ utf8 [0xEA, 0xB3, 0xA1, 0xEC, 0x84, 0xA0] @ '' '' @ utf8 [0xE2, 0x80, 0x94] @ '' mode=''
        @ pad_right 10 mode @ ''  (knee = '' @ utf8 [0xEC, 0x9C, 0xA1, 0xEC, 0x95, 0x88] @ '', ''
        @ utf8 [0xEC, 0x9E, 0x90, 0xEB, 0x8F, 0x99] @ '' '' @ utf8 [0xED, 0x8C, 0x90, 0xEC, 0xA0, 0x95] @ '' ''
        @ utf8 [0xEC, 0x95, 0x88] @ '' '' @ utf8 [0xED, 0x95, 0xA8] @ '')                  '',
      box_bottom 80,
      ''  '' @ pad_right 6 ''N'' @ '' '' @ pad_left 9 ''active'' @ '' '' @ pad_left 10 ''out_pps'' @ '' '' @ pad_left 9 ''out_mbps''
        @ '' '' @ pad_left 7 ''loss%'' @ '' '' @ pad_left 8 ''lat_p95'' @ '' '' @ pad_left 8 ''bot_cpu'' @ '' ''
        @ pad_left 8 ''sfu_cpu'' @ '' '' @ pad_left 9 ''sfu_mem'' @ '' '' @ pad_left 8 ''healthy'',
      ''  '' @ replicate 96 CHR ''-'']
     @ map table_row rows @ [[]]"

definition dist_lines :: "u64 \<Rightarrow> u64 \<Rightarrow> dist_result \<Rightarrow> res_stats \<Rightarrow> string list" where
  "dist_lines n workers d res = (let t = dr_totals d
     in [[], box_top 70,
      c_wall @ ''  '' @ utf8 [0xEB, 0xB6, 0x84, 0xEC, 0x82, 0xB0] @ '' CAPACITY '' @ utf8 [0xE2, 0x80, 0x94] @ '' total=''
        @ pad_right 5 (show_word n) @ '' workers='' @ pad_right 3 (show_word workers) @ replicate 30 CHR '' '',
      box_bottom 70,
      ''  setup='' @ show_word (to_setup t) @ ''/'' @ show_word n @ ''  active='' @ show_word (to_active t) @ ''/''
        @ show_word n @ ''  in_pps='' @ show_fixed 0 (dr_in_pps d) @ ''  out_pps='' @ show_fixed 0 (dr_out_pps d)
        @ ''  out_mbps='' @ show_fixed 2 (dr_out_mbps d) @ ''  loss='' @ show_fixed 3 (dr_loss_pct d) @ ''%'',
      ''  sfu_cpu='' @ show_fixed 0 (sfu_cpu_avg res) @ ''%  sfu_mem='' @ show_fixed 0 (sfu_mem_mb res)
        @ ''MB  coord_cpu='' @ show_fixed 0 (self_cpu_avg res) @ ''%  healthy='' @ healthy_mark (dr_healthy d),
      []])"

end
