(* ===== verification/Bench.thy ===== *)
theory Bench
  imports CapacityLaws Reports
begin

text \<open>
  The standalone benchmark (\<open>bench/src\<close>), fan-out mode: its own signaling session, which speaks JSON text
  frames (\<open>signaling.rs\<close>), and one publisher with its subscribers (\<open>media.rs\<close>).  \<open>stun.rs\<close> and the setup of
  \<open>media.rs\<close> are the ones of \<open>common/\<close>.  The socket is the list of what its stream yields, \<open>serde_json\<close> a
  parameter; a loop with a deadline gets the list of what happens before it.
\<close>

section \<open>The setup shared with the bots\<close>

definition bench_binding_request ::
    "crypto_ops \<Rightarrow> bytes \<Rightarrow> bytes \<Rightarrow> string \<Rightarrow> string \<Rightarrow> string \<Rightarrow> bytes option" where
  "bench_binding_request = build_binding_request"

definition bench_setup_media_pc :: "media_env \<Rightarrow> string \<Rightarrow> string \<Rightarrow> string \<Rightarrow> (string + srtp_keys4) option" where
  "bench_setup_media_pc = setup_media_pc"

section \<open>Signaling\<close>

definition BENCH_OP_HELLO :: u16 where "BENCH_OP_HELLO = 0"
definition BENCH_OP_HEARTBEAT :: u16 where "BENCH_OP_HEARTBEAT = 1"
definition BENCH_OP_IDENTIFY :: u16 where "BENCH_OP_IDENTIFY = 3"
definition BENCH_OP_ROOM_CREATE :: u16 where "BENCH_OP_ROOM_CREATE = 10"
definition BENCH_OP_ROOM_JOIN :: u16 where "BENCH_OP_ROOM_JOIN = 11"
definition BENCH_OP_PUBLISH_TRACKS :: u16 where "BENCH_OP_PUBLISH_TRACKS = 15"

record 'j text_packet =
  tp_op :: u16
  tp_pid :: u64
  tp_ok :: "bool option"
  tp_d :: 'j

definition text_packet_new :: "u16 \<Rightarrow> u64 \<Rightarrow> 'j \<Rightarrow> 'j text_packet" where
  "text_packet_new op pid d = \<lparr>tp_op = op, tp_pid = pid, tp_ok = None, tp_d = d\<rparr>"

datatype text_item = TextItem string | TextClose | TextOther | TextErr string

record text_ws =
  tw_in :: "text_item list"
  tw_out :: "string list"
  tw_tries :: nat
  tw_close_sent :: bool
  tw_send_error :: "nat \<Rightarrow> string option"

text \<open>\<open>to_string\<close> and \<open>from_str\<close> of a packet.\<close>

record 'j text_env =
  te_json :: "'j json_ops"
  te_to_string :: "'j text_packet \<Rightarrow> string + string"
  te_from_str :: "string \<Rightarrow> string + 'j text_packet"

record text_session =
  xs_ws :: text_ws
  xs_pid :: u64
  xs_user_id :: string
  xs_room_id :: string
  xs_server_config :: "server_config option"

definition bench_next_pid :: "text_session \<Rightarrow> u64 \<times> text_session" where
  "bench_next_pid s = (xs_pid s, s\<lparr>xs_pid := xs_pid s + 1\<rparr>)"

definition text_send :: "string \<Rightarrow> text_ws \<Rightarrow> (string + unit) \<times> text_ws" where
  "text_send t w = (case tw_send_error w (tw_tries w) of
       None \<Rightarrow> (Inr (), w\<lparr>tw_out := tw_out w @ [t], tw_tries := tw_tries w + 1\<rparr>)
     | Some e \<Rightarrow> (Inl e, w\<lparr>tw_tries := tw_tries w + 1\<rparr>))"

definition send_packet :: "'j text_env \<Rightarrow> 'j text_packet \<Rightarrow> text_session \<Rightarrow> (string + unit) \<times> text_session" where
  "send_packet E packet s = (case te_to_string E packet of
       Inl e \<Rightarrow> (Inl e, s)
     | Inr json \<Rightarrow> let (r, w) = text_send json (xs_ws s) in (r, s\<lparr>xs_ws := w\<rparr>))"

fun recv_packet_loop :: "'j text_env \<Rightarrow> text_item list \<Rightarrow> text_ws \<Rightarrow> (string + 'j text_packet) \<times> text_ws" where
  "recv_packet_loop E [] w = (Inl ''ws closed'', w\<lparr>tw_in := []\<rparr>)"
| "recv_packet_loop E (TextItem t # rest) w = (te_from_str E t, w\<lparr>tw_in := rest\<rparr>)"
| "recv_packet_loop E (TextClose # rest) w = (Inl ''ws closed'', w\<lparr>tw_in := rest\<rparr>)"
| "recv_packet_loop E (TextOther # rest) w = recv_packet_loop E rest w"
| "recv_packet_loop E (TextErr e # rest) w = (Inl (''ws error: '' @ e), w\<lparr>tw_in := rest\<rparr>)"

definition recv_packet :: "'j text_env \<Rightarrow> text_session \<Rightarrow> (string + 'j text_packet) \<times> text_session" where
  "recv_packet E s = (let (r, w) = recv_packet_loop E (tw_in (xs_ws s)) (xs_ws s) in (r, s\<lparr>xs_ws := w\<rparr>))"

lemma recv_packet_loop_consumes: "recv_packet_loop E is w = (Inr p, w') \<Longrightarrow> length (tw_in w') < length is"
  by (induction E "is" w rule: recv_packet_loop.induct) auto

lemma recv_packet_consumes: "recv_packet E s = (Inr p, s') \<Longrightarrow> length (tw_in (xs_ws s')) < length (tw_in (xs_ws s))"
  by (auto simp: recv_packet_def dest: recv_packet_loop_consumes split: prod.splits)

text \<open>The answer to a request is any packet of its opcode that has \<open>ok\<close>, whatever its pid; everything
  before it is skipped.\<close>

definition is_response :: "u16 \<Rightarrow> 'j text_packet \<Rightarrow> bool" where
  "is_response op p \<longleftrightarrow> tp_op p = op \<and> tp_ok p \<noteq> None"

function response_loop :: "'j text_env \<Rightarrow> u16 \<Rightarrow> text_session \<Rightarrow> (string + 'j text_packet) \<times> text_session" where
  "response_loop E op s = (case recv_packet E s of
       (Inl e, s') \<Rightarrow> (Inl e, s')
     | (Inr resp, s') \<Rightarrow> if is_response op resp then (Inr resp, s') else response_loop E op s')"
  by pat_completeness auto
termination
  by (relation "measure (\<lambda>(E, op, s). length (tw_in (xs_ws s)))") (auto dest: recv_packet_consumes [OF sym])

declare response_loop.simps [simp del]

definition text_request ::
    "'j text_env \<Rightarrow> u16 \<Rightarrow> 'j \<Rightarrow> text_session \<Rightarrow> (string + 'j text_packet) \<times> text_session" where
  "text_request E op d s = (let (pid, s) = bench_next_pid s in
     case send_packet E (text_packet_new op pid d) s of
       (Inl e, s) \<Rightarrow> (Inl e, s)
     | (Inr u, s) \<Rightarrow> response_loop E op s)"

text \<open>The beginning of both constructors: the greeting and the identification.  An error drops the
  session.\<close>

definition text_open ::
    "'j text_env \<Rightarrow> (string \<Rightarrow> string + text_ws) \<Rightarrow> string \<Rightarrow> u16 \<Rightarrow> string \<Rightarrow> string + text_session" where
  "text_open E connect_async server ws_port user_id = (let J = te_json E in
     case connect_async (''ws://'' @ server @ '':'' @ show_word ws_port @ ''/ws'') of
       Inl e \<Rightarrow> Inl e
     | Inr w \<Rightarrow>
        let s = \<lparr>xs_ws = w, xs_pid = 1, xs_user_id = user_id, xs_room_id = [], xs_server_config = None\<rparr>
        in case recv_packet E s of
             (Inl e, s) \<Rightarrow> Inl e
           | (Inr hello, s) \<Rightarrow>
              if tp_op hello \<noteq> BENCH_OP_HELLO then Inl (''expected HELLO, got op='' @ show_word (tp_op hello))
              else case text_request E BENCH_OP_IDENTIFY
                     (jo_object J [(''token'', jo_str J ''bench''), (''user_id'', jo_str J user_id)]) s of
                   (Inl e, s) \<Rightarrow> Inl e
                 | (Inr resp, s) \<Rightarrow>
                    Inr (s\<lparr>xs_user_id := str_or user_id (jo_as_str J (jo_index J (tp_d resp) ''user_id''))\<rparr>))"

definition text_join :: "'j text_env \<Rightarrow> string \<Rightarrow> text_session \<Rightarrow> string + text_session" where
  "text_join E room_id s = (let J = te_json E in
     case text_request E BENCH_OP_ROOM_JOIN (jo_object J [(''room_id'', jo_str J room_id)]) s of
       (Inl e, s) \<Rightarrow> Inl e
     | (Inr resp, s) \<Rightarrow>
        if tp_ok resp \<noteq> Some True then Inl (''ROOM_JOIN failed: '' @ jo_debug J (tp_d resp))
        else Inr (s\<lparr>xs_room_id := room_id, xs_server_config := Some (server_config_parse J (tp_d resp))\<rparr>))"

definition bench_connect ::
    "'j text_env \<Rightarrow> (string \<Rightarrow> string + text_ws) \<Rightarrow> string \<Rightarrow> u16 \<Rightarrow> string \<Rightarrow> string \<Rightarrow> string + text_session" where
  "bench_connect E connect_async server ws_port user_id room_name = (let J = te_json E in
     case text_open E connect_async server ws_port user_id of
       Inl e \<Rightarrow> Inl e
     | Inr s \<Rightarrow>
        case text_request E BENCH_OP_ROOM_CREATE (jo_object J [(''name'', jo_str J room_name)]) s of
          (Inl e, s) \<Rightarrow> Inl e
        | (Inr create_resp, s) \<Rightarrow>
           case jo_as_str J (jo_index J (tp_d create_resp) ''room_id'') of
             None \<Rightarrow> Inl ''ROOM_CREATE response missing room_id''
           | Some room_id \<Rightarrow> text_join E room_id s)"

definition bench_connect_to_room ::
    "'j text_env \<Rightarrow> (string \<Rightarrow> string + text_ws) \<Rightarrow> string \<Rightarrow> u16 \<Rightarrow> string \<Rightarrow> string \<Rightarrow> string + text_session" where
  "bench_connect_to_room E connect_async server ws_port user_id room_id =
     (case text_open E connect_async server ws_port user_id of
       Inl e \<Rightarrow> Inl e
     | Inr s \<Rightarrow> text_join E room_id s)"

definition bench_publish_tracks ::
    "'j text_env \<Rightarrow> (string \<times> u32) list \<Rightarrow> text_session \<Rightarrow> (string + unit) \<times> text_session" where
  "bench_publish_tracks E tracks s = (let J = te_json E;
       items = map (\<lambda>(kind, ssrc). jo_object J [(''kind'', jo_str J kind), (''ssrc'', jo_num J ssrc)]) tracks
     in case text_request E BENCH_OP_PUBLISH_TRACKS (jo_object J [(''tracks'', jo_array J items)]) s of
       (Inl e, s) \<Rightarrow> (Inl e, s)
     | (Inr resp, s) \<Rightarrow> if tp_ok resp \<noteq> Some True then (Inl (''PUBLISH_TRACKS failed: '' @ jo_debug J (tp_d resp)), s)
        else (Inr (), s))"

definition bench_heartbeat :: "'j text_env \<Rightarrow> text_session \<Rightarrow> (string + unit) \<times> text_session" where
  "bench_heartbeat E s = (case text_request E BENCH_OP_HEARTBEAT (jo_object (te_json E) []) s of
       (Inl e, s) \<Rightarrow> (Inl e, s) | (Inr resp, s) \<Rightarrow> (Inr (), s))"

definition bench_close :: "text_session \<Rightarrow> text_session" where
  "bench_close s = s\<lparr>xs_ws := (xs_ws s)\<lparr>tw_close_sent := True\<rparr>\<rparr>"

section \<open>The packet\<close>

definition bench_rtp_header :: "u16 \<Rightarrow> u32 \<Rightarrow> u32 \<Rightarrow> bytes" where
  "bench_rtp_header seq timestamp ssrc = [0x80, 96] @ be16 seq @ be32 timestamp @ be32 ssrc"

text \<open>\<open>resize\<close> fills with zeros up to the size asked for.\<close>

definition build_fake_rtp :: "u64 \<Rightarrow> u32 \<Rightarrow> u16 \<Rightarrow> u32 \<Rightarrow> nat \<Rightarrow> bytes" where
  "build_fake_rtp now ssrc seq timestamp total_size = (
     let payload_size = (if total_size > 12 then total_size - 12 else 0);
         pkt = bench_rtp_header seq timestamp ssrc
     in if payload_size \<ge> 8 then pkt @ le64 now @ replicate (payload_size - 8) 0
        else pkt @ replicate payload_size 0)"

section \<open>The subscriber's loop\<close>

record bench_rx =
  bx_packets :: u64
  bx_bytes :: u64
  bx_latencies :: "f64 list"
  bx_expected :: "u16 option"
  bx_lost :: u64
  bx_total :: u64
  bx_non_rtp :: u64
  bx_decrypt_fail :: u64

definition bench_rx_new :: bench_rx where
  "bench_rx_new = \<lparr>bx_packets = 0, bx_bytes = 0, bx_latencies = [], bx_expected = None, bx_lost = 0,
     bx_total = 0, bx_non_rtp = 0, bx_decrypt_fail = 0\<rparr>"

definition gap_loss :: "u16 option \<Rightarrow> u16 \<Rightarrow> u64 \<Rightarrow> u64" where
  "gap_loss expected seq lost = (case expected of
       None \<Rightarrow> lost
     | Some exp_seq \<Rightarrow>
        if seq \<noteq> exp_seq then
          let gap = ucast (seq - exp_seq) in if 0 < gap \<and> gap < 1000 then lost + gap else lost
        else lost)"

definition stamp_latency :: "u64 \<Rightarrow> nat \<Rightarrow> bytes \<Rightarrow> f64 list \<Rightarrow> f64 list" where
  "stamp_latency now ofs plaintext latencies =
     (if length plaintext \<ge> ofs + 8 then
        let send_us = from_le (take 8 (drop ofs plaintext))
        in if 0 < send_us then latencies @ [f_of_u64 (sat_sub now send_us)] else latencies
      else latencies)"

text \<open>One datagram; \<open>None\<close> is the panic of an index into a plaintext that is too short.\<close>

definition bench_rx_datagram ::
    "'c srtp_ops \<Rightarrow> u64 \<Rightarrow> bytes \<Rightarrow> 'c srtp_ctx \<times> bench_rx \<Rightarrow> ('c srtp_ctx \<times> bench_rx) option" where
  "bench_rx_datagram S now datagram = (\<lambda>(srtp, st).
     let buf = take 2048 datagram; st = st\<lparr>bx_total := bx_total st + 1\<rparr>
     in if length buf < 12 \<or> \<not> is_rtp (buf ! 0) then Some (srtp, st\<lparr>bx_non_rtp := bx_non_rtp st + 1\<rparr>)
        else case decrypt_rtp S buf srtp of
          (None, srtp) \<Rightarrow> Some (srtp, st\<lparr>bx_decrypt_fail := bx_decrypt_fail st + 1\<rparr>)
        | (Some plaintext, srtp) \<Rightarrow> do {
            seq \<leftarrow> rd16 plaintext 2;
            Some (srtp, st\<lparr>bx_packets := bx_packets st + 1, bx_bytes := bx_bytes st + of_nat (length buf),
              bx_lost := gap_loss (bx_expected st) seq (bx_lost st), bx_expected := Some (seq + 1),
              bx_latencies := stamp_latency now 12 plaintext (bx_latencies st)\<rparr>)
          })"

fun bench_rx_loop ::
    "'c srtp_ops \<Rightarrow> (u64 \<times> recv_result) list \<Rightarrow> 'c srtp_ctx \<times> bench_rx \<Rightarrow> bench_rx option" where
  "bench_rx_loop S [] (srtp, st) = Some st"
| "bench_rx_loop S ((now, Datagram d) # rest) x = Option.bind (bench_rx_datagram S now d x) (bench_rx_loop S rest)"
| "bench_rx_loop S ((now, RecvError e) # rest) x = bench_rx_loop S rest x"
| "bench_rx_loop S ((now, RecvTimeout) # rest) (srtp, st) = Some st"

text \<open>Average in the order of arrival, then the order statistics of the sorted list.\<close>

definition bench_lat_stats :: "f64 list \<Rightarrow> f64 \<times> f64 \<times> f64" where
  "bench_lat_stats lats = (
     let avg = (if lats = [] then Fin 0 else f_div (f_sum lats) (f_of_nat (length lats)));
         (_, p95, mx) = lat_stats (sort_lats lats)
     in (avg, p95, mx))"

record sub_detail =
  sd_id :: string
  sd_rx_packets :: u64
  sd_rx_bytes :: u64
  sd_rx_lost :: u64
  sd_lat_avg :: f64
  sd_lat_p95 :: f64
  sd_lat_max :: f64

definition subscriber_recv_loop ::
    "'c srtp_ops \<Rightarrow> string \<Rightarrow> (u64 \<times> recv_result) list \<Rightarrow> 'c srtp_ctx \<Rightarrow> sub_detail option" where
  "subscriber_recv_loop S sub_id events srtp = do {
     st \<leftarrow> bench_rx_loop S events (srtp, bench_rx_new);
     let (avg, p95, mx) = bench_lat_stats (bx_latencies st);
     Some \<lparr>sd_id = sub_id, sd_rx_packets = bx_packets st, sd_rx_bytes = bx_bytes st, sd_rx_lost = bx_lost st,
       sd_lat_avg = avg, sd_lat_p95 = p95, sd_lat_max = mx\<rparr>
   }"

section \<open>The publisher's loop\<close>

text \<open>The period in microseconds and the timestamp step.  A rate of zero divides by zero; a period of
  zero is refused by \<open>tokio::time::interval\<close>.\<close>

definition frame_timing :: "u32 \<Rightarrow> (u32 \<times> u32) option" where
  "frame_timing fps =
     (if fps = 0 then None else if 1000000 div fps = 0 then None else Some (1000000 div fps, 90000 div fps))"

record 'c bench_tx =
  bt_srtp :: "'c srtp_ctx"
  bt_session :: text_session
  bt_seq :: u16
  bt_ts :: u32
  bt_packets :: u64
  bt_bytes :: u64
  bt_out :: "bytes list"

text \<open>One tick, with the clock reading of the builder and the result of the send.\<close>

definition bench_tx_tick ::
    "'j text_env \<Rightarrow> 'c srtp_ops \<Rightarrow> (u64 \<Rightarrow> u16 \<Rightarrow> u32 \<Rightarrow> bytes) \<Rightarrow> u32 \<Rightarrow> u32 \<Rightarrow> u64 \<times> string option
     \<Rightarrow> 'c bench_tx \<Rightarrow> 'c bench_tx" where
  "bench_tx_tick E S build fps ts_increment = (\<lambda>(now, send_error) t.
     let rtp = build now (bt_seq t) (bt_ts t);
         (encrypted, srtp) = encrypt_rtp S rtp (bt_srtp t);
         t = t\<lparr>bt_seq := bt_seq t + 1, bt_ts := bt_ts t + ts_increment, bt_srtp := srtp\<rparr>;
         t = (case (encrypted, send_error) of
             (Some e, None) \<Rightarrow> t\<lparr>bt_packets := bt_packets t + 1, bt_bytes := bt_bytes t + of_nat (length e),
               bt_out := bt_out t @ [e]\<rparr>
           | _ \<Rightarrow> t)
     in if 0 < bt_packets t \<and> bt_packets t mod (ucast fps * 25) = 0
        then t\<lparr>bt_session := snd (bench_heartbeat E (bt_session t))\<rparr> else t)"

definition bench_tx_loop ::
    "'j text_env \<Rightarrow> 'c srtp_ops \<Rightarrow> (u64 \<Rightarrow> u16 \<Rightarrow> u32 \<Rightarrow> bytes) \<Rightarrow> u32 \<Rightarrow> (u64 \<times> string option) list
     \<Rightarrow> 'c srtp_ctx \<Rightarrow> text_session \<Rightarrow> 'c bench_tx option" where
  "bench_tx_loop E S build fps ticks srtp session = do {
     (period, ts_increment) \<leftarrow> frame_timing fps;
     Some (fold (bench_tx_tick E S build fps ts_increment) ticks
       \<lparr>bt_srtp = srtp, bt_session = session, bt_seq = 0, bt_ts = 0, bt_packets = 0, bt_bytes = 0, bt_out = []\<rparr>)
   }"

section \<open>The fan-out benchmark\<close>

record bench_args =
  ba_server :: string
  ba_ws_port :: u16
  ba_udp_port :: u16
  ba_mode :: string
  ba_publishers :: u32
  ba_subscribers :: u32
  ba_participants :: u32
  ba_duration :: u64
  ba_fps :: u32
  ba_pkt_size :: nat
  ba_room :: string
  ba_label :: string

definition bench_defaults :: bench_args where
  "bench_defaults = \<lparr>ba_server = ''127.0.0.1'', ba_ws_port = 19741, ba_udp_port = 19740, ba_mode = ''fanout'',
     ba_publishers = 1, ba_subscribers = 0, ba_participants = 2, ba_duration = 30, ba_fps = 30, ba_pkt_size = 1200,
     ba_room = ''bench'', ba_label = ''baseline''\<rparr>"

record bench_result =
  br_duration :: f64
  br_tx_packets :: u64
  br_tx_bytes :: u64
  br_tx_pps :: f64
  br_tx_mbps :: f64
  br_num_subscribers :: u32
  br_fan_out :: u32
  br_rx_packets :: u64
  br_rx_bytes :: u64
  br_rx_lost :: u64
  br_rx_pps :: f64
  br_rx_mbps :: f64
  br_loss_rate :: f64
  br_lat_avg :: f64
  br_lat_p95 :: f64
  br_lat_max :: f64
  br_details :: "sub_detail list"

text \<open>What one client meets: its connection, address, sockets and media setup, the ticks of its send loop
  and what its receive loop gets before the deadline.\<close>

record bench_client =
  bk_connect :: "string \<Rightarrow> string + text_ws"
  bk_parse_addr :: "string \<Rightarrow> string + string"
  bk_bind_error :: "string option"
  bk_local_addr_error :: "string option"
  bk_sub_bind_error :: "string option"
  bk_pub_media :: media_env
  bk_sub_media :: media_env
  bk_ticks :: "(u64 \<times> string option) list"
  bk_events :: "(u64 \<times> recv_result) list"

text \<open>\<open>?\<close> on a step that may also panic.\<close>

definition and_then :: "(string + 'a) option \<Rightarrow> ('a \<Rightarrow> (string + 'b) option) \<Rightarrow> (string + 'b) option" where
  "and_then r f = (case r of None \<Rightarrow> None | Some (Inl e) \<Rightarrow> Some (Inl e) | Some (Inr x) \<Rightarrow> f x)"

definition fails :: "string option \<Rightarrow> (string + unit) option" where
  "fails e = Some (case e of Some e \<Rightarrow> Inl e | None \<Rightarrow> Inr ())"

definition config_of :: "text_session \<Rightarrow> (string + server_config) option" where
  "config_of s = Some (case xs_server_config s of None \<Rightarrow> Inl ''no server_config'' | Some sc \<Rightarrow> Inr sc)"

definition installed :: "'c srtp_ops \<Rightarrow> bytes \<Rightarrow> bytes \<Rightarrow> 'c srtp_ctx" where
  "installed S k salt = srtp_install S k salt srtp_new"

definition id3 :: "string \<Rightarrow> nat \<Rightarrow> string" where
  "id3 prefix i = prefix @ pad_zeros 3 (show_nat (i + 1))"

text \<open>The local address is read for a log line, at the default level.\<close>

definition bench_pub_setup ::
    "'j text_env \<Rightarrow> 'c srtp_ops \<Rightarrow> bench_args \<Rightarrow> bench_client \<Rightarrow> (string + text_session \<times> 'c srtp_ctx) option" where
  "bench_pub_setup E S a k =
     and_then (Some (bench_connect E (bk_connect k) (ba_server a) (ba_ws_port a) ''B001'' (ba_room a))) (\<lambda>session.
     and_then (config_of session) (\<lambda>sc.
     and_then (Some (bk_parse_addr k (server_ip sc @ '':'' @ show_word (server_port sc)))) (\<lambda>addr.
     and_then (fails (bk_bind_error k)) (\<lambda>_.
     and_then (fails (bk_local_addr_error k)) (\<lambda>_.
     and_then (bench_setup_media_pc (bk_pub_media k) (pub_ufrag sc) (pub_pwd sc) ''pub'') (\<lambda>keys.
     Some (Inr (session, installed S (client_key keys) (client_salt keys)))))))))"

definition bench_sub_setup ::
    "'j text_env \<Rightarrow> 'c srtp_ops \<Rightarrow> bench_args \<Rightarrow> string \<Rightarrow> string \<Rightarrow> bench_client \<Rightarrow> (string + 'c srtp_ctx) option" where
  "bench_sub_setup E S a room_id sub_id k =
     and_then (Some (bench_connect_to_room E (bk_connect k) (ba_server a) (ba_ws_port a) sub_id room_id)) (\<lambda>session.
     and_then (config_of session) (\<lambda>sc.
     and_then (fails (bk_bind_error k)) (\<lambda>_.
     and_then (bench_setup_media_pc (bk_sub_media k) (sub_ufrag sc) (sub_pwd sc) (''sub:'' @ sub_id)) (\<lambda>keys.
     Some (Inr (installed S (server_key keys) (server_salt keys)))))))"

fun bench_subs_setup ::
    "'j text_env \<Rightarrow> 'c srtp_ops \<Rightarrow> bench_args \<Rightarrow> string \<Rightarrow> (nat \<Rightarrow> bench_client) \<Rightarrow> nat list
     \<Rightarrow> (string + (nat \<times> 'c srtp_ctx) list) option" where
  "bench_subs_setup E S a room_id ks [] = Some (Inr [])"
| "bench_subs_setup E S a room_id ks (i # is) =
     and_then (bench_sub_setup E S a room_id (id3 ''S'' i) (ks i)) (\<lambda>srtp.
     and_then (bench_subs_setup E S a room_id ks is) (\<lambda>subs. Some (Inr ((i, srtp) # subs))))"

text \<open>The sums over the subscribers whose task did not panic.\<close>

definition loss_rate_of :: "u64 \<Rightarrow> u64 \<Rightarrow> f64" where
  "loss_rate_of rx lost = (if rx + lost = 0 then Fin 0
     else f_mul (f_div (f_of_u64 lost) (f_of_u64 (rx + lost))) (f_lit 100))"

definition bench_result_of :: "bench_args \<Rightarrow> 'c bench_tx \<Rightarrow> nat \<Rightarrow> sub_detail list \<Rightarrow> bench_result" where
  "bench_result_of a tx elapsed_ns details = (
     let elapsed = as_secs_f64 elapsed_ns;
         rx = sum_u64 (map sd_rx_packets details); bytes = sum_u64 (map sd_rx_bytes details);
         lost = sum_u64 (map sd_rx_lost details);
         avgs = filter (\<lambda>l. f_gt l (Fin 0)) (map sd_lat_avg details)
     in \<lparr>br_duration = elapsed, br_tx_packets = bt_packets tx, br_tx_bytes = bt_bytes tx,
         br_tx_pps = f_div (f_of_u64 (bt_packets tx)) elapsed, br_tx_mbps = out_mbps_of (bt_bytes tx) elapsed,
         br_num_subscribers = ba_subscribers a, br_fan_out = ba_subscribers a,
         br_rx_packets = rx, br_rx_bytes = bytes, br_rx_lost = lost,
         br_rx_pps = f_div (f_of_u64 rx) elapsed, br_rx_mbps = out_mbps_of bytes elapsed,
         br_loss_rate = loss_rate_of rx lost,
         br_lat_avg = (if avgs = [] then Fin 0 else f_div (f_sum avgs) (f_of_nat (length avgs))),
         br_lat_p95 = foldl f_max (Fin 0) (map sd_lat_p95 details),
         br_lat_max = foldl f_max (Fin 0) (map sd_lat_max details), br_details = details\<rparr>)"

text \<open>The result, with the publisher's session, which is closed, and the packets it sent.\<close>

definition run_benchmark ::
    "'j text_env \<Rightarrow> 'c srtp_ops \<Rightarrow> bench_args \<Rightarrow> bench_client \<Rightarrow> (nat \<Rightarrow> bench_client) \<Rightarrow> nat
     \<Rightarrow> (string + bench_result \<times> text_session \<times> bytes list) option" where
  "run_benchmark E S a pub subs elapsed_ns =
     and_then (bench_pub_setup E S a pub) (\<lambda>(session, pub_srtp).
     and_then (bench_subs_setup E S a (xs_room_id session) subs [0..<unat (ba_subscribers a)]) (\<lambda>srtps.
     let (r, session) = bench_publish_tracks E [(''video'', 90000)] session in
     and_then (Some r) (\<lambda>_. do {
       tx \<leftarrow> bench_tx_loop E S (\<lambda>now seq ts. build_fake_rtp now 90000 seq ts (ba_pkt_size a)) (ba_fps a)
         (bk_ticks pub) pub_srtp session;
       let details = List.map_filter (\<lambda>(i, srtp). subscriber_recv_loop S (id3 ''S'' i) (bk_events (subs i)) srtp) srtps;
       Some (Inr (bench_result_of a tx elapsed_ns details, bench_close (bt_session tx), bt_out tx))
     })))"

end
