(* ===== verification/BenchConf.thy ===== *)
theory BenchConf
  imports Bench
begin

text \<open>
  The standalone benchmark, conference mode (\<open>bench/src/conference.rs\<close>): every participant publishes and
  receives; the terminal reports of both modes (\<open>report.rs\<close>) as lists of lines, and the dispatch (\<open>main.rs\<close>).
\<close>

section \<open>Packets and trackers\<close>

definition build_conference_rtp :: "u64 \<Rightarrow> u32 \<Rightarrow> u16 \<Rightarrow> u32 \<Rightarrow> nat \<Rightarrow> u16 \<Rightarrow> bytes" where
  "build_conference_rtp now ssrc seq timestamp total_size sender_id = (
     let payload_size = (if total_size > 12 then total_size - 12 else 0);
         pkt = bench_rtp_header seq timestamp ssrc
     in if payload_size \<ge> 10 then pkt @ rev (be16 sender_id) @ le64 now @ replicate (payload_size - 10) 0
        else pkt @ replicate payload_size 0)"

record sender_tracker =
  st_expected :: "u16 option"
  st_packets :: u64
  st_lost :: u64
  st_latencies :: "f64 list"

definition sender_tracker_new :: sender_tracker where
  "sender_tracker_new = \<lparr>st_expected = None, st_packets = 0, st_lost = 0, st_latencies = []\<rparr>"

definition tracker_arrive :: "u64 \<Rightarrow> bytes \<Rightarrow> u16 \<Rightarrow> sender_tracker \<Rightarrow> sender_tracker" where
  "tracker_arrive now plaintext seq t = \<lparr>st_expected = Some (seq + 1), st_packets = st_packets t + 1,
     st_lost = gap_loss (st_expected t) seq (st_lost t),
     st_latencies = stamp_latency now 14 plaintext (st_latencies t)\<rparr>"

section \<open>Receiving\<close>

text \<open>One datagram; \<open>None\<close> is the panic of an index into a plaintext that is too short.\<close>

definition conf_rx_datagram ::
    "'c srtp_ops \<Rightarrow> u64 \<Rightarrow> bytes \<Rightarrow> 'c srtp_ctx \<times> (u32 \<Rightarrow> sender_tracker option)
     \<Rightarrow> ('c srtp_ctx \<times> (u32 \<Rightarrow> sender_tracker option)) option" where
  "conf_rx_datagram S now datagram = (\<lambda>(srtp, senders).
     let buf = take 2048 datagram
     in if length buf < 12 \<or> \<not> is_rtp (buf ! 0) then Some (srtp, senders)
        else case decrypt_rtp S buf srtp of
          (None, srtp) \<Rightarrow> Some (srtp, senders)
        | (Some plaintext, srtp) \<Rightarrow> do {
            ssrc \<leftarrow> rd32 plaintext 8;
            seq \<leftarrow> rd16 plaintext 2;
            let tracker = (case senders ssrc of Some t \<Rightarrow> t | None \<Rightarrow> sender_tracker_new);
            Some (srtp, senders(ssrc \<mapsto> tracker_arrive now plaintext seq tracker))
          })"

fun conf_rx_loop ::
    "'c srtp_ops \<Rightarrow> (u64 \<times> recv_result) list \<Rightarrow> 'c srtp_ctx \<times> (u32 \<Rightarrow> sender_tracker option)
     \<Rightarrow> (u32 \<Rightarrow> sender_tracker option) option" where
  "conf_rx_loop S [] (srtp, senders) = Some senders"
| "conf_rx_loop S ((now, Datagram d) # rest) x = Option.bind (conf_rx_datagram S now d x) (conf_rx_loop S rest)"
| "conf_rx_loop S ((now, RecvError e) # rest) x = conf_rx_loop S rest x"
| "conf_rx_loop S ((now, RecvTimeout) # rest) (srtp, senders) = Some senders"

record conf_rx_result =
  cr_packets :: u64
  cr_lost :: u64
  cr_from :: u32
  cr_latencies :: "f64 list"

text \<open>\<open>order\<close> is the order in which the map of the senders is iterated.\<close>

definition conference_recv_loop ::
    "(u32 set \<Rightarrow> u32 list) \<Rightarrow> 'c srtp_ops \<Rightarrow> (u64 \<times> recv_result) list \<Rightarrow> 'c srtp_ctx \<Rightarrow> conf_rx_result option" where
  "conference_recv_loop order S events srtp = do {
     senders \<leftarrow> conf_rx_loop S events (srtp, \<lambda>_. None);
     let trackers = List.map_filter senders (order (dom senders));
     Some \<lparr>cr_packets = sum_u64 (map st_packets trackers), cr_lost = sum_u64 (map st_lost trackers),
       cr_from = of_nat (card (dom senders)), cr_latencies = concat (map st_latencies trackers)\<rparr>
   }"

section \<open>Sending\<close>

definition conference_send_loop ::
    "'j text_env \<Rightarrow> 'c srtp_ops \<Rightarrow> u32 \<Rightarrow> u16 \<Rightarrow> u32 \<Rightarrow> nat \<Rightarrow> (u64 \<times> string option) list \<Rightarrow> 'c srtp_ctx \<Rightarrow> text_session
     \<Rightarrow> (u64 \<times> text_session \<times> bytes list) option" where
  "conference_send_loop E S ssrc sender_id fps pkt_size ticks srtp session = do {
     t \<leftarrow> bench_tx_loop E S (\<lambda>now seq ts. build_conference_rtp now ssrc seq ts pkt_size sender_id) fps ticks srtp session;
     Some (bt_packets t, bench_close (bt_session t), bt_out t)
   }"

section \<open>A conference\<close>

record participant_result =
  pt_id :: string
  pt_tx :: u64
  pt_rx :: u64
  pt_lost :: u64
  pt_from :: u32
  pt_lat_avg :: f64
  pt_lat_p95 :: f64
  pt_lat_max :: f64

record conference_result =
  co_duration :: f64
  co_participants_num :: u32
  co_streams :: u32
  co_tx :: u64
  co_rx :: u64
  co_lost :: u64
  co_loss_rate :: f64
  co_in_pps :: f64
  co_out_pps :: f64
  co_in_mbps :: f64
  co_out_mbps :: f64
  co_lat_avg :: f64
  co_lat_p95 :: f64
  co_lat_max :: f64
  co_participants :: "participant_result list"

text \<open>A participant that is set up.\<close>

record 'c conf_part =
  cp_idx :: nat
  cp_session :: text_session
  cp_pub_srtp :: "'c srtp_ctx"
  cp_sub_srtp :: "'c srtp_ctx"
  cp_ssrc :: u32

definition conf_part_setup ::
    "'j text_env \<Rightarrow> 'c srtp_ops \<Rightarrow> bench_args \<Rightarrow> string \<Rightarrow> nat \<Rightarrow> bench_client \<Rightarrow> (string + 'c conf_part) option" where
  "conf_part_setup E S a room_id i k = (let user_id = id3 ''P'' i in
     and_then (Some (if i = 0 then bench_connect E (bk_connect k) (ba_server a) (ba_ws_port a) user_id (ba_room a)
                     else bench_connect_to_room E (bk_connect k) (ba_server a) (ba_ws_port a) user_id room_id)) (\<lambda>session.
     and_then (config_of session) (\<lambda>sc.
     and_then (Some (bk_parse_addr k (server_ip sc @ '':'' @ show_word (server_port sc)))) (\<lambda>addr.
     and_then (fails (bk_bind_error k)) (\<lambda>_.
     and_then (bench_setup_media_pc (bk_pub_media k) (pub_ufrag sc) (pub_pwd sc) (''pub:'' @ user_id)) (\<lambda>pub_keys.
     and_then (fails (bk_sub_bind_error k)) (\<lambda>_.
     and_then (bench_setup_media_pc (bk_sub_media k) (sub_ufrag sc) (sub_pwd sc) (''sub:'' @ user_id)) (\<lambda>sub_keys.
     Some (Inr \<lparr>cp_idx = i, cp_session = session,
       cp_pub_srtp = installed S (client_key pub_keys) (client_salt pub_keys),
       cp_sub_srtp = installed S (server_key sub_keys) (server_salt sub_keys),
       cp_ssrc = 90000 + of_nat i\<rparr>)))))))))"

text \<open>\<open>room_id\<close> is set by the first participant.\<close>

fun conf_parts_setup ::
    "'j text_env \<Rightarrow> 'c srtp_ops \<Rightarrow> bench_args \<Rightarrow> (nat \<Rightarrow> bench_client) \<Rightarrow> string \<Rightarrow> nat list
     \<Rightarrow> (string + 'c conf_part list) option" where
  "conf_parts_setup E S a ks room_id [] = Some (Inr [])"
| "conf_parts_setup E S a ks room_id (i # is) =
     and_then (conf_part_setup E S a room_id i (ks i)) (\<lambda>p.
     and_then (conf_parts_setup E S a ks (if i = 0 then xs_room_id (cp_session p) else room_id) is) (\<lambda>ps.
     Some (Inr (p # ps))))"

fun conf_publish :: "'j text_env \<Rightarrow> 'c conf_part list \<Rightarrow> string + 'c conf_part list" where
  "conf_publish E [] = Inr []"
| "conf_publish E (p # ps) = (case bench_publish_tracks E [(''video'', cp_ssrc p)] (cp_session p) of
       (Inl e, session) \<Rightarrow> Inl e
     | (Inr u, session) \<Rightarrow> (case conf_publish E ps of
           Inl e \<Rightarrow> Inl e
         | Inr ps \<Rightarrow> Inr (p\<lparr>cp_session := session\<rparr> # ps)))"

text \<open>What the two tasks of a participant yield; a task that panicked counts as nothing sent or
  received.  The latencies come back sorted.\<close>

definition part_send ::
    "'j text_env \<Rightarrow> 'c srtp_ops \<Rightarrow> bench_args \<Rightarrow> (nat \<Rightarrow> bench_client) \<Rightarrow> 'c conf_part
     \<Rightarrow> (u64 \<times> text_session \<times> bytes list) option" where
  "part_send E S a ks p = conference_send_loop E S (cp_ssrc p) (of_nat (cp_idx p)) (ba_fps a) (ba_pkt_size a)
     (bk_ticks (ks (cp_idx p))) (cp_pub_srtp p) (cp_session p)"

definition sent_count :: "(u64 \<times> text_session \<times> bytes list) option \<Rightarrow> u64" where
  "sent_count r = (case r of Some (tx, _) \<Rightarrow> tx | None \<Rightarrow> 0)"

definition part_rx ::
    "(u32 set \<Rightarrow> u32 list) \<Rightarrow> 'c srtp_ops \<Rightarrow> (nat \<Rightarrow> bench_client) \<Rightarrow> 'c conf_part \<Rightarrow> conf_rx_result" where
  "part_rx order S ks p = (case conference_recv_loop order S (bk_events (ks (cp_idx p))) (cp_sub_srtp p) of
     Some r \<Rightarrow> r
   | None \<Rightarrow> \<lparr>cr_packets = 0, cr_lost = 0, cr_from = 0, cr_latencies = []\<rparr>)"

definition participant_of :: "nat \<Rightarrow> u64 \<Rightarrow> conf_rx_result \<Rightarrow> participant_result" where
  "participant_of i tx rr = (let (avg, p95, mx) = bench_lat_stats (cr_latencies rr)
     in \<lparr>pt_id = id3 ''P'' i, pt_tx = tx, pt_rx = cr_packets rr, pt_lost = cr_lost rr, pt_from = cr_from rr,
         pt_lat_avg = avg, pt_lat_p95 = p95, pt_lat_max = mx\<rparr>)"

definition conference_result_of ::
    "nat \<Rightarrow> nat \<Rightarrow> nat \<Rightarrow> (u64 \<times> conf_rx_result) list \<Rightarrow> conference_result" where
  "conference_result_of n pkt_size elapsed_ns rs = (
     let elapsed = as_secs_f64 elapsed_ns;
         tx = sum_u64 (map fst rs); rx = sum_u64 (map (cr_packets \<circ> snd) rs); lost = sum_u64 (map (cr_lost \<circ> snd) rs);
         tx_bytes = sum_u64 (map (\<lambda>r. fst r * of_nat pkt_size) rs);
         rx_bytes = sum_u64 (map (\<lambda>r. cr_packets (snd r) * of_nat pkt_size) rs);
         lats = sort_lats (concat (map (\<lambda>r. sort_lats (cr_latencies (snd r))) rs));
         (avg, p95, mx) = lat_stats lats;
         np = of_nat n :: u32
     in \<lparr>co_duration = elapsed, co_participants_num = np, co_streams = np * (np - 1), co_tx = tx, co_rx = rx,
         co_lost = lost, co_loss_rate = loss_rate_of rx lost, co_in_pps = f_div (f_of_u64 tx) elapsed,
         co_out_pps = f_div (f_of_u64 rx) elapsed, co_in_mbps = out_mbps_of tx_bytes elapsed,
         co_out_mbps = out_mbps_of rx_bytes elapsed, co_lat_avg = avg, co_lat_p95 = p95, co_lat_max = mx,
         co_participants = map (\<lambda>(i, tx, rr). participant_of i tx rr) (enumerate 0 rs)\<rparr>)"

text \<open>The result, with what every sending task left.\<close>

definition run_conference ::
    "'j text_env \<Rightarrow> (u32 set \<Rightarrow> u32 list) \<Rightarrow> 'c srtp_ops \<Rightarrow> bench_args \<Rightarrow> (nat \<Rightarrow> bench_client) \<Rightarrow> nat
     \<Rightarrow> (string + conference_result \<times> (u64 \<times> text_session \<times> bytes list) option list) option" where
  "run_conference E order S a ks elapsed_ns = (let n = unat (ba_participants a) in
     if n < 2 then Some (Inl ''conference mode requires --participants >= 2'')
     else
     and_then (conf_parts_setup E S a ks [] [0..<n]) (\<lambda>parts.
     and_then (Some (conf_publish E parts)) (\<lambda>parts.
     let sends = map (part_send E S a ks) parts
     in Some (Inr (conference_result_of n (ba_pkt_size a) elapsed_ns
          (map (\<lambda>(r, p). (sent_count r, part_rx order S ks p)) (zip sends parts)), sends)))))"

section \<open>Reports\<close>

definition box_lines :: "string \<Rightarrow> string list" where
  "box_lines title = [[], box_top 58, c_wall @ title @ c_wall, box_bottom 58, []]"

definition head_line :: "string \<Rightarrow> string" where
  "head_line title = ''  '' @ c_dash @ c_dash @ '' '' @ title @ '' '' @ c_dash @ c_dash"

definition micros_line :: "string \<Rightarrow> f64 \<Rightarrow> string" where
  "micros_line name x = ''  '' @ name @ '':           '' @ show_fixed 0 x @ '' '' @ c_micro @ ''s (''
     @ show_fixed 2 (f_div x (f_lit 1000)) @ '' ms)''"

definition latency_lines :: "f64 \<Rightarrow> f64 \<Rightarrow> f64 \<Rightarrow> string list" where
  "latency_lines avg p95 mx = [head_line ''End-to-End Latency'', micros_line ''avg'' avg, micros_line ''p95'' p95,
     micros_line ''max'' mx, []]"

definition mega :: "u64 \<Rightarrow> string" where
  "mega n = show_fixed 2 (f_div (f_of_u64 n) (f_lit 1048576))"

definition lat_text :: "f64 \<Rightarrow> f64 \<Rightarrow> f64 \<Rightarrow> string" where
  "lat_text avg p95 mx = ''avg='' @ show_fixed 0 avg @ c_micro @ ''s p95='' @ show_fixed 0 p95 @ c_micro @ ''s max=''
     @ show_fixed 0 mx @ c_micro @ ''s''"

definition print_report :: "bench_args \<Rightarrow> bench_result \<Rightarrow> string list" where
  "print_report a r =
     box_lines ''            LIGHT-SFU BENCHMARK REPORT                   '' @
     [''  label:         '' @ ba_label a,
      ''  server:        '' @ ba_server a @ '':'' @ show_word (ba_udp_port a),
      ''  config:        '' @ show_word (ba_publishers a) @ '' pub '' @ c_to @ '' '' @ show_word (br_num_subscribers r)
        @ '' sub (fan-out='' @ show_word (br_fan_out r) @ ''), '' @ show_word (ba_fps a) @ ''fps, '' @ show_nat (ba_pkt_size a) @ ''B'',
      ''  duration:      '' @ show_fixed 1 (br_duration r) @ ''s'', [],
      head_line ''Publisher Throughput'',
      ''  tx_packets:    '' @ show_word (br_tx_packets r),
      ''  tx_bytes:      '' @ show_word (br_tx_bytes r) @ '' ('' @ mega (br_tx_bytes r) @ '' MB)'',
      ''  tx_pps:        '' @ show_fixed 1 (br_tx_pps r) @ '' pps'',
      ''  tx_throughput: '' @ show_fixed 2 (br_tx_mbps r) @ '' Mbps'', []] @
     (if br_num_subscribers r = 0 then
        [head_line ''No Subscribers'', ''  (use --subscribers N to add bench subscribers)'', []]
      else
        [head_line ''Fan-out Aggregate'',
         ''  rx_total:      '' @ show_word (br_rx_packets r) @ '' pkts ('' @ mega (br_rx_bytes r) @ '' MB)'',
         ''  rx_pps:        '' @ show_fixed 1 (br_rx_pps r) @ '' pps ('' @ show_word (br_fan_out r) @ c_times
           @ show_fixed 1 (br_tx_pps r) @ '' expected)'',
         ''  rx_throughput: '' @ show_fixed 2 (br_rx_mbps r) @ '' Mbps'',
         ''  lost:          '' @ show_word (br_rx_lost r) @ '' ('' @ show_fixed 3 (br_loss_rate r) @ ''%)'', []] @
        latency_lines (br_lat_avg r) (br_lat_p95 r) (br_lat_max r) @
        (if 1 < length (br_details r) then
           head_line ''Per-Subscriber Detail'' # map (\<lambda>d. ''  ['' @ sd_id d @ ''] rx='' @ show_word (sd_rx_packets d)
             @ '' lost='' @ show_word (sd_rx_lost d) @ '' '' @ lat_text (sd_lat_avg d) (sd_lat_p95 d) (sd_lat_max d))
             (br_details r) @ [[]]
         else []))"

definition print_conference_report :: "bench_args \<Rightarrow> conference_result \<Rightarrow> string list" where
  "print_conference_report a r = (
     let n = co_participants_num r; others = ucast (n - 1) :: u64
     in box_lines ''      LIGHT-SFU BENCHMARK REPORT (conference)            '' @
     [''  label:         '' @ ba_label a,
      ''  server:        '' @ ba_server a @ '':'' @ show_word (ba_udp_port a),
      ''  participants:  '' @ show_word n,
      ''  streams:       '' @ show_word (co_streams r) @ '' ('' @ show_word n @ c_times @ show_word (n - 1) @ '')'',
      ''  config:        '' @ show_word (ba_fps a) @ ''fps, '' @ show_nat (ba_pkt_size a) @ ''B, '' @ show_word (ba_duration a) @ ''s'',
      ''  duration:      '' @ show_fixed 1 (co_duration r) @ ''s'', [],
      head_line ''Input (all publishers)'',
      ''  total_tx:      '' @ show_word (co_tx r) @ '' pkts'',
      ''  input_pps:     '' @ show_fixed 1 (co_in_pps r) @ '' pps ('' @ show_word n @ c_times @ show_word (ba_fps a) @ ''fps expected)'',
      ''  input_bw:      '' @ show_fixed 2 (co_in_mbps r) @ '' Mbps'', [],
      head_line ''Output (all subscribers)'',
      ''  expected_rx:   '' @ show_word (co_tx r * others) @ '' pkts (tx '' @ c_times @ '' '' @ show_word (n - 1) @ '')'',
      ''  actual_rx:     '' @ show_word (co_rx r) @ '' pkts'',
      ''  output_pps:    '' @ show_fixed 1 (co_out_pps r) @ '' pps ('' @ show_word n @ c_times @ show_word (n - 1) @ c_times
        @ show_word (ba_fps a) @ ''fps expected)'',
      ''  output_bw:     '' @ show_fixed 2 (co_out_mbps r) @ '' Mbps'',
      ''  lost:          '' @ show_word (co_lost r) @ '' ('' @ show_fixed 3 (co_loss_rate r) @ ''%)'', []] @
     latency_lines (co_lat_avg r) (co_lat_p95 r) (co_lat_max r) @
     head_line ''Per-Participant Detail'' #
     map (\<lambda>p. ''  ['' @ pt_id p @ ''] tx='' @ show_word (pt_tx p) @ '' rx='' @ show_word (pt_rx p) @ ''/''
       @ show_word (others * pt_tx p) @ '' lost='' @ show_word (pt_lost p) @ '' from='' @ show_word (pt_from p) @ '' ''
       @ lat_text (pt_lat_avg p) (pt_lat_p95 p) (pt_lat_max p) @ '' '' @ (if pt_lost p = 0 then c_check else ''!''))
       (co_participants r) @ [[]])"

section \<open>The command\<close>

text \<open>The lines printed, and the exit code; \<open>None\<close> is a panic.\<close>

definition bench_main ::
    "'j text_env \<Rightarrow> (u32 set \<Rightarrow> u32 list) \<Rightarrow> 'c srtp_ops \<Rightarrow> bench_args \<Rightarrow> bench_client \<Rightarrow> (nat \<Rightarrow> bench_client) \<Rightarrow> nat
     \<Rightarrow> (string list \<times> nat) option" where
  "bench_main E order S a pub ks elapsed_ns =
     (if ba_mode a = ''conference'' \<or> ba_mode a = ''conf'' then
        map_option (\<lambda>r. case r of Inr (result, _) \<Rightarrow> (print_conference_report a result, 0) | Inl e \<Rightarrow> ([], 1))
          (run_conference E order S a ks elapsed_ns)
      else
        map_option (\<lambda>r. case r of Inr (result, _) \<Rightarrow> (print_report a result, 0) | Inl e \<Rightarrow> ([], 1))
          (run_benchmark E S a pub ks elapsed_ns))"

end
