(* ===== verification/BenchLaws.thy ===== *)
theory BenchLaws
  imports BenchConf
begin

text \<open>
  What a conference participant counts: its trackers as a store keyed by sender, and its agreement with
  the capacity bots that took over the measurements of the benchmark.
\<close>

section \<open>The senders\<close>

type_synonym senders = "u32 \<Rightarrow> sender_tracker option"

definition conf_arrive :: "u64 \<times> bytes \<Rightarrow> senders \<Rightarrow> senders" where
  "conf_arrive = (\<lambda>(now, p) senders. senders(pkt_ssrc p \<mapsto> tracker_arrive now p (pkt_seq p)
     (case senders (pkt_ssrc p) of Some t \<Rightarrow> t | None \<Rightarrow> sender_tracker_new)))"

definition conf_step :: "u64 \<times> bytes \<Rightarrow> sender_tracker \<Rightarrow> sender_tracker" where
  "conf_step = (\<lambda>(now, p). tracker_arrive now p (pkt_seq p))"

interpretation trackers: keyed_store conf_arrive "\<lambda>s. s" "\<lambda>(now, p). pkt_ssrc p" "\<lambda>_. sender_tracker_new" conf_step
  by unfold_locales (auto simp: conf_arrive_def conf_step_def)




section \<open>Losses\<close>



section \<open>Agreement with the capacity bots\<close>










end
