(* ===== verification/BenchFanout.thy ===== *)
theory BenchFanout
  imports BenchLaws
begin

text \<open>
  The fan-out benchmark end to end: what the publisher's loop sends and a subscriber's loop measures, over
  SRTP for one stream with a bound on the losses in a row.
\<close>

section \<open>From the publisher to a subscriber\<close>

text \<open>The next packet of a stream that numbers its packets from 0: a header without extensions.\<close>

definition next_packet :: "u32 \<Rightarrow> nat \<Rightarrow> bytes \<Rightarrow> bool" where
  "next_packet ssrc i p \<longleftrightarrow> 12 \<le> length p \<and> length p \<le> 2 ^ 16 \<and> p ! 0 = 0x80
     \<and> rd16 p 2 = Some (of_nat i) \<and> rd32 p 8 = Some ssrc"

text \<open>SRTP for one stream (RFC 3711).  \<open>R i k tx rx\<close> says that the sender has protected \<open>i\<close> packets and that the
  receiver, with the same keys, did not get the last \<open>k\<close> of them but recovered the one before, if any.  During the lifetime of the
  keys, \<open>2\<^sup>4\<^sup>8\<close> packets, the next packet is protected with its header in the clear and a tag of at most ten
  bytes; the receiver recovers it when fewer than \<open>L\<close> packets in a row were lost before it, since only then
  its estimate of the rollover counter is right (\<open>L < 2\<^sup>1\<^sup>5\<close>).  After more losses nothing is promised.\<close>

definition srtp_stream ::
    "'c srtp_ops \<Rightarrow> u32 \<Rightarrow> nat \<Rightarrow> (nat \<Rightarrow> nat \<Rightarrow> 'c srtp_ctx \<Rightarrow> 'c srtp_ctx \<Rightarrow> bool) \<Rightarrow> bool" where
  "srtp_stream S ssrc L R \<longleftrightarrow> (\<forall>i k tx rx p. R i k tx rx \<longrightarrow> i < 2 ^ 48 \<longrightarrow> next_packet ssrc i p \<longrightarrow>
     (\<exists>d tx'. encrypt_rtp S p tx = (Some d, tx') \<and> R (Suc i) (Suc k) tx' rx
        \<and> take 12 d = take 12 p \<and> 12 \<le> length d \<and> length d \<le> length p + 10
        \<and> (k < L \<longrightarrow> (\<exists>rx'. decrypt_rtp S d rx = (Some p, rx') \<and> R (Suc i) 0 tx' rx'))))"

text \<open>Fewer than \<open>L\<close> failures before every send that succeeds, \<open>k\<close> of them so far.\<close>

fun losses_below :: "nat \<Rightarrow> nat \<Rightarrow> bool list \<Rightarrow> bool" where
  "losses_below L k [] \<longleftrightarrow> True"
| "losses_below L k (False # oks) \<longleftrightarrow> losses_below L (Suc k) oks"
| "losses_below L k (True # oks) \<longleftrightarrow> k < L \<and> losses_below L 0 oks"

text \<open>The losses a subscriber counts for a sequence of sends, given how many failed since the last one
  that arrived.\<close>

definition gap_counted :: "nat option \<Rightarrow> u64" where
  "gap_counted g = (case g of None \<Rightarrow> 0 | Some k \<Rightarrow> if k < 1000 then of_nat k else 0)"

fun inner_losses :: "nat option \<Rightarrow> bool list \<Rightarrow> u64" where
  "inner_losses g [] = 0"
| "inner_losses g (False # oks) = inner_losses (map_option Suc g) oks"
| "inner_losses g (True # oks) = gap_counted g + inner_losses (Some 0) oks"

definition arrivals :: "u64 list \<Rightarrow> bytes list \<Rightarrow> (u64 \<times> recv_result) list" where
  "arrivals clocks ds = map (\<lambda>(now, d). (now, Datagram d)) (zip clocks ds)"

definition delay :: "u64 \<times> u64 \<Rightarrow> f64" where
  "delay = (\<lambda>(now, sent). f_of_u64 (sat_sub now sent))"

definition sent_at :: "(u64 \<times> string option) list \<Rightarrow> u64 list" where
  "sent_at ticks = map fst (filter (\<lambda>(now, e). e = None) ticks)"

lemma fake_rtp_fields:
  assumes "20 \<le> sz"
  shows "length (build_fake_rtp now ssrc seq ts sz) = sz" "build_fake_rtp now ssrc seq ts sz ! 0 = 0x80"
    "rd16 (build_fake_rtp now ssrc seq ts sz) 2 = Some seq" "rd32 (build_fake_rtp now ssrc seq ts sz) 8 = Some ssrc"
    "from_le (take 8 (drop 12 (build_fake_rtp now ssrc seq ts sz))) = now"
proof -
  obtain k where k: "sz = 20 + k" using assms le_Suc_ex by blast
  have p: "build_fake_rtp now ssrc seq ts sz = [0x80, 96] @ be16 seq @ be32 ts @ be32 ssrc @ le64 now @ replicate k 0"
    by (simp add: k build_fake_rtp_def bench_rtp_header_def)
  show "length (build_fake_rtp now ssrc seq ts sz) = sz" "build_fake_rtp now ssrc seq ts sz ! 0 = 0x80"
    "rd16 (build_fake_rtp now ssrc seq ts sz) 2 = Some seq" "rd32 (build_fake_rtp now ssrc seq ts sz) 8 = Some ssrc"
    unfolding p by (simp_all add: k be16_def be32_def byte_simps)
  have "drop 12 ([0x80, 96] @ be16 seq @ be32 ts @ be32 ssrc @ le64 now @ replicate k 0) = le64 now @ replicate k 0"
    by (simp add: be16_def be32_def)
  then show "from_le (take 8 (drop 12 (build_fake_rtp now ssrc seq ts sz))) = now"
    unfolding p by simp
qed

lemma gap_loss_back:
  assumes "\<And>k. g = Some k \<Longrightarrow> k < 65536"
  shows "gap_loss (map_option (\<lambda>k. seq - of_nat k) g) seq lost = lost + gap_counted g"
proof (cases g)
  case (Some k)
  have k: "k mod 65536 = k" using assms [OF Some] by simp
  define u where "u = (ucast (of_nat k :: u16) :: u64)"
  have "u = of_nat (unat (of_nat k :: u16))" unfolding u_def by simp
  then have v: "u = of_nat (k mod 65536)" by (simp only: unat_of_nat take_bit_eq_mod) simp
  moreover have "k mod 65536 < 2 ^ 64" by (rule less_trans [of _ 65536]) simp_all
  ultimately have u: "unat u = k mod 65536" by (simp add: unat_of_nat_eq)
  have "(of_nat k :: u16) = 0 \<Longrightarrow> u = 0" by (simp add: u_def)
  moreover have "0 < u \<and> u < 1000 \<longleftrightarrow> 0 < k mod 65536 \<and> k mod 65536 < 1000"
    by (simp add: word_less_nat_alt u)
  ultimately show ?thesis using Some v k by (auto simp: gap_loss_def gap_counted_def Let_def u_def [symmetric])
qed (simp add: gap_loss_def gap_counted_def)

lemma fan_tick:
  fixes build :: "u64 \<Rightarrow> u16 \<Rightarrow> u32 \<Rightarrow> bytes" and sz :: nat
  defines "build \<equiv> \<lambda>now seq ts. build_fake_rtp now 90000 seq ts sz"
  assumes "srtp_stream S 90000 L R" "R i k (bt_srtp t) rx" "bt_seq t = of_nat i" "i < 2 ^ 48" "20 \<le> sz" "sz \<le> 2038"
    and "bench_tx_tick E S build fps inc (sent, e) t = t'"
  obtains d rx' where "R (Suc i) (Suc k) (bt_srtp t') rx" "bt_seq t' = of_nat (Suc i)"
    "e \<noteq> None \<longrightarrow> bt_packets t' = bt_packets t \<and> bt_bytes t' = bt_bytes t \<and> bt_out t' = bt_out t"
    "e = None \<longrightarrow> bt_packets t' = bt_packets t + 1 \<and> bt_bytes t' = bt_bytes t + of_nat (length d) \<and> bt_out t' = bt_out t @ [d]"
    "k < L \<longrightarrow> R (Suc i) 0 (bt_srtp t') rx' \<and> decrypt_rtp S d rx = (Some (build sent (of_nat i) (bt_ts t)), rx')"
    "d ! 0 = 0x80" "12 \<le> length d" "length d \<le> 2048"
proof -
  let ?p = "build sent (of_nat i) (bt_ts t)"
  have f: "length ?p = sz" "?p ! 0 = 0x80" "rd16 ?p 2 = Some (of_nat i)" "rd32 ?p 8 = Some 90000"
    unfolding build_def by (rule fake_rtp_fields [OF assms(6)])+
  have "next_packet 90000 i ?p" using assms(6,7) unfolding next_packet_def f by simp
  with assms(2,3,5) obtain d tx' where d: "encrypt_rtp S ?p (bt_srtp t) = (Some d, tx')" "R (Suc i) (Suc k) tx' rx"
      "take 12 d = take 12 ?p" "12 \<le> length d" "length d \<le> length ?p + 10"
      "k < L \<longrightarrow> (\<exists>rx'. decrypt_rtp S d rx = (Some ?p, rx') \<and> R (Suc i) 0 tx' rx')"
    unfolding srtp_stream_def by meson
  have "d ! 0 = 0x80" using take_12_nth [OF d(3), of 0] f(2) by simp
  moreover have "length d \<le> 2048" using d(5) f(1) assms(7) by simp
  moreover have "bt_srtp t' = tx'" "bt_seq t' = of_nat (Suc i)"
    "e \<noteq> None \<longrightarrow> bt_packets t' = bt_packets t \<and> bt_bytes t' = bt_bytes t \<and> bt_out t' = bt_out t"
    "e = None \<longrightarrow> bt_packets t' = bt_packets t + 1 \<and> bt_bytes t' = bt_bytes t + of_nat (length d) \<and> bt_out t' = bt_out t @ [d]"
    using assms(8) d(1) by (auto simp: bench_tx_tick_def assms(4) Let_def add.commute split: if_splits option.splits)
  ultimately show ?thesis using that d(2,4,6) by metis
qed

text \<open>The receiver after a datagram that follows \<open>g\<close> lost ones.\<close>

definition fan_heard :: "nat option \<Rightarrow> u16 \<Rightarrow> bytes \<Rightarrow> u64 \<Rightarrow> u64 \<Rightarrow> bench_rx \<Rightarrow> bench_rx" where
  "fan_heard g seq d sent now st = st\<lparr>bx_total := bx_total st + 1, bx_packets := bx_packets st + 1,
     bx_bytes := bx_bytes st + of_nat (length d), bx_expected := Some (seq + 1),
     bx_lost := bx_lost st + gap_counted g,
     bx_latencies := bx_latencies st @ [delay (now, sent)]\<rparr>"

lemma fan_datagram:
  assumes "decrypt_rtp S d rx = (Some (build_fake_rtp sent ssrc seq ts sz), rx')" "d ! 0 = 0x80" "12 \<le> length d"
    "length d \<le> 2048" "20 \<le> sz" "0 < sent" "bx_expected st = map_option (\<lambda>k. seq - of_nat k) g"
    "\<And>k. g = Some k \<Longrightarrow> k < 65536"
  shows "bench_rx_datagram S now d (rx, st) = Some (rx', fan_heard g seq d sent now st)"
proof -
  have "is_rtp 0x80" by (simp add: is_rtp_def)
  moreover have "take 2048 d = d" using assms(4) by simp
  moreover have "gap_loss (bx_expected st) seq (bx_lost st) = bx_lost st + gap_counted g"
    unfolding assms(7) by (rule gap_loss_back) (rule assms(8))
  moreover note f = fake_rtp_fields [OF assms(5), of sent ssrc seq ts]
  ultimately show ?thesis
    using assms(1,2,3,5,6)
    by (simp add: bench_rx_datagram_def fan_heard_def stamp_latency_def delay_def Let_def f)
qed

abbreviation sent_oks :: "(u64 \<times> string option) list \<Rightarrow> bool list" where
  "sent_oks ticks \<equiv> map (\<lambda>(now, e). e = None) ticks"

definition fan_receives ::
    "'c srtp_ops \<Rightarrow> 'c srtp_ctx \<Rightarrow> bench_rx \<Rightarrow> nat option \<Rightarrow> (u64 \<times> string option) list \<Rightarrow> bytes list \<Rightarrow> u64 list \<Rightarrow> bool" where
  "fan_receives S rx st g ticks ds clocks \<longleftrightarrow> (\<exists>st'. bench_rx_loop S (arrivals clocks ds) (rx, st) = Some st'
     \<and> bx_packets st' = bx_packets st + of_nat (length ds)
     \<and> bx_bytes st' = bx_bytes st + sum_list (map (\<lambda>d. of_nat (length d)) ds)
     \<and> bx_lost st' = bx_lost st + inner_losses g (sent_oks ticks)
     \<and> bx_latencies st' = bx_latencies st @ map delay (zip clocks (sent_at ticks)))"

text \<open>A tick whose send failed leaves a gap; one that succeeded is the next datagram received.\<close>

lemma fan_receives_failed:
  "fan_receives S rx st g ((sent, Some err) # ticks) = fan_receives S rx st (map_option Suc g) ticks"
  by (simp add: sent_at_def fan_receives_def fun_eq_iff)

lemma fan_receives_sent:
  assumes "\<And>now. bench_rx_datagram S now d (rx, st) = Some (rx', fan_heard g seq d sent now st)"
    and "\<And>now clocks. length clocks = length ds \<Longrightarrow> fan_receives S rx' (fan_heard g seq d sent now st) (Some 0) ticks ds clocks"
    and "length clocks = Suc (length ds)"
  shows "fan_receives S rx st g ((sent, None) # ticks) (d # ds) clocks"
proof -
  obtain now clocks' where c: "clocks = now # clocks'" "length clocks' = length ds" using assms(3) by (cases clocks) auto
  from assms(2) [OF c(2), of now] show ?thesis
    by (auto simp: fan_receives_def arrivals_def sent_at_def c(1) assms(1) fan_heard_def algebra_simps)
qed

lemma fan_ticks:
  fixes sz :: nat
  defines "build \<equiv> \<lambda>now seq ts. build_fake_rtp now 90000 seq ts sz"
  assumes "srtp_stream S 90000 L R" "L < 2 ^ 15" "20 \<le> sz" "sz \<le> 2038" "\<forall>(sent, e) \<in> set ticks. 0 < sent"
    and "R i k (bt_srtp t) rx" "bt_seq t = of_nat i" "i + length ticks \<le> 2 ^ 48" "losses_below L k (sent_oks ticks)"
    and "g = None \<or> g = Some k" "bx_expected st = map_option (\<lambda>k. bt_seq t - of_nat k) g"
    and "fold (bench_tx_tick E S build fps inc) ticks t = t'"
  shows "\<exists>ds. bt_out t' = bt_out t @ ds \<and> length ds = length (sent_at ticks)
    \<and> bt_packets t' = bt_packets t + of_nat (length ds)
    \<and> bt_bytes t' = bt_bytes t + sum_list (map (\<lambda>d. of_nat (length d)) ds)
    \<and> (\<forall>clocks. length clocks = length ds \<longrightarrow> fan_receives S rx st g ticks ds clocks)"
  using assms(6-13)
proof (induction ticks arbitrary: t rx st g i k)
  case Nil
  then show ?case by (simp add: sent_at_def fan_receives_def arrivals_def)
next
  case (Cons tick ticks)
  note prems = Cons.prems
  obtain sent e where tick: "tick = (sent, e)" by force
  define t1 where "t1 = bench_tx_tick E S build fps inc (sent, e) t"
  have rest: "\<forall>(sent, e) \<in> set ticks. 0 < sent" "fold (bench_tx_tick E S build fps inc) ticks t1 = t'" "0 < sent"
      "i < 2 ^ 48" "Suc i + length ticks \<le> 2 ^ 48"
    using prems(1,4,8) by (simp_all add: tick t1_def)
  obtain d rx' where step: "R (Suc i) (Suc k) (bt_srtp t1) rx" "bt_seq t1 = of_nat (Suc i)"
    "e \<noteq> None \<longrightarrow> bt_packets t1 = bt_packets t \<and> bt_bytes t1 = bt_bytes t \<and> bt_out t1 = bt_out t"
    "e = None \<longrightarrow> bt_packets t1 = bt_packets t + 1 \<and> bt_bytes t1 = bt_bytes t + of_nat (length d) \<and> bt_out t1 = bt_out t @ [d]"
    "k < L \<longrightarrow> R (Suc i) 0 (bt_srtp t1) rx' \<and> decrypt_rtp S d rx = (Some (build_fake_rtp sent 90000 (of_nat i) (bt_ts t) sz), rx')"
    "d ! 0 = 0x80" "12 \<le> length d" "length d \<le> 2048"
    by (rule fan_tick [OF assms(2) prems(2,3) rest(4) assms(4,5) t1_def [symmetric, unfolded build_def]]) (rule that)
  show ?case
  proof (cases "e = None")
    case False
    then obtain err where err: "e = Some err" by auto
    have "bx_expected st = map_option (\<lambda>k. bt_seq t1 - of_nat k) (map_option Suc g)"
      using prems(3,7) step(2) by (cases g) simp_all
    moreover have "losses_below L (Suc k) (sent_oks ticks)" "map_option Suc g = None \<or> map_option Suc g = Some (Suc k)"
      using prems(5,6) by (auto simp: tick err)
    ultimately show ?thesis using Cons.IH [OF rest(1) step(1,2) rest(5) _ _ _ rest(2)] step(3) False
      by (simp add: tick err sent_at_def fan_receives_failed)
  next
    case True
    then have k: "k < L" "losses_below L 0 (sent_oks ticks)" using prems(5) by (simp_all add: tick)
    with step(5) have rx': "R (Suc i) 0 (bt_srtp t1) rx'"
        "decrypt_rtp S d rx = (Some (build_fake_rtp sent 90000 (of_nat i) (bt_ts t) sz), rx')" by simp_all
    have small: "k' < 65536" if "g = Some k'" for k' using that prems(6) k(1) assms(3) by auto
    note recv = fan_datagram [OF rx'(2) step(6-8) assms(4) rest(3) prems(7) [unfolded prems(3)] small]
    have "bx_expected (fan_heard g (of_nat i) d sent now st) = map_option (\<lambda>k. bt_seq t1 - of_nat k) (Some 0)" for now
      by (simp add: fan_heard_def step(2))
    note ih = Cons.IH [OF rest(1) rx'(1) step(2) rest(5) k(2) disjI2 [OF refl] this rest(2)]
    from ih obtain ds where
      ds: "bt_out t' = bt_out t1 @ ds" "length ds = length (sent_at ticks)"
        "bt_packets t' = bt_packets t1 + of_nat (length ds)" "bt_bytes t' = bt_bytes t1 + sum_list (map (\<lambda>d. of_nat (length d)) ds)" by blast
    have "length clocks = length ds \<Longrightarrow> fan_receives S rx' (fan_heard g (of_nat i) d sent now st) (Some 0) ticks ds clocks" for now clocks
      using ih [of now] ds(1) by auto
    then have "fan_receives S rx st g (tick # ticks) (d # ds) clocks" if "length clocks = length (d # ds)" for clocks
      unfolding tick True using that by (intro fan_receives_sent [OF recv]) simp_all
    then show ?thesis using ds step(4) True
      by (intro exI [of _ "d # ds"]) (simp add: tick sent_at_def algebra_simps)
  qed
qed

lemma frame_timing_panics: "frame_timing fps = None \<longleftrightarrow> fps = 0 \<or> 1000000 < fps"
proof -
  have "1000000 div fps = 0 \<longleftrightarrow> unat (1000000 div fps) = 0" by (simp only: unsigned_eq_0_iff)
  also have "\<dots> \<longleftrightarrow> fps = 0 \<or> 1000000 < fps"
    by (auto simp: unat_div word_less_nat_alt div_eq_0_iff unsigned_eq_0_iff)
  finally have "1000000 div fps = 0 \<longleftrightarrow> fps = 0 \<or> 1000000 < fps" .
  then show ?thesis by (auto simp: frame_timing_def)
qed

text \<open>C26: At every rate from 1 to a million frames a second the benchmark's publisher runs through its ticks,
  and a subscriber that gets what was sent, in order and at any times, counts exactly the packets and bytes
  the publisher counts; its latencies are the times between the clock readings of the two ends; its losses
  are the sends that failed between two that arrived, although the network lost nothing, and of a gap of a
  thousand or more it counts none.  The failed sends in a row stay below the number of losses that SRTP
  tolerates, and the packets within the lifetime of its keys.\<close>

theorem fanout_delivers:
  assumes "srtp_stream S 90000 L R" "R 0 0 tx_srtp rx_srtp" "L < 2 ^ 15" "0 < fps" "fps \<le> 1000000" "20 \<le> sz" "sz \<le> 2038"
    and "\<forall>(sent, e) \<in> set ticks. 0 < sent" "length ticks \<le> 2 ^ 48" "losses_below L 0 (sent_oks ticks)"
  shows "\<exists>t. bench_tx_loop E S (\<lambda>now seq ts. build_fake_rtp now 90000 seq ts sz) fps ticks tx_srtp session = Some t
    \<and> length (bt_out t) = length (sent_at ticks)
    \<and> (\<forall>clocks. length clocks = length (bt_out t) \<longrightarrow>
        (\<exists>st. bench_rx_loop S (arrivals clocks (bt_out t)) (rx_srtp, bench_rx_new) = Some st
          \<and> bx_packets st = bt_packets t \<and> bx_bytes st = bt_bytes t
          \<and> bx_lost st = inner_losses None (sent_oks ticks)
          \<and> bx_latencies st = map delay (zip clocks (sent_at ticks))))"
proof -
  obtain period inc where ft: "frame_timing fps = Some (period, inc)"
    using frame_timing_panics [of fps] assms(4,5) by (cases "frame_timing fps") auto
  let ?t0 = "\<lparr>bt_srtp = tx_srtp, bt_session = session, bt_seq = 0, bt_ts = 0, bt_packets = 0, bt_bytes = 0, bt_out = []\<rparr>"
  let ?build = "\<lambda>now seq ts. build_fake_rtp now 90000 seq ts sz"
  have start: "R 0 0 (bt_srtp ?t0) rx_srtp" "bt_seq ?t0 = of_nat 0" "0 + length ticks \<le> 2 ^ 48"
      "(None :: nat option) = None \<or> None = Some 0" "bx_expected bench_rx_new = map_option (\<lambda>k. bt_seq ?t0 - of_nat k) None"
    using assms(2,9) by (simp_all add: bench_rx_new_def)
  define t where "t = fold (bench_tx_tick E S ?build fps inc) ticks ?t0"
  from fan_ticks [OF assms(1,3,6,7,8) start(1-3) assms(10) start(4,5) t_def [symmetric]] obtain ds where ds: "bt_out t = ds"
      "length ds = length (sent_at ticks)" "bt_packets t = of_nat (length ds)"
      "bt_bytes t = sum_list (map (\<lambda>d. of_nat (length d)) ds)"
      "\<And>clocks. length clocks = length ds \<Longrightarrow> fan_receives S rx_srtp bench_rx_new None ticks ds clocks" by auto
  have "\<exists>st. bench_rx_loop S (arrivals clocks ds) (rx_srtp, bench_rx_new) = Some st
      \<and> bx_packets st = bt_packets t \<and> bx_bytes st = bt_bytes t
      \<and> bx_lost st = inner_losses None (sent_oks ticks)
      \<and> bx_latencies st = map delay (zip clocks (sent_at ticks))" if "length clocks = length ds" for clocks
    using ds(5) [OF that] by (auto simp: fan_receives_def ds(3,4) bench_rx_new_def)
  moreover have "bench_tx_loop E S ?build fps ticks tx_srtp session = Some t"
    by (simp add: bench_tx_loop_def ft t_def)
  ultimately show ?thesis using ds(1,2) by blast
qed

definition sample_ticks :: "(u64 \<times> string option) list" where
  "sample_ticks = [(10, None), (20, None), (30, Some ''e''), (40, None)]"

definition sample_text_session :: text_session where
  "sample_text_session = \<lparr>xs_ws = \<lparr>tw_in = [], tw_out = [], tw_tries = 0, tw_close_sent = False, tw_send_error = (\<lambda>_. None)\<rparr>,
     xs_pid = 1, xs_user_id = [], xs_room_id = [], xs_server_config = None\<rparr>"

definition sample_text_env :: "sample_json text_env" where
  "sample_text_env = \<lparr>te_json = sample_json_ops, te_to_string = (\<lambda>p. Inr ''{}''), te_from_str = (\<lambda>t. Inl ''no packet'')\<rparr>"

text \<open>An SRTP whose two ends count packets: the tag depends on the whole index, of which the receiver only
  sees the sequence number, so it recovers a packet only when it guesses the rest right.\<close>

definition counting_srtp :: "nat srtp_ops" where
  "counting_srtp = \<lparr>so_context_new = (\<lambda>_ _. Some 0),
     so_encrypt_rtp = (\<lambda>i p. (Some (p @ le64 (of_nat i)), Suc i)),
     so_decrypt_rtp = (\<lambda>n d. let p = take (length d - 8) d
       in case rd16 p 2 of
            None \<Rightarrow> (None, n)
          | Some seq \<Rightarrow> let i = n + unat (seq - of_nat n)
              in if drop (length d - 8) d = le64 (of_nat i) then (Some p, Suc i) else (None, n)),
     so_encrypt_rtcp = (\<lambda>i p. (Some p, i)), so_decrypt_rtcp = (\<lambda>i p. (Some p, i))\<rparr>"

definition counting_in_step :: "nat \<Rightarrow> nat \<Rightarrow> nat srtp_ctx \<Rightarrow> nat srtp_ctx \<Rightarrow> bool" where
  "counting_in_step i k tx rx \<longleftrightarrow> k \<le> i \<and> sc_inner tx = Some i \<and> sc_inner rx = Some (i - k)"

lemma counting_srtp_stream:
  assumes "L < 2 ^ 15"
  shows "srtp_stream counting_srtp ssrc L counting_in_step"
  unfolding srtp_stream_def
proof (intro allI impI)
  fix i k :: nat and tx rx :: "nat srtp_ctx" and p
  assume R: "counting_in_step i k tx rx" and p: "next_packet ssrc i p"
  let ?d = "p @ le64 (of_nat i)"
  have rx: "k \<le> i" "sc_inner tx = Some i" "sc_inner rx = Some (i - k)" using R by (simp_all add: counting_in_step_def)
  have len: "length (le64 (of_nat i)) = 8" by (simp add: le64_def)
  have "decrypt_rtp counting_srtp ?d rx = (Some p, rx\<lparr>sc_inner := Some (Suc i)\<rparr>)" if "k < L"
  proof -
    have "(of_nat i - of_nat (i - k) :: u16) = of_nat k" using rx(1) by (simp add: of_nat_diff)
    moreover have "unat (of_nat k :: u16) = k" using that assms by (intro unat_of_nat_eq) simp
    moreover have "i - k + k = i" using rx(1) by simp
    ultimately show ?thesis using p len
      by (simp add: decrypt_rtp_def srtp_apply_def counting_srtp_def rx(3) next_packet_def Let_def)
  qed
  then show "\<exists>d tx'. encrypt_rtp counting_srtp p tx = (Some d, tx') \<and> counting_in_step (Suc i) (Suc k) tx' rx
      \<and> take 12 d = take 12 p \<and> 12 \<le> length d \<and> length d \<le> length p + 10
      \<and> (k < L \<longrightarrow> (\<exists>rx'. decrypt_rtp counting_srtp d rx = (Some p, rx') \<and> counting_in_step (Suc i) 0 tx' rx'))"
    using p len rx
    by (intro exI [of _ ?d] exI [of _ "tx\<lparr>sc_inner := Some (Suc i)\<rparr>"])
      (auto simp: encrypt_rtp_def srtp_apply_def counting_srtp_def counting_in_step_def next_packet_def)
qed

text \<open>One of four sends fails.\<close>

theorem fanout_delivers_witness:
  "\<exists>t st. bench_tx_loop sample_text_env counting_srtp (\<lambda>now seq ts. build_fake_rtp now 90000 seq ts 1200) 30 sample_ticks
      \<lparr>sc_inner = Some 0\<rparr> sample_text_session = Some t
    \<and> bench_rx_loop counting_srtp (arrivals [15, 26, 47] (bt_out t)) (\<lparr>sc_inner = Some 0\<rparr>, bench_rx_new) = Some st
    \<and> bx_lost st = 1 \<and> bx_latencies st = map delay [(15, 10), (26, 20), (47, 40)]"
proof -
  let ?c = "\<lparr>sc_inner = Some (0 :: nat)\<rparr>"
  have session: "srtp_stream counting_srtp 90000 1000 counting_in_step" "counting_in_step 0 0 ?c ?c"
    by (rule counting_srtp_stream) (simp_all add: counting_in_step_def)
  have ticks: "\<forall>(sent, e) \<in> set sample_ticks. 0 < sent" "length sample_ticks \<le> 2 ^ 48"
      "losses_below 1000 0 (sent_oks sample_ticks)"
    and sent: "sent_at sample_ticks = [10, 20, 40]"
    and lost: "inner_losses None (sent_oks sample_ticks) = 1"
    by (simp_all add: sample_ticks_def sent_at_def gap_counted_def)
  from fanout_delivers [OF session _ _ _ _ _ ticks, of 30 1200 sample_text_env sample_text_session]
  obtain t where "bench_tx_loop sample_text_env counting_srtp (\<lambda>now seq ts. build_fake_rtp now 90000 seq ts 1200) 30 sample_ticks
      ?c sample_text_session = Some t" "length (bt_out t) = length (sent_at sample_ticks)"
    and all: "\<forall>clocks. length clocks = length (bt_out t) \<longrightarrow> (\<exists>st. bench_rx_loop counting_srtp (arrivals clocks (bt_out t))
        (?c, bench_rx_new) = Some st \<and> bx_packets st = bt_packets t \<and> bx_bytes st = bt_bytes t
      \<and> bx_lost st = inner_losses None (sent_oks sample_ticks) \<and> bx_latencies st = map delay (zip clocks (sent_at sample_ticks)))"
    by auto
  then show ?thesis using all [rule_format, of "[15, 26, 47]"] by (auto simp: sent lost)
qed

end
