(* ===== verification/E2e.thy ===== *)
theory E2e
  imports Bench
begin

text \<open>
  The end-to-end test tool for floor control (\<open>e2e-ptt/src\<close>): participants with media and their MBCP
  exchange, participants that only signal, the eight test scenarios and the runner.  The tool is written
  against an older \<open>common\<close>; the operations and opcodes of the session it calls and \<open>common\<close> no longer has
  (\<open>floor_request\<close>, \<open>floor_release\<close>, \<open>floor_queue_pos\<close>, \<open>OP_FLOOR_TAKEN\<close> and so on) are parameters.
\<close>

section \<open>A participant with media\<close>

text \<open>The subscribe socket is the list of what it yields; \<open>RecvTimeout\<close> marks where the deadline of the
  operation then waiting passes.  \<open>pp_sent\<close> is what went out on the publish socket.\<close>

record ('j, 'c) ptt_peer =
  pp_sig :: "'j session"
  pp_pub_srtp :: "'c srtp_ctx"
  pp_sub_srtp :: "'c srtp_ctx"
  pp_video_ssrc :: u32
  pp_server_addr :: string
  pp_user_id :: string
  pp_sent :: "bytes list"
  pp_tries :: nat
  pp_in :: "recv_result list"

record e2e_client =
  ek_connect :: "string \<Rightarrow> string + ws"
  ek_parse_addr :: "string \<Rightarrow> string + string"
  ek_pub_bind_error :: "string option"
  ek_sub_bind_error :: "string option"
  ek_pub_media :: media_env
  ek_sub_media :: media_env
  ek_in :: "recv_result list"

record e2e_args =
  ea_server :: string
  ea_ws_port :: u16
  ea_udp_port :: u16
  ea_room :: string
  ea_test :: "string option"

definition e2e_defaults :: e2e_args where
  "e2e_defaults = \<lparr>ea_server = ''127.0.0.1'', ea_ws_port = 1974, ea_udp_port = 19740, ea_room = ''e2e-ptt-test'', ea_test = None\<rparr>"

text \<open>\<open>se_send_error\<close> is the outcome of each try to send on the publish socket of the user.\<close>

record ('j, 'c) e2e_env =
  se_sig :: "'j sig_env"
  se_srtp :: "'c srtp_ops"
  se_send_error :: "string \<Rightarrow> nat \<Rightarrow> string option"

definition socket_send :: "('j, 'c) e2e_env \<Rightarrow> bytes \<Rightarrow> ('j, 'c) ptt_peer \<Rightarrow> (string + unit) \<times> ('j, 'c) ptt_peer" where
  "socket_send E pkt p = (let q = p\<lparr>pp_tries := pp_tries p + 1\<rparr> in
     case se_send_error E (pp_user_id p) (pp_tries p) of
       Some e \<Rightarrow> (Inl e, q)
     | None \<Rightarrow> (Inr (), q\<lparr>pp_sent := pp_sent p @ [pkt]\<rparr>))"

definition peer_send_mbcp :: "('j, 'c) e2e_env \<Rightarrow> bytes \<Rightarrow> ('j, 'c) ptt_peer \<Rightarrow> (string + unit) \<times> ('j, 'c) ptt_peer" where
  "peer_send_mbcp E pkt p = (case encrypt_rtcp (se_srtp E) pkt (pp_pub_srtp p) of
       (None, srtp) \<Rightarrow> (Inl ''SRTCP encrypt failed'', p\<lparr>pp_pub_srtp := srtp\<rparr>)
     | (Some encrypted, srtp) \<Rightarrow> (case socket_send E encrypted (p\<lparr>pp_pub_srtp := srtp\<rparr>) of
           (Inl e, p) \<Rightarrow> (Inl (''send_mbcp: '' @ e), p)
         | (Inr u, p) \<Rightarrow> (Inr (), p)))"

text \<open>The wait for a message of some subtypes.  The packet type is read from the whole buffer, so after a
  datagram of less than two bytes it is the one of an earlier datagram: \<open>b1\<close>.  The first wanted message
  of a compound is taken, the rest of the compound is dropped.\<close>

definition is_rtcp_type :: "u8 \<Rightarrow> bool" where
  "is_rtcp_type b1 \<longleftrightarrow> 72 \<le> b1 AND 0x7F \<and> b1 AND 0x7F \<le> 79"

definition second_byte :: "u8 \<Rightarrow> bytes \<Rightarrow> u8" where
  "second_byte b1 buf = (if 2 \<le> length buf then buf ! 1 else b1)"

fun mbcp_wait ::
    "'c srtp_ops \<Rightarrow> u8 list \<Rightarrow> u8 \<Rightarrow> recv_result list \<Rightarrow> 'c srtp_ctx
     \<Rightarrow> (mbcp_message option \<times> recv_result list \<times> 'c srtp_ctx) option" where
  "mbcp_wait S kinds b1 [] srtp = Some (None, [], srtp)"
| "mbcp_wait S kinds b1 (RecvTimeout # rest) srtp = Some (None, rest, srtp)"
| "mbcp_wait S kinds b1 (RecvError e # rest) srtp = mbcp_wait S kinds b1 rest srtp"
| "mbcp_wait S kinds b1 (Datagram d # rest) srtp = (let buf = take 2048 d; b1 = second_byte b1 buf in
     if \<not> is_rtcp_type b1 then mbcp_wait S kinds b1 rest srtp
     else case decrypt_rtcp S buf srtp of
         (None, srtp) \<Rightarrow> mbcp_wait S kinds b1 rest srtp
       | (Some plaintext, srtp) \<Rightarrow> do {
           msgs \<leftarrow> parse_compound plaintext;
           case List.find (\<lambda>m. mm_subtype m \<in> set kinds) msgs of
             Some m \<Rightarrow> Some (Some m, rest, srtp)
           | None \<Rightarrow> mbcp_wait S kinds b1 rest srtp
         })"

definition recv_mbcp_filtered ::
    "('j, 'c) e2e_env \<Rightarrow> u8 list \<Rightarrow> ('j, 'c) ptt_peer \<Rightarrow> (mbcp_message option \<times> ('j, 'c) ptt_peer) option" where
  "recv_mbcp_filtered E kinds p = do {
     (r, rest, srtp) \<leftarrow> mbcp_wait (se_srtp E) kinds 0 (pp_in p) (pp_sub_srtp p);
     Some (r, p\<lparr>pp_in := rest, pp_sub_srtp := srtp\<rparr>)
   }"

definition recv_mbcp ::
    "('j, 'c) e2e_env \<Rightarrow> ('j, 'c) ptt_peer \<Rightarrow> (mbcp_message option \<times> ('j, 'c) ptt_peer) option" where
  "recv_mbcp E = recv_mbcp_filtered E
     [SUBTYPE_FREQ, SUBTYPE_FREL, SUBTYPE_FTKN, SUBTYPE_FIDL, SUBTYPE_FRVK, SUBTYPE_FPNG]"

fun count_rtp ::
    "'c srtp_ops \<Rightarrow> u64 \<Rightarrow> recv_result list \<Rightarrow> 'c srtp_ctx \<Rightarrow> u64 \<times> recv_result list \<times> 'c srtp_ctx" where
  "count_rtp S n [] srtp = (n, [], srtp)"
| "count_rtp S n (RecvTimeout # rest) srtp = (n, rest, srtp)"
| "count_rtp S n (RecvError e # rest) srtp = count_rtp S n rest srtp"
| "count_rtp S n (Datagram d # rest) srtp = (let buf = take 2048 d in
     if 12 \<le> length buf \<and> is_rtp (buf ! 0) then
       (case decrypt_rtp S buf srtp of
          (Some plaintext, srtp) \<Rightarrow> count_rtp S (n + 1) rest srtp
        | (None, srtp) \<Rightarrow> count_rtp S n rest srtp)
     else count_rtp S n rest srtp)"

definition count_rtp_received :: "('j, 'c) e2e_env \<Rightarrow> ('j, 'c) ptt_peer \<Rightarrow> u64 \<times> ('j, 'c) ptt_peer" where
  "count_rtp_received E p = (let (n, rest, srtp) = count_rtp (se_srtp E) 0 (pp_in p) (pp_sub_srtp p)
     in (n, p\<lparr>pp_in := rest, pp_sub_srtp := srtp\<rparr>))"

text \<open>Every datagram restarts the 50 ms; an error ends the draining as the silence does.\<close>

fun drain_list :: "recv_result list \<Rightarrow> recv_result list" where
  "drain_list (Datagram d # rest) = drain_list rest"
| "drain_list (r # rest) = rest"
| "drain_list [] = []"

definition drain_recv :: "('j, 'c) ptt_peer \<Rightarrow> ('j, 'c) ptt_peer" where
  "drain_recv p = p\<lparr>pp_in := drain_list (pp_in p)\<rparr>"

definition peer_close :: "('j, 'c) ptt_peer \<Rightarrow> ('j, 'c) ptt_peer" where
  "peer_close p = p\<lparr>pp_sig := close (pp_sig p)\<rparr>"

text \<open>\<open>map_err\<close> with a prefix.\<close>

definition err_prefix :: "string \<Rightarrow> string + 'a \<Rightarrow> string + 'a" where
  "err_prefix s r = (case r of Inl e \<Rightarrow> Inl (s @ e) | Inr x \<Rightarrow> Inr x)"

definition e2e_session ::
    "'j sig_env \<Rightarrow> e2e_args \<Rightarrow> string \<Rightarrow> string option \<Rightarrow> string \<Rightarrow> (string \<Rightarrow> string + ws) \<Rightarrow> string + 'j session" where
  "e2e_session E a user_id room_id mode connect_async = (case room_id of
       Some rid \<Rightarrow> err_prefix ''connect_to_room: '' (connect_to_room E connect_async (ea_server a) (ea_ws_port a) user_id rid)
     | None \<Rightarrow> err_prefix ''connect: '' (connect E connect_async (ea_server a) (ea_ws_port a) user_id (ea_room a) mode))"

definition bound :: "string option \<Rightarrow> (string + unit) option" where
  "bound e = Some (err_prefix ''bind: '' (case e of Some e \<Rightarrow> Inl e | None \<Rightarrow> Inr ()))"

definition setup_participant ::
    "('j, 'c) e2e_env \<Rightarrow> e2e_args \<Rightarrow> string \<Rightarrow> string option \<Rightarrow> string \<Rightarrow> u32 \<Rightarrow> e2e_client
     \<Rightarrow> (string + ('j, 'c) ptt_peer) option" where
  "setup_participant E a user_id room_id mode ssrc k = (let S = se_srtp E in
     and_then (Some (e2e_session (se_sig E) a user_id room_id mode (ek_connect k))) (\<lambda>session.
     and_then (Some (case s_server_config session of None \<Rightarrow> Inl ''no server_config'' | Some sc \<Rightarrow> Inr sc)) (\<lambda>sc.
     and_then (Some (err_prefix ''parse addr: '' (ek_parse_addr k (server_ip sc @ '':'' @ show_word (server_port sc))))) (\<lambda>addr.
     and_then (bound (ek_pub_bind_error k)) (\<lambda>_.
     and_then (map_option (err_prefix ''pub setup: '')
       (setup_media_pc (ek_pub_media k) (pub_ufrag sc) (pub_pwd sc) (''pub:'' @ user_id))) (\<lambda>pub_keys.
     and_then (bound (ek_sub_bind_error k)) (\<lambda>_.
     and_then (map_option (err_prefix ''sub setup: '')
       (setup_media_pc (ek_sub_media k) (sub_ufrag sc) (sub_pwd sc) (''sub:'' @ user_id))) (\<lambda>sub_keys.
     Some (Inr \<lparr>pp_sig = session,
       pp_pub_srtp = srtp_install S (client_key pub_keys) (client_salt pub_keys) srtp_new,
       pp_sub_srtp = srtp_install S (server_key sub_keys) (server_salt sub_keys) srtp_new,
       pp_video_ssrc = ssrc, pp_server_addr = addr, pp_user_id = user_id, pp_sent = [], pp_tries = 0,
       pp_in = ek_in k\<rparr>)))))))))"

section \<open>The fake packet\<close>

definition e2e_fake_rtp :: "u32 \<Rightarrow> u16 \<Rightarrow> nat \<Rightarrow> bool \<Rightarrow> bytes" where
  "e2e_fake_rtp ssrc seq total_size keyframe = (
     let n = max total_size 16
     in [0x80, (if keyframe then 96 OR 0x80 else 96)] @ be16 seq @ be32 (ucast seq * 3000) @ be32 ssrc
        @ [0x10, (if keyframe then 0x10 else 0x11), 0, 0] @ replicate (n - 16) 0)"

section \<open>Steps of a scenario\<close>

text \<open>An error ends a scenario and drops its participants, so what is left of it is the error.\<close>

definition send_step ::
    "('j, 'c) e2e_env \<Rightarrow> bytes option \<Rightarrow> ('j, 'c) ptt_peer \<Rightarrow> (string + ('j, 'c) ptt_peer) option" where
  "send_step E pkt p = do {
     pkt \<leftarrow> pkt;
     case peer_send_mbcp E pkt p of (Inl e, p) \<Rightarrow> Some (Inl e) | (Inr u, p) \<Rightarrow> Some (Inr p)
   }"

definition send_freq :: "('j, 'c) e2e_env \<Rightarrow> ('j, 'c) ptt_peer \<Rightarrow> (string + ('j, 'c) ptt_peer) option" where
  "send_freq E p = send_step E (build_freq (pp_video_ssrc p)) p"

definition send_frel :: "('j, 'c) e2e_env \<Rightarrow> ('j, 'c) ptt_peer \<Rightarrow> (string + ('j, 'c) ptt_peer) option" where
  "send_frel E p = send_step E (build_frel (pp_video_ssrc p)) p"

definition expect_mbcp ::
    "('j, 'c) e2e_env \<Rightarrow> u8 \<Rightarrow> string \<Rightarrow> ('j, 'c) ptt_peer \<Rightarrow> (string + mbcp_message \<times> ('j, 'c) ptt_peer) option" where
  "expect_mbcp E subtype message p = do {
     (r, p) \<leftarrow> recv_mbcp_filtered E [subtype] p;
     Some (case r of None \<Rightarrow> Inl message | Some m \<Rightarrow> Inr (m, p))
   }"

definition await_mbcp ::
    "('j, 'c) e2e_env \<Rightarrow> u8 \<Rightarrow> ('j, 'c) ptt_peer \<Rightarrow> (string + ('j, 'c) ptt_peer) option" where
  "await_mbcp E subtype p = do { (r, p) \<leftarrow> recv_mbcp_filtered E [subtype] p; Some (Inr p) }"

definition publish_video ::
    "('j, 'c) e2e_env \<Rightarrow> string \<Rightarrow> ('j, 'c) ptt_peer \<Rightarrow> (string + ('j, 'c) ptt_peer) option" where
  "publish_video E label p = (case publish_tracks (se_sig E) [(''video'', pp_video_ssrc p)] (pp_sig p) of
       (Inl e, session) \<Rightarrow> Some (Inl (label @ e))
     | (Inr u, session) \<Rightarrow> Some (Inr (p\<lparr>pp_sig := session\<rparr>)))"

text \<open>The opening the four MBCP scenarios share: the first participant creates the room, the second joins
  it, both publish.\<close>

definition two_peers ::
    "('j, 'c) e2e_env \<Rightarrow> e2e_args \<Rightarrow> string \<Rightarrow> u32 \<Rightarrow> string \<Rightarrow> u32 \<Rightarrow> string \<Rightarrow> string \<Rightarrow> (string \<Rightarrow> e2e_client)
     \<Rightarrow> (string + ('j, 'c) ptt_peer \<times> ('j, 'c) ptt_peer) option" where
  "two_peers E args ida ssrca idb ssrcb label_a label_b ks =
     and_then (setup_participant E args ida None ''ptt'' ssrca (ks ida)) (\<lambda>a.
     and_then (setup_participant E args idb (Some (s_room_id (pp_sig a))) ''ptt'' ssrcb (ks idb)) (\<lambda>b.
     and_then (publish_video E label_a a) (\<lambda>a.
     and_then (publish_video E label_b b) (\<lambda>b.
     Some (Inr (a, b))))))"

definition both_closed ::
    "('j, 'c) ptt_peer \<Rightarrow> ('j, 'c) ptt_peer \<Rightarrow> (string + ('j, 'c) ptt_peer \<times> ('j, 'c) ptt_peer) option" where
  "both_closed a b = Some (Inr (peer_close a, peer_close b))"

section \<open>The MBCP scenarios\<close>

type_synonym ('j, 'c) ptt_test =
  "('j, 'c) e2e_env \<Rightarrow> e2e_args \<Rightarrow> (string \<Rightarrow> e2e_client) \<Rightarrow> (string + ('j, 'c) ptt_peer \<times> ('j, 'c) ptt_peer) option"

definition test_basic_grant_release :: "('j, 'c) ptt_test" where
  "test_basic_grant_release E args ks =
     and_then (two_peers E args ''PTT_A'' 90001 ''PTT_B'' 90002 ''A publish: '' ''B publish: '' ks) (\<lambda>(a, b).
     and_then (send_freq E a) (\<lambda>a.
     and_then (expect_mbcp E SUBTYPE_FTKN ''B: FTKN timeout'' b) (\<lambda>(ftkn, b).
     and_then (expect_mbcp E SUBTYPE_FTKN ''A: FTKN timeout'' a) (\<lambda>(ftkn_a, a).
     and_then (send_frel E a) (\<lambda>a.
     and_then (expect_mbcp E SUBTYPE_FIDL ''B: FIDL timeout'' b) (\<lambda>(fidl, b).
     both_closed a b))))))"

definition test_queued_when_busy :: "('j, 'c) ptt_test" where
  "test_queued_when_busy E args ks =
     and_then (two_peers E args ''Q_A'' 91001 ''Q_B'' 91002 [] [] ks) (\<lambda>(a, b).
     and_then (send_freq E a) (\<lambda>a.
     and_then (expect_mbcp E SUBTYPE_FTKN ''A: FTKN timeout'' a) (\<lambda>(ftkn, a).
     and_then (await_mbcp E SUBTYPE_FTKN b) (\<lambda>b.
     and_then (send_freq E b) (\<lambda>b.
     and_then (expect_mbcp E SUBTYPE_FRVK ''B: FRVK/queued timeout'' b) (\<lambda>(frvk, b).
     let data = (case mm_data frvk of Some s \<Rightarrow> s | None \<Rightarrow> [])
     in if \<not> contains_str data ''queued:''
        then Some (Inl (''B: FRVK data should contain '' @ [CHR 0x27] @ ''queued:'' @ [CHR 0x27] @ '', got: '' @ data))
        else
     and_then (send_frel E a) (\<lambda>a.
     and_then (await_mbcp E SUBTYPE_FTKN b) (\<lambda>b.
     and_then (send_frel E b) (\<lambda>b.
     both_closed a b)))))))))"

definition test_floor_switch :: "('j, 'c) ptt_test" where
  "test_floor_switch E args ks =
     and_then (two_peers E args ''SW_A'' 92001 ''SW_B'' 92002 [] [] ks) (\<lambda>(a, b).
     and_then (send_freq E a) (\<lambda>a.
     and_then (await_mbcp E SUBTYPE_FTKN a) (\<lambda>a.
     and_then (await_mbcp E SUBTYPE_FTKN b) (\<lambda>b.
     and_then (send_frel E a) (\<lambda>a.
     and_then (await_mbcp E SUBTYPE_FIDL a) (\<lambda>a.
     and_then (await_mbcp E SUBTYPE_FIDL b) (\<lambda>b.
     and_then (send_freq E b) (\<lambda>b.
     and_then (expect_mbcp E SUBTYPE_FTKN ''B: FTKN timeout after floor switch'' b) (\<lambda>(ftkn, b).
     and_then (send_frel E b) (\<lambda>b.
     both_closed a b))))))))))"

text \<open>Ten packets, the first a keyframe; a packet that cannot be encrypted or sent is passed over.\<close>

definition send_rtp_step :: "('j, 'c) e2e_env \<Rightarrow> u16 \<Rightarrow> ('j, 'c) ptt_peer \<Rightarrow> ('j, 'c) ptt_peer" where
  "send_rtp_step E seq p = (
     case encrypt_rtp (se_srtp E) (e2e_fake_rtp (pp_video_ssrc p) seq 200 (seq = 0)) (pp_pub_srtp p) of
       (None, srtp) \<Rightarrow> p\<lparr>pp_pub_srtp := srtp\<rparr>
     | (Some encrypted, srtp) \<Rightarrow> snd (socket_send E encrypted (p\<lparr>pp_pub_srtp := srtp\<rparr>)))"

definition send_ten :: "('j, 'c) e2e_env \<Rightarrow> ('j, 'c) ptt_peer \<Rightarrow> ('j, 'c) ptt_peer" where
  "send_ten E p = fold (send_rtp_step E) (map of_nat [0..<10]) p"

definition test_rtp_gating :: "('j, 'c) ptt_test" where
  "test_rtp_gating E args ks =
     and_then (two_peers E args ''GATE_A'' 93001 ''GATE_B'' 93002 [] [] ks) (\<lambda>(a, b).
     let b = send_ten E b; (gated_count, a) = count_rtp_received E a
     in if gated_count > 0 then Some (Inl (''RTP gating failed: A received '' @ show_word gated_count @ '' packets without floor holder''))
        else
     and_then (send_freq E a) (\<lambda>a.
     and_then (await_mbcp E SUBTYPE_FTKN a) (\<lambda>a.
     let b = drain_recv b; a = send_ten E a; (passed_count, b) = count_rtp_received E b
     in if passed_count = 0 then Some (Inl ''RTP gating failed: B received 0 packets when A has floor'')
        else
     and_then (send_frel E a) (\<lambda>a.
     both_closed a b))))"

section \<open>Participants that only signal\<close>

record 'j ws_peer =
  wq_sig :: "'j session"
  wq_room_id :: string

text \<open>What \<open>common\<close> no longer has, and \<open>Value::as_bool\<close>.\<close>

record 'j floor_env =
  fe_sig :: "'j sig_env"
  fe_request :: "string \<Rightarrow> u8 \<Rightarrow> 'j session \<Rightarrow> (string + 'j packet) \<times> 'j session"
  fe_release :: "string \<Rightarrow> 'j session \<Rightarrow> (string + 'j packet) \<times> 'j session"
  fe_queue_pos :: "string \<Rightarrow> 'j session \<Rightarrow> (string + 'j packet) \<times> 'j session"
  fe_op_taken :: u16
  fe_op_idle :: u16
  fe_op_revoke :: u16
  fe_op_request :: u16
  fe_as_bool :: "'j \<Rightarrow> bool option"

definition or_fail :: "string + 'a \<Rightarrow> ('a \<Rightarrow> string + 'b) \<Rightarrow> string + 'b" where
  "or_fail r f = (case r of Inl e \<Rightarrow> Inl e | Inr x \<Rightarrow> f x)"

definition floor_call ::
    "string \<Rightarrow> ('j session \<Rightarrow> (string + 'j packet) \<times> 'j session) \<Rightarrow> 'j ws_peer \<Rightarrow> string + 'j packet \<times> 'j ws_peer" where
  "floor_call label call p = (case call (wq_sig p) of
       (Inl e, session) \<Rightarrow> Inl (label @ e)
     | (Inr resp, session) \<Rightarrow> Inr (resp, p\<lparr>wq_sig := session\<rparr>))"

definition floor_request :: "'j floor_env \<Rightarrow> u8 \<Rightarrow> 'j ws_peer \<Rightarrow> string + 'j packet \<times> 'j ws_peer" where
  "floor_request E priority p = floor_call ''floor_request: '' (fe_request E (wq_room_id p) priority) p"

definition floor_release :: "'j floor_env \<Rightarrow> 'j ws_peer \<Rightarrow> string + 'j packet \<times> 'j ws_peer" where
  "floor_release E p = floor_call ''floor_release: '' (fe_release E (wq_room_id p)) p"

definition floor_queue_pos :: "'j floor_env \<Rightarrow> 'j ws_peer \<Rightarrow> string + 'j packet \<times> 'j ws_peer" where
  "floor_queue_pos E p = floor_call ''floor_queue_pos: '' (fe_queue_pos E (wq_room_id p)) p"

definition wait_op :: "'j floor_env \<Rightarrow> u16 \<Rightarrow> 'j ws_peer \<Rightarrow> 'j packet option \<times> 'j ws_peer" where
  "wait_op E op p = (let (r, session) = wait_event (fe_sig E) op (wq_sig p) in (r, p\<lparr>wq_sig := session\<rparr>))"

definition wait_floor_taken :: "'j floor_env \<Rightarrow> 'j ws_peer \<Rightarrow> 'j packet option \<times> 'j ws_peer" where
  "wait_floor_taken E = wait_op E (fe_op_taken E)"
definition wait_floor_idle :: "'j floor_env \<Rightarrow> 'j ws_peer \<Rightarrow> 'j packet option \<times> 'j ws_peer" where
  "wait_floor_idle E = wait_op E (fe_op_idle E)"
definition wait_floor_revoke :: "'j floor_env \<Rightarrow> 'j ws_peer \<Rightarrow> 'j packet option \<times> 'j ws_peer" where
  "wait_floor_revoke E = wait_op E (fe_op_revoke E)"
definition wait_floor_granted_push :: "'j floor_env \<Rightarrow> 'j ws_peer \<Rightarrow> 'j packet option \<times> 'j ws_peer" where
  "wait_floor_granted_push E = wait_op E (fe_op_request E)"

definition ws_close :: "'j ws_peer \<Rightarrow> 'j ws_peer" where
  "ws_close p = p\<lparr>wq_sig := close (wq_sig p)\<rparr>"

definition setup_ws_participant ::
    "'j floor_env \<Rightarrow> e2e_args \<Rightarrow> string \<Rightarrow> string option \<Rightarrow> string \<Rightarrow> (string \<Rightarrow> string \<Rightarrow> string + ws) \<Rightarrow> string + 'j ws_peer" where
  "setup_ws_participant E a user_id room_id mode conn =
     or_fail (e2e_session (fe_sig E) a user_id room_id mode (conn user_id)) (\<lambda>session.
     Inr \<lparr>wq_sig = session, wq_room_id = s_room_id session\<rparr>)"

definition d_bool :: "'j floor_env \<Rightarrow> string \<Rightarrow> 'j packet \<Rightarrow> bool option" where
  "d_bool E k p = Option.bind (jo_get (js (fe_sig E)) (pk_d p) k) (fe_as_bool E)"
definition d_u64 :: "'j floor_env \<Rightarrow> string \<Rightarrow> u64 \<Rightarrow> 'j packet \<Rightarrow> u64" where
  "d_u64 E k dflt p = (case Option.bind (jo_get (js (fe_sig E)) (pk_d p) k) (jo_as_u64 (js (fe_sig E))) of
     Some n \<Rightarrow> n | None \<Rightarrow> dflt)"
definition d_str :: "'j floor_env \<Rightarrow> string \<Rightarrow> 'j packet \<Rightarrow> string" where
  "d_str E k p = str_or [] (Option.bind (jo_get (js (fe_sig E)) (pk_d p) k) (jo_as_str (js (fe_sig E))))"

definition debug_d :: "'j floor_env \<Rightarrow> 'j packet \<Rightarrow> string" where
  "debug_d E p = jo_debug (js (fe_sig E)) (pk_d p)"

definition quoted :: "string \<Rightarrow> string" where
  "quoted s = [CHR 0x27] @ s @ [CHR 0x27]"

section \<open>The signaling scenarios\<close>

definition two_ws_peers ::
    "'j floor_env \<Rightarrow> e2e_args \<Rightarrow> string \<Rightarrow> string \<Rightarrow> (string \<Rightarrow> string \<Rightarrow> string + ws) \<Rightarrow> string + 'j ws_peer \<times> 'j ws_peer" where
  "two_ws_peers E args ida idb conn =
     or_fail (setup_ws_participant E args ida None ''ptt'' conn) (\<lambda>a.
     or_fail (setup_ws_participant E args idb (Some (wq_room_id a)) ''ptt'' conn) (\<lambda>b.
     Inr (a, b)))"

definition test_ws_priority_queuing ::
    "'j floor_env \<Rightarrow> e2e_args \<Rightarrow> (string \<Rightarrow> string \<Rightarrow> string + ws) \<Rightarrow> string + 'j ws_peer list" where
  "test_ws_priority_queuing E args conn =
     or_fail (two_ws_peers E args ''WQ_A'' ''WQ_B'' conn) (\<lambda>(a, b).
     or_fail (floor_request E 5 a) (\<lambda>(resp, a).
     if d_bool E ''granted'' resp \<noteq> Some True then Inl (''A: expected granted, got '' @ debug_d E resp)
     else let b = snd (wait_floor_taken E b) in
     or_fail (floor_request E 2 b) (\<lambda>(resp, b).
     if d_bool E ''queued'' resp \<noteq> Some True then Inl (''B: expected queued=true, got '' @ debug_d E resp)
     else let position = d_u64 E ''position'' 0 resp; priority = d_u64 E ''priority'' 0 resp in
     if position \<noteq> 1 then Inl (''B: expected position=1, got '' @ show_word position)
     else if priority \<noteq> 2 then Inl (''B: expected priority=2, got '' @ show_word priority)
     else
     or_fail (floor_release E a) (\<lambda>(_, a).
     let b = snd (wait_floor_taken E b) in
     or_fail (floor_release E b) (\<lambda>(_, b).
     Inr [ws_close a, ws_close b])))))"

definition test_ws_preemption ::
    "'j floor_env \<Rightarrow> e2e_args \<Rightarrow> (string \<Rightarrow> string \<Rightarrow> string + ws) \<Rightarrow> string + 'j ws_peer list" where
  "test_ws_preemption E args conn =
     or_fail (two_ws_peers E args ''WP_A'' ''WP_B'' conn) (\<lambda>(a, b).
     or_fail (floor_request E 2 a) (\<lambda>(resp, a).
     if d_bool E ''granted'' resp \<noteq> Some True then Inl (''A: expected granted, got '' @ debug_d E resp)
     else let b = snd (wait_floor_taken E b) in
     or_fail (floor_request E 5 b) (\<lambda>(resp, b).
     if d_bool E ''granted'' resp \<noteq> Some True then Inl (''B: expected granted=true (preemption), got '' @ debug_d E resp)
     else case wait_floor_revoke E a of
       (None, a) \<Rightarrow> Inl ''A: FLOOR_REVOKE timeout''
     | (Some revoke, a) \<Rightarrow>
     let cause = d_str E ''cause'' revoke in
     if cause \<noteq> ''preempted'' then Inl (''A: expected cause='' @ quoted ''preempted'' @ '', got '' @ quoted cause)
     else case wait_floor_taken E a of
       (None, a) \<Rightarrow> Inl ''A: FLOOR_TAKEN timeout after preemption''
     | (Some taken, a) \<Rightarrow>
     or_fail (floor_release E b) (\<lambda>(_, b).
     Inr [ws_close a, ws_close b]))))"

definition test_ws_queue_pop_on_release ::
    "'j floor_env \<Rightarrow> e2e_args \<Rightarrow> (string \<Rightarrow> string \<Rightarrow> string + ws) \<Rightarrow> string + 'j ws_peer list" where
  "test_ws_queue_pop_on_release E args conn =
     or_fail (two_ws_peers E args ''WR_A'' ''WR_B'' conn) (\<lambda>(a, b).
     or_fail (floor_request E 5 a) (\<lambda>(_, a).
     let b = snd (wait_floor_taken E b) in
     or_fail (floor_request E 2 b) (\<lambda>(resp, b).
     if d_bool E ''queued'' resp \<noteq> Some True then Inl (''B: expected queued, got '' @ debug_d E resp)
     else
     or_fail (floor_release E a) (\<lambda>(_, a).
     case wait_floor_taken E b of
       (None, b) \<Rightarrow> Inl ''B: FLOOR_TAKEN timeout (queue pop)''
     | (Some taken, b) \<Rightarrow>
     let speaker = d_str E ''speaker'' taken in
     if \<not> contains_str speaker ''WR_B''
     then Inl (''B: expected speaker containing '' @ quoted ''WR_B'' @ '', got '' @ quoted speaker)
     else let b = snd (wait_floor_granted_push E b) in
     or_fail (floor_release E b) (\<lambda>(_, b).
     Inr [ws_close a, ws_close b])))))"

definition test_ws_queue_position ::
    "'j floor_env \<Rightarrow> e2e_args \<Rightarrow> (string \<Rightarrow> string \<Rightarrow> string + ws) \<Rightarrow> string + 'j ws_peer list" where
  "test_ws_queue_position E args conn =
     or_fail (two_ws_peers E args ''QP_A'' ''QP_B'' conn) (\<lambda>(a, b).
     or_fail (setup_ws_participant E args ''QP_C'' (Some (wq_room_id a)) ''ptt'' conn) (\<lambda>c.
     or_fail (floor_request E 10 a) (\<lambda>(_, a).
     let b = snd (wait_floor_taken E b); c = snd (wait_floor_taken E c) in
     or_fail (floor_request E 2 b) (\<lambda>(_, b).
     or_fail (floor_request E 5 c) (\<lambda>(resp, c).
     let c_pos = d_u64 E ''position'' 0 resp in
     if c_pos \<noteq> 1 then Inl (''C: expected position=1 (higher priority), got '' @ show_word c_pos)
     else
     or_fail (floor_queue_pos E c) (\<lambda>(resp, c).
     let qpos = d_u64 E ''position'' 99 resp; qpri = d_u64 E ''priority'' 99 resp in
     if qpos \<noteq> 1 \<or> qpri \<noteq> 5
     then Inl (''C: expected pos=1/pri=5, got pos='' @ show_word qpos @ ''/pri='' @ show_word qpri)
     else
     or_fail (floor_queue_pos E b) (\<lambda>(resp, b).
     let bpos = d_u64 E ''position'' 99 resp in
     if bpos \<noteq> 2 then Inl (''B: expected pos=2, got '' @ show_word bpos)
     else
     or_fail (floor_release E a) (\<lambda>(_, a).
     let c = snd (wait_floor_taken E c) in
     or_fail (floor_release E c) (\<lambda>(_, c).
     let b = snd (wait_floor_taken E b) in
     or_fail (floor_release E b) (\<lambda>(_, b).
     Inr [ws_close a, ws_close b, ws_close c]))))))))))"

section \<open>The runner\<close>

text \<open>A test by name: its outcome, \<open>None\<close> when it panics.  The tests run one after the other, so a panic
  ends the runner.\<close>

type_synonym e2e_test = "string \<times> (string + unit) option"

definition test_outcome :: "string + 'a \<Rightarrow> string + unit" where
  "test_outcome r = (case r of Inl e \<Rightarrow> Inl e | Inr _ \<Rightarrow> Inr ())"

definition e2e_tests ::
    "('j, 'c) e2e_env \<Rightarrow> 'j floor_env \<Rightarrow> e2e_args \<Rightarrow> (string \<Rightarrow> e2e_client) \<Rightarrow> (string \<Rightarrow> string \<Rightarrow> string + ws) \<Rightarrow> e2e_test list" where
  "e2e_tests E F args ks conn =
     [(''basic_grant_release'', map_option test_outcome (test_basic_grant_release E args ks)),
      (''queued_when_busy'', map_option test_outcome (test_queued_when_busy E args ks)),
      (''floor_switch'', map_option test_outcome (test_floor_switch E args ks)),
      (''rtp_gating'', map_option test_outcome (test_rtp_gating E args ks)),
      (''ws_priority_queuing'', Some (test_outcome (test_ws_priority_queuing F args conn))),
      (''ws_preemption'', Some (test_outcome (test_ws_preemption F args conn))),
      (''ws_queue_pop_on_release'', Some (test_outcome (test_ws_queue_pop_on_release F args conn))),
      (''ws_queue_position'', Some (test_outcome (test_ws_queue_position F args conn)))]"

definition selected :: "string option \<Rightarrow> string \<Rightarrow> bool" where
  "selected flt name = (case flt of None \<Rightarrow> True | Some f \<Rightarrow> contains_str name f)"

text \<open>Passed, failed and skipped.\<close>

fun run_tests :: "string option \<Rightarrow> e2e_test list \<Rightarrow> nat \<times> nat \<times> nat \<Rightarrow> (nat \<times> nat \<times> nat) option" where
  "run_tests flt [] counts = Some counts"
| "run_tests flt ((name, outcome) # tests) (passed, failed, skipped) =
     (if \<not> selected flt name then run_tests flt tests (passed, failed, skipped + 1)
      else case outcome of
          None \<Rightarrow> None
        | Some (Inr u) \<Rightarrow> run_tests flt tests (passed + 1, failed, skipped)
        | Some (Inl e) \<Rightarrow> run_tests flt tests (passed, failed + 1, skipped))"

definition e2e_summary :: "nat \<times> nat \<times> nat \<Rightarrow> string list" where
  "e2e_summary = (\<lambda>(passed, failed, skipped). let rule = concat (replicate 35 (utf8 [0xE2, 0x95, 0x90]))
     in [[], rule, ''  E2E-PTT Results: '' @ show_nat passed @ '' passed, '' @ show_nat failed @ '' failed, ''
        @ show_nat skipped @ '' skipped'', rule])"

text \<open>The summary and the exit code.\<close>

definition e2e_main :: "string option \<Rightarrow> e2e_test list \<Rightarrow> (string list \<times> nat) option" where
  "e2e_main flt tests = map_option (\<lambda>counts. (e2e_summary counts, if 0 < fst (snd counts) then 1 else 0))
     (run_tests flt tests (0, 0, 0))"

end
