(* ===== verification/E2eLaws.thy ===== *)
theory E2eLaws
  imports E2e
begin

text \<open>
  What the end-to-end test tool checks: which message a wait takes, that the scenarios return, that the
  first scenario passes against a server that grants the floor, and what the exit code says.
\<close>

section \<open>Waiting for a message\<close>

text \<open>The MBCP messages in a run of receive results.\<close>

fun heard :: "'c srtp_ops \<Rightarrow> u8 \<Rightarrow> 'c srtp_ctx \<Rightarrow> recv_result list \<Rightarrow> mbcp_message list" where
  "heard S b1 srtp [] = []"
| "heard S b1 srtp (Datagram d # rest) = (let buf = take 2048 d; b1 = second_byte b1 buf in
     if is_rtcp_type b1
     then case decrypt_rtcp S buf srtp of
         (Some plaintext, srtp) \<Rightarrow> List.map_filter mbcp_read (rtcp_frames plaintext) @ heard S b1 srtp rest
       | (None, srtp) \<Rightarrow> heard S b1 srtp rest
     else heard S b1 srtp rest)"
| "heard S b1 srtp (r # rest) = heard S b1 srtp rest"

definition wanted :: "u8 list \<Rightarrow> mbcp_message list \<Rightarrow> mbcp_message option" where
  "wanted kinds = List.find (\<lambda>m. mm_subtype m \<in> set kinds)"

lemma wanted_append: "wanted kinds (xs @ ys) = (case wanted kinds xs of None \<Rightarrow> wanted kinds ys | Some m \<Rightarrow> Some m)"
  unfolding wanted_def by (induction xs) auto

text \<open>What a wait that started with \<open>srtp\<close> answers: the receive results it used, the message, the rest.\<close>

definition waits_first where
  "waits_first S kinds b1 ins srtp r \<longleftrightarrow> (\<exists>m used rest srtp'. r = Some (m, rest, srtp') \<and> ins = used @ rest
     \<and> RecvTimeout \<notin> set (butlast used) \<and> wanted kinds (heard S b1 srtp (butlast used)) = None
     \<and> m = wanted kinds (heard S b1 srtp used)
     \<and> (m = None \<longrightarrow> rest = [] \<or> used \<noteq> [] \<and> last used = RecvTimeout))"

lemma waits_first_ends:
  assumes "ins = used @ rest" "RecvTimeout \<notin> set (butlast used)" "wanted kinds (heard S b1 srtp (butlast used)) = None"
    "m = wanted kinds (heard S b1 srtp used)" "m = None \<Longrightarrow> rest = [] \<or> used \<noteq> [] \<and> last used = RecvTimeout"
  shows "waits_first S kinds b1 ins srtp (Some (m, rest, srtp'))"
  unfolding waits_first_def using assms
  by - (rule exI [of _ m], rule exI [of _ used], rule exI [of _ rest], rule exI [of _ srtp'],
    intro conjI impI; (rule refl assms(1-4) | erule assms(5)))

text \<open>A receive result none of whose messages is wanted is skipped.\<close>

lemma waits_first_skip:
  assumes "waits_first S kinds c1 ins s1 r" "\<And>more. heard S b1 srtp (x # more) = ms @ heard S c1 s1 more"
    "wanted kinds ms = None" "x \<noteq> RecvTimeout"
  shows "waits_first S kinds b1 (x # ins) srtp r"
proof -
  obtain m used rest srtp' where *: "r = Some (m, rest, srtp')" "ins = used @ rest"
     "RecvTimeout \<notin> set (butlast used)" "wanted kinds (heard S c1 s1 (butlast used)) = None"
     "m = wanted kinds (heard S c1 s1 used)" "m = None \<longrightarrow> rest = [] \<or> used \<noteq> [] \<and> last used = RecvTimeout"
    using assms(1) unfolding waits_first_def by (elim exE conjE) (rule that)
  have "wanted kinds (heard S b1 srtp (butlast (x # used))) = None"
    using *(4) assms(2) [of "butlast used"] assms(3) by (simp add: wanted_append) (simp add: wanted_def)
  moreover have "m = wanted kinds (heard S b1 srtp (x # used))"
    by (simp only: assms(2,3) wanted_append option.case *(5))
  ultimately show ?thesis unfolding *(1) using * assms(4) by (intro waits_first_ends [of _ "x # used"]) auto
qed

lemma mbcp_wait_first: "waits_first S kinds b1 ins srtp (mbcp_wait S kinds b1 ins srtp)"
proof (induction S kinds b1 ins srtp rule: mbcp_wait.induct)
  case (1 S kinds b1 srtp)
  then show ?case by (simp add: wanted_def waits_first_ends [of _ "[]"])
next
  case (2 S kinds b1 rest srtp)
  then show ?case by (simp add: wanted_def waits_first_ends [of _ "[RecvTimeout]"])
next
  case (3 S kinds b1 e rest srtp)
  then show ?case using waits_first_skip [OF 3, of b1 srtp "RecvError e" "[]"] by (simp add: wanted_def)
next
  case (4 S kinds b1 d rest srtp)
  define buf where "buf = take 2048 d"
  define c1 where "c1 = second_byte b1 buf"
  note defs = buf_def c1_def Let_def
  show ?case
  proof (cases "is_rtcp_type c1")
    case False
    then show ?thesis
      using waits_first_skip [where ?b1.0 = b1 and srtp = srtp and x = "Datagram d" and ms = "[]", OF 4(1) [OF refl refl]] by (simp add: defs wanted_def)
  next
    case True
    obtain r s1 where dec: "decrypt_rtcp S buf srtp = (r, s1)" by force
    show ?thesis
    proof (cases r)
      case None
      then show ?thesis using waits_first_skip [where ?b1.0 = b1 and srtp = srtp and x = "Datagram d" and ms = "[]", OF 4(2) [OF refl refl]] True dec
        by (simp add: defs wanted_def)
    next
      case (Some plaintext)
      define ms where "ms = List.map_filter mbcp_read (rtcp_frames plaintext)"
      have p: "parse_compound plaintext = Some ms" by (simp add: ms_def parse_compound_frames)
      note here = True dec Some p
      show ?thesis
      proof (cases "wanted kinds ms")
        case None
        then show ?thesis using waits_first_skip [where ?b1.0 = b1 and srtp = srtp and x = "Datagram d" and ms = ms, OF 4(3) [OF refl refl]] here
          by (simp add: defs wanted_def ms_def)
      next
        case found: (Some m)
        have took: "mbcp_wait S kinds b1 (Datagram d # rest) srtp = Some (Some m, rest, s1)"
          using here found by (simp add: defs wanted_def)
        have "wanted kinds (heard S b1 srtp [Datagram d]) = Some m"
          using here found by (simp add: defs ms_def)
        then show ?thesis unfolding took
          by (intro waits_first_ends [of _ "[Datagram d]"]) (simp_all, simp add: wanted_def)
      qed
    qed
  qed
qed

section \<open>The runner\<close>

lemma run_tests_counts:
  "run_tests flt tests (p, f, s) = (let sel = filter (\<lambda>(name, r). selected flt name) tests
     in if list_ex (\<lambda>(name, r). r = None) sel then None
        else Some (p + length (filter (\<lambda>(name, r). r = Some (Inr ())) sel),
          f + length (filter (\<lambda>(name, r). r \<noteq> Some (Inr ())) sel), s + (length tests - length sel)))"
proof (induction tests arbitrary: p f s)
  case (Cons t tests)
  obtain name r where t: "t = (name, r)" by force
  have le: "length (filter (\<lambda>(name, r). selected flt name) tests) \<le> length tests" by (rule length_filter_le)
  show ?case
  proof (cases "selected flt name")
    case False
    then show ?thesis using le by (simp add: t Cons.IH Let_def Suc_diff_le)
  next
    case True
    then show ?thesis
      by (cases r; cases "the r") (auto simp: t Cons.IH Let_def)
  qed
qed simp

text \<open>C30: The runner panics exactly when a selected test does; otherwise it counts the passed, failed and
  skipped tests, and exits with 0 exactly when no selected test failed, so also when a filter selects none.\<close>

theorem e2e_exit:
  "e2e_main flt tests = (let sel = filter (\<lambda>(name, r). selected flt name) tests;
       failed = filter (\<lambda>(name, r). r \<noteq> Some (Inr ())) sel
     in if list_ex (\<lambda>(name, r). r = None) sel then None
        else Some (e2e_summary (length sel - length failed, length failed, length tests - length sel),
          if failed = [] then 0 else 1))"
proof -
  have "length (filter (\<lambda>(name, r). r = Some (Inr ())) xs) = length xs - length (filter (\<lambda>(name, r). r \<noteq> Some (Inr ())) xs)"
    for xs :: "e2e_test list"
    using sum_length_filter_compl [of "\<lambda>(name, r). r = Some (Inr ())" xs] by (simp add: case_prod_unfold)
  then show ?thesis by (simp add: e2e_main_def run_tests_counts Let_def del: filter_filter)
qed


section \<open>Receiving\<close>

text \<open>C28: Waiting for messages of some subtypes never panics.  It takes the first such message among the
  MBCP messages of the datagrams that decrypt, up to the deadline, reads nothing after the datagram that
  carries it, and gives up only at the deadline or when nothing arrives any more.\<close>

theorem recv_mbcp_first:
  "\<exists>m p' used. recv_mbcp_filtered E kinds p = Some (m, p') \<and> pp_in p = used @ pp_in p'
     \<and> m = wanted kinds (heard (se_srtp E) 0 (pp_sub_srtp p) used)
     \<and> wanted kinds (heard (se_srtp E) 0 (pp_sub_srtp p) (butlast used)) = None \<and> RecvTimeout \<notin> set (butlast used)
     \<and> (case m of None \<Rightarrow> pp_in p' = [] \<or> (\<exists>us. used = us @ [RecvTimeout]) | Some _ \<Rightarrow> True)
     \<and> p' = p\<lparr>pp_in := pp_in p', pp_sub_srtp := pp_sub_srtp p'\<rparr>"
proof -
  obtain m used rest srtp' where "mbcp_wait (se_srtp E) kinds 0 (pp_in p) (pp_sub_srtp p) = Some (m, rest, srtp')"
    "pp_in p = used @ rest" "RecvTimeout \<notin> set (butlast used)"
    "wanted kinds (heard (se_srtp E) 0 (pp_sub_srtp p) (butlast used)) = None"
    "m = wanted kinds (heard (se_srtp E) 0 (pp_sub_srtp p) used)"
    "m = None \<longrightarrow> rest = [] \<or> used \<noteq> [] \<and> last used = RecvTimeout"
    using mbcp_wait_first [of "se_srtp E" kinds 0 "pp_in p" "pp_sub_srtp p"]
    unfolding waits_first_def by (elim exE conjE) (rule that)
  moreover from this have "case m of None \<Rightarrow> rest = [] \<or> (\<exists>us. used = us @ [RecvTimeout]) | Some _ \<Rightarrow> True"
    by (auto split: option.split) (metis append_butlast_last_id)
  ultimately show ?thesis
    by - (rule exI [of _ m], rule exI [of _ "p\<lparr>pp_in := rest, pp_sub_srtp := srtp'\<rparr>"], rule exI [of _ used],
      auto simp: recv_mbcp_filtered_def split: option.splits)
qed

section \<open>A scenario that passes\<close>

text \<open>A datagram that carries one message of a subtype.\<close>

definition hears :: "'c srtp_ops \<Rightarrow> u8 \<Rightarrow> bytes \<Rightarrow> 'c srtp_ctx \<Rightarrow> 'c srtp_ctx \<Rightarrow> bool" where
  "hears S subtype d srtp srtp' \<longleftrightarrow> 2 \<le> length d \<and> length d \<le> 2048 \<and> is_rtcp_type (d ! 1)
     \<and> (\<exists>m. mbcp_sendable m \<and> mm_subtype m AND 0x1F = subtype \<and> decrypt_rtcp S d srtp = (Some (mbcp_enc m), srtp'))"

lemma recv_hears:
  assumes "pp_in p = Datagram d # rest" "hears (se_srtp E) st d (pp_sub_srtp p) srtp'"
  shows "\<exists>m. recv_mbcp_filtered E [st] p = Some (Some m, p\<lparr>pp_in := rest, pp_sub_srtp := srtp'\<rparr>)"
proof -
  obtain m where m: "mbcp_sendable m" "mm_subtype m AND 0x1F = st"
      "decrypt_rtcp (se_srtp E) d (pp_sub_srtp p) = (Some (mbcp_enc m), srtp')"
    using assms(2) unfolding hears_def by blast
  have "parse_compound (mbcp_enc m) = Some [mbcp_norm m]"
    using mbcp_codec.decode_compound [of "[m]"] m(1) by (simp add: parse_compound_frames)
  moreover have "mm_subtype (mbcp_norm m) = st" using m(2) by (simp add: mbcp_norm_def)
  ultimately show ?thesis using assms m(3)
    by (simp add: recv_mbcp_filtered_def hears_def second_byte_def Let_def)
qed

lemma expect_hears:
  "pp_in p = Datagram d # rest \<Longrightarrow> hears (se_srtp E) st d (pp_sub_srtp p) srtp'
    \<Longrightarrow> \<exists>m. expect_mbcp E st e p = Some (Inr (m, p\<lparr>pp_in := rest, pp_sub_srtp := srtp'\<rparr>))"
  using recv_hears [of p d rest E st srtp'] by (auto simp: expect_mbcp_def)

definition sends_work :: "('j, 'c) e2e_env \<Rightarrow> bool" where
  "sends_work E \<longleftrightarrow> (\<forall>u n. se_send_error E u n = None) \<and>
     (\<forall>pkt srtp. sc_inner srtp \<noteq> None \<longrightarrow> (\<exists>e srtp'. encrypt_rtcp (se_srtp E) pkt srtp = (Some e, srtp') \<and> sc_inner srtp' \<noteq> None))"

lemma send_step_works:
  assumes "sends_work E" "sc_inner (pp_pub_srtp p) \<noteq> None"
  obtains e srtp' where "send_step E (Some pkt) p
      = Some (Inr (p\<lparr>pp_pub_srtp := srtp', pp_tries := pp_tries p + 1, pp_sent := pp_sent p @ [e]\<rparr>))"
    "encrypt_rtcp (se_srtp E) pkt (pp_pub_srtp p) = (Some e, srtp')" "sc_inner srtp' \<noteq> None"
proof -
  obtain e srtp' where "encrypt_rtcp (se_srtp E) pkt (pp_pub_srtp p) = (Some e, srtp')" "sc_inner srtp' \<noteq> None"
    using assms unfolding sends_work_def by blast
  with assms(1) that show ?thesis
    by (simp add: send_step_def peer_send_mbcp_def socket_send_def sends_work_def Let_def)
qed

lemma and_then_Inr: "r = Some (Inr x) \<Longrightarrow> and_then r f = f x"
  by (simp add: and_then_def)

text \<open>C29: Against a server that sends floor-taken to both and then floor-idle to the second, the scenario of
  a request and a release passes: the first participant has sent the request and the release, in that
  order and encrypted in sequence, nothing else was read, and both are closed.\<close>

theorem basic_scenario_passes:
  assumes "two_peers E args ''PTT_A'' 90001 ''PTT_B'' 90002 ''A publish: '' ''B publish: '' ks = Some (Inr (a, b))"
    and "sends_work E" "sc_inner (pp_pub_srtp a) \<noteq> None"
    and "pp_in b = Datagram d1 # Datagram d2 # rest" "hears (se_srtp E) SUBTYPE_FTKN d1 (pp_sub_srtp b) s1"
    and "hears (se_srtp E) SUBTYPE_FIDL d2 s1 s2"
    and "pp_in a = Datagram d3 # later" "hears (se_srtp E) SUBTYPE_FTKN d3 (pp_sub_srtp a) s3"
  shows "\<exists>a' b' freq frel t. test_basic_grant_release E args ks = Some (Inr (a', b'))
    \<and> pp_sent a' = pp_sent a @ [freq, frel]
    \<and> encrypt_rtcp (se_srtp E) (mbcp_wire SUBTYPE_FREQ (pp_video_ssrc a) None) (pp_pub_srtp a) = (Some freq, t)
    \<and> fst (encrypt_rtcp (se_srtp E) (mbcp_wire SUBTYPE_FREL (pp_video_ssrc a) None) t) = Some frel
    \<and> pp_in a' = later \<and> pp_in b' = rest
    \<and> ws_close_sent (s_ws (pp_sig a')) \<and> ws_close_sent (s_ws (pp_sig b'))"
proof -
  let ?S = "se_srtp E"
  obtain freq t where 1: "send_freq E a = Some (Inr (a\<lparr>pp_pub_srtp := t, pp_tries := pp_tries a + 1, pp_sent := pp_sent a @ [freq]\<rparr>))"
      (is "_ = Some (Inr ?a1)") "encrypt_rtcp ?S (mbcp_wire SUBTYPE_FREQ (pp_video_ssrc a) None) (pp_pub_srtp a) = (Some freq, t)"
      "sc_inner t \<noteq> None"
    using send_step_works [OF assms(2,3)] unfolding send_freq_def build_freq_def mbcp_build_wire by blast
  obtain m1 where 2: "expect_mbcp E SUBTYPE_FTKN ''B: FTKN timeout'' b
      = Some (Inr (m1, b\<lparr>pp_in := Datagram d2 # rest, pp_sub_srtp := s1\<rparr>))" (is "_ = Some (Inr (_, ?b1))")
    using expect_hears [OF assms(4,5)] by blast
  obtain m2 where 3: "expect_mbcp E SUBTYPE_FTKN ''A: FTKN timeout'' ?a1
      = Some (Inr (m2, ?a1\<lparr>pp_in := later, pp_sub_srtp := s3\<rparr>))" (is "_ = Some (Inr (_, ?a2))")
    using expect_hears [of ?a1 d3 later E SUBTYPE_FTKN s3] assms(7,8) by auto
  have "sc_inner (pp_pub_srtp ?a2) \<noteq> None" using 1(3) by simp
  then obtain frel t' where 4: "send_frel E ?a2 = Some (Inr (?a2\<lparr>pp_pub_srtp := t', pp_tries := pp_tries ?a2 + 1, pp_sent := pp_sent ?a2 @ [frel]\<rparr>))"
      (is "_ = Some (Inr ?a3)") "encrypt_rtcp ?S (mbcp_wire SUBTYPE_FREL (pp_video_ssrc ?a2) None) (pp_pub_srtp ?a2) = (Some frel, t')"
    using send_step_works [OF assms(2), of ?a2] unfolding send_frel_def build_frel_def mbcp_build_wire by blast
  obtain m3 where 5: "expect_mbcp E SUBTYPE_FIDL ''B: FIDL timeout'' ?b1
      = Some (Inr (m3, ?b1\<lparr>pp_in := rest, pp_sub_srtp := s2\<rparr>))" (is "_ = Some (Inr (_, ?b2))")
    using expect_hears [of ?b1 d2 rest E SUBTYPE_FIDL s2] assms(6) by auto
  have "test_basic_grant_release E args ks = both_closed ?a3 ?b2"
    unfolding test_basic_grant_release_def
    by (simp only: and_then_Inr [OF assms(1)] and_then_Inr [OF 1(1)] and_then_Inr [OF 2] and_then_Inr [OF 3]
      and_then_Inr [OF 4(1)] and_then_Inr [OF 5] prod.case)
  then show ?thesis using 1(2) 4(2) by (simp add: both_closed_def peer_close_def close_def)
qed

definition sample_client :: "string \<Rightarrow> e2e_client" where
  "sample_client u = \<lparr>ek_connect = (\<lambda>url. Inr (sample_ws
       (if u = ''PTT_A'' then [[1, 0, 0], [4, 0, 0, 1], [5, 1, 1, 1], [6, 2, 1, 2], [8, 3, 1]]
        else [[1, 0, 0], [4, 0, 0, 1], [6, 1, 1, 2], [8, 2, 1]]))),
     ek_parse_addr = Inr, ek_pub_bind_error = None, ek_sub_bind_error = None, ek_pub_media = sample_media,
     ek_sub_media = sample_media,
     ek_in = map Datagram (if u = ''PTT_A'' then [mbcp_wire 2 0 (Some ''bob'')]
       else [mbcp_wire 2 0 (Some ''bob''), mbcp_wire 3 0 None])\<rparr>"

definition sample_e2e :: "(sample_json, bool) e2e_env" where
  "sample_e2e = \<lparr>se_sig = sample_sig, se_srtp = sample_srtp, se_send_error = (\<lambda>u n. None)\<rparr>"

lemma sample_peer_sessions:
  "case e2e_session sample_sig e2e_defaults ''PTT_A'' None ''ptt'' (ek_connect (sample_client ''PTT_A'')) of Inl e \<Rightarrow> False
   | Inr s \<Rightarrow> s_room_id s = ''r1'' \<and> s_server_config s \<noteq> None \<and> fst (publish_tracks sample_sig [(''video'', 90001)] s) = Inr ()"
  "case e2e_session sample_sig e2e_defaults ''PTT_B'' (Some ''r1'') ''ptt'' (ek_connect (sample_client ''PTT_B'')) of Inl e \<Rightarrow> False
   | Inr s \<Rightarrow> s_server_config s \<noteq> None \<and> fst (publish_tracks sample_sig [(''video'', 90002)] s) = Inr ()"
  by code_simp+

lemma sample_participant:
  assumes "e2e_session sample_sig e2e_defaults u room ''ptt'' (ek_connect (sample_client u)) = Inr s" "s_server_config s \<noteq> None"
  shows "\<exists>addr. setup_participant sample_e2e e2e_defaults u room ''ptt'' ssrc (sample_client u) =
    Some (Inr \<lparr>pp_sig = s, pp_pub_srtp = \<lparr>sc_inner = Some True\<rparr>, pp_sub_srtp = \<lparr>sc_inner = Some True\<rparr>,
      pp_video_ssrc = ssrc, pp_server_addr = addr, pp_user_id = u, pp_sent = [], pp_tries = 0, pp_in = ek_in (sample_client u)\<rparr>)"
proof -
  obtain sc where sc: "s_server_config s = Some sc" using assms(2) by auto
  obtain k k' where k: "setup_media_pc sample_media (pub_ufrag sc) (pub_pwd sc) (''pub:'' @ u) = Some (Inr k)"
      "setup_media_pc sample_media (sub_ufrag sc) (sub_pwd sc) (''sub:'' @ u) = Some (Inr k')"
    using sample_media_keys by metis
  have i: "srtp_install sample_srtp x y srtp_new = \<lparr>sc_inner = Some True\<rparr>" for x y
    by (simp add: srtp_install_def sample_srtp_def srtp_new_def)
  have c: "ek_parse_addr (sample_client u) = Inr" "ek_pub_bind_error (sample_client u) = None" "ek_sub_bind_error (sample_client u) = None"
      "ek_pub_media (sample_client u) = sample_media" "ek_sub_media (sample_client u) = sample_media"
      "se_sig sample_e2e = sample_sig" "se_srtp sample_e2e = sample_srtp"
    by (simp_all add: sample_client_def sample_e2e_def)
  show ?thesis unfolding setup_participant_def Let_def c i
    by (simp add: assms(1) and_then_def sc bound_def err_prefix_def k [simplified] i)
qed

lemma sample_two_peers:
  "\<exists>a b. two_peers sample_e2e e2e_defaults ''PTT_A'' 90001 ''PTT_B'' 90002 ''A publish: '' ''B publish: '' sample_client = Some (Inr (a, b))
     \<and> pp_in a = ek_in (sample_client ''PTT_A'') \<and> pp_in b = ek_in (sample_client ''PTT_B'') \<and> pp_sent a = []
     \<and> pp_pub_srtp a = \<lparr>sc_inner = Some True\<rparr> \<and> pp_sub_srtp a = \<lparr>sc_inner = Some True\<rparr>
     \<and> pp_sub_srtp b = \<lparr>sc_inner = Some True\<rparr>"
proof -
  obtain sa where sa: "e2e_session sample_sig e2e_defaults ''PTT_A'' None ''ptt'' (ek_connect (sample_client ''PTT_A'')) = Inr sa"
      "s_room_id sa = ''r1''" "s_server_config sa \<noteq> None" "fst (publish_tracks sample_sig [(''video'', 90001)] sa) = Inr ()"
    using sample_peer_sessions(1) by (simp split: sum.splits)
  obtain sb where sb: "e2e_session sample_sig e2e_defaults ''PTT_B'' (Some ''r1'') ''ptt'' (ek_connect (sample_client ''PTT_B'')) = Inr sb"
      "s_server_config sb \<noteq> None" "fst (publish_tracks sample_sig [(''video'', 90002)] sb) = Inr ()"
    using sample_peer_sessions(2) by (simp split: sum.splits)
  obtain sa' sb' where pub: "publish_tracks sample_sig [(''video'', 90001)] sa = (Inr (), sa')"
      "publish_tracks sample_sig [(''video'', 90002)] sb = (Inr (), sb')"
    using sa(4) sb(3) by (metis prod.collapse)
  obtain x y where "setup_participant sample_e2e e2e_defaults ''PTT_A'' None ''ptt'' 90001 (sample_client ''PTT_A'') =
      Some (Inr \<lparr>pp_sig = sa, pp_pub_srtp = \<lparr>sc_inner = Some True\<rparr>, pp_sub_srtp = \<lparr>sc_inner = Some True\<rparr>,
        pp_video_ssrc = 90001, pp_server_addr = x, pp_user_id = ''PTT_A'', pp_sent = [], pp_tries = 0, pp_in = ek_in (sample_client ''PTT_A'')\<rparr>)"
    "setup_participant sample_e2e e2e_defaults ''PTT_B'' (Some ''r1'') ''ptt'' 90002 (sample_client ''PTT_B'') =
      Some (Inr \<lparr>pp_sig = sb, pp_pub_srtp = \<lparr>sc_inner = Some True\<rparr>, pp_sub_srtp = \<lparr>sc_inner = Some True\<rparr>,
        pp_video_ssrc = 90002, pp_server_addr = y, pp_user_id = ''PTT_B'', pp_sent = [], pp_tries = 0, pp_in = ek_in (sample_client ''PTT_B'')\<rparr>)"
    using sample_participant [OF sa(1,3)] sample_participant [OF sb(1,2)] by blast
  moreover have "se_sig sample_e2e = sample_sig" by (simp add: sample_e2e_def)
  ultimately show ?thesis
    by (simp add: two_peers_def and_then_def sa(2) publish_video_def pub)
qed

lemma sample_hears:
  assumes "is_str d" "length (mbcp_data_bytes d) \<le> 2000" "st AND 0x1F = subtype"
  shows "hears (se_srtp sample_e2e) subtype (mbcp_wire st ssrc d) \<lparr>sc_inner = Some True\<rparr> \<lparr>sc_inner = Some True\<rparr>"
proof -
  have "mbcp_wire st ssrc d ! 1 = 204" by (simp add: mbcp_wire_def Let_def)
  moreover have "length (mbcp_wire st ssrc d) \<le> 2048" "2 \<le> length (mbcp_wire st ssrc d)"
    using padded_len_bounds(2) [of "length (mbcp_data_bytes d)"] assms(2) by (simp_all add: length_mbcp_wire)
  ultimately show ?thesis unfolding hears_def using assms
    by (intro conjI exI [of _ "\<lparr>mm_subtype = st, mm_ssrc = ssrc, mm_data = d\<rparr>"])
      (simp_all add: is_rtcp_type_def mbcp_sendable_def mbcp_enc_def sample_e2e_def sample_srtp_def decrypt_rtcp_def srtp_apply_def)
qed

theorem basic_scenario_passes_witness:
  "\<exists>a' b' freq frel. test_basic_grant_release sample_e2e e2e_defaults sample_client = Some (Inr (a', b'))
    \<and> pp_sent a' = [freq, frel] \<and> pp_in a' = [] \<and> pp_in b' = []"
proof -
  let ?ok = "\<lparr>sc_inner = Some True\<rparr>"
  obtain a b where ab: "two_peers sample_e2e e2e_defaults ''PTT_A'' 90001 ''PTT_B'' 90002 ''A publish: '' ''B publish: '' sample_client
      = Some (Inr (a, b))" "pp_in a = [Datagram (mbcp_wire 2 0 (Some ''bob''))]"
      "pp_in b = [Datagram (mbcp_wire 2 0 (Some ''bob'')), Datagram (mbcp_wire 3 0 None)]" "pp_sent a = []"
      "pp_pub_srtp a = ?ok" "pp_sub_srtp a = ?ok" "pp_sub_srtp b = ?ok"
    using sample_two_peers by (auto simp: sample_client_def)
  have "is_str (Some ''bob'')" by code_simp
  then have "hears (se_srtp sample_e2e) SUBTYPE_FTKN (mbcp_wire 2 0 (Some ''bob'')) ?ok ?ok"
    by (intro sample_hears) (simp_all add: mbcp_data_bytes_def)
  moreover have "hears (se_srtp sample_e2e) SUBTYPE_FIDL (mbcp_wire 3 0 None) ?ok ?ok"
    by (intro sample_hears) (simp_all add: mbcp_data_bytes_def is_str_def)
  moreover have "sends_work sample_e2e"
    by (auto simp: sends_work_def sample_e2e_def sample_srtp_def encrypt_rtcp_def srtp_apply_def)
  ultimately show ?thesis
    using basic_scenario_passes [OF ab(1), of "mbcp_wire 2 0 (Some ''bob'')" "mbcp_wire 3 0 None" "[]" ?ok ?ok
      "mbcp_wire 2 0 (Some ''bob'')" "[]" ?ok] by (auto simp: ab(2-))
qed

end
