(* ===== verification/Spec2Isabelle.thy ===== *)
theory Spec2Isabelle
  imports F64 Mbcp Rtp Observations Subscriber NetFilter Checkpoints Signaling Media FloorSession Timeline CliLaws Reports BenchFanout E2eLaws
begin

text \<open>
  OxLabs (\<open>src/\<close>) tests a selective forwarding unit: bots join a room of the server over a WebSocket,
  set up STUN, DTLS and SRTP, publish fake RTP, observe what comes back, and a judge turns the
  observations into a verdict.  This library models the program and proves what makes it correct.

  \<^bold>\<open>Theories and sources.\<close>

  \<^item> \<open>Prelude\<close>: machine words, byte buffers with reads that may panic, \<open>format!\<close>, UTF-8, and the locale
    \<open>keyed_store\<close> of a map of per-key states.  \<open>F64\<close>: Rust's \<open>f64\<close> (binary64, rounding to nearest even)
    with the laws of its order.
  \<^item> \<open>Frames\<close>: RTCP compound framing and the locales \<open>rtcp_loop\<close> (a loop over a compound) and
    \<open>frame_codec\<close> (a builder and a parser).  \<open>Mbcp\<close>: floor control messages (\<open>common/src/mbcp.rs\<close>).
  \<^item> \<open>Rtp\<close>: the packet generator and the header and keyframe readers (\<open>rtp_publisher.rs\<close>,
    \<open>rtcp_parser.rs\<close>), with the locale \<open>rtp_source\<close>.  \<open>Observations\<close>: the record of a bot and its two RTCP
    readers.  \<open>Subscriber\<close>: receive metrics (\<open>rtp_subscriber.rs\<close>).
  \<^item> \<open>NetFilter\<close>: the simulated network and its profiles (\<open>oxlab-net\<close>), with the locale \<open>packet_filter\<close>.
  \<^item> \<open>Signaling\<close>: the WebSocket session (\<open>common/src/signaling.rs\<close>), with the locale \<open>frame_reader\<close> of its
    four reading loops.  \<open>Media\<close>: STUN, SRTP and key setup (\<open>stun.rs\<close>, \<open>media.rs\<close>).
  \<^item> \<open>BotTasks\<close>, \<open>Bot\<close>, \<open>BotMachine\<close>, \<open>BotEffects\<close>, \<open>FloorSession\<close>: the bot (\<open>bot.rs\<close>): one iteration of each of its four
    tasks, its operations, the step relation \<open>bot_step\<close> in which both interleave with its invariant, and
    what batches of events leave behind; a whole session as a trace of what its steps mean for the floor.
  \<^item> \<open>Registry\<close>, \<open>Judge\<close>, \<open>Checkpoints\<close>: the checkpoint table, the two layers of the judge with baselines and
    thresholds (\<open>oxlab-judge\<close>), and the 21 evaluators of layer 1 (\<open>checkpoint_eval.rs\<close>).
  \<^item> \<open>Engine\<close>, \<open>Timeline\<close>: scenarios and their timeline (\<open>model.rs\<close>, \<open>engine.rs\<close>), and the log of the
    actions it executes.
  \<^item> \<open>Cap\<close>, \<open>CapEffects\<close>: the capacity bots (\<open>cap.rs\<close>).  \<open>Capacity\<close>, \<open>CapacityLaws\<close>: measurements, sweep and
    the distributed runner (\<open>capacity.rs\<close>, \<open>distributed.rs\<close>).  \<open>Cli\<close>, \<open>CliLaws\<close>: the commands (\<open>main.rs\<close>).
    \<open>Reports\<close>: what judge and capacity runner print, and the judge's files.
  \<^item> \<open>Bench\<close>, \<open>BenchConf\<close>, \<open>BenchLaws\<close>, \<open>BenchFanout\<close>: the standalone benchmark (\<open>bench/src\<close>), from its own
    text signaling to the reports of both modes.  \<open>E2e\<close>, \<open>E2eLaws\<close>: the floor control test tool
    (\<open>e2e-ptt/src\<close>), its eight scenarios and its runner.  Neither is a member of the workspace.

  Names follow the sources; a prefix avoids a clash (\<open>bot_heartbeat\<close>, \<open>net_filter_filter\<close>).  A struct is a
  record, an enum a datatype, an integer a word of its width, a \<open>HashMap\<close> a map or an association list in
  the order an iteration yields.  A result \<open>None\<close> of a function whose Rust type has none is a panic; \<open>Inl\<close>
  is an \<open>Err\<close>.

  \<^bold>\<open>What is proved.\<close>  Codecs: what is built is read back, for messages, compounds, binding requests, RTP
  streams and the send time a capacity bot embeds; readers return on every buffer.  Bot: every
  reachable state satisfies the lifecycle, and no task or handler panics in one; the exact effect of a
  round of events; the requests of the session and the join.  Judge: layer 1 implements its specification
  \<open>l1_spec\<close>, whatever the hash orders; when a run passes; stability against the own baseline; monotonicity
  in the thresholds.  Engine: the actions a timeline executes, their order and times, which of them can panic, what the bots are at the end,
  when a baseline is saved.  Capacity: what the counters of a bot and a row mean, agreement of the
  header-only mode with full decryption, the split over workers.  Command line: the outcome of a run.
  Benchmark: agreement of its counts with those of the capacity bots, and what a subscriber measures of
  what the publisher sends.  Test tool: which message a wait takes, a scenario that passes, the exit code.
  Some theorems show what the code does where it does not do what it means to.

  \<^bold>\<open>Interfaces.\<close>  \<open>rtcp_loop\<close> is interpreted on the scans of \<open>Mbcp\<close> and both readers of \<open>Observations\<close>,
  \<open>frame_codec\<close> on MBCP, \<open>rtp_source\<close> on the Opus and VP8 builders, \<open>keyed_store\<close> on the metrics store and
  on the senders of a benchmark participant, \<open>packet_filter\<close> on the filter, \<open>frame_reader\<close> on the loops of the session.

  \<^bold>\<open>Time, loops and bounds.\<close>  Waiting loops of the engine and the command line recurse on the distance of the
  clock to the deadline.  The floor wait runs \<open>be_floor_rounds\<close> rounds, the number its deadline allows.  A
  loop over a socket or a \<open>select!\<close> is a fold over the list of what happens to it before it ends, so a
  theorem for every list is one for every run.  An iteration of a task is atomic, as are the operations
  under a lock.  There is no fuel that could run out.

  \<^bold>\<open>Parameters.\<close>  Code outside \<open>src/\<close> and the world: the socket (a list of items), \<open>serde_json\<close> and TOML,
  the wire codec \<open>oxsig\<close> (not part of the repository), SRTP contexts and the DTLS handshake, HMAC and CRC,
  random numbers, hash orders, clocks, files, child processes, process statistics, argument parsing.
  Theorems that need something of them assume it by name (\<open>engine_env_ok\<close>, \<open>fmt_env_ok\<close>, \<open>keeps_header\<close>,
  \<open>srtp_in_step\<close>, \<open>srtp_stream\<close>) and have a witness with a concrete one.  \<open>srtp_stream\<close> promises no more than RFC 3711:
  plain headers, consecutive numbers, the lifetime of the keys, and a bound on the packets lost in a row.

  \<^bold>\<open>Not modelled.\<close>  Log lines; the DTLS handshake, which is one call of a crate; the cancellation of a receive
  while its acknowledgement is being sent; JSON texts, which \<open>serde_json\<close> reads and writes.  The session operations
  and opcodes that \<open>e2e-ptt\<close> calls and \<open>common\<close> no longer has are fields of \<open>floor_env\<close>.
\<close>

end
